(* ===== verification/Prelude.thy ===== *)
theory Prelude
  imports Main "HOL-Library.Word" "HOL-Library.State_Monad" "HOL-Library.List_Lexorder"
    "HOL-Library.Char_ord"
begin

text \<open>
  The shared vocabulary of the development: Go's string helpers (a Go string is a byte
  string, here a \<^typ>\<open>string\<close>), decimal printing and parsing, results that are an error or
  a value, effectful code as a state monad over the world it acts on, and the generic
  lemmas and simplification collections the component theories use.
\<close>

named_theorems go_simps \<open>unfolding rules of the small helpers of the source\<close>

named_theorems run_simps \<open>evaluation of effectful code, one call at a time\<close>

type_synonym int64 = "64 word"

type_synonym uint64 = "64 word"

type_synonym uint32 = "32 word"

type_synonym uint16 = "16 word"

subsection \<open>Strings of the Go standard library\<close>

text \<open>\<open>strings.Split(s, sep)\<close> for a one-byte separator: never empty, \<open>Split("", ",")\<close> is \<open>[""]\<close>.\<close>

fun strings_Split :: "char \<Rightarrow> string \<Rightarrow> string list" where
  "strings_Split c [] = [[]]"
| "strings_Split c (x # xs) =
     (if x = c then [] # strings_Split c xs
      else (case strings_Split c xs of [] \<Rightarrow> [[x]] | y # ys \<Rightarrow> (x # y) # ys))"

fun strings_Join :: "string \<Rightarrow> string list \<Rightarrow> string" where
  "strings_Join sep [] = []"
| "strings_Join sep [x] = x"
| "strings_Join sep (x # y # ys) = x @ sep @ strings_Join sep (y # ys)"

fun strings_HasPrefix :: "string \<Rightarrow> string \<Rightarrow> bool" where
  "strings_HasPrefix s [] = True"
| "strings_HasPrefix [] (p # ps) = False"
| "strings_HasPrefix (x # xs) (p # ps) = (x = p \<and> strings_HasPrefix xs ps)"

text \<open>\<open>strip_prefix p s\<close> is the rest of \<open>s\<close> after \<open>p\<close>, if \<open>s\<close> starts with \<open>p\<close>.\<close>

fun strip_prefix :: "string \<Rightarrow> string \<Rightarrow> string option" where
  "strip_prefix [] s = Some s"
| "strip_prefix (p # ps) [] = None"
| "strip_prefix (p # ps) (x # xs) = (if p = x then strip_prefix ps xs else None)"

text \<open>\<open>strings.IndexByte\<close> and \<open>strings.LastIndexByte\<close>; \<open>None\<close> is Go's -1.\<close>

fun index_byte :: "char \<Rightarrow> string \<Rightarrow> nat option" where
  "index_byte c [] = None"
| "index_byte c (x # xs) = (if x = c then Some 0 else map_option Suc (index_byte c xs))"

fun last_index_byte :: "char \<Rightarrow> string \<Rightarrow> nat option" where
  "last_index_byte c [] = None"
| "last_index_byte c (x # xs) =
     (case last_index_byte c xs of
        Some i \<Rightarrow> Some (Suc i)
      | None \<Rightarrow> if x = c then Some 0 else None)"

text \<open>\<open>strings.Contains\<close>\<close>

fun strings_Contains :: "string \<Rightarrow> string \<Rightarrow> bool" where
  "strings_Contains [] p = (p = [])"
| "strings_Contains (x # xs) p = (strings_HasPrefix (x # xs) p \<or> strings_Contains xs p)"

subsection \<open>Decimal numbers of the Go standard library\<close>

definition digit_char :: "nat \<Rightarrow> char" where
  "digit_char d = ''0123456789'' ! d"

definition is_digit :: "char \<Rightarrow> bool" where
  "is_digit c \<longleftrightarrow> 48 \<le> (of_char c :: nat) \<and> (of_char c :: nat) \<le> 57"

definition digit_val :: "char \<Rightarrow> nat" where
  "digit_val c = of_char c - 48"

text \<open>\<open>strconv.FormatUint(n, 10)\<close>\<close>

fun FormatUint10 :: "nat \<Rightarrow> string" where
  "FormatUint10 n =
     (if n < 10 then [digit_char n] else FormatUint10 (n div 10) @ [digit_char (n mod 10)])"

declare FormatUint10.simps [simp del]

definition decimal_value :: "string \<Rightarrow> nat" where
  "decimal_value s = foldl (\<lambda>n c. 10 * n + digit_val c) 0 s"

text \<open>
  \<open>strconv.ParseUint(s, 10, bits)\<close>: digits only (no sign, no underscore), at least one,
  and the value must fit \<open>bits\<close> bits. Leading zeroes are accepted.
\<close>

definition ParseUint10 :: "nat \<Rightarrow> string \<Rightarrow> nat option" where
  "ParseUint10 bits s =
     (if s \<noteq> [] \<and> list_all is_digit s \<and> decimal_value s < 2 ^ bits
      then Some (decimal_value s) else None)"

subsection \<open>Effectful code\<close>

text \<open>
  Code with effects is a state transformer of the world \<open>'s\<close>. A call that can fail
  returns \<open>Inl\<close> of the error. The record of functions a component is called with (an
  interface value of the source, or a third-party service) acts on the same world, so
  the world covers both the component's own state and everything beyond it.
\<close>

type_synonym ('s, 'e, 'a) io = "('s, 'e + 'a) state"

abbreviation ok :: "'a \<Rightarrow> ('s, 'e, 'a) io" where
  "ok a \<equiv> State_Monad.return (Inr a)"

abbreviation fail :: "'e \<Rightarrow> ('s, 'e, 'a) io" where
  "fail e \<equiv> State_Monad.return (Inl e)"

text \<open>
  Reasoning about effectful code. \<open>yields m P\<close>: every value \<open>m\<close> returns without an error satisfies \<open>P\<close>. \<open>keeps m I\<close>: \<open>m\<close>
  keeps the predicate \<open>I\<close> of the world, whatever it returns.
\<close>

definition yields :: "('s, 'e, 'a) io \<Rightarrow> ('a \<Rightarrow> bool) \<Rightarrow> bool" where
  "yields m P \<longleftrightarrow> (\<forall>s v t. run_state m s = (Inr v, t) \<longrightarrow> P v)"

definition keeps :: "('s, 'a) state \<Rightarrow> ('s \<Rightarrow> bool) \<Rightarrow> bool" where
  "keeps m I \<longleftrightarrow> (\<forall>s r t. run_state m s = (r, t) \<longrightarrow> I s \<longrightarrow> I t)"

lemma yieldsD: "yields m P \<Longrightarrow> run_state m s = (Inr v, t) \<Longrightarrow> P v"
  by (auto simp: yields_def)

lemma yieldsI: "(\<And>s v t. run_state m s = (Inr v, t) \<Longrightarrow> P v) \<Longrightarrow> yields m P"
  by (auto simp: yields_def)

lemma yields_return [simp]: "yields (State_Monad.return x) P \<longleftrightarrow> (\<forall>v. x = Inr v \<longrightarrow> P v)"
  by (auto simp: yields_def)

lemma yields_bind: "(\<And>x. yields (f x) P) \<Longrightarrow> yields (State_Monad.bind m f) P"
  by (auto simp: yields_def split: prod.splits)

text \<open>The rule for a call whose result is inspected: the success value satisfies \<open>A\<close>.\<close>

lemma yields_call:
  "yields m A \<Longrightarrow> (\<And>e. yields (f (Inl e)) P) \<Longrightarrow> (\<And>a. A a \<Longrightarrow> yields (f (Inr a)) P) \<Longrightarrow>
     yields (State_Monad.bind m f) P"
  unfolding yields_def by (auto split: prod.splits) (metis sum.exhaust)

lemma yields_mono: "yields m P \<Longrightarrow> (\<And>v. P v \<Longrightarrow> Q v) \<Longrightarrow> yields m Q"
  by (auto simp: yields_def)

lemma yields_conj: "yields m P \<Longrightarrow> yields m Q \<Longrightarrow> yields m (\<lambda>v. P v \<and> Q v)"
  by (auto simp: yields_def)

lemma keepsD: "keeps m I \<Longrightarrow> run_state m s = (r, t) \<Longrightarrow> I s \<Longrightarrow> I t"
  by (auto simp: keeps_def)

lemma keepsI: "(\<And>s r t. run_state m s = (r, t) \<Longrightarrow> I s \<Longrightarrow> I t) \<Longrightarrow> keeps m I"
  by (auto simp: keeps_def)

lemma keeps_return [simp, intro]: "keeps (State_Monad.return x) I"
  by (auto simp: keeps_def)

text \<open>The bind rule with what is known of the first call's result.\<close>

lemma keeps_bind_run:
  "keeps m I \<Longrightarrow> (\<And>x s t. run_state m s = (x, t) \<Longrightarrow> keeps (f x) I) \<Longrightarrow>
     keeps (State_Monad.bind m f) I"
  unfolding keeps_def by (auto split: prod.splits)

lemma keeps_bind [intro]: "keeps m I \<Longrightarrow> (\<And>x. keeps (f x) I) \<Longrightarrow> keeps (State_Monad.bind m f) I"
  unfolding keeps_def by (auto split: prod.splits)

subsection \<open>Lemmas on strings\<close>

lemma strings_Split_not_Nil [simp]: "strings_Split c s \<noteq> []"
  by (cases s) (auto split: list.splits)

lemma strings_Split_no_sep [simp]: "c \<notin> set s \<Longrightarrow> strings_Split c s = [s]"
  by (induction s) auto

lemma strings_Split_append_sep:
  "c \<notin> set x \<Longrightarrow> strings_Split c (x @ c # s) = x # strings_Split c s"
  by (induction x) auto

lemma strings_Split_Join:
  assumes "xs \<noteq> []" and "\<forall>x \<in> set xs. c \<notin> set x"
  shows "strings_Split c (strings_Join [c] xs) = xs"
  using assms by (induction "[c]" xs rule: strings_Join.induct) (auto simp: strings_Split_append_sep)

lemma strings_Join_Split: "strings_Join [c] (strings_Split c s) = s"
proof (induction s)
  case Nil
  then show ?case by simp
next
  case (Cons x xs)
  then show ?case
    by (cases "strings_Split c xs"; cases "tl (strings_Split c xs)") auto
qed

lemma strings_Split_pieces: "x \<in> set (strings_Split c s) \<Longrightarrow> c \<notin> set x"
proof (induction s arbitrary: x)
  case Nil
  then show ?case by simp
next
  case (Cons y ys)
  then show ?case by (cases "strings_Split c ys") (auto split: if_splits)
qed

lemma set_strings_Join:
  "set (strings_Join sep xs) \<subseteq> (\<Union>x \<in> set xs. set x) \<union> set sep"
  by (induction sep xs rule: strings_Join.induct) auto

lemma strip_prefix_append [simp]: "strip_prefix p (p @ s) = Some s"
  by (induction p) auto

lemma strip_prefix_Some_iff: "strip_prefix p s = Some r \<longleftrightarrow> s = p @ r"
  by (induction p s rule: strip_prefix.induct) auto

lemma strings_HasPrefix_iff: "strings_HasPrefix s p \<longleftrightarrow> (\<exists>r. s = p @ r)"
  by (induction s p rule: strings_HasPrefix.induct) auto

lemma index_byte_None_iff: "index_byte c s = None \<longleftrightarrow> c \<notin> set s"
  by (induction s) auto

lemma index_byte_SomeD:
  "index_byte c s = Some i \<Longrightarrow> i < length s \<and> s ! i = c \<and> c \<notin> set (take i s)"
  by (induction s arbitrary: i) (auto split: if_splits)

lemma index_byte_append: "c \<notin> set x \<Longrightarrow> index_byte c (x @ c # s) = Some (length x)"
  by (induction x) auto

lemma last_index_byte_None_iff: "last_index_byte c s = None \<longleftrightarrow> c \<notin> set s"
  by (induction s) (auto split: option.splits if_splits)

lemma last_index_byte_SomeD:
  "last_index_byte c s = Some i \<Longrightarrow> i < length s \<and> s ! i = c \<and> c \<notin> set (drop (Suc i) s)"
proof (induction s arbitrary: i)
  case Nil
  then show ?case by simp
next
  case (Cons x xs)
  show ?case
  proof (cases "last_index_byte c xs")
    case None
    with Cons.prems show ?thesis
      by (auto simp: last_index_byte_None_iff split: if_splits)
  next
    case (Some j)
    with Cons.prems Cons.IH[OF Some] show ?thesis by auto
  qed
qed

lemma last_index_byte_append: "c \<notin> set s \<Longrightarrow> last_index_byte c (x @ c # s) = Some (length x)"
proof (induction x)
  case Nil
  then have "last_index_byte c s = None" by (simp add: last_index_byte_None_iff)
  then show ?case by simp
next
  case (Cons a x)
  then show ?case by simp
qed

subsection \<open>Lemmas on decimal numbers\<close>

lemma of_char_digit_char: "d < 10 \<Longrightarrow> (of_char (digit_char d) :: nat) = 48 + d"
proof -
  assume "d < 10"
  then have "d \<in> {0, 1, 2, 3, 4, 5, 6, 7, 8, 9}" by auto
  then show ?thesis by (auto simp: digit_char_def)
qed

lemma is_digit_digit_char [simp]: "d < 10 \<Longrightarrow> is_digit (digit_char d)"
  by (simp add: is_digit_def of_char_digit_char)

lemma digit_val_digit_char [simp]: "d < 10 \<Longrightarrow> digit_val (digit_char d) = d"
  by (simp add: digit_val_def of_char_digit_char)

lemma FormatUint10_digits: "list_all is_digit (FormatUint10 n)"
proof (induction n rule: FormatUint10.induct)
  case (1 n)
  show ?case
  proof (cases "n < 10")
    case True
    then show ?thesis by (subst FormatUint10.simps) simp
  next
    case False
    with 1 show ?thesis by (subst FormatUint10.simps) simp
  qed
qed

lemma FormatUint10_not_Nil [simp]: "FormatUint10 n \<noteq> []"
  by (subst FormatUint10.simps) simp

lemma decimal_value_snoc: "decimal_value (s @ [c]) = 10 * decimal_value s + digit_val c"
  by (simp add: decimal_value_def)

lemma decimal_value_FormatUint10: "decimal_value (FormatUint10 n) = n"
proof (induction n rule: FormatUint10.induct)
  case (1 n)
  show ?case
  proof (cases "n < 10")
    case True
    then show ?thesis by (subst FormatUint10.simps) (simp add: decimal_value_def)
  next
    case False
    with 1 have "decimal_value (FormatUint10 (n div 10)) = n div 10" by simp
    with False show ?thesis by (subst FormatUint10.simps) (simp add: decimal_value_snoc)
  qed
qed

lemma ParseUint10_FormatUint10: "n < 2 ^ bits \<Longrightarrow> ParseUint10 bits (FormatUint10 n) = Some n"
  by (simp add: ParseUint10_def FormatUint10_digits decimal_value_FormatUint10)

lemma ParseUint10_bound: "ParseUint10 bits s = Some n \<Longrightarrow> n < 2 ^ bits"
  by (auto simp: ParseUint10_def split: if_splits)

lemma not_digit_notin: "list_all is_digit s \<Longrightarrow> \<not> is_digit c \<Longrightarrow> c \<notin> set s"
  by (auto simp: list_all_iff)

subsection \<open>Sorted duplicate-free lists\<close>

text \<open>
  A Go map used as a set is iterated in an unspecified order. What the code does with the
  result is sort it, so only the set of the elements matters.
\<close>

lemma sort_distinct_unique:
  fixes xs ys :: "'a::linorder list"
  assumes "distinct xs" and "distinct ys" and "set xs = set ys"
  shows "sort xs = sort ys"
proof -
  have "sorted_list_of_set (set xs) = sort (remdups xs)"
    by (simp add: sorted_list_of_set_sort_remdups)
  moreover have "sorted_list_of_set (set ys) = sort (remdups ys)"
    by (simp add: sorted_list_of_set_sort_remdups)
  ultimately show ?thesis
    using assms by (simp add: distinct_remdups_id)
qed

lemma insort_map_insort_key: "map f (insort_key f x xs) = insort (f x) (map f xs)"
  by (induction xs) auto

lemma sort_map_sort_key: "map f (sort_key f xs) = sort (map f xs)"
  by (induction xs) (auto simp: insort_map_insort_key)

lemma sort_key_distinct_unique:
  fixes f :: "'a \<Rightarrow> 'b::linorder"
  assumes "distinct xs" and "distinct ys" and "set xs = set ys" and "inj_on f (set xs)"
  shows "sort_key f xs = sort_key f ys"
proof -
  have map_sort: "map f (sort_key f zs) = sort (map f zs)" for zs
    by (rule sort_map_sort_key)
  have "sort (map f xs) = sort (map f ys)"
    using assms by (intro sort_distinct_unique) (auto simp: distinct_map)
  then have "map f (sort_key f xs) = map f (sort_key f ys)" by (simp add: map_sort)
  moreover have "inj_on f (set (sort_key f xs) \<union> set (sort_key f ys))"
    using assms by simp
  ultimately show ?thesis by (rule map_inj_on)
qed

subsection \<open>Interface: a canonical form for lists used as sets\<close>

text \<open>
  \<^verbatim>\<open>strlist.CopyUniqueSorted\<close> and \<^verbatim>\<open>endpoint.canonicalize\<close> both bring a list into a
  canonical form: the same elements, once each, in the order of a sort key. What their
  clients rely on is that the form depends on the set of elements only. The key need only
  be injective on the elements that can occur.
\<close>

locale canonical_list =
  fixes canon :: "'a list \<Rightarrow> 'a list"
    and key :: "'a \<Rightarrow> 'k::linorder"
    and valid :: "'a \<Rightarrow> bool"
  assumes set_canon: "set (canon xs) = set xs"
    and sorted_canon: "sorted (map key (canon xs))"
    and distinct_canon: "distinct (canon xs)"
    and key_inj: "valid x \<Longrightarrow> valid y \<Longrightarrow> key x = key y \<Longrightarrow> x = y"
begin

lemma canon_unique:
  assumes "list_all valid xs" and "set xs = set ys"
  shows "canon xs = canon ys"
proof -
  have inj: "inj_on key (set (canon xs) \<union> set (canon ys))"
    using assms by (auto simp: set_canon list_all_iff inj_on_def dest: key_inj)
  have "map key (canon xs) = map key (canon ys)"
  proof (rule sorted_distinct_set_unique)
    show "distinct (map key (canon xs))" "distinct (map key (canon ys))"
      using inj by (auto simp: distinct_map distinct_canon intro: inj_on_subset)
    show "set (map key (canon xs)) = set (map key (canon ys))"
      using assms by (simp add: set_canon)
  qed (simp_all add: sorted_canon)
  then show ?thesis using inj by (rule map_inj_on)
qed

lemma canon_strict:
  assumes "list_all valid xs"
  shows "sorted_wrt (\<lambda>a b. key a < key b) (canon xs)"
proof -
  have "inj_on key (set (canon xs))"
    using assms by (auto simp: set_canon list_all_iff inj_on_def dest: key_inj)
  then have "sorted_wrt (<) (map key (canon xs))"
    by (simp add: strict_sorted_iff sorted_canon distinct_canon distinct_map)
  then show ?thesis by (simp add: sorted_wrt_map)
qed

lemma canon_idem: "list_all valid xs \<Longrightarrow> canon (canon xs) = canon xs"
  by (rule canon_unique) (simp_all add: list_all_iff set_canon)

lemma canon_eq_iff: "list_all valid xs \<Longrightarrow> canon xs = canon ys \<longleftrightarrow> set xs = set ys"
  by (metis canon_unique set_canon)

lemma canon_Nil_iff: "canon xs = [] \<longleftrightarrow> xs = []"
  by (metis set_canon set_empty)

end

end
