(* ===== verification/Go_Status.thy ===== *)
theory Go_Status
  imports Prelude
begin

text \<open>
  Error values: \<^verbatim>\<open>pkg/driver/status.go\<close>, \<^verbatim>\<open>pkg/grpcutil/grpcutil.go\<close> and the status
  helpers of \<^verbatim>\<open>pkg/lb/lbgrpc/client.go\<close>. An error that carries a gRPC status is
  \<open>Status code subject\<close>; every other error value is \<open>Plain\<close>. The rendered message text is
  not modelled: of the arguments of a message only the subject is kept, which is the
  request field an \<open>InvalidArgument\<close> error blames (empty where the constructor of the
  source has no field argument). No code branches on a message text, with one exception
  (the I/O errors of the node service) that has its own error type there.
\<close>

subsection \<open>Codes and errors\<close>

datatype code =
    codes_OK | codes_Canceled | codes_Unknown | codes_InvalidArgument | codes_DeadlineExceeded
  | codes_NotFound | codes_AlreadyExists | codes_PermissionDenied | codes_ResourceExhausted
  | codes_FailedPrecondition | codes_Aborted | codes_OutOfRange | codes_Unimplemented
  | codes_Internal | codes_Unavailable | codes_DataLoss | codes_Unauthenticated
  | codes_Other uint32

datatype gerr = Status code string | Plain

text \<open>\<open>status.FromError\<close>: the code, when the error carries one.\<close>

fun status_FromError :: "gerr \<Rightarrow> code option" where
  "status_FromError (Status c f) = Some c"
| "status_FromError Plain = None"

definition isStatusNotFound :: "gerr \<Rightarrow> bool" where
  "isStatusNotFound err =
     (case status_FromError err of
        Some c \<Rightarrow> if c = codes_NotFound then True else False
      | None \<Rightarrow> False)"

definition shouldRetryOn :: "gerr \<Rightarrow> bool" where
  "shouldRetryOn err =
     (case status_FromError err of
        None \<Rightarrow> False
      | Some c \<Rightarrow>
          (case c of
             codes_DeadlineExceeded \<Rightarrow> True
           | codes_Aborted \<Rightarrow> True
           | codes_ResourceExhausted \<Rightarrow> True
           | codes_FailedPrecondition \<Rightarrow> True
           | codes_Unavailable \<Rightarrow> True
           | _ \<Rightarrow> False))"

subsection \<open>Error constructors\<close>

definition mkEinval :: "string \<Rightarrow> gerr" where
  "mkEinval field = Status codes_InvalidArgument field"

definition mkEinvalMissing :: "string \<Rightarrow> gerr" where
  "mkEinvalMissing field = Status codes_InvalidArgument field"

definition mkEinvalf :: "string \<Rightarrow> gerr" where
  "mkEinvalf field = Status codes_InvalidArgument field"

text \<open>
  The violation's subject travels in the error details. \<open>status.WithDetails\<close> refuses the code
  OK only, and a refusal is a panic (\<open>None\<close>) of \<open>nilOrDie\<close>; see \<open>mkEbadOp_attached\<close>.
\<close>

definition WithDetails_err :: "code \<Rightarrow> gerr option" where
  "WithDetails_err c = (if c = codes_OK then Some Plain else None)"

definition nilOrDie :: "gerr option \<Rightarrow> unit option" where
  "nilOrDie err = (case err of Some _ \<Rightarrow> None | None \<Rightarrow> Some ())"

definition mkEbadOp :: "string \<Rightarrow> string \<Rightarrow> gerr" where
  "mkEbadOp kind subj = Status codes_FailedPrecondition subj"

definition mkEbadOp_details :: "string \<Rightarrow> string \<Rightarrow> gerr option" where
  "mkEbadOp_details kind subj =
     (case nilOrDie (WithDetails_err codes_FailedPrecondition) of
        None \<Rightarrow> None
      | Some _ \<Rightarrow> Some (Status codes_FailedPrecondition subj))"

definition mkEExec :: gerr where "mkEExec = Status codes_Unknown []"

definition mkInternal :: gerr where "mkInternal = Status codes_Internal []"

definition mkExternal :: gerr where "mkExternal = Status codes_Unknown []"

definition mkEExist :: gerr where "mkEExist = Status codes_AlreadyExists []"

definition mkEagain :: gerr where "mkEagain = Status codes_Unavailable []"

definition mkEnoent :: gerr where "mkEnoent = Status codes_NotFound []"

definition mkPrecond :: gerr where "mkPrecond = Status codes_FailedPrecondition []"

definition mkErange :: gerr where "mkErange = Status codes_OutOfRange []"

definition mkAbort :: gerr where "mkAbort = Status codes_Aborted []"

definition mungeLBErr :: "gerr \<Rightarrow> gerr" where
  "mungeLBErr err = (if shouldRetryOn err then mkEagain else mkExternal)"

definition prefixErr :: "gerr \<Rightarrow> gerr" where
  "prefixErr err =
     (case status_FromError err of
        None \<Rightarrow> mkExternal
      | Some c \<Rightarrow> Status c [])"

text \<open>\<open>statusFromErr\<close> of the LightOS client: the same code with a longer message.\<close>

definition statusFromErr :: "gerr \<Rightarrow> gerr" where
  "statusFromErr err =
     (case status_FromError err of
        Some c \<Rightarrow> Status c []
      | None \<Rightarrow> Status codes_Unknown [])"

subsection \<open>Context errors and log levels\<close>

text \<open>What \<open>ctx.Err()\<close> returns once a context is done.\<close>

datatype ctx_err = context_Canceled | context_DeadlineExceeded | context_OtherErr

fun ErrFromCtxErr :: "ctx_err \<Rightarrow> gerr" where
  "ErrFromCtxErr context_Canceled = Status codes_Canceled []"
| "ErrFromCtxErr context_DeadlineExceeded = Status codes_DeadlineExceeded []"
| "ErrFromCtxErr context_OtherErr = Status codes_Unknown []"

datatype loglevel = InfoLevel | WarnLevel | ErrorLevel

fun LBCodeToLogrusLevel :: "code \<Rightarrow> loglevel" where
  "LBCodeToLogrusLevel c =
     (if c \<in> {codes_OK, codes_Canceled, codes_DeadlineExceeded, codes_NotFound, codes_Unavailable}
      then InfoLevel
      else if c \<in> {codes_Aborted, codes_AlreadyExists, codes_FailedPrecondition,
                   codes_InvalidArgument, codes_OutOfRange, codes_PermissionDenied,
                   codes_ResourceExhausted, codes_Unauthenticated}
      then WarnLevel
      else if c \<in> {codes_DataLoss, codes_Internal, codes_Unimplemented, codes_Unknown}
      then ErrorLevel
      else ErrorLevel)"

fun CodeToLogrusLevel :: "code \<Rightarrow> loglevel" where
  "CodeToLogrusLevel c =
     (if c \<in> {codes_OK, codes_Canceled} then InfoLevel
      else if c \<in> {codes_Aborted, codes_AlreadyExists, codes_DeadlineExceeded,
                   codes_FailedPrecondition, codes_InvalidArgument, codes_NotFound,
                   codes_OutOfRange, codes_PermissionDenied, codes_ResourceExhausted,
                   codes_Unauthenticated, codes_Unavailable, codes_Unimplemented}
      then WarnLevel
      else if c \<in> {codes_DataLoss, codes_Internal, codes_Unknown}
      then ErrorLevel
      else ErrorLevel)"

text \<open>
  \<open>RespDetailInterceptor\<close>: next to the world, the tag "grpc.status.details" of the call's
  context; \<open>details\<close> gives the details of a status error.
\<close>

definition RespDetailInterceptor ::
  "(gerr \<Rightarrow> 'd list) \<Rightarrow> ('s, gerr, 'r) io \<Rightarrow> ('s \<times> 'd list option, gerr, 'r) io" where
  "RespDetailInterceptor details handler = State (\<lambda>(s, tag).
     (case run_state handler s of
        (Inr resp, t) \<Rightarrow> (Inr resp, (t, tag))
      | (Inl err, t) \<Rightarrow>
          (case status_FromError err of
             Some _ \<Rightarrow>
               if length (details err) \<noteq> 0 then (Inl err, (t, Some (details err)))
               else (Inl err, (t, tag))
           | None \<Rightarrow> (Inl err, (t, tag)))))"

subsection \<open>Lemmas\<close>

lemma mkEbadOp_attached: "mkEbadOp_details kind subj = Some (mkEbadOp kind subj)"
  by (simp add: mkEbadOp_details_def mkEbadOp_def nilOrDie_def WithDetails_err_def)

text \<open>The interceptor changes neither the answer nor the effect of the handler it wraps.\<close>

lemma RespDetailInterceptor_transparent:
  "run_state (RespDetailInterceptor details handler) (s, tag) = (r, (t, tag')) \<Longrightarrow>
     run_state handler s = (r, t)"
  by (auto simp: RespDetailInterceptor_def split: prod.splits sum.splits option.splits if_splits)

lemmas mk_defs =
  mkEinval_def mkEinvalMissing_def mkEinvalf_def mkEbadOp_def mkEExec_def mkInternal_def
  mkExternal_def mkEExist_def mkEagain_def mkEnoent_def mkPrecond_def mkErange_def mkAbort_def

declare mk_defs [go_simps]

lemma isStatusNotFound_iff: "isStatusNotFound err \<longleftrightarrow> (\<exists>f. err = Status codes_NotFound f)"
  by (cases err) (auto simp: isStatusNotFound_def)

lemma isStatusNotFound_simps [simp]:
  "isStatusNotFound (Status c f) = (c = codes_NotFound)"
  "\<not> isStatusNotFound Plain"
  by (auto simp: isStatusNotFound_iff)

lemma status_FromError_SomeD: "status_FromError err = Some c \<Longrightarrow> \<exists>f. err = Status c f"
  by (cases err) auto

lemma mungeLBErr_cases: "mungeLBErr err = mkEagain \<or> mungeLBErr err = mkExternal"
  by (simp add: mungeLBErr_def)

lemma mungeLBErr_not_NotFound [simp]: "mungeLBErr err \<noteq> Status codes_NotFound f"
  by (simp add: mungeLBErr_def mkEagain_def mkExternal_def)

lemma mungeLBErr_eq_simps [simp]:
  "mungeLBErr err \<noteq> Status codes_InvalidArgument f"
  "mungeLBErr err \<noteq> Plain"
  "mungeLBErr err \<noteq> Status codes_OutOfRange f"
  "mungeLBErr err \<noteq> Status codes_AlreadyExists f"
  by (simp_all add: mungeLBErr_def mkEagain_def mkExternal_def)

end
