(* ===== verification/Endpoint.thy ===== *)
theory Endpoint
  imports Go_Status
begin

text \<open>
  \<^verbatim>\<open>pkg/util/endpoint/endpoint.go\<close>: management and data endpoints (host, port), their
  textual form, and the canonical (duplicate-free, sorted) endpoint slices that key the
  client pool and are stored in resource IDs. From the Go library the theory models
  \<open>net.SplitHostPort\<close>, \<open>net.JoinHostPort\<close> and \<open>strings.TrimSpace\<close>; the validity of an IP
  literal (\<open>net.ParseIP\<close>) is an argument of \<open>ParseIP\<close>.
\<close>

record EP =
  ep_host :: string
  ep_port :: uint16

type_synonym Slice = "EP list"

definition emptyEP :: EP where
  "emptyEP = \<lparr>ep_host = [], ep_port = 0\<rparr>"

subsection \<open>From the Go library\<close>

text \<open>
  \<open>net.SplitHostPort\<close>; every error of it is a \<open>*net.AddrError\<close>, not a gRPC status. The
  port starts after the last colon; a bracketed host ends at the first closing bracket,
  which must be just before that colon.
\<close>

definition SplitHostPort :: "string \<Rightarrow> gerr + string \<times> string" where
  "SplitHostPort hostport =
     (case last_index_byte CHR '':'' hostport of
        None \<Rightarrow> Inl Plain
      | Some i \<Rightarrow>
          if hostport ! 0 = CHR ''['' then
            (case index_byte CHR '']'' hostport of
               None \<Rightarrow> Inl Plain
             | Some e \<Rightarrow>
                 if e + 1 = length hostport then Inl Plain
                 else if e + 1 = i then
                   (let host = take (e - 1) (drop 1 hostport) in
                    if CHR ''['' \<in> set (drop 1 hostport) then Inl Plain
                    else if CHR '']'' \<in> set (drop (e + 1) hostport) then Inl Plain
                    else Inr (host, drop (i + 1) hostport))
                 else Inl Plain)
          else
            (let host = take i hostport in
             if CHR '':'' \<in> set host then Inl Plain
             else if CHR ''['' \<in> set hostport then Inl Plain
             else if CHR '']'' \<in> set hostport then Inl Plain
             else Inr (host, drop (i + 1) hostport)))"

definition JoinHostPort :: "string \<Rightarrow> string \<Rightarrow> string" where
  "JoinHostPort host port =
     (if CHR '':'' \<in> set host then ''['' @ host @ '']:'' @ port else host @ '':'' @ port)"

text \<open>The UTF-8 encodings of the code points \<open>unicode.IsSpace\<close> accepts.\<close>

definition space_runes :: "string list" where
  "space_runes =
     map (map char_of)
       ([[9], [10], [11], [12], [13], [32], [194, 133], [194, 160], [225, 154, 128],
         [226, 128, 168], [226, 128, 169], [226, 128, 175], [226, 129, 159], [227, 128, 128 :: nat]]
        @ map (\<lambda>b. [226, 128, b]) [128 ..< 139])"

function trim_left :: "string \<Rightarrow> string" where
  "trim_left s =
     (case find (\<lambda>r. strip_prefix r s \<noteq> None) space_runes of
        None \<Rightarrow> s
      | Some r \<Rightarrow> if r = [] then s else trim_left (drop (length r) s))"
  by pat_completeness auto
termination
proof (relation "measure length")
  fix s r
  assume "find (\<lambda>r. strip_prefix r s \<noteq> None) space_runes = Some r" and "r \<noteq> []"
  then obtain t where "strip_prefix r s = Some t"
    by (auto simp: find_Some_iff)
  then have "s = r @ t" by (simp add: strip_prefix_Some_iff)
  with \<open>r \<noteq> []\<close> show "(drop (length r) s, s) \<in> measure length"
    by (cases r) auto
qed simp

declare trim_left.simps [simp del]

function trim_right :: "string \<Rightarrow> string" where
  "trim_right s =
     (case find (\<lambda>r. strip_prefix (rev r) (rev s) \<noteq> None) space_runes of
        None \<Rightarrow> s
      | Some r \<Rightarrow> if r = [] then s else trim_right (take (length s - length r) s))"
  by pat_completeness auto
termination
proof (relation "measure length")
  fix s r
  assume "find (\<lambda>r. strip_prefix (rev r) (rev s) \<noteq> None) space_runes = Some r" and "r \<noteq> []"
  then obtain t where "strip_prefix (rev r) (rev s) = Some t"
    by (auto simp: find_Some_iff)
  then have "rev s = rev r @ t" by (simp add: strip_prefix_Some_iff)
  then have "length s = length r + length t" by (metis length_append length_rev)
  with \<open>r \<noteq> []\<close> show "(take (length s - length r) s, s) \<in> measure length"
    by (cases r) auto
qed simp

declare trim_right.simps [simp del]

definition TrimSpace :: "string \<Rightarrow> string" where
  "TrimSpace s = trim_right (trim_left s)"

subsection \<open>Endpoints\<close>

text \<open>\<open>hostRegex\<close>: one or more characters of the class \<^verbatim>\<open>[a-zA-Z0-9.\[\]:%-]\<close>.\<close>

definition is_alnum :: "char \<Rightarrow> bool" where
  "is_alnum c \<longleftrightarrow> (CHR ''a'' \<le> c \<and> c \<le> CHR ''z'') \<or> (CHR ''A'' \<le> c \<and> c \<le> CHR ''Z'') \<or>
     (CHR ''0'' \<le> c \<and> c \<le> CHR ''9'')"

definition host_char :: "char \<Rightarrow> bool" where
  "host_char c \<longleftrightarrow> is_alnum c \<or> c \<in> set ''.[]:%-''"

definition hostRegex_match :: "string \<Rightarrow> bool" where
  "hostRegex_match s \<longleftrightarrow> s \<noteq> [] \<and> list_all host_char s"

definition ParseStricter :: "string \<Rightarrow> gerr + EP" where
  "ParseStricter endpoint =
     (case SplitHostPort endpoint of
        Inl err \<Rightarrow> Inl Plain
      | Inr (host, port) \<Rightarrow>
          if host = [] then Inl Plain
          else if \<not> hostRegex_match host then Inl Plain
          else (case ParseUint10 16 port of
                  None \<Rightarrow> Inl Plain
                | Some portNum \<Rightarrow> Inr \<lparr>ep_host = host, ep_port = word_of_nat portNum\<rparr>))"

definition Parse :: "string \<Rightarrow> gerr + EP" where
  "Parse endpoint = ParseStricter (TrimSpace endpoint)"

text \<open>\<open>isIP\<close> stands for \<open>net.ParseIP\<close> returning an address with a 4- or 16-byte form.\<close>

definition ParseIP :: "(string \<Rightarrow> bool) \<Rightarrow> string \<Rightarrow> gerr + EP" where
  "ParseIP isIP endpoint =
     (case Parse endpoint of
        Inl err \<Rightarrow> Inl err
      | Inr ep \<Rightarrow> if isIP (ep_host ep) then Inr ep else Inl Plain)"

text \<open>The two parsers for constants; \<open>None\<close> is a panic.\<close>

definition MustParse :: "string \<Rightarrow> EP option" where
  "MustParse endpoint = (case Parse endpoint of Inl err \<Rightarrow> None | Inr ep \<Rightarrow> Some ep)"

definition EP_Host :: "EP \<Rightarrow> string" where "EP_Host ep = ep_host ep"

definition EP_Port :: "EP \<Rightarrow> uint16" where "EP_Port ep = ep_port ep"

definition EP_PortString :: "EP \<Rightarrow> string" where
  "EP_PortString ep = FormatUint10 (unat (ep_port ep))"

definition EP_IsValid :: "EP \<Rightarrow> bool" where
  "EP_IsValid ep \<longleftrightarrow> ep \<noteq> emptyEP"

definition EP_String :: "EP \<Rightarrow> string" where
  "EP_String ep =
     (if \<not> EP_IsValid ep then ''<EMPTY>'' else JoinHostPort (ep_host ep) (EP_PortString ep))"

definition EP_MarshalJSON :: "EP \<Rightarrow> string" where
  "EP_MarshalJSON ep = [CHR 0x22] @ EP_String ep @ [CHR 0x22]"

subsection \<open>Endpoint slices\<close>

definition Slice_String :: "Slice \<Rightarrow> string" where
  "Slice_String eps = strings_Join '','' (map EP_String eps)"

fun Slice_Equal_from :: "nat \<Rightarrow> Slice \<Rightarrow> Slice \<Rightarrow> bool" where
  "Slice_Equal_from i [] rhs = True"
| "Slice_Equal_from i (ep # eps) rhs =
     (if ep \<noteq> rhs ! i then False else Slice_Equal_from (Suc i) eps rhs)"

definition Slice_Equal :: "Slice \<Rightarrow> Slice \<Rightarrow> bool" where
  "Slice_Equal eps rhs =
     (if length eps \<noteq> length rhs then False else Slice_Equal_from 0 eps rhs)"

definition Slice_IsValid :: "Slice \<Rightarrow> bool" where
  "Slice_IsValid eps \<longleftrightarrow> list_all EP_IsValid eps \<and> 1 \<le> length eps"

definition Slice_Clone :: "Slice \<Rightarrow> Slice" where
  "Slice_Clone eps = take (length eps) eps"

text \<open>The sort order \<open>Less\<close>, and what \<open>sort.Sort\<close> makes of the set of endpoints.\<close>

definition Slice_Less :: "Slice \<Rightarrow> nat \<Rightarrow> nat \<Rightarrow> bool" where
  "Slice_Less eps i j \<longleftrightarrow> EP_String (eps ! i) < EP_String (eps ! j)"

definition uniq_sorted :: "Slice \<Rightarrow> Slice" where
  "uniq_sorted eps = sort_key EP_String (remdups eps)"

text \<open>The loop over the targets stops at the first one that does not parse.\<close>

fun parse_each :: "(string \<Rightarrow> gerr + EP) \<Rightarrow> string list \<Rightarrow> gerr + Slice" where
  "parse_each parser [] = Inr []"
| "parse_each parser (tgt # tgts) =
     (case parser tgt of
        Inl err \<Rightarrow> Inl err
      | Inr ep \<Rightarrow> (case parse_each parser tgts of Inl err \<Rightarrow> Inl err | Inr eps \<Rightarrow> Inr (ep # eps)))"

definition canonicalize :: "string list \<Rightarrow> (string \<Rightarrow> gerr + EP) \<Rightarrow> gerr + Slice" where
  "canonicalize targets parser =
     (if length targets = 0 then Inr []
      else (case parse_each parser targets of
              Inl err \<Rightarrow> Inl err
            | Inr eps \<Rightarrow> Inr (uniq_sorted eps)))"

definition ParseSlice :: "string list \<Rightarrow> gerr + Slice" where
  "ParseSlice targets = canonicalize targets Parse"

definition ParseSliceIP :: "(string \<Rightarrow> bool) \<Rightarrow> string list \<Rightarrow> gerr + Slice" where
  "ParseSliceIP isIP targets = canonicalize targets (ParseIP isIP)"

definition ParseCSV :: "string \<Rightarrow> gerr + Slice" where
  "ParseCSV endpoints = canonicalize (strings_Split CHR '','' endpoints) ParseStricter"

definition MustParseCSV :: "string \<Rightarrow> Slice option" where
  "MustParseCSV endpoints = (case ParseCSV endpoints of Inl err \<Rightarrow> None | Inr eps \<Rightarrow> Some eps)"

subsection \<open>Well-formed endpoints\<close>

text \<open>What the parser lets through: a non-empty host of the allowed characters, no brackets.\<close>

definition wf_EP :: "EP \<Rightarrow> bool" where
  "wf_EP ep \<longleftrightarrow> hostRegex_match (ep_host ep) \<and>
     CHR ''['' \<notin> set (ep_host ep) \<and> CHR '']'' \<notin> set (ep_host ep)"

lemma not_digit_punct [simp]:
  "\<not> is_digit CHR '':''" "\<not> is_digit CHR ''[''" "\<not> is_digit CHR '']''" "\<not> is_digit CHR '',''"
  "\<not> is_digit CHR ''|''"
  by (simp_all add: is_digit_def)

lemma EP_PortString_chars:
  "CHR '':'' \<notin> set (EP_PortString ep)" "CHR ''['' \<notin> set (EP_PortString ep)"
  "CHR '']'' \<notin> set (EP_PortString ep)" "CHR '','' \<notin> set (EP_PortString ep)"
  "CHR ''|'' \<notin> set (EP_PortString ep)"
  unfolding EP_PortString_def
  by (rule not_digit_notin [OF FormatUint10_digits], simp)+

lemma take_before_index: "i < length s \<Longrightarrow> s ! i = c \<Longrightarrow> s = take i s @ c # drop (Suc i) s"
  by (metis id_take_nth_drop)

lemma SplitHostPort_JoinHostPort:
  assumes "CHR ''['' \<notin> set h" "CHR '']'' \<notin> set h"
    and "CHR '':'' \<notin> set p" "CHR ''['' \<notin> set p" "CHR '']'' \<notin> set p"
  shows "SplitHostPort (JoinHostPort h p) = Inr (h, p)"
proof (cases "CHR '':'' \<in> set h")
  case True
  have i: "last_index_byte CHR '':'' (''['' @ h @ '']:'' @ p) = Some (length h + 2)"
    using last_index_byte_append [of "CHR '':''" p "''['' @ h @ '']''"] assms by simp
  have e: "index_byte CHR '']'' (''['' @ h @ '']:'' @ p) = Some (length h + 1)"
    using index_byte_append [of "CHR '']''" "''['' @ h" "'':'' @ p"] assms by simp
  show ?thesis
    using True assms i e by (simp add: SplitHostPort_def JoinHostPort_def Let_def)
next
  case False
  have i: "last_index_byte CHR '':'' (h @ '':'' @ p) = Some (length h)"
    using last_index_byte_append [of "CHR '':''" p h] assms by simp
  have "(h @ '':'' @ p) ! 0 \<noteq> CHR ''[''"
    using assms by (cases h) auto
  with False assms i show ?thesis
    by (simp add: SplitHostPort_def JoinHostPort_def Let_def)
qed

lemma SplitHostPort_InrD:
  assumes "SplitHostPort s = Inr (h, p)"
  shows "CHR ''['' \<notin> set h \<and> CHR '']'' \<notin> set h"
proof -
  obtain i where i: "last_index_byte CHR '':'' s = Some i"
    using assms by (auto simp: SplitHostPort_def split: option.splits)
  show ?thesis
  proof (cases "s ! 0 = CHR ''[''")
    case True
    obtain e where e: "index_byte CHR '']'' s = Some e" and h: "h = take (e - 1) (drop 1 s)"
      and br: "CHR ''['' \<notin> set (drop 1 s)"
      using assms i True
      by (auto simp: SplitHostPort_def Let_def split: option.splits if_splits)
    have "CHR '']'' \<notin> set (take e s)"
      using index_byte_SomeD [OF e] by simp
    moreover have "take (e - 1) (drop 1 s) = drop 1 (take e s)"
      by (simp add: drop_take)
    ultimately have "CHR '']'' \<notin> set h"
      using h by (metis in_set_dropD)
    moreover have "CHR ''['' \<notin> set h"
      using h br by (metis in_set_takeD)
    ultimately show ?thesis by blast
  next
    case False
    with assms i show ?thesis
      by (auto simp: SplitHostPort_def Let_def split: option.splits if_splits dest: in_set_takeD)
  qed
qed

lemma ParseStricter_wf: "ParseStricter s = Inr ep \<Longrightarrow> wf_EP ep"
  by (auto simp: ParseStricter_def wf_EP_def split: sum.splits prod.splits if_splits option.splits
      dest: SplitHostPort_InrD)

lemma wf_EP_valid: "wf_EP ep \<Longrightarrow> EP_IsValid ep"
  by (auto simp: wf_EP_def EP_IsValid_def emptyEP_def hostRegex_match_def)

lemma ParseStricter_EP_String: "wf_EP ep \<Longrightarrow> ParseStricter (EP_String ep) = Inr ep"
proof -
  assume wf: "wf_EP ep"
  then have split: "SplitHostPort (EP_String ep) = Inr (ep_host ep, EP_PortString ep)"
    by (simp add: EP_String_def wf_EP_valid wf_EP_def SplitHostPort_JoinHostPort EP_PortString_chars)
  have "unat (ep_port ep) < 2 ^ 16"
    using unsigned_less [of "ep_port ep"] by simp
  then have "ParseUint10 16 (EP_PortString ep) = Some (unat (ep_port ep))"
    unfolding EP_PortString_def by (rule ParseUint10_FormatUint10)
  with split wf show ?thesis
    by (simp add: ParseStricter_def wf_EP_def hostRegex_match_def)
qed

lemma EP_String_inj: "wf_EP x \<Longrightarrow> wf_EP y \<Longrightarrow> EP_String x = EP_String y \<Longrightarrow> x = y"
  by (metis ParseStricter_EP_String sum.inject(2))

lemma EP_String_chars:
  assumes "wf_EP ep"
  shows "CHR '','' \<notin> set (EP_String ep)" "CHR ''|'' \<notin> set (EP_String ep)"
proof -
  have "\<not> host_char CHR '',''" "\<not> host_char CHR ''|''"
    by (simp_all add: host_char_def is_alnum_def less_eq_char_def)
  then have "CHR '','' \<notin> set (ep_host ep)" "CHR ''|'' \<notin> set (ep_host ep)"
    using assms by (auto simp: wf_EP_def hostRegex_match_def list_all_iff)
  then show "CHR '','' \<notin> set (EP_String ep)" "CHR ''|'' \<notin> set (EP_String ep)"
    using assms by (auto simp: EP_String_def JoinHostPort_def EP_PortString_chars wf_EP_valid)
qed

subsection \<open>Canonical endpoint slices\<close>

text \<open>The endpoint's textual form is the sort key; it is injective on parsed endpoints.\<close>

interpretation eps: canonical_list uniq_sorted EP_String wf_EP
  by unfold_locales (auto simp: uniq_sorted_def intro: EP_String_inj)

lemma parse_each_Inr: "parse_each p ts = Inr es \<longleftrightarrow> map p ts = map Inr es"
proof (induction ts arbitrary: es)
  case Nil
  then show ?case by auto
next
  case (Cons t ts)
  show ?case
    using Cons.IH by (cases es; cases "p t"; cases "parse_each p ts") auto
qed

lemma parse_each_wf:
  assumes "parse_each ParseStricter ts = Inr es"
  shows "list_all wf_EP es"
proof -
  have "\<forall>e \<in> set es. Inr e \<in> ParseStricter ` set ts"
    using assms by (metis (no_types, lifting) imageI list.set_map parse_each_Inr)
  then show ?thesis
    by (auto simp: list_all_iff dest!: bspec ParseStricter_wf [OF sym])
qed

lemma parse_each_EP_String: "list_all wf_EP es \<Longrightarrow> parse_each ParseStricter (map EP_String es) = Inr es"
  by (simp add: parse_each_Inr list_all_iff ParseStricter_EP_String)

definition canonical_Slice :: "Slice \<Rightarrow> bool" where
  "canonical_Slice eps \<longleftrightarrow> eps \<noteq> [] \<and> list_all wf_EP eps \<and> uniq_sorted eps = eps"

lemma uniq_sorted_canonical:
  "list_all wf_EP eps \<Longrightarrow> eps \<noteq> [] \<Longrightarrow> canonical_Slice (uniq_sorted eps)"
  by (simp add: canonical_Slice_def eps.canon_idem eps.canon_Nil_iff list_all_iff eps.set_canon)

lemma ParseCSV_InrE:
  assumes "ParseCSV s = Inr eps"
  obtains es where "parse_each ParseStricter (strings_Split CHR '','' s) = Inr es"
    and "es \<noteq> []" and "list_all wf_EP es" and "eps = uniq_sorted es"
proof -
  from assms obtain es where es: "parse_each ParseStricter (strings_Split CHR '','' s) = Inr es"
    and "eps = uniq_sorted es"
    by (auto simp: ParseCSV_def canonicalize_def split: sum.splits)
  moreover have "es \<noteq> []" using es by (auto simp: parse_each_Inr)
  ultimately show thesis using that parse_each_wf by blast
qed

lemma ParseCSV_canonical: "ParseCSV s = Inr eps \<Longrightarrow> canonical_Slice eps"
  by (erule ParseCSV_InrE) (simp add: uniq_sorted_canonical)

lemma canonical_Slice_valid: "canonical_Slice eps \<Longrightarrow> Slice_IsValid eps"
  by (auto simp: canonical_Slice_def Slice_IsValid_def list_all_iff wf_EP_valid Suc_le_eq)

lemma canonical_Slice_distinct: "canonical_Slice eps \<Longrightarrow> distinct eps"
  by (metis canonical_Slice_def eps.distinct_canon)

lemma canonical_Slice_sorted:
  "canonical_Slice eps \<Longrightarrow> sorted_wrt (\<lambda>a b. EP_String a < EP_String b) eps"
  by (metis canonical_Slice_def eps.canon_strict)

lemma ParseCSV_items:
  "ParseCSV s = Inr eps \<Longrightarrow> Inr ` set eps = ParseStricter ` set (strings_Split CHR '','' s)"
  by (erule ParseCSV_InrE) (metis eps.set_canon list.set_map parse_each_Inr)

lemma ParseCSV_Slice_String: "canonical_Slice eps \<Longrightarrow> ParseCSV (Slice_String eps) = Inr eps"
proof -
  assume c: "canonical_Slice eps"
  then have "strings_Split CHR '','' (Slice_String eps) = map EP_String eps"
    unfolding Slice_String_def
    by (intro strings_Split_Join)
      (auto simp: canonical_Slice_def list_all_iff EP_String_chars)
  with c show ?thesis
    by (simp add: ParseCSV_def canonicalize_def parse_each_EP_String canonical_Slice_def)
qed

lemma MustParseCSV_Slice_String: "canonical_Slice eps \<Longrightarrow> MustParseCSV (Slice_String eps) = Some eps"
  by (simp add: MustParseCSV_def ParseCSV_Slice_String)

lemma Slice_String_no_bar: "canonical_Slice eps \<Longrightarrow> CHR ''|'' \<notin> set (Slice_String eps)"
  using set_strings_Join [of "'',''" "map EP_String eps"]
  by (auto simp: Slice_String_def canonical_Slice_def list_all_iff dest: EP_String_chars)

lemma Slice_String_not_Nil: "canonical_Slice eps \<Longrightarrow> Slice_String eps \<noteq> []"
  by (cases eps; cases "tl eps")
    (auto simp: Slice_String_def canonical_Slice_def EP_String_def JoinHostPort_def)

lemma Slice_Equal_from_drop:
  "i + length l = length r \<Longrightarrow> Slice_Equal_from i l r = (l = drop i r)"
proof (induction l arbitrary: i)
  case Nil
  then show ?case by simp
next
  case (Cons a l)
  then have "drop i r = r ! i # drop (Suc i) r"
    by (intro Cons_nth_drop_Suc [symmetric]) simp
  with Cons show ?case by auto
qed

subsection \<open>Evaluation on concrete endpoints\<close>

lemmas ep_eval =
  ParseStricter_def SplitHostPort_def Let_def ParseUint10_def decimal_value_def digit_val_def
  is_digit_def hostRegex_match_def host_char_def is_alnum_def less_eq_char_def less_char_def
  ParseCSV_def canonicalize_def uniq_sorted_def EP_String_def EP_IsValid_def emptyEP_def
  JoinHostPort_def EP_PortString_def Slice_String_def FormatUint10.simps digit_char_def

subsection \<open>Properties\<close>

text \<open>
  Every endpoint that \<open>ParseStricter\<close> accepts is a valid one (never the \<open><EMPTY>\<close> value)
  and is recovered exactly by parsing its own textual form, for hostnames, IPv4 and
  bracketed IPv6 hosts alike.
\<close>

theorem ParseStricter_roundtrip:
  assumes "ParseStricter s = Inr ep"
  shows "EP_IsValid ep \<and> ParseStricter (EP_String ep) = Inr ep"
  using ParseStricter_wf [OF assms] by (simp add: wf_EP_valid ParseStricter_EP_String)

theorem ParseStricter_roundtrip_witness:
  "ParseStricter ''[fe80::1]:443'' = Inr \<lparr>ep_host = ''fe80::1'', ep_port = 443\<rparr> \<and>
   EP_IsValid \<lparr>ep_host = ''fe80::1'', ep_port = 443\<rparr>"
proof -
  have h: "ParseStricter ''[fe80::1]:443'' = Inr \<lparr>ep_host = ''fe80::1'', ep_port = 443\<rparr>"
    by (simp add: ep_eval)
  show ?thesis using h ParseStricter_roundtrip [OF h] by blast
qed

text \<open>
  C35. A comma-separated endpoint list that parses names exactly the endpoints of its items, as a
  valid slice in strictly increasing order of their texts, so without duplicates, that survives
  printing and parsing unchanged.
\<close>

theorem ParseCSV_roundtrip:
  assumes "ParseCSV s = Inr eps"
  shows "Slice_IsValid eps \<and> distinct eps \<and> sorted_wrt (\<lambda>a b. EP_String a < EP_String b) eps \<and>
    Inr ` set eps = ParseStricter ` set (strings_Split CHR '','' s) \<and>
    ParseCSV (Slice_String eps) = Inr eps"
  using ParseCSV_canonical [OF assms] ParseCSV_items [OF assms]
  by (simp add: canonical_Slice_valid canonical_Slice_distinct canonical_Slice_sorted ParseCSV_Slice_String)

theorem ParseCSV_roundtrip_witness:
  "ParseCSV ''b:2,a:1,b:2'' = Inr [\<lparr>ep_host = ''a'', ep_port = 1\<rparr>, \<lparr>ep_host = ''b'', ep_port = 2\<rparr>] \<and>
   ParseCSV ''a:1,b:2'' = Inr [\<lparr>ep_host = ''a'', ep_port = 1\<rparr>, \<lparr>ep_host = ''b'', ep_port = 2\<rparr>]"
proof -
  have h: "ParseCSV ''b:2,a:1,b:2'' =
      Inr [\<lparr>ep_host = ''a'', ep_port = 1\<rparr>, \<lparr>ep_host = ''b'', ep_port = 2\<rparr>]"
    by (simp add: ep_eval)
  have "Slice_String [\<lparr>ep_host = ''a'', ep_port = 1\<rparr>, \<lparr>ep_host = ''b'', ep_port = 2\<rparr>] = ''a:1,b:2''"
    by (simp add: ep_eval)
  with h ParseCSV_roundtrip [OF h] show ?thesis by simp
qed

text \<open>
  Two endpoint lists that name the same endpoints parse to the same slice, whatever the
  order, the duplicates and the spelling (leading zeroes of a port): the pool key and the
  resource ID depend on the set of endpoints only.
\<close>

theorem ParseCSV_order_insensitive:
  assumes "ParseCSV s = Inr eps" and "ParseCSV t = Inr eps'" and "set eps = set eps'"
  shows "eps = eps'"
proof -
  have c: "canonical_Slice eps" "canonical_Slice eps'"
    using assms by (simp_all add: ParseCSV_canonical)
  have "uniq_sorted eps = uniq_sorted eps'"
    using c assms(3) by (intro eps.canon_unique) (simp_all add: canonical_Slice_def)
  with c show ?thesis by (simp add: canonical_Slice_def)
qed

theorem ParseCSV_order_insensitive_witness:
  "ParseCSV ''b:2,a:1'' = ParseCSV ''a:001,b:2,a:1''"
proof -
  have h: "ParseCSV ''b:2,a:1'' =
      Inr [\<lparr>ep_host = ''a'', ep_port = 1\<rparr>, \<lparr>ep_host = ''b'', ep_port = 2\<rparr>]"
    by (simp add: ep_eval)
  have k: "ParseCSV ''a:001,b:2,a:1'' =
      Inr [\<lparr>ep_host = ''a'', ep_port = 1\<rparr>, \<lparr>ep_host = ''b'', ep_port = 2\<rparr>]"
    by (simp add: ep_eval)
  show ?thesis using h k ParseCSV_order_insensitive [OF h k] by simp
qed

end
