(* ===== verification/Strlist.thy ===== *)
theory Strlist
  imports Prelude
begin

text \<open>
  \<^verbatim>\<open>pkg/util/strlist/strlist.go\<close>: the string-list helpers that keep volume ACLs
  normalised. A Go slice is the list of its elements; \<open>Remove\<close> also returns what the
  caller's slice holds afterwards, since \<open>append(s[:i], s[i+1:]...)\<close> shifts the elements
  inside the shared backing array.
\<close>

fun AreEqual_from :: "nat \<Rightarrow> string list \<Rightarrow> string list \<Rightarrow> bool" where
  "AreEqual_from i [] r = True"
| "AreEqual_from i (ll # ls) r = (if ll \<noteq> r ! i then False else AreEqual_from (Suc i) ls r)"

definition AreEqual :: "string list \<Rightarrow> string list \<Rightarrow> bool" where
  "AreEqual l r = (if length l \<noteq> length r then False else AreEqual_from 0 l r)"

text \<open>The map used as a set is listed in some order and sorted; see \<open>CopyUniqueSorted_order\<close>.\<close>

definition CopyUniqueSorted :: "string list \<Rightarrow> string list" where
  "CopyUniqueSorted s = (if length s = 0 then [] else sort (remdups s))"

fun Contains :: "string list \<Rightarrow> string \<Rightarrow> bool" where
  "Contains [] e = False"
| "Contains (a # s) e = (if a = e then True else Contains s e)"

fun remove_first :: "string list \<Rightarrow> string \<Rightarrow> string list" where
  "remove_first [] r = []"
| "remove_first (v # s) r = (if v = r then s else v # remove_first s r)"

text \<open>The returned slice, and the contents of the argument slice after the call.\<close>

definition Remove :: "string list \<Rightarrow> string \<Rightarrow> string list \<times> string list" where
  "Remove s r =
     (if Contains s r then (remove_first s r, remove_first s r @ [last s]) else (s, s))"

subsection \<open>Lemmas\<close>

lemma AreEqual_from_drop:
  "i + length l = length r \<Longrightarrow> AreEqual_from i l r = (l = drop i r)"
proof (induction l arbitrary: i)
  case Nil
  then show ?case by simp
next
  case (Cons a l)
  then have "drop i r = r ! i # drop (Suc i) r"
    by (intro Cons_nth_drop_Suc [symmetric]) simp
  with Cons show ?case by auto
qed

lemma AreEqual_iff [simp]: "AreEqual l r \<longleftrightarrow> l = r"
  using AreEqual_from_drop [of 0 l r] by (auto simp: AreEqual_def)

lemma Contains_iff [simp]: "Contains s e \<longleftrightarrow> e \<in> set s"
  by (induction s) auto

lemma CopyUniqueSorted_eq: "CopyUniqueSorted s = sort (remdups s)"
  by (simp add: CopyUniqueSorted_def)

lemma set_CopyUniqueSorted [simp]: "set (CopyUniqueSorted s) = set s"
  by (simp add: CopyUniqueSorted_eq)

lemma CopyUniqueSorted_canonical [simp]:
  "sorted (CopyUniqueSorted s)" "distinct (CopyUniqueSorted s)"
  by (simp_all add: CopyUniqueSorted_eq)

lemma CopyUniqueSorted_fixpoint: "sorted s \<Longrightarrow> distinct s \<Longrightarrow> CopyUniqueSorted s = s"
  by (simp add: CopyUniqueSorted_eq distinct_remdups_id sorted_sort_id)

lemma CopyUniqueSorted_Nil_iff [simp]: "CopyUniqueSorted s = [] \<longleftrightarrow> s = []"
  by (metis set_CopyUniqueSorted set_empty)

lemma CopyUniqueSorted_singleton [simp]: "CopyUniqueSorted [x] = [x]"
  by (simp add: CopyUniqueSorted_def)

lemma CopyUniqueSorted_eq_iff: "CopyUniqueSorted s = CopyUniqueSorted t \<longleftrightarrow> set s = set t"
  by (metis CopyUniqueSorted_canonical(1,2) set_CopyUniqueSorted sorted_distinct_set_unique)

lemma CopyUniqueSorted_order:
  assumes "distinct xs" and "set xs = set s"
  shows "sort xs = CopyUniqueSorted s"
  using sort_distinct_unique [of xs "remdups s"] assms by (simp add: CopyUniqueSorted_eq)

lemma remove_first_notin [simp]: "r \<notin> set s \<Longrightarrow> remove_first s r = s"
  by (induction s) auto

lemma set_remove_first: "distinct s \<Longrightarrow> set (remove_first s r) = set s - {r}"
  by (induction s) auto

lemma distinct_remove_first: "distinct s \<Longrightarrow> distinct (remove_first s r)"
  by (induction s) (auto simp: set_remove_first)

lemma fst_Remove [simp]: "fst (Remove s r) = remove_first s r"
  by (auto simp: Remove_def)

lemma length_remove_first: "r \<in> set s \<Longrightarrow> Suc (length (remove_first s r)) = length s"
  by (induction s) auto

text \<open>The aliased argument keeps its length, so nothing is written past its end.\<close>

lemma length_snd_Remove: "length (snd (Remove s r)) = length s"
  using length_remove_first [of r s] by (auto simp: Remove_def)

text \<open>Strings are their own sort key, so every string list has a canonical form.\<close>

interpretation acl: canonical_list CopyUniqueSorted "\<lambda>s. s" "\<lambda>_. True"
  by unfold_locales simp_all

end
