(* ===== verification/LB_Client.thy ===== *)
theory LB_Client
  imports Go_Status Endpoint Strlist
begin

text \<open>
  \<^verbatim>\<open>pkg/lb/client.go\<close>: the API-agnostic view of a LightOS cluster (volumes, snapshots,
  cluster and node descriptions) and the \<open>lb.Client\<close> interface the driver talks to. An
  interface value is a record of functions acting on the world \<open>'s\<close>. A UUID is its 128
  bits, \<open>guuid.Nil\<close> is 0.
\<close>

unbundle bit_operations_syntax

type_synonym UUID = "128 word"

abbreviation guuid_Nil :: UUID where
  "guuid_Nil \<equiv> 0"

text \<open>The package \<open>github.com/google/uuid\<close>: its parser and its canonical printer.\<close>

record guuid =
  guuid_Parse :: "string \<Rightarrow> UUID option"
  guuid_String :: "UUID \<Rightarrow> string"

text \<open>A request context: its deadline (nanoseconds) and the outgoing metadata, in order.\<close>

record Ctx =
  ctx_deadline :: "int option"
  ctx_md :: "(string \<times> string) list"

text \<open>The clock, the sleep and the context state are the runtime's, acting on the world.\<close>

record 's env =
  env_Now :: "('s, int) state"
  env_Sleep :: "int \<Rightarrow> ('s, unit) state"
  env_CtxErr :: "Ctx \<Rightarrow> ('s, ctx_err option) state"

subsection \<open>Volume states\<close>

datatype VolumeState =
    VolumeStateUnknown | VolumeCreating | VolumeAvailable | VolumeDeleting
  | VolumeDeletedDEPRECATED | VolumeFailed | VolumeUpdating | VolumeRollback | VolumeMigrating
  | VolumeStateOther uint32

text \<open>The Go conversion \<open>lb.VolumeState(c)\<close> of a number to the named constants.\<close>

definition VolumeState_of :: "uint32 \<Rightarrow> VolumeState" where
  "VolumeState_of n =
     (if n = 0 then VolumeStateUnknown else if n = 1 then VolumeCreating
      else if n = 2 then VolumeAvailable else if n = 3 then VolumeDeleting
      else if n = 4 then VolumeDeletedDEPRECATED else if n = 7 then VolumeFailed
      else if n = 8 then VolumeUpdating else if n = 9 then VolumeRollback
      else if n = 10 then VolumeMigrating else VolumeStateOther n)"

definition unknown :: string where
  "unknown = ''<UNKNOWN>''"

fun VolumeState_String :: "VolumeState \<Rightarrow> string" where
  "VolumeState_String VolumeCreating = ''creating''"
| "VolumeState_String VolumeAvailable = ''available''"
| "VolumeState_String VolumeDeleting = ''deleting''"
| "VolumeState_String VolumeFailed = ''failed''"
| "VolumeState_String VolumeUpdating = ''updating''"
| "VolumeState_String VolumeRollback = ''rollback''"
| "VolumeState_String VolumeMigrating = ''migrating''"
| "VolumeState_String VolumeDeletedDEPRECATED = ''deleted''"
| "VolumeState_String _ = unknown"

datatype VolumeProtection =
    VolumeProtectionUnknown | VolumeProtected | VolumeDegraded | VolumeReadOnly
  | VolumeNotAvailable | VolumeProtectionOther uint32

definition VolumeProtection_of :: "uint32 \<Rightarrow> VolumeProtection" where
  "VolumeProtection_of n =
     (if n = 0 then VolumeProtectionUnknown else if n = 1 then VolumeProtected
      else if n = 2 then VolumeDegraded else if n = 3 then VolumeReadOnly
      else if n = 4 then VolumeNotAvailable else VolumeProtectionOther n)"

fun VolumeProtection_String :: "VolumeProtection \<Rightarrow> string" where
  "VolumeProtection_String VolumeProtected = ''fully-protected''"
| "VolumeProtection_String VolumeDegraded = ''degraded''"
| "VolumeProtection_String VolumeReadOnly = ''read-only''"
| "VolumeProtection_String VolumeNotAvailable = ''not-available''"
| "VolumeProtection_String _ = unknown"

subsection \<open>Volumes\<close>

record Volume =
  vol_Name :: string
  vol_UUID :: UUID
  vol_ReplicaCount :: uint32
  vol_Capacity :: uint64
  vol_LogicalUsedStorage :: uint64
  vol_Compression :: bool
  vol_SnapshotUUID :: UUID
  vol_QosPolicyName :: string
  vol_ACL :: "string list"
  vol_State :: VolumeState
  vol_Protection :: VolumeProtection
  vol_ETag :: string
  vol_ProjectName :: string

definition IsAccessible :: "Volume \<Rightarrow> bool" where
  "IsAccessible v \<longleftrightarrow> vol_State v = VolumeAvailable \<or> vol_State v = VolumeUpdating \<or>
     vol_State v = VolumeMigrating"

definition IsWritable :: "Volume \<Rightarrow> bool" where
  "IsWritable v \<longleftrightarrow> vol_Protection v = VolumeProtected \<or> vol_Protection v = VolumeDegraded"

definition IsUsable :: "Volume \<Rightarrow> bool" where
  "IsUsable v \<longleftrightarrow> IsAccessible v \<and> IsWritable v"

definition IsSameAs :: "Volume \<Rightarrow> Volume \<Rightarrow> bool" where
  "IsSameAs v other \<longleftrightarrow> vol_Name v = vol_Name other \<and> vol_UUID v = vol_UUID other \<and>
     vol_ReplicaCount v = vol_ReplicaCount other \<and> vol_Capacity v = vol_Capacity other \<and>
     vol_Compression v = vol_Compression other"

text \<open>The skip flags: \<open>1 << iota\<close> from the second constant on.\<close>

abbreviation SkipNone :: uint32 where "SkipNone \<equiv> 0"

abbreviation SkipUUID :: uint32 where "SkipUUID \<equiv> 2"

abbreviation SkipSnapUUID :: uint32 where "SkipSnapUUID \<equiv> 4"

abbreviation SkipCapacity :: uint32 where "SkipCapacity \<equiv> 8"

text \<open>
  \<open>ExplainDiffsFrom\<close> returns one sentence per difference; a sentence is represented by the
  property it is about, in the order of the source.
\<close>

datatype diff = DName | DUUID | DReplicaCount | DCapacity | DCompression | DProjectName | DSnapshotUUID

definition ExplainDiffsFrom :: "Volume \<Rightarrow> Volume \<Rightarrow> uint32 \<Rightarrow> diff list" where
  "ExplainDiffsFrom v other skipFields =
     (let nt = (\<lambda>field. skipFields AND field = 0) in
      (if vol_Name v \<noteq> vol_Name other then [DName] else []) @
      (if nt SkipUUID \<and> vol_UUID v \<noteq> vol_UUID other then [DUUID] else []) @
      (if vol_ReplicaCount v \<noteq> vol_ReplicaCount other then [DReplicaCount] else []) @
      (if nt SkipCapacity \<and> vol_Capacity v \<noteq> vol_Capacity other then [DCapacity] else []) @
      (if vol_Compression v \<noteq> vol_Compression other then [DCompression] else []) @
      (if vol_ProjectName v \<noteq> vol_ProjectName other then [DProjectName] else []) @
      (if nt SkipSnapUUID \<and> vol_SnapshotUUID v \<noteq> vol_SnapshotUUID other
       then [DSnapshotUUID] else []))"

subsection \<open>Clusters, nodes, snapshots\<close>

record ClusterInfo =
  ci_UUID :: UUID
  ci_SubsysNQN :: string
  ci_CurrMaxReplicas :: uint32
  ci_MaxReplicas :: uint32
  ci_DiscoveryEndpoints :: "string list"
  ci_ApiEndpoints :: "string list"
  ci_NvmeEndpoints :: "string list"

record Cluster =
  cluster_UUID :: UUID
  cluster_SubsysNQN :: string
  cluster_CurrMaxReplicas :: uint32
  cluster_MaxReplicas :: uint32
  cluster_DiscoveryEndpoints :: "string list"
  cluster_ApiEndpoints :: "string list"
  cluster_Capacity :: uint64

datatype NodeState =
    NodeStateUnknown | NodeActive | NodeActivating | NodeInactive | NodeUnattached
  | NodeAttaching | NodeDetaching | NodeStateOther uint32

definition NodeState_of :: "uint32 \<Rightarrow> NodeState" where
  "NodeState_of n =
     (if n = 0 then NodeStateUnknown else if n = 1 then NodeActive
      else if n = 2 then NodeActivating else if n = 3 then NodeInactive
      else if n = 4 then NodeUnattached else if n = 6 then NodeAttaching
      else if n = 7 then NodeDetaching else NodeStateOther n)"

fun NodeState_String :: "NodeState \<Rightarrow> string" where
  "NodeState_String NodeActive = ''active''"
| "NodeState_String NodeActivating = ''activating''"
| "NodeState_String NodeInactive = ''inactive''"
| "NodeState_String NodeUnattached = ''unattached''"
| "NodeState_String NodeAttaching = ''attaching''"
| "NodeState_String NodeDetaching = ''detaching''"
| "NodeState_String _ = unknown"

record Node =
  node_Name :: string
  node_UUID :: UUID
  node_DataEP :: EP
  node_HostName :: string
  node_State :: NodeState

definition ACLAllowAny :: string where "ACLAllowAny = ''ALLOW_ANY''"

definition ACLAllowNone :: string where "ACLAllowNone = ''ALLOW_NONE''"

text \<open>\<open>upd_ACL\<close> is \<open>None\<close> for the nil slice (leave the ACL), \<open>upd_Capacity\<close> 0 leaves the size.\<close>

record VolumeUpdate =
  upd_ACL :: "string list option"
  upd_Capacity :: uint64

text \<open>A hook returns an error, no update (\<open>None\<close>) or the update it wants.\<close>

type_synonym VolumeUpdateHook = "Volume \<Rightarrow> gerr + VolumeUpdate option"

datatype SnapshotState =
    SnapshotStateUnknown | SnapshotCreating | SnapshotAvailable | SnapshotDeleting
  | SnapshotDeleted | SnapshotFailed | SnapshotStateOther uint32

definition SnapshotState_of :: "uint32 \<Rightarrow> SnapshotState" where
  "SnapshotState_of n =
     (if n = 0 then SnapshotStateUnknown else if n = 1 then SnapshotCreating
      else if n = 2 then SnapshotAvailable else if n = 3 then SnapshotDeleting
      else if n = 4 then SnapshotDeleted else if n = 7 then SnapshotFailed
      else SnapshotStateOther n)"

fun SnapshotState_String :: "SnapshotState \<Rightarrow> string" where
  "SnapshotState_String SnapshotCreating = ''creating''"
| "SnapshotState_String SnapshotAvailable = ''available''"
| "SnapshotState_String SnapshotDeleting = ''deleting''"
| "SnapshotState_String SnapshotDeleted = ''deleted''"
| "SnapshotState_String SnapshotFailed = ''failed''"
| "SnapshotState_String _ = unknown"

record Snapshot =
  snap_Name :: string
  snap_UUID :: UUID
  snap_Capacity :: uint64
  snap_State :: SnapshotState
  snap_SrcVolUUID :: UUID
  snap_SrcVolName :: string
  snap_SrcVolReplicaCount :: uint32
  snap_SrcVolCompression :: bool
  snap_CreationTime :: int
  snap_ETag :: string
  snap_ProjectName :: string

subsection \<open>The client interface\<close>

record 's Client =
  cl_Close :: "('s, unit) state"
  cl_ID :: string
  cl_Targets :: string
  cl_RemoteOk :: "Ctx \<Rightarrow> ('s, gerr, unit) io"
  cl_GetCluster :: "Ctx \<Rightarrow> ('s, gerr, Cluster) io"
  cl_GetClusterInfo :: "Ctx \<Rightarrow> ('s, gerr, ClusterInfo) io"
  cl_ListNodes :: "Ctx \<Rightarrow> ('s, gerr, Node list) io"
  cl_CreateVolume :: "Ctx \<Rightarrow> string \<Rightarrow> uint64 \<Rightarrow> uint32 \<Rightarrow> bool \<Rightarrow> string list \<Rightarrow> string \<Rightarrow>
    UUID \<Rightarrow> string \<Rightarrow> bool \<Rightarrow> ('s, gerr, Volume) io"
  cl_DeleteVolume :: "Ctx \<Rightarrow> UUID \<Rightarrow> string \<Rightarrow> bool \<Rightarrow> ('s, gerr, unit) io"
  cl_GetVolume :: "Ctx \<Rightarrow> UUID \<Rightarrow> string \<Rightarrow> ('s, gerr, Volume) io"
  cl_GetVolumeByName :: "Ctx \<Rightarrow> string \<Rightarrow> string \<Rightarrow> ('s, gerr, Volume) io"
  cl_UpdateVolume :: "Ctx \<Rightarrow> UUID \<Rightarrow> string \<Rightarrow> VolumeUpdateHook \<Rightarrow> ('s, gerr, Volume) io"
  cl_CreateSnapshot :: "Ctx \<Rightarrow> string \<Rightarrow> string \<Rightarrow> UUID \<Rightarrow> string \<Rightarrow> bool \<Rightarrow>
    ('s, gerr, Snapshot) io"
  cl_DeleteSnapshot :: "Ctx \<Rightarrow> UUID \<Rightarrow> string \<Rightarrow> bool \<Rightarrow> ('s, gerr, unit) io"
  cl_GetSnapshot :: "Ctx \<Rightarrow> UUID \<Rightarrow> string \<Rightarrow> ('s, gerr, Snapshot) io"
  cl_GetSnapshotByName :: "Ctx \<Rightarrow> string \<Rightarrow> string \<Rightarrow> ('s, gerr, Snapshot) io"

subsection \<open>Lemmas\<close>

lemma ExplainDiffsFrom_none:
  "ExplainDiffsFrom v w SkipNone = [] \<longleftrightarrow>
     IsSameAs v w \<and> vol_ProjectName v = vol_ProjectName w \<and>
     vol_SnapshotUUID v = vol_SnapshotUUID w"
  by (auto simp: ExplainDiffsFrom_def IsSameAs_def Let_def)

lemma ExplainDiffsFrom_skip:
  "ExplainDiffsFrom v w (SkipUUID OR SkipSnapUUID OR SkipCapacity) = [] \<longleftrightarrow>
     vol_Name v = vol_Name w \<and> vol_ReplicaCount v = vol_ReplicaCount w \<and>
     vol_Compression v = vol_Compression w \<and> vol_ProjectName v = vol_ProjectName w"
  by (auto simp: ExplainDiffsFrom_def Let_def)

lemma ACLAllow_distinct [simp]: "ACLAllowAny \<noteq> ACLAllowNone" "ACLAllowNone \<noteq> ACLAllowAny"
  by (simp_all add: ACLAllowAny_def ACLAllowNone_def)

subsection \<open>Interface: what a LightOS client promises\<close>

text \<open>
  A volume or a snapshot as a client may hand it out: named, with a UUID, in a state the
  driver knows, with a normalised ACL and a sane replica count.
\<close>

definition wf_Volume :: "Volume \<Rightarrow> bool" where
  "wf_Volume v \<longleftrightarrow> vol_Name v \<noteq> [] \<and> vol_UUID v \<noteq> guuid_Nil \<and>
     vol_State v \<in> {VolumeCreating, VolumeAvailable, VolumeDeleting, VolumeUpdating,
       VolumeMigrating, VolumeFailed} \<and>
     vol_Protection v \<in> {VolumeProtectionUnknown, VolumeProtected, VolumeDegraded,
       VolumeReadOnly, VolumeNotAvailable} \<and>
     (vol_Protection v = VolumeProtectionUnknown \<longrightarrow> vol_State v = VolumeCreating) \<and>
     0 < vol_ReplicaCount v \<and> vol_ReplicaCount v \<le> 128 \<and>
     CopyUniqueSorted (vol_ACL v) = vol_ACL v"

definition wf_Snapshot :: "Snapshot \<Rightarrow> bool" where
  "wf_Snapshot sn \<longleftrightarrow> snap_Name sn \<noteq> [] \<and> snap_UUID sn \<noteq> guuid_Nil \<and>
     snap_SrcVolUUID sn \<noteq> guuid_Nil \<and>
     snap_State sn \<in> {SnapshotCreating, SnapshotAvailable, SnapshotDeleting, SnapshotFailed}"

text \<open>An update that asks for nothing.\<close>

definition no_update :: "gerr + VolumeUpdate option \<Rightarrow> bool" where
  "no_update h \<longleftrightarrow> h = Inr None \<or> h = Inr (Some \<lparr>upd_ACL = None, upd_Capacity = 0\<rparr>)"

text \<open>
  The contract between the driver and a LightOS client, the success half: what the driver
  may conclude from a call that returned no error.
\<close>

locale lb_client =
  fixes clnt :: "'s Client"
  assumes GetVolume_yields:
      "yields (cl_GetVolume clnt ctx uuid proj) (\<lambda>v. wf_Volume v \<and> vol_UUID v = uuid)"
    and GetVolumeByName_yields:
      "yields (cl_GetVolumeByName clnt ctx name proj) (\<lambda>v. wf_Volume v \<and> vol_Name v = name)"
    and CreateVolume_yields:
      "yields (cl_CreateVolume clnt ctx name cap repl compress acl proj snap qos blocking)
         (\<lambda>v. wf_Volume v \<and> vol_Name v = name \<and>
            (IsAccessible v \<or> \<not> blocking \<and> vol_State v = VolumeCreating))"
    and UpdateVolume_yields:
      "yields (cl_UpdateVolume clnt ctx uuid proj hook)
         (\<lambda>v. wf_Volume v \<and> vol_UUID v = uuid \<and>
            vol_State v \<in> {VolumeAvailable, VolumeMigrating} \<and> no_update (hook v))"
    and GetSnapshot_yields:
      "yields (cl_GetSnapshot clnt ctx uuid proj) (\<lambda>sn. wf_Snapshot sn \<and> snap_UUID sn = uuid)"
    and GetSnapshotByName_yields:
      "yields (cl_GetSnapshotByName clnt ctx name proj)
         (\<lambda>sn. wf_Snapshot sn \<and> snap_Name sn = name)"
    and CreateSnapshot_yields:
      "yields (cl_CreateSnapshot clnt ctx name proj src descr blocking)
         (\<lambda>sn. wf_Snapshot sn \<and>
            (snap_State sn = SnapshotAvailable \<or> \<not> blocking \<and> snap_State sn = SnapshotCreating))"
begin

lemma UpdateVolume_usable:
  "yields (cl_UpdateVolume clnt ctx uuid proj hook) (\<lambda>v. IsAccessible v \<and> no_update (hook v))"
  by (rule yields_mono [OF UpdateVolume_yields]) (auto simp: IsAccessible_def)

end

text \<open>
  A client whose answers come from the cluster: \<open>named\<close> and \<open>snap_named\<close> are what can be read there
  by name, \<open>created\<close> and \<open>snap_created\<close> what a request for a new volume or snapshot can lead to.
\<close>

locale lb_evidence = lb_client +
  fixes named :: "string \<Rightarrow> string \<Rightarrow> Volume \<Rightarrow> bool"
    and created :: "string \<Rightarrow> uint64 \<Rightarrow> uint32 \<Rightarrow> bool \<Rightarrow> string list \<Rightarrow> string \<Rightarrow> UUID \<Rightarrow> string \<Rightarrow>
      Volume \<Rightarrow> bool"
    and snap_named :: "string \<Rightarrow> string \<Rightarrow> Snapshot \<Rightarrow> bool"
    and snap_created :: "string \<Rightarrow> string \<Rightarrow> UUID \<Rightarrow> string \<Rightarrow> Snapshot \<Rightarrow> bool"
  assumes GetVolumeByName_named:
      "yields (cl_GetVolumeByName clnt ctx name proj) (named name proj)"
    and CreateVolume_created:
      "yields (cl_CreateVolume clnt ctx name cap repl compress acl proj snap qos blocking)
         (created name cap repl compress acl proj snap qos)"
    and GetSnapshotByName_named:
      "yields (cl_GetSnapshotByName clnt ctx name proj) (snap_named name proj)"
    and CreateSnapshot_created:
      "yields (cl_CreateSnapshot clnt ctx name proj src descr blocking) (snap_created name proj src descr)"

end
