(* ===== verification/Guuid.thy ===== *)
theory Guuid
  imports LB_Client
begin

text \<open>
  The UUID package \<^verbatim>\<open>github.com/google/uuid\<close> is a parameter of the model: this theory holds
  the form of a UUID string that \<^verbatim>\<open>pkg/driver/csi_md.go\<close> accepts, the property the code
  relies on, and an instance that has it.
\<close>

definition is_hex :: "char \<Rightarrow> bool" where
  "is_hex c \<longleftrightarrow> (CHR ''0'' \<le> c \<and> c \<le> CHR ''9'') \<or> (CHR ''a'' \<le> c \<and> c \<le> CHR ''f'') \<or>
     (CHR ''A'' \<le> c \<and> c \<le> CHR ''F'')"

text \<open>The canonical form (group 2 of \<open>resIDRegex\<close>): hex digits in groups of 8, 4, 4, 4 and 12.\<close>

definition uuid_form :: "string \<Rightarrow> bool" where
  "uuid_form s \<longleftrightarrow>
     (case strings_Split CHR ''-'' s of
        [a, b, c, d, e] \<Rightarrow>
          length a = 8 \<and> length b = 4 \<and> length c = 4 \<and> length d = 4 \<and> length e = 12 \<and>
          list_all is_hex (a @ b @ c @ d @ e)
      | _ \<Rightarrow> False)"

text \<open>
  What the code relies on from \<open>github.com/google/uuid\<close>: the canonical form printed by
  \<open>String\<close> has the 8-4-4-4-12 shape, and \<open>Parse\<close> reads it back.
\<close>

definition guuid_ok :: "guuid \<Rightarrow> bool" where
  "guuid_ok G \<longleftrightarrow>
     (\<forall>u. guuid_Parse G (guuid_String G u) = Some u \<and> uuid_form (guuid_String G u))"

text \<open>An instance: hexadecimal digits, most significant first.\<close>

definition hex_digit :: "nat \<Rightarrow> char" where
  "hex_digit d = ''0123456789abcdef'' ! d"

primrec hexs :: "nat \<Rightarrow> nat \<Rightarrow> string" where
  "hexs 0 n = []"
| "hexs (Suc k) n = hexs k (n div 16) @ [hex_digit (n mod 16)]"

definition hex_val :: "char \<Rightarrow> nat" where
  "hex_val c =
     (if c \<le> CHR ''9'' then of_char c - 48 else if CHR ''a'' \<le> c then of_char c - 87
      else of_char c - 55)"

definition hex_value :: "string \<Rightarrow> nat" where
  "hex_value s = foldl (\<lambda>n c. 16 * n + hex_val c) 0 s"

definition hex_guuid :: guuid where
  "hex_guuid =
     \<lparr>guuid_Parse = (\<lambda>s. if uuid_form s
          then Some (word_of_nat (hex_value (concat (strings_Split CHR ''-'' s)))) else None),
      guuid_String = (\<lambda>u. let h = hexs 32 (unat u) in
          strings_Join ''-'' [take 8 h, take 4 (drop 8 h), take 4 (drop 12 h),
            take 4 (drop 16 h), drop 20 h])\<rparr>"

lemma hex_digit_cases: "d < 16 \<Longrightarrow> is_hex (hex_digit d) \<and> hex_val (hex_digit d) = d \<and>
    hex_digit d \<noteq> CHR ''-''"
proof -
  assume "d < 16"
  then have "d = 0 \<or> d = 1 \<or> d = 2 \<or> d = 3 \<or> d = 4 \<or> d = 5 \<or> d = 6 \<or> d = 7 \<or> d = 8 \<or> d = 9 \<or>
      d = 10 \<or> d = 11 \<or> d = 12 \<or> d = 13 \<or> d = 14 \<or> d = 15" by arith
  then show ?thesis
    by (auto simp: hex_digit_def is_hex_def hex_val_def less_eq_char_def)
qed

lemma length_hexs [simp]: "length (hexs k n) = k"
  by (induction k arbitrary: n) auto

lemma hexs_chars: "list_all is_hex (hexs k n) \<and> CHR ''-'' \<notin> set (hexs k n)"
  by (induction k arbitrary: n) (simp_all add: hex_digit_cases, metis hex_digit_cases mod_less_divisor zero_less_numeral)

lemma hex_value_hexs: "hex_value (hexs k n) = n mod 16 ^ k"
proof (induction k arbitrary: n)
  case 0
  then show ?case by (simp add: hex_value_def)
next
  case (Suc k)
  have "hex_value (hexs (Suc k) n) = 16 * hex_value (hexs k (n div 16)) + n mod 16"
    by (simp add: hex_value_def hex_digit_cases)
  then show ?case
    using Suc by (simp add: mod_mult2_eq)
qed

lemma guuid_ok_hex: "guuid_ok hex_guuid"
  unfolding guuid_ok_def
proof
  fix u :: UUID
  define h where "h = hexs 32 (unat u)"
  define parts where "parts = [take 8 h, take 4 (drop 8 h), take 4 (drop 12 h),
    take 4 (drop 16 h), drop 20 h]"
  have chars: "list_all is_hex h" "CHR ''-'' \<notin> set h" and len: "length h = 32"
    using hexs_chars by (simp_all add: h_def)
  have str: "guuid_String hex_guuid u = strings_Join ''-'' parts"
    by (simp add: hex_guuid_def h_def parts_def Let_def)
  have split: "strings_Split CHR ''-'' (guuid_String hex_guuid u) = parts"
    unfolding str using chars(2)
    by (intro strings_Split_Join) (auto simp: parts_def dest: in_set_takeD in_set_dropD)
  have "list_all is_hex (take k (drop j h))" "list_all is_hex (drop j h)"
    "list_all is_hex (take k h)" for j k
    using chars(1) by (auto simp: list_all_iff dest: in_set_takeD in_set_dropD)
  then have form: "uuid_form (guuid_String hex_guuid u)"
    using len by (simp add: uuid_form_def split parts_def)
  have "drop 8 h = take 4 (drop 8 h) @ drop 12 h" "drop 12 h = take 4 (drop 12 h) @ drop 16 h"
    "drop 16 h = take 4 (drop 16 h) @ drop 20 h"
    using append_take_drop_id [of 4 "drop 8 h"] append_take_drop_id [of 4 "drop 12 h"]
      append_take_drop_id [of 4 "drop 16 h"] by simp_all
  then have "concat parts = take 8 h @ drop 8 h"
    unfolding parts_def concat.simps append_Nil2 by metis
  then have "concat parts = h" by simp
  moreover have "unat u < 16 ^ 32"
    using unsigned_less [of u] by simp
  ultimately have "guuid_Parse hex_guuid (guuid_String hex_guuid u) = Some u"
    using form split by (subst hex_guuid_def) (simp add: h_def hex_value_hexs)
  with form show "guuid_Parse hex_guuid (guuid_String hex_guuid u) = Some u \<and>
      uuid_form (guuid_String hex_guuid u)" by blast
qed

end
