(* ===== verification/CSI_MD.thy ===== *)
theory CSI_MD
  imports Guuid
begin

text \<open>
  \<^verbatim>\<open>pkg/driver/csi_md.go\<close>: the metadata that crosses the CSI boundary. Volume creation
  parameters, resource IDs (the strings by which a container orchestrator names volumes
  and snapshots) with their printer and parser, and the validation of volume
  capabilities. The three regular expressions of the file are matched by hand-written
  functions: no alternative of them can match where the deterministic scan fails, since a
  field value never contains the separator that starts the next field.
\<close>

subsection \<open>Names of fields and parameters\<close>

definition volIDField :: string where "volIDField = ''volume_id''"
definition snapIDField :: string where "snapIDField = ''snapshot_id''"
definition volPathField :: string where "volPathField = ''volume_path''"
definition capRangeField :: string where "capRangeField = ''capacity_range''"
definition nodeIDField :: string where "nodeIDField = ''node_id''"
definition srcVolField :: string where "srcVolField = ''source_volume_id''"
definition volContSrcField :: string where "volContSrcField = ''volume_content_source''"
definition volContSrcVolField :: string where
  "volContSrcVolField = volContSrcField @ ''.volume.volume_id''"
definition volContSrcSnapField :: string where
  "volContSrcSnapField = volContSrcField @ ''.snapshot.snapshot_id''"

definition grpcXport :: string where "grpcXport = ''grpc''"
definition grpcsXport :: string where "grpcsXport = ''grpcs''"
definition volParMgmtEPKey :: string where "volParMgmtEPKey = ''mgmt-endpoint''"
definition volParRepCntKey :: string where "volParRepCntKey = ''replica-count''"
definition volParCompressKey :: string where "volParCompressKey = ''compression''"
definition volParProjNameKey :: string where "volParProjNameKey = ''project-name''"
definition volParMgmtSchemeKey :: string where "volParMgmtSchemeKey = ''mgmt-scheme''"
definition volParQosNameKey :: string where "volParQosNameKey = ''qos-policy-name''"
definition volHostEncryptionKey :: string where "volHostEncryptionKey = ''host-encryption''"
definition volHostEncryptionPassphraseKey :: string where
  "volHostEncryptionPassphraseKey = ''host-encryption-passphrase''"
definition defaultLuksFormat :: string where "defaultLuksFormat = ''luks2''"

definition volParKey :: "string \<Rightarrow> string" where
  "volParKey key = ''parameters'' @ ''.'' @ key"

text \<open>Indexing a Go map gives the zero value for a missing key.\<close>

definition map_idx :: "(string \<rightharpoonup> string) \<Rightarrow> string \<Rightarrow> string" where
  "map_idx m k = (case m k of None \<Rightarrow> [] | Some v \<Rightarrow> v)"

subsection \<open>Project names\<close>

definition lc_alnum :: "char \<Rightarrow> bool" where
  "lc_alnum c \<longleftrightarrow> (CHR ''a'' \<le> c \<and> c \<le> CHR ''z'') \<or> (CHR ''0'' \<le> c \<and> c \<le> CHR ''9'')"

text \<open>\<^verbatim>\<open>^[a-z0-9]([a-z0-9.-]{0,61}[a-z0-9])?$\<close>\<close>

definition projNameRegex_match :: "string \<Rightarrow> bool" where
  "projNameRegex_match s \<longleftrightarrow>
     s \<noteq> [] \<and> lc_alnum (hd s) \<and>
     (tl s = [] \<or>
      length (butlast (tl s)) \<le> 61 \<and>
      list_all (\<lambda>c. lc_alnum c \<or> c = CHR ''.'' \<or> c = CHR ''-'') (butlast (tl s)) \<and>
      lc_alnum (last s))"

definition checkProjectName :: "string \<Rightarrow> string \<Rightarrow> gerr + unit" where
  "checkProjectName field proj =
     (if proj = [] then Inl (mkEinvalMissing field)
      else if \<not> projNameRegex_match proj then Inl (mkEinvalf field)
      else Inr ())"

subsection \<open>Volume creation parameters\<close>

record lbCreateVolumeParams =
  par_mgmtEPs :: Slice
  par_replicaCount :: uint32
  par_compression :: bool
  par_projectName :: string
  par_mgmtScheme :: string
  par_qosPolicyName :: string
  par_hostCrypto :: string

definition parseCSICreateVolumeParams ::
  "(string \<rightharpoonup> string) \<Rightarrow> gerr + lbCreateVolumeParams" where
  "parseCSICreateVolumeParams params =
     (let key = volParKey volParMgmtEPKey; mgmtEPs = map_idx params volParMgmtEPKey in
      if mgmtEPs = [] then Inl (mkEinvalMissing key) else
      (case ParseCSV mgmtEPs of Inl err \<Rightarrow> Inl (mkEinval key) | Inr eps \<Rightarrow>
      let key = volParKey volParRepCntKey; replicaCount = map_idx params volParRepCntKey in
      if replicaCount = [] then Inl (mkEinvalMissing key) else
      (case ParseUint10 32 replicaCount of None \<Rightarrow> Inl (mkEinvalf key) | Some repCnt \<Rightarrow>
      let key = volParKey volParCompressKey; compr = map_idx params volParCompressKey in
      (case (if compr = [] \<or> compr = ''disabled'' then Some False
             else if compr = ''enabled'' then Some True else None) of
         None \<Rightarrow> Inl (mkEinval key) | Some compression \<Rightarrow>
      let key = volParKey volParProjNameKey in
      (case (case params volParProjNameKey of
               Some proj \<Rightarrow>
                 (case checkProjectName key proj of Inl err \<Rightarrow> Inl err | Inr _ \<Rightarrow> Inr proj)
             | None \<Rightarrow> Inr []) of
         Inl err \<Rightarrow> Inl err | Inr projectName \<Rightarrow>
      let key = volParKey volParMgmtSchemeKey; scheme = map_idx params volParMgmtSchemeKey in
      (case (if scheme = [] \<or> scheme = grpcsXport then Some grpcsXport
             else if scheme = grpcXport then Some grpcXport else None) of
         None \<Rightarrow> Inl (mkEinval key) | Some mgmtScheme \<Rightarrow>
      let qosPolicyName = (case params volParQosNameKey of Some val \<Rightarrow> val | None \<Rightarrow> []);
          key = volParKey volHostEncryptionKey; hostEnc = map_idx params volHostEncryptionKey in
      (case (if hostEnc = [] \<or> hostEnc = ''disabled'' then Some []
             else if hostEnc = ''enabled'' then Some defaultLuksFormat else None) of
         None \<Rightarrow> Inl (mkEinval key) | Some hostCrypto \<Rightarrow>
      if hostCrypto \<noteq> [] \<and> compression then Inl (mkEbadOp ''mismatch'' volHostEncryptionKey)
      else Inr \<lparr>par_mgmtEPs = eps, par_replicaCount = word_of_nat repCnt,
                par_compression = compression, par_projectName = projectName,
                par_mgmtScheme = mgmtScheme, par_qosPolicyName = qosPolicyName,
                par_hostCrypto = hostCrypto\<rparr>)))))))"

subsection \<open>Resource IDs\<close>

record lbResourceID =
  rid_mgmtEPs :: Slice
  rid_uuid :: UUID
  rid_projName :: string
  rid_scheme :: string
  rid_hostCrypto :: string

definition lbResourceID_String :: "guuid \<Rightarrow> lbResourceID \<Rightarrow> string" where
  "lbResourceID_String G vid =
     ''mgmt:'' @ Slice_String (rid_mgmtEPs vid) @ ''|nguid:'' @ guuid_String G (rid_uuid vid) @
     (if length (rid_projName vid) > 0 then ''|proj:'' @ rid_projName vid else []) @
     (if length (rid_scheme vid) > 0 then ''|scheme:'' @ rid_scheme vid else []) @
     (if length (rid_hostCrypto vid) > 0 then ''|hostcrypto:'' @ rid_hostCrypto vid else [])"

text \<open>Group 4: no control character, bar or space (\<^verbatim>\<open>[^[:cntrl:]| ]+\<close>).\<close>

definition proj_char :: "char \<Rightarrow> bool" where
  "proj_char c \<longleftrightarrow>
     \<not> (of_char c < (32 :: nat) \<or> of_char c = (127 :: nat)) \<and> c \<noteq> CHR ''|'' \<and> c \<noteq> CHR '' ''"

definition until_bar :: "string \<Rightarrow> string \<times> string" where
  "until_bar s = (takeWhile (\<lambda>c. c \<noteq> CHR ''|'') s, dropWhile (\<lambda>c. c \<noteq> CHR ''|'') s)"

text \<open>An optional \<open>|name:value\<close> group: the value (empty if the group is absent) and the rest.\<close>

definition opt_group :: "string \<Rightarrow> (string \<Rightarrow> bool) \<Rightarrow> string \<Rightarrow> string \<times> string" where
  "opt_group prefix good s =
     (case strip_prefix prefix s of
        None \<Rightarrow> ([], s)
      | Some r \<Rightarrow> (let (v, r') = until_bar r in if good v then (v, r') else ([], s)))"

text \<open>
  \<open>resIDRegex.FindStringSubmatch\<close>: the groups 1 (endpoints), 2 (NGUID), 4 (project),
  6 (scheme) and 7 (the whole \<open>|hostcrypto:luks2\<close>), or \<open>None\<close> if the ID does not match.
\<close>

definition resIDRegex_match ::
  "string \<Rightarrow> (string \<times> string \<times> string \<times> string \<times> string) option" where
  "resIDRegex_match idstr =
     (case strip_prefix ''mgmt:'' idstr of None \<Rightarrow> None | Some r0 \<Rightarrow>
      let (m1, r1) = until_bar r0 in
      if m1 = [] then None else
      (case strip_prefix ''|nguid:'' r1 of None \<Rightarrow> None | Some r2 \<Rightarrow>
      let (m2, r3) = until_bar r2 in
      if \<not> uuid_form m2 then None else
      let (m4, r4) = opt_group ''|proj:'' (\<lambda>v. v \<noteq> [] \<and> list_all proj_char v) r3;
          (m6, r6) = opt_group ''|scheme:'' (\<lambda>v. v = grpcXport \<or> v = grpcsXport) r4;
          (m8, r8) = opt_group ''|hostcrypto:'' (\<lambda>v. v = ''luks2'') r6;
          m7 = (if m8 = [] then [] else ''|hostcrypto:'' @ m8)
      in if r8 = [] then Some (m1, m2, m4, m6, m7) else None))"

definition parseCSIResourceID :: "guuid \<Rightarrow> string \<Rightarrow> gerr + lbResourceID" where
  "parseCSIResourceID G idstr =
     (if idstr = [] then Inl Plain else
      (case resIDRegex_match idstr of None \<Rightarrow> Inl Plain | Some (m1, m2, m4, m6, m7) \<Rightarrow>
      (case ParseCSV m1 of Inl err \<Rightarrow> Inl Plain | Inr mgmtEPs \<Rightarrow>
      (case guuid_Parse G m2 of None \<Rightarrow> Inl Plain | Some uuid \<Rightarrow>
      if uuid = guuid_Nil then Inl Plain else
      if m4 \<noteq> [] \<and> isl (checkProjectName [] m4) then Inl Plain else
      let scheme = (if m6 = [] then grpcsXport else m6);
          hostCrypto = (if m7 \<noteq> [] then drop 12 m7 else m7)
      in Inr \<lparr>rid_mgmtEPs = mgmtEPs, rid_uuid = uuid, rid_projName = m4,
              rid_scheme = scheme, rid_hostCrypto = hostCrypto\<rparr>))))"

definition parseCSIResourceIDEinval :: "guuid \<Rightarrow> string \<Rightarrow> string \<Rightarrow> gerr + lbResourceID" where
  "parseCSIResourceIDEinval G field idstr =
     (if idstr = [] then Inl (mkEinvalMissing field)
      else (case parseCSIResourceID G idstr of
              Inl err \<Rightarrow> Inl (mkEinval field)
            | Inr rid \<Rightarrow> Inr rid))"

definition parseCSIResourceIDEnoent :: "guuid \<Rightarrow> string \<Rightarrow> string \<Rightarrow> gerr + lbResourceID" where
  "parseCSIResourceIDEnoent G field idstr =
     (if idstr = [] then Inl (mkEinvalMissing field)
      else (case parseCSIResourceID G idstr of
              Inl err \<Rightarrow> Inl mkEnoent
            | Inr rid \<Rightarrow> Inr rid))"

subsection \<open>Volume capabilities\<close>

record MountVolume =
  mnt_FsType :: string
  mnt_MountFlags :: "string list"

text \<open>The access type is a protobuf oneof; the message inside it may still be nil.\<close>

datatype AccessType = AT_Mount "MountVolume option" | AT_Block "unit option"

datatype AccessMode_Mode =
    UNKNOWN | SINGLE_NODE_WRITER | SINGLE_NODE_READER_ONLY | MULTI_NODE_READER_ONLY
  | MULTI_NODE_SINGLE_WRITER | MULTI_NODE_MULTI_WRITER | Mode_Other uint32

record VolumeCapability =
  cap_AccessType :: "AccessType option"
  cap_AccessMode :: "AccessMode_Mode option"

definition Ext4FS :: string where "Ext4FS = ''ext4''"

definition XfsFS :: string where "XfsFS = ''xfs''"

definition supportedAccessModes :: "bool \<Rightarrow> bool \<Rightarrow> AccessMode_Mode list" where
  "supportedAccessModes rwx isBlockVolumeMode =
     [SINGLE_NODE_WRITER] @ (if isBlockVolumeMode \<and> rwx then [MULTI_NODE_MULTI_WRITER] else [])"

definition validateVolumeCapability :: "bool \<Rightarrow> VolumeCapability option \<Rightarrow> gerr + unit" where
  "validateVolumeCapability rwx c =
     (case c of None \<Rightarrow> Inl (mkEinvalMissing ''volume_capability'') | Some c \<Rightarrow>
      (case (case cap_AccessType c of
               Some (AT_Mount None) \<Rightarrow> Inl (mkEinvalf ''volume_capability.mount'')
             | Some (AT_Mount (Some mntCap)) \<Rightarrow>
                 if mnt_FsType mntCap \<noteq> [] \<and> mnt_FsType mntCap \<noteq> Ext4FS \<and>
                    mnt_FsType mntCap \<noteq> XfsFS
                 then Inl (mkEinvalf ''volume_capability.mount.fs_type'')
                 else if length (mnt_MountFlags mntCap) > 0
                 then Inl (mkEinval ''volume_capability.mount.mount_flags'')
                 else Inr False
             | Some (AT_Block _) \<Rightarrow> Inr True
             | None \<Rightarrow> Inl (mkEinvalMissing ''volume_capability.access_type'')) of
         Inl err \<Rightarrow> Inl err
       | Inr isBlockVolumeMode \<Rightarrow>
           (case cap_AccessMode c of
              None \<Rightarrow> Inl (mkEinvalMissing ''volume_capability.access_mode'')
            | Some mode \<Rightarrow>
                if mode \<in> set (supportedAccessModes rwx isBlockVolumeMode) then Inr ()
                else Inl (mkEinvalf ''volume_capability.access_mode''))))"

fun validate_each :: "bool \<Rightarrow> VolumeCapability option list \<Rightarrow> gerr + unit" where
  "validate_each rwx [] = Inr ()"
| "validate_each rwx (c # caps) =
     (case validateVolumeCapability rwx c of
        Inl err \<Rightarrow> Inl err
      | Inr _ \<Rightarrow> validate_each rwx caps)"

definition validateVolumeCapabilities :: "bool \<Rightarrow> VolumeCapability option list \<Rightarrow> gerr + unit" where
  "validateVolumeCapabilities rwx caps =
     (if length caps = 0 then Inl (mkEinvalMissing ''volume_capability'')
      else validate_each rwx caps)"

definition nodeExpansionRequired :: "VolumeCapability option \<Rightarrow> bool" where
  "nodeExpansionRequired c =
     (case Option.bind c cap_AccessType of
        Some (AT_Mount _) \<Rightarrow> True
      | Some (AT_Block _) \<Rightarrow> False
      | None \<Rightarrow> False)"

subsection \<open>Well-formed resource IDs\<close>

definition wf_rid :: "lbResourceID \<Rightarrow> bool" where
  "wf_rid vid \<longleftrightarrow> canonical_Slice (rid_mgmtEPs vid) \<and> rid_uuid vid \<noteq> guuid_Nil \<and>
     (rid_projName vid = [] \<or> projNameRegex_match (rid_projName vid)) \<and>
     rid_scheme vid \<in> {grpcXport, grpcsXport} \<and> rid_hostCrypto vid \<in> {[], defaultLuksFormat}"

lemma until_bar_append:
  "CHR ''|'' \<notin> set v \<Longrightarrow> r = [] \<or> hd r = CHR ''|'' \<Longrightarrow> until_bar (v @ r) = (v, r)"
  by (cases r) (auto simp: until_bar_def takeWhile_append dropWhile_append)

lemma opt_group_hit:
  assumes "good v" "CHR ''|'' \<notin> set v" "r = [] \<or> hd r = CHR ''|''"
  shows "opt_group p good (p @ v @ r) = (v, r)"
  using assms until_bar_append [of v r] by (simp add: opt_group_def)

lemma opt_group_miss: "strip_prefix p s = None \<Longrightarrow> opt_group p good s = ([], s)"
  by (simp add: opt_group_def)

lemma opt_group_good: "opt_group p good s = (v, r) \<Longrightarrow> v \<noteq> [] \<Longrightarrow> good v"
  by (auto simp: opt_group_def Let_def split: option.splits prod.splits if_splits)

lemma lc_alnum_proj_char: "lc_alnum c \<Longrightarrow> proj_char c"
proof -
  assume "lc_alnum c"
  then have "48 \<le> (of_char c :: nat) \<and> (of_char c :: nat) \<le> 122"
    by (auto simp: lc_alnum_def less_eq_char_def)
  moreover have "c \<noteq> CHR ''|''"
    using \<open>lc_alnum c\<close> by (auto simp: lc_alnum_def less_eq_char_def)
  ultimately show ?thesis by (auto simp: proj_char_def)
qed

lemma proj_char_punct [simp]: "proj_char CHR ''.''" "proj_char CHR ''-''"
  by (simp_all add: proj_char_def)

lemma projNameRegex_chars:
  assumes "projNameRegex_match s"
  shows "list_all proj_char s" "CHR ''|'' \<notin> set s" "s \<noteq> []" "length s \<le> 63"
proof -
  obtain a t where s: "s = a # t"
    using assms by (cases s) (auto simp: projNameRegex_match_def)
  show "s \<noteq> []" using s by simp
  show all: "list_all proj_char s"
  proof (cases "t = []")
    case True
    with s assms show ?thesis by (simp add: projNameRegex_match_def lc_alnum_proj_char)
  next
    case False
    then have "s = a # butlast t @ [last t]" using s by simp
    moreover have "list_all proj_char (butlast t)"
      using assms s False
      by (auto simp: projNameRegex_match_def list_all_iff lc_alnum_proj_char)
    moreover have "proj_char a" "proj_char (last t)"
      using assms s False by (auto simp: projNameRegex_match_def lc_alnum_proj_char)
    ultimately have "list_all proj_char (a # butlast t @ [last t])" by simp
    with \<open>s = a # butlast t @ [last t]\<close> show ?thesis by metis
  qed
  then show "CHR ''|'' \<notin> set s" by (auto simp: list_all_iff proj_char_def)
  show "length s \<le> 63"
    using assms s by (cases "t = []") (auto simp: projNameRegex_match_def)
qed

lemma checkProjectName_simps:
  "isl (checkProjectName field p) \<longleftrightarrow> p = [] \<or> \<not> projNameRegex_match p"
  by (simp add: checkProjectName_def)

lemma uuid_form_chars: "uuid_form s \<Longrightarrow> CHR ''|'' \<notin> set s"
proof -
  assume "uuid_form s"
  then obtain ps where ps: "strings_Split CHR ''-'' s = ps" and "list_all is_hex (concat ps)"
    by (auto simp: uuid_form_def split: list.splits)
  moreover have "\<not> is_hex CHR ''|''" by (simp add: is_hex_def less_eq_char_def)
  ultimately have "CHR ''|'' \<notin> set (concat ps)" by (auto simp: list_all_iff)
  then show ?thesis
    using set_strings_Join [of "''-''" ps] strings_Join_Split [of "CHR ''-''" s] ps by auto
qed

lemma scheme_chars [simp]:
  "CHR ''|'' \<notin> set grpcXport" "CHR ''|'' \<notin> set grpcsXport" "grpcXport \<noteq> []" "grpcsXport \<noteq> []"
  by (simp_all add: grpcXport_def grpcsXport_def)

text \<open>The tail of a printed ID, and what the optional groups make of it.\<close>

lemma resID_tail_hostcrypto:
  assumes "hc \<in> {[], defaultLuksFormat}"
  shows "opt_group ''|hostcrypto:'' (\<lambda>v. v = ''luks2'')
      (if length hc > 0 then ''|hostcrypto:'' @ hc else []) = (hc, [])"
  using assms opt_group_hit [of "\<lambda>v. v = ''luks2''" "''luks2''" "[]" "''|hostcrypto:''"]
  by (auto simp: defaultLuksFormat_def opt_group_miss)

lemma resIDRegex_match_String:
  assumes wf: "wf_rid vid" and G: "guuid_ok G"
  shows "resIDRegex_match (lbResourceID_String G vid) =
    Some (Slice_String (rid_mgmtEPs vid), guuid_String G (rid_uuid vid), rid_projName vid,
      rid_scheme vid,
      if rid_hostCrypto vid = [] then [] else ''|hostcrypto:'' @ rid_hostCrypto vid)"
proof -
  define hcs where "hcs = (if length (rid_hostCrypto vid) > 0
    then ''|hostcrypto:'' @ rid_hostCrypto vid else [])"
  define ss where "ss = ''|scheme:'' @ rid_scheme vid @ hcs"
  define ps where "ps = (if length (rid_projName vid) > 0
    then ''|proj:'' @ rid_projName vid else []) @ ss"
  have c: "canonical_Slice (rid_mgmtEPs vid)" using wf by (simp add: wf_rid_def)
  have str: "lbResourceID_String G vid = ''mgmt:'' @ Slice_String (rid_mgmtEPs vid) @
      ''|nguid:'' @ guuid_String G (rid_uuid vid) @ ps"
    using wf by (auto simp: lbResourceID_String_def hcs_def ss_def ps_def wf_rid_def)
  have hds: "hcs = [] \<or> hd hcs = CHR ''|''" "hd ss = CHR ''|''" "hd ps = CHR ''|''"
    by (auto simp: hcs_def ss_def ps_def)
  have u: "until_bar (guuid_String G (rid_uuid vid) @ ps) = (guuid_String G (rid_uuid vid), ps)"
    using G hds by (intro until_bar_append) (auto simp: guuid_ok_def uuid_form_chars)
  have m: "until_bar (Slice_String (rid_mgmtEPs vid) @ ''|nguid:'' @ guuid_String G (rid_uuid vid) @ ps)
      = (Slice_String (rid_mgmtEPs vid), ''|nguid:'' @ guuid_String G (rid_uuid vid) @ ps)"
    by (intro until_bar_append) (auto simp: Slice_String_no_bar [OF c])
  have p: "opt_group ''|proj:'' (\<lambda>v. v \<noteq> [] \<and> list_all proj_char v) ps = (rid_projName vid, ss)"
  proof (cases "rid_projName vid = []")
    case True
    then show ?thesis by (simp add: ps_def ss_def opt_group_miss)
  next
    case False
    then have "projNameRegex_match (rid_projName vid)" using wf by (simp add: wf_rid_def)
    with False hds show ?thesis
      using opt_group_hit [of "\<lambda>v. v \<noteq> [] \<and> list_all proj_char v" "rid_projName vid" ss "''|proj:''"]
      by (simp add: ps_def projNameRegex_chars)
  qed
  have sc: "opt_group ''|scheme:'' (\<lambda>v. v = grpcXport \<or> v = grpcsXport) ss = (rid_scheme vid, hcs)"
    unfolding ss_def using wf hds(1) by (intro opt_group_hit) (auto simp: wf_rid_def)
  have h: "opt_group ''|hostcrypto:'' (\<lambda>v. v = ''luks2'') hcs = (rid_hostCrypto vid, [])"
    unfolding hcs_def using wf by (intro resID_tail_hostcrypto) (simp add: wf_rid_def)
  show ?thesis
    unfolding resIDRegex_match_def str strip_prefix_append option.case m Let_def prod.case u p sc h
    using c G by (simp add: Slice_String_not_Nil guuid_ok_def)
qed

lemma parseCSIResourceID_String:
  assumes "wf_rid vid" and "guuid_ok G"
  shows "parseCSIResourceID G (lbResourceID_String G vid) = Inr vid"
proof -
  have ne: "lbResourceID_String G vid \<noteq> []" by (simp add: lbResourceID_String_def)
  have hc: "drop 12 (''|hostcrypto:'' @ rid_hostCrypto vid) = rid_hostCrypto vid" by simp
  show ?thesis
    unfolding parseCSIResourceID_def resIDRegex_match_String [OF assms] option.case prod.case
    using assms ne hc
    by (cases vid) (auto simp: wf_rid_def ParseCSV_Slice_String guuid_ok_def checkProjectName_simps
        grpcXport_def grpcsXport_def)
qed

lemma resIDRegex_matchD:
  assumes "resIDRegex_match s = Some (m1, m2, m4, m6, m7)"
  shows "m6 = [] \<or> m6 = grpcXport \<or> m6 = grpcsXport"
    and "m7 = [] \<or> m7 = ''|hostcrypto:'' @ defaultLuksFormat"
  using assms
  by (auto simp: resIDRegex_match_def Let_def defaultLuksFormat_def dest: opt_group_good
      split: option.splits prod.splits if_splits)

lemma parseCSIResourceID_wf:
  assumes "parseCSIResourceID G s = Inr vid"
  shows "wf_rid vid"
proof -
  obtain m1 m2 m4 m6 m7 where m: "resIDRegex_match s = Some (m1, m2, m4, m6, m7)"
    using assms by (auto simp: parseCSIResourceID_def split: if_splits option.splits)
  have d: "drop 12 (''|hostcrypto:'' @ defaultLuksFormat) = defaultLuksFormat" by simp
  show ?thesis
    using assms m resIDRegex_matchD [OF m] d
    by (auto simp: parseCSIResourceID_def wf_rid_def Let_def checkProjectName_simps ParseCSV_canonical
        split: if_splits option.splits sum.splits)
qed

lemma lbResourceID_String_inj:
  "wf_rid a \<Longrightarrow> wf_rid b \<Longrightarrow> guuid_ok G \<Longrightarrow>
     lbResourceID_String G a = lbResourceID_String G b \<Longrightarrow> a = b"
  by (metis parseCSIResourceID_String sum.inject(2))

lemma parseEinval_Inr: "parseCSIResourceIDEinval G f s = Inr vid \<longleftrightarrow> parseCSIResourceID G s = Inr vid"
  by (auto simp: parseCSIResourceIDEinval_def parseCSIResourceID_def split: sum.splits)

lemma parseEnoent_Inr: "parseCSIResourceIDEnoent G f s = Inr vid \<longleftrightarrow> parseCSIResourceID G s = Inr vid"
  by (auto simp: parseCSIResourceIDEnoent_def parseCSIResourceID_def split: sum.splits)

lemma parseCSICreateVolumeParams_wf:
  assumes "parseCSICreateVolumeParams m = Inr p"
  shows "canonical_Slice (par_mgmtEPs p)" "par_mgmtScheme p \<in> {grpcXport, grpcsXport}"
    "par_hostCrypto p \<in> {[], defaultLuksFormat}"
    "par_projectName p = [] \<or> projNameRegex_match (par_projectName p)"
    "\<not> (par_hostCrypto p \<noteq> [] \<and> par_compression p)"
  using assms
  by (auto simp: parseCSICreateVolumeParams_def Let_def checkProjectName_def ParseCSV_canonical
      split: if_splits sum.splits option.splits)

subsection \<open>Properties\<close>

text \<open>
  C31. Resource IDs round trip: every ID that the parser accepts has non-nil NGUID, canonical
  endpoints, a valid or absent project, a known scheme and host-crypto format, and
  printing and parsing it again gives the same ID.
\<close>

theorem parseCSIResourceID_roundtrip:
  assumes "parseCSIResourceID G s = Inr vid" and "guuid_ok G"
  shows "wf_rid vid \<and> parseCSIResourceID G (lbResourceID_String G vid) = Inr vid"
  using parseCSIResourceID_wf [OF assms(1)] parseCSIResourceID_String assms(2) by blast

text \<open>
  Two well-formed resource IDs with the same string are the same: an orchestrator that
  compares the opaque strings never confuses two volumes.
\<close>

theorem lbResourceID_String_injective:
  assumes "wf_rid a" and "wf_rid b" and "guuid_ok G"
    and "lbResourceID_String G a = lbResourceID_String G b"
  shows "a = b"
  using assms by (rule lbResourceID_String_inj)

text \<open>
  Creation parameters that parse describe a volume the driver can name: with any non-nil
  UUID they make a well-formed resource ID, and host encryption never comes with
  compression.
\<close>

theorem parseCSICreateVolumeParams_rid:
  assumes "parseCSICreateVolumeParams m = Inr p" and "u \<noteq> guuid_Nil"
  shows "wf_rid \<lparr>rid_mgmtEPs = par_mgmtEPs p, rid_uuid = u, rid_projName = par_projectName p,
      rid_scheme = par_mgmtScheme p, rid_hostCrypto = par_hostCrypto p\<rparr> \<and>
    \<not> (par_hostCrypto p \<noteq> [] \<and> par_compression p)"
  using parseCSICreateVolumeParams_wf [OF assms(1)] assms(2) by (simp add: wf_rid_def)

text \<open>
  C38. Capability validation lets through exactly the supported capabilities: a mount with no
  custom flags on an absent, ext4 or xfs file system, or a block device; single-node
  writer mode, and multi-writer mode only for block volumes of a driver in RWX mode.
\<close>

theorem validateVolumeCapability_iff:
  "validateVolumeCapability rwx c = Inr () \<longleftrightarrow>
    (\<exists>cap mode. c = Some cap \<and> cap_AccessMode cap = Some mode \<and>
      ((\<exists>m. cap_AccessType cap = Some (AT_Mount (Some m)) \<and> mnt_MountFlags m = [] \<and>
            mnt_FsType m \<in> {[], Ext4FS, XfsFS} \<and> mode = SINGLE_NODE_WRITER) \<or>
       (\<exists>b. cap_AccessType cap = Some (AT_Block b) \<and>
            (mode = SINGLE_NODE_WRITER \<or> mode = MULTI_NODE_MULTI_WRITER \<and> rwx))))"
  by (auto simp: validateVolumeCapability_def supportedAccessModes_def
      split: option.splits AccessType.splits if_splits)

subsection \<open>Witnesses\<close>

definition sample_rid :: lbResourceID where
  "sample_rid = \<lparr>rid_mgmtEPs = [\<lparr>ep_host = ''a'', ep_port = 1\<rparr>, \<lparr>ep_host = ''b'', ep_port = 2\<rparr>],
     rid_uuid = 7, rid_projName = ''p-1'', rid_scheme = grpcsXport, rid_hostCrypto = defaultLuksFormat\<rparr>"

lemma sample_rid_wf: "wf_rid sample_rid"
  by (simp add: sample_rid_def wf_rid_def canonical_Slice_def wf_EP_def ep_eval
      projNameRegex_match_def lc_alnum_def)

theorem parseCSIResourceID_roundtrip_witness:
  "parseCSIResourceID hex_guuid (lbResourceID_String hex_guuid sample_rid) = Inr sample_rid"
proof -
  have h: "parseCSIResourceID hex_guuid (lbResourceID_String hex_guuid sample_rid) = Inr sample_rid"
    by (rule parseCSIResourceID_String [OF sample_rid_wf guuid_ok_hex])
  show ?thesis using parseCSIResourceID_roundtrip [OF h guuid_ok_hex] by blast
qed

theorem lbResourceID_String_injective_witness:
  "lbResourceID_String hex_guuid sample_rid \<noteq>
   lbResourceID_String hex_guuid (sample_rid\<lparr>rid_hostCrypto := []\<rparr>)"
proof
  assume eq: "lbResourceID_String hex_guuid sample_rid =
    lbResourceID_String hex_guuid (sample_rid\<lparr>rid_hostCrypto := []\<rparr>)"
  have wf: "wf_rid (sample_rid\<lparr>rid_hostCrypto := []\<rparr>)"
    using sample_rid_wf by (simp add: wf_rid_def)
  from lbResourceID_String_injective [OF sample_rid_wf wf guuid_ok_hex eq]
  show False by (simp add: sample_rid_def defaultLuksFormat_def)
qed

definition sample_params :: "string \<rightharpoonup> string" where
  "sample_params = [volParMgmtEPKey \<mapsto> ''b:2,a:1'', volParRepCntKey \<mapsto> ''3'',
     volParProjNameKey \<mapsto> ''p-1'', volHostEncryptionKey \<mapsto> ''enabled'']"

lemmas param_keys =
  volParMgmtEPKey_def volParRepCntKey_def volParCompressKey_def volParProjNameKey_def
  volParMgmtSchemeKey_def volParQosNameKey_def volHostEncryptionKey_def

lemma sample_params_parse:
  "parseCSICreateVolumeParams sample_params =
     Inr \<lparr>par_mgmtEPs = [\<lparr>ep_host = ''a'', ep_port = 1\<rparr>, \<lparr>ep_host = ''b'', ep_port = 2\<rparr>],
       par_replicaCount = 3, par_compression = False, par_projectName = ''p-1'',
       par_mgmtScheme = grpcsXport, par_qosPolicyName = [], par_hostCrypto = defaultLuksFormat\<rparr>"
  by (simp add: parseCSICreateVolumeParams_def sample_params_def map_idx_def param_keys ep_eval
      checkProjectName_def projNameRegex_match_def lc_alnum_def defaultLuksFormat_def)

theorem parseCSICreateVolumeParams_rid_witness:
  "wf_rid \<lparr>rid_mgmtEPs = [\<lparr>ep_host = ''a'', ep_port = 1\<rparr>, \<lparr>ep_host = ''b'', ep_port = 2\<rparr>],
     rid_uuid = 5, rid_projName = ''p-1'', rid_scheme = grpcsXport,
     rid_hostCrypto = defaultLuksFormat\<rparr>"
  using parseCSICreateVolumeParams_rid [OF sample_params_parse, of 5] by simp

end
