(* ===== verification/Wait.thy ===== *)
theory Wait
  imports Complex_Main LB_Client
begin

text \<open>
  \<^verbatim>\<open>pkg/util/wait/wait.go\<close>: retrying with exponential back-off. The polled function
  reports "not yet" (\<open>None\<close>), "done" (\<open>Some\<close> of what its closure captured) or an error.
  Durations are nanoseconds. The factor is the rational value of the source's
  \<open>float64\<close> and the product is truncated towards zero; \<open>float64\<close> rounding is not
  modelled, which is exact for the factors and delays the program uses (below).
\<close>

record Backoff =
  bo_Delay :: int
  bo_Factor :: rat
  bo_DelayLimit :: int
  bo_Retries :: int

definition scale :: "rat \<Rightarrow> int \<Rightarrow> int" where
  "scale factor delay =
     (let q = factor * of_int delay in if 0 \<le> q then \<lfloor>q\<rfloor> else \<lceil>q\<rceil>)"

text \<open>The normalisation of the options before the loop, in the order of the source.\<close>

definition normalize_opts :: "Backoff \<Rightarrow> Backoff" where
  "normalize_opts opts =
     (let opts = (if bo_Factor opts \<le> 0 then opts\<lparr>bo_Factor := 1\<rparr> else opts);
          opts = (if bo_DelayLimit opts < 0 then opts\<lparr>bo_DelayLimit := 0\<rparr> else opts)
      in if bo_DelayLimit opts \<noteq> 0 \<and>
            (bo_DelayLimit opts < bo_Delay opts \<and> 1 < bo_Factor opts \<or>
             bo_Delay opts < bo_DelayLimit opts \<and> bo_Factor opts < 1)
         then opts\<lparr>bo_Delay := bo_DelayLimit opts\<rparr> else opts)"

definition next_delay :: "Backoff \<Rightarrow> int \<Rightarrow> int" where
  "next_delay opts delay =
     (let delay = scale (bo_Factor opts) delay
      in if bo_DelayLimit opts \<noteq> 0 \<and> 1 < bo_Factor opts \<and> bo_DelayLimit opts < delay \<or>
            bo_Factor opts < 1 \<and> delay < bo_DelayLimit opts
         then bo_DelayLimit opts else delay)"

text \<open>
  The loop: \<open>n\<close> iterations are left; every iteration but the first (\<open>i = 0\<close>) sleeps and
  then updates the delay.
\<close>

primrec backoff_loop ::
  "'s env \<Rightarrow> Backoff \<Rightarrow> ('s, gerr, 'a option) io \<Rightarrow> nat \<Rightarrow> bool \<Rightarrow> int \<Rightarrow> ('s, gerr, 'a) io"
where
  "backoff_loop E opts fn 0 first delay = fail (Status codes_DeadlineExceeded [])"
| "backoff_loop E opts fn (Suc n) first delay = do {
     _ \<leftarrow> (if first then State_Monad.return () else env_Sleep E delay);
     let delay = (if first then delay else next_delay opts delay);
     r \<leftarrow> fn;
     (case r of
        Inl err \<Rightarrow> fail err
      | Inr (Some a) \<Rightarrow> ok a
      | Inr None \<Rightarrow> backoff_loop E opts fn n False delay)
   }"

definition WithExponentialBackoff ::
  "'s env \<Rightarrow> Backoff \<Rightarrow> ('s, gerr, 'a option) io \<Rightarrow> ('s, gerr, 'a) io" where
  "WithExponentialBackoff E opts fn =
     (let opts = normalize_opts opts
      in backoff_loop E opts fn (nat (bo_Retries opts)) True (bo_Delay opts))"

definition WithRetries ::
  "'s env \<Rightarrow> int \<Rightarrow> int \<Rightarrow> ('s, gerr, 'a option) io \<Rightarrow> ('s, gerr, 'a) io" where
  "WithRetries E retries delay fn =
     WithExponentialBackoff E
       \<lparr>bo_Delay = delay, bo_Factor = 0, bo_DelayLimit = 0, bo_Retries = retries\<rparr> fn"

text \<open>The delays slept by a run that never gets done.\<close>

primrec delays_from :: "Backoff \<Rightarrow> nat \<Rightarrow> int \<Rightarrow> int list" where
  "delays_from opts 0 delay = []"
| "delays_from opts (Suc n) delay = delay # delays_from opts n (next_delay opts delay)"

definition backoff_delays :: "Backoff \<Rightarrow> int list" where
  "backoff_delays opts =
     (let opts = normalize_opts opts
      in delays_from opts (nat (bo_Retries opts) - 1) (bo_Delay opts))"

subsection \<open>Lemmas\<close>

text \<open>
  What a finished retry loop tells: a value comes from a call of the polled function that
  was the last thing to happen; an error is the polled function's, again from its last
  call, or the timeout.
\<close>

lemma backoff_loop_Inr:
  assumes "run_state (backoff_loop E opts fn n first delay) s = (Inr a, t)"
  shows "\<exists>s'. run_state fn s' = (Inr (Some a), t)"
  using assms
proof (induction n arbitrary: first delay s)
  case 0
  then show ?case by simp
next
  case (Suc n)
  from Suc.prems Suc.IH show ?case
    by (fastforce split: prod.splits sum.splits option.splits if_splits)
qed

lemma backoff_loop_Inl:
  assumes "run_state (backoff_loop E opts fn n first delay) s = (Inl err, t)"
  shows "err = Status codes_DeadlineExceeded [] \<or> (\<exists>s'. run_state fn s' = (Inl err, t))"
  using assms
proof (induction n arbitrary: first delay s)
  case 0
  then show ?case by simp
next
  case (Suc n)
  from Suc.prems Suc.IH show ?case
    by (fastforce split: prod.splits sum.splits option.splits if_splits)
qed

lemma backoff_loop_invariant:
  assumes "run_state (backoff_loop E opts fn n first delay) s = (r, t)" and "P s"
    and "\<And>d s s'. run_state (env_Sleep E d) s = ((), s') \<Longrightarrow> P s \<Longrightarrow> P s'"
    and "\<And>s r s'. run_state fn s = (r, s') \<Longrightarrow> P s \<Longrightarrow> P s'"
  shows "P t"
  using assms(1,2)
proof (induction n arbitrary: first delay s)
  case 0
  then show ?case by simp
next
  case (Suc n)
  from Suc.prems Suc.IH show ?case
    by (auto split: prod.splits sum.splits option.splits if_splits
        intro: assms(3) assms(4) dest!: assms(4) assms(3))
qed

lemma normalize_opts_Retries [simp]: "bo_Retries (normalize_opts opts) = bo_Retries opts"
  by (simp add: normalize_opts_def Let_def)

lemma WithExponentialBackoff_Inr:
  "run_state (WithExponentialBackoff E opts fn) s = (Inr a, t) \<Longrightarrow>
     \<exists>s'. run_state fn s' = (Inr (Some a), t)"
  unfolding WithExponentialBackoff_def Let_def by (rule backoff_loop_Inr)

lemma WithExponentialBackoff_Inl:
  "run_state (WithExponentialBackoff E opts fn) s = (Inl err, t) \<Longrightarrow>
     err = Status codes_DeadlineExceeded [] \<or> (\<exists>s'. run_state fn s' = (Inl err, t))"
  unfolding WithExponentialBackoff_def Let_def by (rule backoff_loop_Inl)

lemma WithExponentialBackoff_invariant:
  assumes "run_state (WithExponentialBackoff E opts fn) s = (r, t)" and "P s"
    and "\<And>d s s'. run_state (env_Sleep E d) s = ((), s') \<Longrightarrow> P s \<Longrightarrow> P s'"
    and "\<And>s r s'. run_state fn s = (r, s') \<Longrightarrow> P s \<Longrightarrow> P s'"
  shows "P t"
  using assms(1) unfolding WithExponentialBackoff_def Let_def
  by (rule backoff_loop_invariant) (use assms in auto)

text \<open>
  \<open>pending E fn ds s t\<close>: from \<open>s\<close> the polled function says "not yet" once for each delay of \<open>ds\<close>, the
  delay is slept after it, and \<open>t\<close> is the state then.
\<close>

fun pending :: "'s env \<Rightarrow> ('s, gerr, 'a option) io \<Rightarrow> int list \<Rightarrow> 's \<Rightarrow> 's \<Rightarrow> bool" where
  "pending E fn [] s t \<longleftrightarrow> t = s"
| "pending E fn (d # ds) s t \<longleftrightarrow>
     (\<exists>s1. run_state fn s = (Inr None, s1) \<and> pending E fn ds (snd (run_state (env_Sleep E d) s1)) t)"

text \<open>The call that ends the loop: it is done, it fails, or it is the last one.\<close>

definition last_poll ::
  "('s, gerr, 'a option) io \<Rightarrow> bool \<Rightarrow> 's \<Rightarrow> gerr + 'a \<Rightarrow> 's \<Rightarrow> bool" where
  "last_poll fn is_last s r t \<longleftrightarrow>
     run_state fn s = (case r of Inl err \<Rightarrow> Inl err | Inr a \<Rightarrow> Inr (Some a), t) \<or>
     is_last \<and> run_state fn s = (Inr None, t) \<and> r = Inl (Status codes_DeadlineExceeded [])"

lemma last_poll_cases:
  "last_poll fn l s r t \<longleftrightarrow>
     (case run_state fn s of
        (Inl err, t') \<Rightarrow> r = Inl err \<and> t = t'
      | (Inr (Some a), t') \<Rightarrow> r = Inr a \<and> t = t'
      | (Inr None, t') \<Rightarrow> l \<and> r = Inl (Status codes_DeadlineExceeded []) \<and> t = t')"
  by (cases "run_state fn s") (auto simp: last_poll_def split: sum.splits option.splits)

text \<open>The rest of the loop after a call has been made, with \<open>n\<close> more to come.\<close>

lemma backoff_loop_polls:
  "run_state (do { r \<leftarrow> fn; (case r of Inl err \<Rightarrow> fail err | Inr (Some a) \<Rightarrow> ok a
       | Inr None \<Rightarrow> backoff_loop E opts fn n False delay) }) s = (r, t) \<longleftrightarrow>
     (\<exists>k s'. k \<le> n \<and> pending E fn (take k (delays_from opts n delay)) s s' \<and>
        last_poll fn (k = n) s' r t)"
proof (induction n arbitrary: delay s)
  case 0
  then show ?case by (auto simp: last_poll_cases split: prod.splits sum.splits option.splits)
next
  case (Suc n)
  obtain q s1 where q: "run_state fn s = (q, s1)" by fastforce
  let ?s2 = "snd (run_state (env_Sleep E delay) s1)"
  let ?P = "\<lambda>k. \<exists>s'. pending E fn (take k (delays_from opts (Suc n) delay)) s s' \<and> last_poll fn (k = Suc n) s' r t"
  have split: "(\<exists>k s'. k \<le> Suc n \<and> pending E fn (take k (delays_from opts (Suc n) delay)) s s' \<and>
      last_poll fn (k = Suc n) s' r t) \<longleftrightarrow> ?P 0 \<or> (\<exists>k \<le> n. ?P (Suc k))"
    by (metis Suc_le_mono le0 not0_implies_Suc)
  show ?case
  proof (cases "q = Inr None")
    case True
    have "run_state (backoff_loop E opts fn (Suc n) False delay) s1 = (r, t) \<longleftrightarrow> (\<exists>k \<le> n. ?P (Suc k))"
      using Suc.IH [of "next_delay opts delay" ?s2] q True
      by (cases "run_state (env_Sleep E delay) s1") (auto simp: Let_def)
    moreover have "\<not> ?P 0" using q True by (simp add: last_poll_cases)
    ultimately show ?thesis unfolding split using q True by simp
  next
    case False
    then have "\<not> (\<exists>k \<le> n. ?P (Suc k))" using q by auto
    then show ?thesis unfolding split using q False
      by (auto simp: last_poll_cases split: sum.splits option.splits)
  qed
qed

lemma backoff_loop_sleeps:
  "run_state (backoff_loop E opts (ok None) n False delay) s =
     (Inl (Status codes_DeadlineExceeded []),
      foldl (\<lambda>s d. snd (run_state (env_Sleep E d) s)) s (delays_from opts n delay))"
  by (induction n arbitrary: delay s) (auto simp: Let_def split: prod.splits)

lemma next_delay_le: "1 < bo_Factor opts \<Longrightarrow> 0 < bo_DelayLimit opts \<Longrightarrow>
    next_delay opts delay \<le> bo_DelayLimit opts"
  by (auto simp: next_delay_def Let_def)

lemma delays_from_le:
  "1 < bo_Factor opts \<Longrightarrow> 0 < bo_DelayLimit opts \<Longrightarrow> delay \<le> bo_DelayLimit opts \<Longrightarrow>
    d \<in> set (delays_from opts n delay) \<Longrightarrow> d \<le> bo_DelayLimit opts"
  by (induction n arbitrary: delay) (auto dest: next_delay_le)

subsection \<open>Loops that count down\<close>

text \<open>
  A polled loop ends if the state has a counter that polls keep while it is positive, sleeps
  decrease, and at which zero the poll is done.
\<close>

lemma backoff_loop_total:
  assumes again: "\<And>k s. P (Suc k) s \<Longrightarrow> run_state fn s = (Inr None, s)"
    and finish: "\<And>s. P 0 s \<Longrightarrow> \<exists>a t. run_state fn s = (Inr (Some a), t) \<and> Q a t"
    and tick: "\<And>k dl s t. P k s \<Longrightarrow> run_state (env_Sleep E dl) s = ((), t) \<Longrightarrow> \<exists>j \<le> k - 1. P j t"
    and "P k s" and "k < n + (if first then 0 else 1)" and "0 < n"
  shows "\<exists>a t. run_state (backoff_loop E opts fn n first dl) s = (Inr a, t) \<and> Q a t"
  using assms(4-6)
proof (induction n arbitrary: k s first dl)
  case 0
  then show ?case by simp
next
  case (Suc n)
  obtain s1 where s1: "run_state (if first then State_Monad.return () else env_Sleep E dl) s = ((), s1)"
    by (cases "run_state (if first then State_Monad.return () else env_Sleep E dl) s") auto
  obtain j where j: "P j s1" "j < Suc n"
  proof (cases first)
    case True
    with s1 Suc.prems that [of k] show ?thesis by simp
  next
    case False
    with s1 tick [OF Suc.prems(1)] Suc.prems(2) that show ?thesis by fastforce
  qed
  show ?case
  proof (cases j)
    case 0
    with j(1) finish obtain a t where "run_state fn s1 = (Inr (Some a), t)" "Q a t" by blast
    with s1 show ?thesis by simp
  next
    case (Suc j')
    with j have p: "P (Suc j') s1" "Suc j' < n + 1" "0 < n" by simp_all
    from Suc.IH [OF p(1), of False] p again [OF p(1)] s1 show ?thesis by simp
  qed
qed

lemma WithExponentialBackoff_total:
  assumes "\<And>k s. P (Suc k) s \<Longrightarrow> run_state fn s = (Inr None, s)"
    and "\<And>s. P 0 s \<Longrightarrow> \<exists>a t. run_state fn s = (Inr (Some a), t) \<and> Q a t"
    and "\<And>k dl s t. P k s \<Longrightarrow> run_state (env_Sleep E dl) s = ((), t) \<Longrightarrow> \<exists>j \<le> k - 1. P j t"
    and "P k s" and "int k < bo_Retries opts"
  shows "\<exists>a t. run_state (WithExponentialBackoff E opts fn) s = (Inr a, t) \<and> Q a t"
  unfolding WithExponentialBackoff_def Let_def
  by (rule backoff_loop_total [where P = P, OF assms(1-4)]) (use assms(5) in auto)

subsection \<open>Properties\<close>

text \<open>
  C36. The outcome of a retry loop. Without a positive number of retries the function is not called.
  Otherwise there is a number \<open>k\<close> of calls that said "not yet", each followed by a sleep of the next
  delay of the back-off sequence, and one more call: the loop returns its value or its error, or,
  only if this was the last of exactly \<open>Retries\<close> calls and it said "not yet" as well, \<open>DeadlineExceeded\<close>.
\<close>

theorem WithExponentialBackoff_outcome:
  "run_state (WithExponentialBackoff E opts fn) s = (r, t) \<longleftrightarrow>
    (if bo_Retries opts \<le> 0 then r = Inl (Status codes_DeadlineExceeded []) \<and> t = s
     else \<exists>k s'. int k < bo_Retries opts \<and> pending E fn (take k (backoff_delays opts)) s s' \<and>
       last_poll fn (int k = bo_Retries opts - 1) s' r t)"
proof (cases "nat (bo_Retries opts)")
  case 0
  then show ?thesis by (auto simp: WithExponentialBackoff_def Let_def)
next
  case (Suc n)
  then have eq: "int k < bo_Retries opts \<longleftrightarrow> k \<le> n" "int k = bo_Retries opts - 1 \<longleftrightarrow> k = n"
    and pos: "\<not> bo_Retries opts \<le> 0" for k
    by auto
  have "run_state (WithExponentialBackoff E opts fn) s =
      run_state (do { r \<leftarrow> fn; (case r of Inl err \<Rightarrow> fail err | Inr (Some a) \<Rightarrow> ok a
        | Inr None \<Rightarrow> backoff_loop E (normalize_opts opts) fn n False (bo_Delay (normalize_opts opts))) }) s"
    by (simp add: WithExponentialBackoff_def Suc Let_def)
  then show ?thesis
    using backoff_loop_polls [of fn E "normalize_opts opts" n "bo_Delay (normalize_opts opts)" s r t] Suc pos
    by (simp add: eq backoff_delays_def Let_def)
qed

text \<open>
  A run that never gets done sleeps exactly the delays of the back-off sequence, one
  before each call but the first, and with a growing factor and a limit none of them
  exceeds the limit.
\<close>

theorem WithExponentialBackoff_sleeps:
  assumes "0 < bo_Retries opts" and "1 < bo_Factor opts" and "0 < bo_DelayLimit opts"
  shows "run_state (WithExponentialBackoff E opts (ok None)) s =
      (Inl (Status codes_DeadlineExceeded []),
       foldl (\<lambda>s d. snd (run_state (env_Sleep E d) s)) s (backoff_delays opts)) \<and>
    length (backoff_delays opts) = nat (bo_Retries opts) - 1 \<and>
    list_all (\<lambda>d. d \<le> bo_DelayLimit opts) (backoff_delays opts)"
proof -
  obtain n where n: "nat (bo_Retries opts) = Suc n"
    using assms(1) by (cases "nat (bo_Retries opts)") auto
  have len: "length (delays_from o' m d) = m" for o' m d
    by (induction m arbitrary: d) auto
  have norm: "1 < bo_Factor (normalize_opts opts)"
    "bo_DelayLimit (normalize_opts opts) = bo_DelayLimit opts"
    "bo_Delay (normalize_opts opts) \<le> bo_DelayLimit opts"
    using assms by (auto simp: normalize_opts_def Let_def)
  have "list_all (\<lambda>d. d \<le> bo_DelayLimit opts)
      (delays_from (normalize_opts opts) n (bo_Delay (normalize_opts opts)))"
    using delays_from_le [of "normalize_opts opts"] norm assms by (auto simp: list_all_iff)
  with n show ?thesis
    using backoff_loop_sleeps [of E "normalize_opts opts" n]
    by (simp add: WithExponentialBackoff_def backoff_delays_def Let_def len)
qed

subsection \<open>Witnesses\<close>

text \<open>The sleeping world: the trace of the delays slept so far.\<close>

definition trace_env :: "int list env" where
  "trace_env = \<lparr>env_Now = State_Monad.return 0, env_Sleep = (\<lambda>d. State (\<lambda>tr. ((), tr @ [d]))),
     env_CtxErr = (\<lambda>_. State_Monad.return None)\<rparr>"

theorem WithExponentialBackoff_sleeps_witness:
  "run_state (WithExponentialBackoff trace_env
      \<lparr>bo_Delay = 250, bo_Factor = 2, bo_DelayLimit = 600, bo_Retries = 4\<rparr> (ok None)) [] =
    (Inl (Status codes_DeadlineExceeded []) :: gerr + nat, [250, 500, 600])"
proof -
  let ?o = "\<lparr>bo_Delay = 250, bo_Factor = 2, bo_DelayLimit = 600, bo_Retries = 4\<rparr>"
  have "backoff_delays ?o = [250, 500, 600]"
    by (simp add: backoff_delays_def normalize_opts_def next_delay_def scale_def numeral_eq_Suc
        del: of_int_numeral) (simp add: numeral_eq_Suc)
  then show ?thesis
    using WithExponentialBackoff_sleeps [of ?o trace_env "[]"] by (simp add: trace_env_def)
qed

text \<open>A polled function that counts its calls and is done at the third one.\<close>

definition third_time :: "(nat, gerr, nat option) io" where
  "third_time = State (\<lambda>n. (Inr (if n = 2 then Some n else None), Suc n))"

theorem WithExponentialBackoff_outcome_witness:
  "run_state (WithExponentialBackoff \<lparr>env_Now = State_Monad.return 0,
       env_Sleep = (\<lambda>d. State_Monad.return ()), env_CtxErr = (\<lambda>_. State_Monad.return None)\<rparr>
     \<lparr>bo_Delay = 1, bo_Factor = 0, bo_DelayLimit = 0, bo_Retries = 5\<rparr> third_time) 0 = (Inr 2, 3)"
proof -
  let ?E = "\<lparr>env_Now = State_Monad.return 0, env_Sleep = (\<lambda>d. State_Monad.return ()),
    env_CtxErr = (\<lambda>_. State_Monad.return None)\<rparr> :: nat env"
  let ?o = "\<lparr>bo_Delay = 1, bo_Factor = 0, bo_DelayLimit = 0, bo_Retries = 5\<rparr>"
  have "backoff_delays ?o = [1, 1, 1, 1]"
    by (simp add: backoff_delays_def normalize_opts_def next_delay_def scale_def numeral_eq_Suc)
  then have "pending ?E third_time (take 2 (backoff_delays ?o)) 0 2 \<and> last_poll third_time False 2 (Inr 2) 3"
    by (simp add: third_time_def last_poll_def numeral_eq_Suc)
  then show ?thesis
    unfolding WithExponentialBackoff_outcome by (simp, intro exI [of _ 2]) auto
qed

end
