(* ===== verification/LBGRPC.thy ===== *)
theory LBGRPC
  imports Wait Guuid
begin

text \<open>
  \<^verbatim>\<open>pkg/lb/lbgrpc/client.go\<close>: the LightOS client over the gRPC management API, and the
  resolver that rotates the cluster's endpoints. The management service itself is the
  parameter \<open>'s DurosAPI\<close>: one function per remote call, acting on the world. A request
  or response is a record of the fields the client uses, a pointer that may be nil is an
  option. Enumerations travel as their numbers, as in the generated code. The statistics
  of a volume are taken as present: the code dereferences them unconditionally.
\<close>

subsection \<open>Constants\<close>

definition MaxReplicaCount :: uint32 where "MaxReplicaCount = 128"

definition millisecond :: int where "millisecond = 1000000"

definition second :: int where "second = 1000 * millisecond"

definition defaultTimeout :: int where "defaultTimeout = 10 * second"

definition ifMatchHeader :: string where "ifMatchHeader = ''if-match''"

definition supportedAPIVersions :: "string list" where
  "supportedAPIVersions = [''v2.0'']"

definition CreateRetryOpts :: Backoff where
  "CreateRetryOpts = \<lparr>bo_Delay = 250 * millisecond, bo_Factor = 2, bo_DelayLimit = 2 * second,
     bo_Retries = 8\<rparr>"

definition DeleteRetryOpts :: Backoff where
  "DeleteRetryOpts = \<lparr>bo_Delay = 200 * millisecond, bo_Factor = 2, bo_DelayLimit = 1 * second,
     bo_Retries = 15\<rparr>"

definition UpdateRetryOpts :: Backoff where
  "UpdateRetryOpts = \<lparr>bo_Delay = 250 * millisecond, bo_Factor = 3 / 2,
     bo_DelayLimit = 1 * second, bo_Retries = 15\<rparr>"

subsection \<open>The cluster resolver\<close>

text \<open>\<open>res_addrs\<close> is what the connection was last told by \<open>cc.NewAddress\<close>.\<close>

record lbResolver =
  res_scheme :: string
  res_eps :: Slice
  res_tgts :: string
  res_addrs :: "string list"

definition newLbResolver :: "string \<Rightarrow> Slice \<Rightarrow> lbResolver" where
  "newLbResolver scheme targets =
     \<lparr>res_scheme = scheme, res_eps = Slice_Clone targets, res_tgts = Slice_String targets,
      res_addrs = []\<rparr>"

definition lbResolver_Scheme :: "lbResolver \<Rightarrow> string" where
  "lbResolver_Scheme r = res_scheme r"

definition lbResolver_Close :: "lbResolver \<Rightarrow> lbResolver" where
  "lbResolver_Close r = r"

definition updateCCState :: "lbResolver \<Rightarrow> lbResolver" where
  "updateCCState r = r\<lparr>res_addrs := map EP_String (res_eps r)\<rparr>"

definition Build :: "lbResolver \<Rightarrow> lbResolver" where
  "Build r = updateCCState r"

definition ResolveNow :: "lbResolver \<Rightarrow> lbResolver" where
  "ResolveNow r =
     (let r = (if 1 < length (res_eps r)
               then r\<lparr>res_eps := tl (res_eps r) @ [hd (res_eps r)]\<rparr> else r);
          r = r\<lparr>res_tgts := Slice_String (res_eps r)\<rparr>
      in updateCCState r)"

subsection \<open>The management service\<close>

abbreviation Volume_Creating :: uint32 where "Volume_Creating \<equiv> 1"
abbreviation Volume_Available :: uint32 where "Volume_Available \<equiv> 2"
abbreviation Volume_Deleting :: uint32 where "Volume_Deleting \<equiv> 3"
abbreviation Volume_Deleted :: uint32 where "Volume_Deleted \<equiv> 4"
abbreviation Volume_Failed :: uint32 where "Volume_Failed \<equiv> 7"
abbreviation Volume_Updating :: uint32 where "Volume_Updating \<equiv> 8"
abbreviation Volume_Rollback :: uint32 where "Volume_Rollback \<equiv> 9"
abbreviation Volume_Migrating :: uint32 where "Volume_Migrating \<equiv> 10"

abbreviation ProtectionStateEnum_Unknown :: uint32 where "ProtectionStateEnum_Unknown \<equiv> 0"
abbreviation ProtectionStateEnum_FullyProtected :: uint32
  where "ProtectionStateEnum_FullyProtected \<equiv> 1"
abbreviation ProtectionStateEnum_Degraded :: uint32 where "ProtectionStateEnum_Degraded \<equiv> 2"
abbreviation ProtectionStateEnum_ReadOnly :: uint32 where "ProtectionStateEnum_ReadOnly \<equiv> 3"
abbreviation ProtectionStateEnum_NotAvailable :: uint32
  where "ProtectionStateEnum_NotAvailable \<equiv> 4"

abbreviation DurosNodeInfo_Active :: uint32 where "DurosNodeInfo_Active \<equiv> 1"
abbreviation DurosNodeInfo_Activating :: uint32 where "DurosNodeInfo_Activating \<equiv> 2"
abbreviation DurosNodeInfo_Inactive :: uint32 where "DurosNodeInfo_Inactive \<equiv> 3"
abbreviation DurosNodeInfo_Unattached :: uint32 where "DurosNodeInfo_Unattached \<equiv> 4"
abbreviation DurosNodeInfo_Attaching :: uint32 where "DurosNodeInfo_Attaching \<equiv> 6"
abbreviation DurosNodeInfo_Detaching :: uint32 where "DurosNodeInfo_Detaching \<equiv> 7"

abbreviation Snapshot_Creating :: uint32 where "Snapshot_Creating \<equiv> 1"
abbreviation Snapshot_Available :: uint32 where "Snapshot_Available \<equiv> 2"
abbreviation Snapshot_Deleting :: uint32 where "Snapshot_Deleting \<equiv> 3"
abbreviation Snapshot_Failed :: uint32 where "Snapshot_Failed \<equiv> 7"

record mgmt_Volume =
  mv_Name :: string
  mv_UUID :: string
  mv_State :: uint32
  mv_ProtectionState :: uint32
  mv_ReplicaCount :: uint32
  mv_Acl :: "string list"
  mv_Size :: uint64
  mv_LogicalUsedStorage :: uint64
  mv_Compression :: string
  mv_SourceSnapshotUUID :: string
  mv_ETag :: string
  mv_ProjectName :: string
  mv_QosPolicyName :: string

text \<open>\<open>ms_CreationTime\<close>: nil, invalid, or a valid time.\<close>

record mgmt_Snapshot =
  ms_Name :: string
  ms_UUID :: string
  ms_SourceVolumeUUID :: string
  ms_SourceVolumeName :: string
  ms_State :: uint32
  ms_CreationTime :: "int option option"
  ms_Size :: uint64
  ms_ReplicaCount :: uint32
  ms_Compression :: bool
  ms_ETag :: string
  ms_ProjectName :: string

record mgmt_Node =
  mn_Name :: string
  mn_UUID :: string
  mn_NvmeEndpoint :: string
  mn_Hostname :: string
  mn_State :: uint32

text \<open>\<open>mc_EstimatedFreeLogicalStorage\<close> is 0 when the statistics are nil (nil-safe getter).\<close>

record mgmt_Cluster =
  mc_UUID :: string
  mc_SubsystemNQN :: string
  mc_CurrentMaxReplicas :: uint32
  mc_SupportedMaxReplicas :: uint32
  mc_DiscoveryEndpoints :: "string list"
  mc_ApiEndpoints :: "string list"
  mc_NvmeEndpoints :: "string list"
  mc_EstimatedFreeLogicalStorage :: uint64

record CreateVolumeRequest =
  cvr_Name :: string
  cvr_Size :: string
  cvr_Acl :: "string list"
  cvr_Compression :: string
  cvr_ReplicaCount :: uint32
  cvr_ProjectName :: string
  cvr_QosPolicyName :: string
  cvr_SourceSnapshotUUID :: string

text \<open>\<open>uvr_Acl\<close> nil and \<open>uvr_Size\<close> empty leave the field as it is.\<close>

record UpdateVolumeRequest =
  uvr_UUID :: string
  uvr_ProjectName :: string
  uvr_Acl :: "string list option"
  uvr_Size :: string

text \<open>The common shape of the get and delete requests of volumes and snapshots.\<close>

record IDRequest =
  idr_UUID :: string
  idr_Name :: string
  idr_ProjectName :: string

record CreateSnapshotRequest =
  csr_Name :: string
  csr_SourceVolumeUUID :: string
  csr_Description :: string
  csr_ProjectName :: string

record 's DurosAPI =
  api_GetVersion :: "Ctx \<Rightarrow> ('s, gerr, string) io"
  api_GetClusterInfo :: "Ctx \<Rightarrow> ('s, gerr, mgmt_Cluster) io"
  api_GetCluster :: "Ctx \<Rightarrow> ('s, gerr, mgmt_Cluster) io"
  api_ListNodes :: "Ctx \<Rightarrow> ('s, gerr, mgmt_Node option list) io"
  api_CreateVolume :: "Ctx \<Rightarrow> CreateVolumeRequest \<Rightarrow> ('s, gerr, mgmt_Volume option) io"
  api_DeleteVolume :: "Ctx \<Rightarrow> IDRequest \<Rightarrow> ('s, gerr, unit) io"
  api_GetVolume :: "Ctx \<Rightarrow> IDRequest \<Rightarrow> ('s, gerr, mgmt_Volume option) io"
  api_UpdateVolume :: "Ctx \<Rightarrow> UpdateVolumeRequest \<Rightarrow> ('s, gerr, unit) io"
  api_CreateSnapshot :: "Ctx \<Rightarrow> CreateSnapshotRequest \<Rightarrow> ('s, gerr, mgmt_Snapshot option) io"
  api_DeleteSnapshot :: "Ctx \<Rightarrow> IDRequest \<Rightarrow> ('s, gerr, unit) io"
  api_GetSnapshot :: "Ctx \<Rightarrow> IDRequest \<Rightarrow> ('s, gerr, mgmt_Snapshot option) io"

text \<open>
  The client. \<open>gc_guuid\<close> is the UUID package, \<open>gc_env\<close> the runtime, \<open>gc_conn_Close\<close> the
  closing of the connection.
\<close>

record 's GrpcClient =
  gc_eps :: Slice
  gc_conn_Close :: "('s, unit) state"
  gc_clnt :: "'s DurosAPI"
  gc_id :: string
  gc_tgts :: string
  gc_guuid :: guuid
  gc_env :: "'s env"

subsection \<open>Dialling\<close>

datatype transport = WithInsecure | WithTLS | NoTransport

definition base36_char :: "nat \<Rightarrow> char" where
  "base36_char d = ''0123456789abcdefghijklmnopqrstuvwxyz'' ! d"

fun FormatUint36 :: "nat \<Rightarrow> string" where
  "FormatUint36 n =
     (if n < 36 then [base36_char n] else FormatUint36 (n div 36) @ [base36_char (n mod 36)])"

declare FormatUint36.simps [simp del]

text \<open>\<open>fmt.Sprintf("%07s", ...)\<close>: padded with zeroes on the left to seven characters.\<close>

definition clientID :: "uint32 \<Rightarrow> string" where
  "clientID rnd =
     (let s = FormatUint36 (unat rnd) in replicate (7 - length s) CHR ''0'' @ s)"

text \<open>
  \<open>dial\<close> is \<open>grpc.DialContext\<close> with its fixed options: it gets the target, the resolver and
  the transport, and returns the close function and the service of the connection.
\<close>

definition Dial ::
  "guuid \<Rightarrow> 's env \<Rightarrow>
   (Ctx \<Rightarrow> string \<Rightarrow> lbResolver \<Rightarrow> transport \<Rightarrow> ('s, gerr, ('s, unit) state \<times> 's DurosAPI) io) \<Rightarrow>
   uint32 \<Rightarrow> Ctx \<Rightarrow> Slice \<Rightarrow> string \<Rightarrow> ('s, gerr, 's GrpcClient) io" where
  "Dial G E dial rnd ctx targets mgmtScheme =
     (if \<not> Slice_IsValid targets then fail (Status codes_InvalidArgument [])
      else
        let i = clientID rnd;
            eps = Slice_Clone targets;
            scheme = ''lightos-'' @ i;
            lbr = newLbResolver scheme eps;
            creds = (if mgmtScheme = ''grpc'' then WithInsecure
                     else if mgmtScheme = ''grpcs'' then WithTLS else NoTransport)
        in do {
          r \<leftarrow> dial ctx (scheme @ '':///lb-resolver'') lbr creds;
          (case r of
             Inl err \<Rightarrow> fail err
           | Inr (close, api) \<Rightarrow>
               ok \<lparr>gc_eps = eps, gc_conn_Close = close, gc_clnt = api, gc_id = i,
                   gc_tgts = Slice_String targets, gc_guuid = G, gc_env = E\<rparr>)
        })"

text \<open>
  The package's own copy of \<open>isStatusNotFound\<close>.
\<close>

definition lb_isStatusNotFound :: "gerr \<Rightarrow> bool" where
  "lb_isStatusNotFound err =
     (case status_FromError err of
        Some c \<Rightarrow> if c = codes_NotFound then True else False
      | None \<Rightarrow> False)"

lemma lb_isStatusNotFound [simp]: "lb_isStatusNotFound = isStatusNotFound"
  by (rule ext) (simp add: lb_isStatusNotFound_def isStatusNotFound_def)

text \<open>
  The peer tracking interceptor: \<open>net.Addr\<close> values are compared by identity, so an address
  is its identity and its text; nil is \<open>None\<close>. The result is the new (lastPeer, switched)
  and the message logged, if any.
\<close>

type_synonym peer_addr = "(nat \<times> string) option"

definition none :: string where "none = ''<NONE>''"

definition peerReviewUnaryInterceptor ::
  "peer_addr \<times> bool \<Rightarrow> peer_addr \<Rightarrow> (peer_addr \<times> bool) \<times> (loglevel \<times> string \<times> string) option"
where
  "peerReviewUnaryInterceptor c currPeer =
     (case c of (lastPeer, switched) \<Rightarrow>
        if currPeer \<noteq> lastPeer then
          let curr = (case currPeer of None \<Rightarrow> none | Some (_, a) \<Rightarrow> a);
              lst = (case lastPeer of None \<Rightarrow> none | Some (_, a) \<Rightarrow> a)
          in if switched then ((currPeer, switched), Some (WarnLevel, lst, curr))
             else ((currPeer, True), Some (InfoLevel, lst, curr))
        else (c, None))"

definition mkUnaryClientInterceptor ::
  "peer_addr \<times> bool \<Rightarrow> peer_addr \<Rightarrow> (peer_addr \<times> bool) \<times> (loglevel \<times> string \<times> string) option"
where
  "mkUnaryClientInterceptor clnt = (\<lambda>currPeer. peerReviewUnaryInterceptor clnt currPeer)"

subsection \<open>Cluster and nodes\<close>

definition Client_Close :: "'s GrpcClient \<Rightarrow> ('s, unit) state" where
  "Client_Close c = gc_conn_Close c"

definition Client_Targets :: "'s GrpcClient \<Rightarrow> string" where
  "Client_Targets c = gc_tgts c"

definition Client_ID :: "'s GrpcClient \<Rightarrow> string" where
  "Client_ID c = gc_id c"

definition Client_RemoteOk :: "'s GrpcClient \<Rightarrow> Ctx \<Rightarrow> ('s, gerr, unit) io" where
  "Client_RemoteOk c ctx = do {
     ver \<leftarrow> api_GetVersion (gc_clnt c) ctx;
     (case ver of
        Inl err \<Rightarrow> fail err
      | Inr v \<Rightarrow>
          if v \<in> set supportedAPIVersions then ok () else fail (Status codes_Unimplemented []))
   }"

text \<open>The checks that \<open>GetClusterInfo\<close> and \<open>GetCluster\<close> share: the UUID and the subsystem NQN.\<close>

definition check_cluster :: "'s GrpcClient \<Rightarrow> mgmt_Cluster \<Rightarrow> gerr + UUID" where
  "check_cluster c cluster =
     (case guuid_Parse (gc_guuid c) (mc_UUID cluster) of
        None \<Rightarrow> Inl (Status codes_Internal [])
      | Some uuid \<Rightarrow>
          if uuid = guuid_Nil then Inl (Status codes_Internal [])
          else if \<not> strings_HasPrefix (mc_SubsystemNQN cluster) ''nqn''
          then Inl (Status codes_Internal [])
          else Inr uuid)"

definition Client_GetClusterInfo :: "'s GrpcClient \<Rightarrow> Ctx \<Rightarrow> ('s, gerr, ClusterInfo) io" where
  "Client_GetClusterInfo c ctx = do {
     r \<leftarrow> api_GetClusterInfo (gc_clnt c) ctx;
     (case r of
        Inl err \<Rightarrow> fail err
      | Inr cluster \<Rightarrow>
          (case check_cluster c cluster of
             Inl err \<Rightarrow> fail err
           | Inr uuid \<Rightarrow>
               ok \<lparr>ci_UUID = uuid, ci_SubsysNQN = mc_SubsystemNQN cluster,
                   ci_CurrMaxReplicas = mc_CurrentMaxReplicas cluster,
                   ci_MaxReplicas = mc_SupportedMaxReplicas cluster,
                   ci_DiscoveryEndpoints = mc_DiscoveryEndpoints cluster,
                   ci_ApiEndpoints = mc_ApiEndpoints cluster,
                   ci_NvmeEndpoints = mc_NvmeEndpoints cluster\<rparr>))
   }"

definition Client_GetCluster :: "'s GrpcClient \<Rightarrow> Ctx \<Rightarrow> ('s, gerr, Cluster) io" where
  "Client_GetCluster c ctx = do {
     r \<leftarrow> api_GetCluster (gc_clnt c) ctx;
     (case r of
        Inl err \<Rightarrow> fail err
      | Inr cluster \<Rightarrow>
          (case check_cluster c cluster of
             Inl err \<Rightarrow> fail err
           | Inr uuid \<Rightarrow>
               ok \<lparr>cluster_UUID = uuid, cluster_SubsysNQN = mc_SubsystemNQN cluster,
                   cluster_CurrMaxReplicas = mc_CurrentMaxReplicas cluster,
                   cluster_MaxReplicas = mc_SupportedMaxReplicas cluster,
                   cluster_DiscoveryEndpoints = mc_DiscoveryEndpoints cluster,
                   cluster_ApiEndpoints = mc_ApiEndpoints cluster,
                   cluster_Capacity = mc_EstimatedFreeLogicalStorage cluster\<rparr>))
   }"

definition lbNodeStateFromGRPC :: "uint32 \<Rightarrow> NodeState" where
  "lbNodeStateFromGRPC n = NodeState_of n"

definition lbNodeFromGRPC :: "'s GrpcClient \<Rightarrow> mgmt_Node option \<Rightarrow> gerr + Node" where
  "lbNodeFromGRPC c nd =
     (case nd of
        None \<Rightarrow> Inl (Status codes_Internal [])
      | Some node \<Rightarrow>
          if mn_Name node = [] then Inl (Status codes_Internal [])
          else
            (case guuid_Parse (gc_guuid c) (mn_UUID node) of
               None \<Rightarrow> Inl (Status codes_Internal [])
             | Some uuid \<Rightarrow>
                 if uuid = guuid_Nil then Inl (Status codes_Internal [])
                 else
                   (case Parse (mn_NvmeEndpoint node) of
                      Inl _ \<Rightarrow> Inl (Status codes_Internal [])
                    | Inr dataEP \<Rightarrow>
                        if mn_State node \<in> {DurosNodeInfo_Active, DurosNodeInfo_Activating,
                             DurosNodeInfo_Inactive, DurosNodeInfo_Unattached,
                             DurosNodeInfo_Attaching, DurosNodeInfo_Detaching}
                        then Inr \<lparr>node_Name = mn_Name node, node_UUID = uuid,
                                  node_DataEP = dataEP, node_HostName = mn_Hostname node,
                                  node_State = lbNodeStateFromGRPC (mn_State node)\<rparr>
                        else Inl (Status codes_Internal []))))"

text \<open>The loop of \<open>ListNodes\<close>: the good nodes, and how many were bad.\<close>

fun collect_nodes :: "'s GrpcClient \<Rightarrow> mgmt_Node option list \<Rightarrow> Node list \<times> nat" where
  "collect_nodes c [] = ([], 0)"
| "collect_nodes c (n # ns) =
     (case collect_nodes c ns of (nodes, errs) \<Rightarrow>
        (case lbNodeFromGRPC c n of
           Inl _ \<Rightarrow> (nodes, Suc errs)
         | Inr node \<Rightarrow> (node # nodes, errs)))"

definition Client_ListNodes :: "'s GrpcClient \<Rightarrow> Ctx \<Rightarrow> ('s, gerr, Node list) io" where
  "Client_ListNodes c ctx = do {
     resp \<leftarrow> api_ListNodes (gc_clnt c) ctx;
     (case resp of
        Inl err \<Rightarrow> fail err
      | Inr ns \<Rightarrow>
          (case collect_nodes c ns of (nodes, errs) \<Rightarrow>
             if 0 < errs then fail (Status codes_Unknown [])
             else if nodes = [] then fail (Status codes_Unknown [])
             else ok nodes))
   }"

subsection \<open>Volumes\<close>

definition lbVolumeStateFromGRPC :: "uint32 \<Rightarrow> VolumeState" where
  "lbVolumeStateFromGRPC n = VolumeState_of n"

definition lbVolumeProtectionFromGRPC :: "uint32 \<Rightarrow> VolumeProtection" where
  "lbVolumeProtectionFromGRPC n = VolumeProtection_of n"

text \<open>
  \<open>strings.ToLower\<close> on ASCII. No other rune lowers to a letter of the words it is compared
  with here.
\<close>

definition ToLower :: "string \<Rightarrow> string" where
  "ToLower s = map (\<lambda>ch. if 65 \<le> (of_char ch :: nat) \<and> (of_char ch :: nat) \<le> 90
                        then char_of ((of_char ch :: nat) + 32) else ch) s"

definition lbVolumeFromGRPC ::
  "'s GrpcClient \<Rightarrow> mgmt_Volume option \<Rightarrow> string option \<Rightarrow> UUID option \<Rightarrow> gerr + Volume" where
  "lbVolumeFromGRPC c v name uuid =
     (let bad = Inl (Status codes_Internal []) in
      case v of
        None \<Rightarrow> bad
      | Some vol \<Rightarrow>
          if mv_Name vol = [] then bad
          else if name \<noteq> None \<and> mv_Name vol \<noteq> the name then bad
          else
            (case guuid_Parse (gc_guuid c) (mv_UUID vol) of
               None \<Rightarrow> bad
             | Some volUUID \<Rightarrow>
                 if volUUID = guuid_Nil then bad
                 else if uuid \<noteq> None \<and> volUUID \<noteq> the uuid then bad
                 else if mv_State vol \<notin> {Volume_Creating, Volume_Available, Volume_Deleting,
                      Volume_Updating, Volume_Migrating, Volume_Failed} then bad
                 else if mv_ProtectionState vol = ProtectionStateEnum_Unknown \<and>
                      mv_State vol \<noteq> Volume_Creating then bad
                 else if mv_ProtectionState vol \<notin> {ProtectionStateEnum_Unknown,
                      ProtectionStateEnum_FullyProtected, ProtectionStateEnum_Degraded,
                      ProtectionStateEnum_ReadOnly, ProtectionStateEnum_NotAvailable} then bad
                 else if mv_ReplicaCount vol = 0 \<or> MaxReplicaCount < mv_ReplicaCount vol then bad
                 else if ToLower (mv_Compression vol) \<noteq> ''true'' \<and>
                      ToLower (mv_Compression vol) \<noteq> ''false'' then bad
                 else
                   (case (if mv_SourceSnapshotUUID vol = [] then Some guuid_Nil
                          else guuid_Parse (gc_guuid c) (mv_SourceSnapshotUUID vol)) of
                      None \<Rightarrow> bad
                    | Some snapUUID \<Rightarrow>
                        Inr \<lparr>vol_Name = mv_Name vol, vol_UUID = volUUID,
                             vol_ReplicaCount = mv_ReplicaCount vol, vol_Capacity = mv_Size vol,
                             vol_LogicalUsedStorage = mv_LogicalUsedStorage vol,
                             vol_Compression = (ToLower (mv_Compression vol) = ''true''),
                             vol_SnapshotUUID = snapUUID, vol_QosPolicyName = mv_QosPolicyName vol,
                             vol_ACL = CopyUniqueSorted (mv_Acl vol),
                             vol_State = lbVolumeStateFromGRPC (mv_State vol),
                             vol_Protection =
                               lbVolumeProtectionFromGRPC (mv_ProtectionState vol),
                             vol_ETag = mv_ETag vol, vol_ProjectName = mv_ProjectName vol\<rparr>)))"

text \<open>
  The derived context's deadline is 10ms before the caller's, or before \<open>defaultTimeout\<close>
  from now; \<open>cancel\<close> only frees resources.
\<close>

definition cloneCtxWithCap :: "'s GrpcClient \<Rightarrow> Ctx \<Rightarrow> ('s, Ctx) state" where
  "cloneCtxWithCap c ctx = do {
     dl \<leftarrow> (case ctx_deadline ctx of
             Some dl \<Rightarrow> State_Monad.return dl
           | None \<Rightarrow> do { now \<leftarrow> env_Now (gc_env c); State_Monad.return (now + defaultTimeout) });
     State_Monad.return (ctx\<lparr>ctx_deadline := Some (dl - 10 * millisecond)\<rparr>)
   }"

definition cloneCtxWithETag :: "Ctx \<Rightarrow> string \<Rightarrow> Ctx" where
  "cloneCtxWithETag ctx eTag = ctx\<lparr>ctx_md := ctx_md ctx @ [(ifMatchHeader, eTag)]\<rparr>"

definition Client_getVolume ::
  "'s GrpcClient \<Rightarrow> Ctx \<Rightarrow> string option \<Rightarrow> UUID option \<Rightarrow> string option \<Rightarrow>
   ('s, gerr, Volume) io" where
  "Client_getVolume c ctx name uuid projectName = do {
     ctx \<leftarrow> cloneCtxWithCap c ctx;
     let req = \<lparr>idr_UUID = (case uuid of None \<Rightarrow> [] | Some u \<Rightarrow> guuid_String (gc_guuid c) u),
                idr_Name = (case name of None \<Rightarrow> [] | Some n \<Rightarrow> n),
                idr_ProjectName = (case projectName of None \<Rightarrow> [] | Some p \<Rightarrow> p)\<rparr>;
     r \<leftarrow> api_GetVolume (gc_clnt c) ctx req;
     (case r of
        Inl err \<Rightarrow> fail err
      | Inr vol \<Rightarrow> State_Monad.return (lbVolumeFromGRPC c vol name uuid))
   }"

definition Client_GetVolume ::
  "'s GrpcClient \<Rightarrow> Ctx \<Rightarrow> UUID \<Rightarrow> string \<Rightarrow> ('s, gerr, Volume) io" where
  "Client_GetVolume c ctx uuid projectName =
     Client_getVolume c ctx None (Some uuid) (Some projectName)"

definition Client_GetVolumeByName ::
  "'s GrpcClient \<Rightarrow> Ctx \<Rightarrow> string \<Rightarrow> string \<Rightarrow> ('s, gerr, Volume) io" where
  "Client_GetVolumeByName c ctx name projectName =
     Client_getVolume c ctx (Some name) None (Some projectName)"

definition FormatBool :: "bool \<Rightarrow> string" where
  "FormatBool b = (if b then ''true'' else ''false'')"

text \<open>The request \<open>CreateVolume\<close> sends; its ACL is never empty.\<close>

definition norm_acl :: "string list \<Rightarrow> string list" where
  "norm_acl acl = (let acl = CopyUniqueSorted acl in if length acl = 0 then [ACLAllowNone] else acl)"

definition mkCreateVolumeRequest ::
  "'s GrpcClient \<Rightarrow> string \<Rightarrow> uint64 \<Rightarrow> uint32 \<Rightarrow> bool \<Rightarrow> string list \<Rightarrow> string \<Rightarrow> UUID \<Rightarrow>
   string \<Rightarrow> CreateVolumeRequest" where
  "mkCreateVolumeRequest c name capacity replicaCount compress acl projectName snapshotID
      qosPolicyName =
     \<lparr>cvr_Name = name, cvr_Size = FormatUint10 (unat capacity) @ ''b'', cvr_Acl = norm_acl acl,
      cvr_Compression = FormatBool compress, cvr_ReplicaCount = replicaCount,
      cvr_ProjectName = projectName, cvr_QosPolicyName = qosPolicyName,
      cvr_SourceSnapshotUUID =
        (if snapshotID \<noteq> guuid_Nil then guuid_String (gc_guuid c) snapshotID else [])\<rparr>"

text \<open>One poll of the wait for a volume to be fully created.\<close>

definition poll_created ::
  "'s GrpcClient \<Rightarrow> Ctx \<Rightarrow> string \<Rightarrow> Volume \<Rightarrow> ('s, gerr, Volume option) io" where
  "poll_created c ctx projectName orgLbVol = do {
     e \<leftarrow> env_CtxErr (gc_env c) ctx;
     (case e of
        Some err \<Rightarrow> fail (ErrFromCtxErr err)
      | None \<Rightarrow> do {
          r \<leftarrow> Client_GetVolume c ctx (vol_UUID orgLbVol) projectName;
          (case r of
             Inl err \<Rightarrow> fail err
           | Inr lbVol \<Rightarrow>
               if ExplainDiffsFrom orgLbVol lbVol SkipNone \<noteq> []
               then fail (Status codes_Internal [])
               else (case vol_State lbVol of
                       VolumeCreating \<Rightarrow> ok None
                     | VolumeDeleting \<Rightarrow> fail (Status codes_Aborted [])
                     | VolumeFailed \<Rightarrow> fail (Status codes_Unavailable [])
                     | VolumeUpdating \<Rightarrow> ok (Some lbVol)
                     | VolumeAvailable \<Rightarrow> ok (Some lbVol)
                     | VolumeMigrating \<Rightarrow> ok (Some lbVol)
                     | _ \<Rightarrow> fail (Status codes_Internal [])))
        })
   }"

definition Client_CreateVolume ::
  "'s GrpcClient \<Rightarrow> Ctx \<Rightarrow> string \<Rightarrow> uint64 \<Rightarrow> uint32 \<Rightarrow> bool \<Rightarrow> string list \<Rightarrow> string \<Rightarrow>
   UUID \<Rightarrow> string \<Rightarrow> bool \<Rightarrow> ('s, gerr, Volume) io" where
  "Client_CreateVolume c ctx name capacity replicaCount compress acl projectName snapshotID
      qosPolicyName blocking = do {
     ctx \<leftarrow> cloneCtxWithCap c ctx;
     let req = mkCreateVolumeRequest c name capacity replicaCount compress acl projectName
                 snapshotID qosPolicyName;
     r \<leftarrow> api_CreateVolume (gc_clnt c) ctx req;
     (case r of
        Inl err \<Rightarrow> fail err
      | Inr vol \<Rightarrow>
          (case lbVolumeFromGRPC c vol (Some name) None of
             Inl err \<Rightarrow> fail err
           | Inr lbVol \<Rightarrow>
               if \<not> AreEqual (vol_ACL lbVol) (norm_acl acl) then fail (Status codes_Internal [])
               else (case vol_State lbVol of
                       VolumeDeleting \<Rightarrow> fail (Status codes_Internal [])
                     | VolumeUpdating \<Rightarrow> fail (Status codes_Internal [])
                     | VolumeFailed \<Rightarrow> fail (Status codes_Internal [])
                     | VolumeCreating \<Rightarrow>
                         if blocking
                         then WithExponentialBackoff (gc_env c) CreateRetryOpts
                                (poll_created c ctx projectName lbVol)
                         else ok lbVol
                     | VolumeAvailable \<Rightarrow> ok lbVol
                     | VolumeMigrating \<Rightarrow> ok lbVol
                     | _ \<Rightarrow> fail (Status codes_Internal []))))
   }"

text \<open>One poll of the wait for the deletion of a volume to kick off.\<close>

definition poll_deleted ::
  "'s GrpcClient \<Rightarrow> Ctx \<Rightarrow> UUID \<Rightarrow> string \<Rightarrow> ('s, gerr, unit option) io" where
  "poll_deleted c ctx uuid projectName = do {
     e \<leftarrow> env_CtxErr (gc_env c) ctx;
     (case e of
        Some err \<Rightarrow> fail (ErrFromCtxErr err)
      | None \<Rightarrow> do {
          r \<leftarrow> Client_GetVolume c ctx uuid projectName;
          (case r of
             Inl err \<Rightarrow> if lb_isStatusNotFound err then ok (Some ()) else fail err
           | Inr lbVol \<Rightarrow>
               (case vol_State lbVol of
                  VolumeAvailable \<Rightarrow> ok None
                | VolumeMigrating \<Rightarrow> ok None
                | VolumeCreating \<Rightarrow> fail (Status codes_Unavailable [])
                | VolumeUpdating \<Rightarrow> fail (Status codes_Unavailable [])
                | VolumeFailed \<Rightarrow> ok (Some ())
                | VolumeDeleting \<Rightarrow> ok (Some ())
                | _ \<Rightarrow> fail (Status codes_Internal [])))
        })
   }"

definition Client_DeleteVolume ::
  "'s GrpcClient \<Rightarrow> Ctx \<Rightarrow> UUID \<Rightarrow> string \<Rightarrow> bool \<Rightarrow> ('s, gerr, unit) io" where
  "Client_DeleteVolume c ctx uuid projectName blocking = do {
     ctx \<leftarrow> cloneCtxWithCap c ctx;
     r \<leftarrow> api_DeleteVolume (gc_clnt c) ctx
            \<lparr>idr_UUID = guuid_String (gc_guuid c) uuid, idr_Name = [],
             idr_ProjectName = projectName\<rparr>;
     (case r of
        Inl err \<Rightarrow> fail err
      | Inr _ \<Rightarrow>
          if \<not> blocking then ok ()
          else WithExponentialBackoff (gc_env c) DeleteRetryOpts
                 (poll_deleted c ctx uuid projectName))
   }"

subsection \<open>Updating a volume\<close>

text \<open>The request for an update, \<open>None\<close> when the update asks for nothing.\<close>

definition mkUpdateVolumeRequest ::
  "'s GrpcClient \<Rightarrow> UUID \<Rightarrow> string \<Rightarrow> VolumeUpdate \<Rightarrow> UpdateVolumeRequest option" where
  "mkUpdateVolumeRequest c uuid projectName update =
     (let req = \<lparr>uvr_UUID = guuid_String (gc_guuid c) uuid, uvr_ProjectName = projectName,
                 uvr_Acl = map_option CopyUniqueSorted (upd_ACL update),
                 uvr_Size = (if upd_Capacity update \<noteq> 0
                             then FormatUint10 (unat (upd_Capacity update)) else [])\<rparr>;
          required = (upd_ACL update \<noteq> None \<or> upd_Capacity update \<noteq> 0)
      in if required then Some req else None)"

text \<open>
  One cycle of \<open>GetVolume\<close>, the hook and \<open>UpdateVolume\<close>; \<open>Inr None\<close> is the hint to retry
  (nil volume and nil error).
\<close>

definition Client_doUpdateVolume ::
  "'s GrpcClient \<Rightarrow> Ctx \<Rightarrow> UUID \<Rightarrow> string \<Rightarrow> VolumeUpdateHook \<Rightarrow> ('s, gerr, Volume option) io"
where
  "Client_doUpdateVolume c ctx uuid projectName hook = do {
     ctx \<leftarrow> cloneCtxWithCap c ctx;
     r \<leftarrow> Client_GetVolume c ctx uuid projectName;
     (case r of
        Inl err \<Rightarrow>
          (case status_FromError err of
             None \<Rightarrow> fail (Status codes_Unknown [])
           | Some cd \<Rightarrow>
               if cd = codes_NotFound then fail err
               else if cd = codes_Unavailable then ok None
               else fail (Status codes_Unknown []))
      | Inr lbVol \<Rightarrow>
          if vol_State lbVol = VolumeCreating \<or> vol_State lbVol = VolumeUpdating then ok None
          else if vol_State lbVol = VolumeDeleting \<or> vol_State lbVol = VolumeFailed
          then fail (Status codes_NotFound [])
          else if vol_State lbVol \<noteq> VolumeAvailable \<and> vol_State lbVol \<noteq> VolumeMigrating
          then fail (Status codes_Internal [])
          else
            (case hook lbVol of
               Inl err \<Rightarrow> fail err
             | Inr None \<Rightarrow> ok (Some lbVol)
             | Inr (Some update) \<Rightarrow> do {
                 e \<leftarrow> env_CtxErr (gc_env c) ctx;
                 (case e of
                    Some err \<Rightarrow> fail (ErrFromCtxErr err)
                  | None \<Rightarrow>
                      (case mkUpdateVolumeRequest c uuid projectName update of
                         None \<Rightarrow> ok (Some lbVol)
                       | Some req \<Rightarrow> do {
                           u \<leftarrow> api_UpdateVolume (gc_clnt c)
                                  (cloneCtxWithETag ctx (vol_ETag lbVol)) req;
                           (case u of
                              Inr _ \<Rightarrow> ok None
                            | Inl err \<Rightarrow>
                                (case status_FromError err of
                                   None \<Rightarrow> fail (Status codes_Unknown [])
                                 | Some cd \<Rightarrow>
                                     if cd = codes_NotFound then fail err
                                     else if cd = codes_Unavailable then ok None
                                     else if cd = codes_InvalidArgument
                                     then fail (Status codes_Internal [])
                                     else if cd = codes_FailedPrecondition then ok None
                                     else fail (Status codes_Unknown [])))
                         }))
               }))
   }"

definition Client_UpdateVolume ::
  "'s GrpcClient \<Rightarrow> Ctx \<Rightarrow> UUID \<Rightarrow> string \<Rightarrow> VolumeUpdateHook \<Rightarrow> ('s, gerr, Volume) io" where
  "Client_UpdateVolume c ctx uuid projectName hook =
     WithExponentialBackoff (gc_env c) UpdateRetryOpts
       (do {
          e \<leftarrow> env_CtxErr (gc_env c) ctx;
          (case e of
             Some err \<Rightarrow> fail (ErrFromCtxErr err)
           | None \<Rightarrow> Client_doUpdateVolume c ctx uuid projectName hook)
        })"

subsection \<open>Snapshots\<close>

definition lbSnapshotStateFromGRPC :: "uint32 \<Rightarrow> SnapshotState" where
  "lbSnapshotStateFromGRPC n = SnapshotState_of n"

definition lbSnapshotFromGRPC ::
  "'s GrpcClient \<Rightarrow> mgmt_Snapshot option \<Rightarrow> string option \<Rightarrow> UUID option \<Rightarrow>
   ('s, gerr, Snapshot) io" where
  "lbSnapshotFromGRPC c sn name uuid =
     (let bad = fail (Status codes_Internal []) in
      case sn of
        None \<Rightarrow> bad
      | Some snap \<Rightarrow>
          if ms_Name snap = [] then bad
          else if name \<noteq> None \<and> ms_Name snap \<noteq> the name then bad
          else
            (case guuid_Parse (gc_guuid c) (ms_UUID snap) of
               None \<Rightarrow> bad
             | Some snapUUID \<Rightarrow>
                 if snapUUID = guuid_Nil then bad
                 else if uuid \<noteq> None \<and> snapUUID \<noteq> the uuid then bad
                 else
                   (case guuid_Parse (gc_guuid c) (ms_SourceVolumeUUID snap) of
                      None \<Rightarrow> bad
                    | Some srcVolUUID \<Rightarrow>
                        if srcVolUUID = guuid_Nil then bad
                        else if ms_State snap \<notin> {Snapshot_Creating, Snapshot_Available,
                             Snapshot_Deleting, Snapshot_Failed} then bad
                        else do {
                          now \<leftarrow> env_Now (gc_env c);
                          let btime = (case ms_CreationTime snap of
                                         Some (Some t) \<Rightarrow> t
                                       | _ \<Rightarrow> now);
                          ok \<lparr>snap_Name = ms_Name snap, snap_UUID = snapUUID,
                              snap_Capacity = ms_Size snap,
                              snap_State = lbSnapshotStateFromGRPC (ms_State snap),
                              snap_SrcVolUUID = srcVolUUID,
                              snap_SrcVolName = ms_SourceVolumeName snap,
                              snap_SrcVolReplicaCount = ms_ReplicaCount snap,
                              snap_SrcVolCompression = ms_Compression snap,
                              snap_CreationTime = btime, snap_ETag = ms_ETag snap,
                              snap_ProjectName = ms_ProjectName snap\<rparr>
                        })))"

definition Client_getSnapshot ::
  "'s GrpcClient \<Rightarrow> Ctx \<Rightarrow> string option \<Rightarrow> UUID option \<Rightarrow> string \<Rightarrow> ('s, gerr, Snapshot) io"
where
  "Client_getSnapshot c ctx name uuid projectName = do {
     ctx \<leftarrow> cloneCtxWithCap c ctx;
     let req = \<lparr>idr_UUID = (case uuid of None \<Rightarrow> [] | Some u \<Rightarrow> guuid_String (gc_guuid c) u),
                idr_Name = (case name of None \<Rightarrow> [] | Some n \<Rightarrow> n),
                idr_ProjectName = projectName\<rparr>;
     r \<leftarrow> api_GetSnapshot (gc_clnt c) ctx req;
     (case r of
        Inl err \<Rightarrow> fail err
      | Inr snap \<Rightarrow> lbSnapshotFromGRPC c snap name uuid)
   }"

definition Client_GetSnapshot ::
  "'s GrpcClient \<Rightarrow> Ctx \<Rightarrow> UUID \<Rightarrow> string \<Rightarrow> ('s, gerr, Snapshot) io" where
  "Client_GetSnapshot c ctx uuid projectName =
     Client_getSnapshot c ctx None (Some uuid) projectName"

definition Client_GetSnapshotByName ::
  "'s GrpcClient \<Rightarrow> Ctx \<Rightarrow> string \<Rightarrow> string \<Rightarrow> ('s, gerr, Snapshot) io" where
  "Client_GetSnapshotByName c ctx name projectName =
     Client_getSnapshot c ctx (Some name) None projectName"

text \<open>What the two snapshot calls make of an error of the service.\<close>

definition snap_call_err :: "gerr \<Rightarrow> gerr" where
  "snap_call_err err =
     (case status_FromError err of
        None \<Rightarrow> statusFromErr err
      | Some cd \<Rightarrow>
          if cd = codes_InvalidArgument then Status codes_Internal []
          else if cd = codes_FailedPrecondition then Status codes_Unavailable []
          else err)"

definition poll_snap_created ::
  "'s GrpcClient \<Rightarrow> Ctx \<Rightarrow> UUID \<Rightarrow> string \<Rightarrow> UUID \<Rightarrow> ('s, gerr, Snapshot option) io" where
  "poll_snap_created c ctx uuid projectName srcVolUUID = do {
     e \<leftarrow> env_CtxErr (gc_env c) ctx;
     (case e of
        Some err \<Rightarrow> fail (ErrFromCtxErr err)
      | None \<Rightarrow> do {
          r \<leftarrow> Client_GetSnapshot c ctx uuid projectName;
          (case r of
             Inl err \<Rightarrow> fail err
           | Inr lbSnap \<Rightarrow>
               if srcVolUUID \<noteq> snap_SrcVolUUID lbSnap then fail (Status codes_Internal [])
               else (case snap_State lbSnap of
                       SnapshotCreating \<Rightarrow> ok None
                     | SnapshotDeleting \<Rightarrow> fail (Status codes_Aborted [])
                     | SnapshotFailed \<Rightarrow> fail (Status codes_Unavailable [])
                     | SnapshotAvailable \<Rightarrow> ok (Some lbSnap)
                     | _ \<Rightarrow> fail (Status codes_Internal [])))
        })
   }"

definition Client_CreateSnapshot ::
  "'s GrpcClient \<Rightarrow> Ctx \<Rightarrow> string \<Rightarrow> string \<Rightarrow> UUID \<Rightarrow> string \<Rightarrow> bool \<Rightarrow> ('s, gerr, Snapshot) io"
where
  "Client_CreateSnapshot c ctx name projectName srcVolUUID descr blocking = do {
     ctx \<leftarrow> cloneCtxWithCap c ctx;
     r \<leftarrow> api_CreateSnapshot (gc_clnt c) ctx
            \<lparr>csr_Name = name, csr_SourceVolumeUUID = guuid_String (gc_guuid c) srcVolUUID,
             csr_Description = descr, csr_ProjectName = projectName\<rparr>;
     (case r of
        Inl err \<Rightarrow> fail (snap_call_err err)
      | Inr snap \<Rightarrow> do {
          ls \<leftarrow> lbSnapshotFromGRPC c snap (Some name) None;
          (case ls of
             Inl err \<Rightarrow> fail err
           | Inr lbSnap \<Rightarrow>
               (case snap_State lbSnap of
                  SnapshotDeleting \<Rightarrow> fail (Status codes_Internal [])
                | SnapshotFailed \<Rightarrow> fail (Status codes_Internal [])
                | SnapshotCreating \<Rightarrow>
                    if blocking
                    then WithExponentialBackoff (gc_env c) CreateRetryOpts
                           (poll_snap_created c ctx (snap_UUID lbSnap) projectName srcVolUUID)
                    else ok lbSnap
                | SnapshotAvailable \<Rightarrow> ok lbSnap
                | _ \<Rightarrow> fail (Status codes_Internal [])))
        })
   }"

definition poll_snap_deleted ::
  "'s GrpcClient \<Rightarrow> Ctx \<Rightarrow> UUID \<Rightarrow> string \<Rightarrow> ('s, gerr, unit option) io" where
  "poll_snap_deleted c ctx uuid projectName = do {
     e \<leftarrow> env_CtxErr (gc_env c) ctx;
     (case e of
        Some err \<Rightarrow> fail (ErrFromCtxErr err)
      | None \<Rightarrow> do {
          r \<leftarrow> Client_GetSnapshot c ctx uuid projectName;
          (case r of
             Inl err \<Rightarrow> if lb_isStatusNotFound err then ok (Some ()) else fail err
           | Inr lbSnap \<Rightarrow>
               (case snap_State lbSnap of
                  SnapshotAvailable \<Rightarrow> ok None
                | SnapshotCreating \<Rightarrow> fail (Status codes_Unavailable [])
                | SnapshotFailed \<Rightarrow> ok (Some ())
                | SnapshotDeleting \<Rightarrow> ok (Some ())
                | _ \<Rightarrow> fail (Status codes_Internal [])))
        })
   }"

text \<open>A non-status error of the deletion call is returned as it is.\<close>

definition Client_DeleteSnapshot ::
  "'s GrpcClient \<Rightarrow> Ctx \<Rightarrow> UUID \<Rightarrow> string \<Rightarrow> bool \<Rightarrow> ('s, gerr, unit) io" where
  "Client_DeleteSnapshot c ctx uuid projectName blocking = do {
     ctx \<leftarrow> cloneCtxWithCap c ctx;
     r \<leftarrow> api_DeleteSnapshot (gc_clnt c) ctx
            \<lparr>idr_UUID = guuid_String (gc_guuid c) uuid, idr_Name = [],
             idr_ProjectName = projectName\<rparr>;
     (case r of
        Inl err \<Rightarrow>
          (case status_FromError err of None \<Rightarrow> fail err | Some _ \<Rightarrow> fail (snap_call_err err))
      | Inr _ \<Rightarrow>
          if \<not> blocking then ok ()
          else WithExponentialBackoff (gc_env c) DeleteRetryOpts
                 (poll_snap_deleted c ctx uuid projectName))
   }"

subsection \<open>The client as an \<open>lb.Client\<close>\<close>

definition lbgrpc_Client :: "'s GrpcClient \<Rightarrow> 's Client" where
  "lbgrpc_Client c =
     \<lparr>cl_Close = Client_Close c, cl_ID = Client_ID c, cl_Targets = Client_Targets c,
      cl_RemoteOk = Client_RemoteOk c, cl_GetCluster = Client_GetCluster c,
      cl_GetClusterInfo = Client_GetClusterInfo c, cl_ListNodes = Client_ListNodes c,
      cl_CreateVolume = Client_CreateVolume c, cl_DeleteVolume = Client_DeleteVolume c,
      cl_GetVolume = Client_GetVolume c, cl_GetVolumeByName = Client_GetVolumeByName c,
      cl_UpdateVolume = Client_UpdateVolume c, cl_CreateSnapshot = Client_CreateSnapshot c,
      cl_DeleteSnapshot = Client_DeleteSnapshot c, cl_GetSnapshot = Client_GetSnapshot c,
      cl_GetSnapshotByName = Client_GetSnapshotByName c\<rparr>"

subsection \<open>Lemmas\<close>

lemma cloneCtxWithCap_run [simp]:
  "ctx_deadline ctx = Some dl \<Longrightarrow>
     run_state (cloneCtxWithCap c ctx) s = (ctx\<lparr>ctx_deadline := Some (dl - 10 * millisecond)\<rparr>, s)"
  by (simp add: cloneCtxWithCap_def)

text \<open>Conversion from the wire: only sane volumes get through, and they match what was asked for.\<close>

lemma CopyUniqueSorted_idem [simp]: "CopyUniqueSorted (CopyUniqueSorted acl) = CopyUniqueSorted acl"
  by (rule acl.canon_idem) (simp add: list_all_iff)

lemma VolumeState_of_valid:
  "n \<in> {Volume_Creating, Volume_Available, Volume_Deleting, Volume_Updating, Volume_Migrating,
     Volume_Failed} \<Longrightarrow>
   VolumeState_of n \<in> {VolumeCreating, VolumeAvailable, VolumeDeleting, VolumeUpdating,
     VolumeMigrating, VolumeFailed} \<and>
   (VolumeState_of n = VolumeCreating \<longleftrightarrow> n = Volume_Creating)"
  by (auto simp: VolumeState_of_def)

lemma VolumeProtection_of_valid:
  "n \<in> {ProtectionStateEnum_Unknown, ProtectionStateEnum_FullyProtected,
     ProtectionStateEnum_Degraded, ProtectionStateEnum_ReadOnly,
     ProtectionStateEnum_NotAvailable} \<Longrightarrow>
   VolumeProtection_of n \<in> {VolumeProtectionUnknown, VolumeProtected, VolumeDegraded,
     VolumeReadOnly, VolumeNotAvailable} \<and>
   (VolumeProtection_of n = VolumeProtectionUnknown \<longleftrightarrow> n = ProtectionStateEnum_Unknown)"
  by (auto simp: VolumeProtection_of_def)

lemma if_bad_Inr: "(if b then Inl e else x) = Inr w \<longleftrightarrow> \<not> b \<and> x = Inr w"
  by simp

lemma lbVolumeFromGRPC_Inr:
  assumes "lbVolumeFromGRPC c v name uuid = Inr w"
  shows "wf_Volume w" and "name = Some n \<Longrightarrow> vol_Name w = n" and "uuid = Some u \<Longrightarrow> vol_UUID w = u"
    and "v = Some x \<Longrightarrow>
      vol_ACL w = CopyUniqueSorted (mv_Acl x) \<and> vol_Capacity w = mv_Size x \<and> vol_ETag w = mv_ETag x"
proof -
  obtain vol where vol: "v = Some vol"
    using assms by (cases v) (simp_all add: lbVolumeFromGRPC_def)
  obtain uu where uu: "guuid_Parse (gc_guuid c) (mv_UUID vol) = Some uu"
    using assms vol
    by (cases "guuid_Parse (gc_guuid c) (mv_UUID vol)")
       (simp_all add: lbVolumeFromGRPC_def Let_def if_bad_Inr)
  obtain su where su: "(if mv_SourceSnapshotUUID vol = [] then Some guuid_Nil
      else guuid_Parse (gc_guuid c) (mv_SourceSnapshotUUID vol)) = Some su"
    using assms vol uu
    by (cases "if mv_SourceSnapshotUUID vol = [] then Some guuid_Nil
          else guuid_Parse (gc_guuid c) (mv_SourceSnapshotUUID vol)")
       (simp_all only: lbVolumeFromGRPC_def Let_def if_bad_Inr option.case, simp)
  note conv = assms [unfolded lbVolumeFromGRPC_def Let_def vol option.case uu su if_bad_Inr]
  have valid: "mv_Name vol \<noteq> []" "uu \<noteq> guuid_Nil" "mv_ReplicaCount vol \<noteq> 0"
    "\<not> MaxReplicaCount < mv_ReplicaCount vol"
    "mv_ProtectionState vol = ProtectionStateEnum_Unknown \<longrightarrow> mv_State vol = Volume_Creating"
    using conv by blast+
  have states: "mv_State vol \<in> {Volume_Creating, Volume_Available, Volume_Deleting,
      Volume_Updating, Volume_Migrating, Volume_Failed}"
    "mv_ProtectionState vol \<in> {ProtectionStateEnum_Unknown, ProtectionStateEnum_FullyProtected,
      ProtectionStateEnum_Degraded, ProtectionStateEnum_ReadOnly,
      ProtectionStateEnum_NotAvailable}"
    using conv by blast+
  note w = conv [THEN conjunct2, THEN conjunct2, THEN conjunct2, THEN conjunct2, THEN conjunct2,
      THEN conjunct2, THEN conjunct2, THEN conjunct2, THEN conjunct2, unfolded sum.inject]
  show "wf_Volume w"
    unfolding wf_Volume_def w [symmetric] Volume.select_convs lbVolumeStateFromGRPC_def
      lbVolumeProtectionFromGRPC_def
    using valid VolumeState_of_valid [OF states(1)] VolumeProtection_of_valid [OF states(2)]
    by (simp only: CopyUniqueSorted_idem word_gt_0 not_less MaxReplicaCount_def not_False_eq_True
        simp_thms) auto
  show "name = Some n \<Longrightarrow> vol_Name w = n" and "uuid = Some u \<Longrightarrow> vol_UUID w = u"
    using conv by auto
  show "v = Some x \<Longrightarrow>
      vol_ACL w = CopyUniqueSorted (mv_Acl x) \<and> vol_Capacity w = mv_Size x \<and> vol_ETag w = mv_ETag x"
    using w vol by auto
qed

lemma getVolume_yields:
  "yields (Client_getVolume c ctx name uuid proj)
     (\<lambda>v. wf_Volume v \<and> (\<forall>n. name = Some n \<longrightarrow> vol_Name v = n) \<and>
          (\<forall>u. uuid = Some u \<longrightarrow> vol_UUID v = u))"
  unfolding Client_getVolume_def Let_def
  by (intro yields_bind) (auto split: sum.splits dest: lbVolumeFromGRPC_Inr)

lemma Client_GetVolume_yields:
  "yields (Client_GetVolume c ctx uuid proj) (\<lambda>v. wf_Volume v \<and> vol_UUID v = uuid)"
  unfolding Client_GetVolume_def by (rule yields_mono [OF getVolume_yields]) simp

lemma Client_GetVolumeByName_yields:
  "yields (Client_GetVolumeByName c ctx name proj) (\<lambda>v. wf_Volume v \<and> vol_Name v = name)"
  unfolding Client_GetVolumeByName_def by (rule yields_mono [OF getVolume_yields]) simp

lemma yields_backoff:
  assumes "yields fn (\<lambda>r. \<forall>a. r = Some a \<longrightarrow> P a)"
  shows "yields (WithExponentialBackoff E opts fn) P"
proof (rule yieldsI)
  fix s v t
  assume "run_state (WithExponentialBackoff E opts fn) s = (Inr v, t)"
  from WithExponentialBackoff_Inr [OF this] obtain s' where "run_state fn s' = (Inr (Some v), t)" ..
  from yieldsD [OF assms this] show "P v" by simp
qed

lemma yields_poll:
  "(yields m P) \<Longrightarrow> yields (do {
     e \<leftarrow> env_CtxErr E ctx;
     (case e of Some err \<Rightarrow> fail (ErrFromCtxErr err) | None \<Rightarrow> m) }) P"
  by (rule yields_bind) (simp split: option.split)

lemma poll_created_yields:
  "yields (poll_created c ctx proj org)
     (\<lambda>r. \<forall>v. r = Some v \<longrightarrow> wf_Volume v \<and> IsAccessible v \<and> IsSameAs org v)"
  unfolding poll_created_def
  by (intro yields_poll yields_call [OF Client_GetVolume_yields])
     (auto simp: IsAccessible_def ExplainDiffsFrom_none split: VolumeState.splits)

lemma Client_CreateVolume_yields:
  "yields (Client_CreateVolume c ctx name cap repl compress acl proj snap qos blocking)
     (\<lambda>v. wf_Volume v \<and> vol_Name v = name \<and>
        (IsAccessible v \<or> \<not> blocking \<and> vol_State v = VolumeCreating))"
proof -
  have wait: "yields (WithExponentialBackoff E CreateRetryOpts (poll_created c ctx proj org))
      (\<lambda>v. wf_Volume v \<and> vol_Name v = name \<and> IsAccessible v)" if "vol_Name org = name" for ctx E org
    by (rule yields_backoff, rule yields_mono [OF poll_created_yields])
       (use that in \<open>auto simp: IsSameAs_def\<close>)
  show ?thesis
    unfolding Client_CreateVolume_def Let_def
    by (intro yields_bind)
       (auto split: sum.splits VolumeState.splits dest: lbVolumeFromGRPC_Inr
         intro!: yields_mono [OF wait] simp: IsAccessible_def)
qed

lemma mkUpdateVolumeRequest_None_iff:
  "mkUpdateVolumeRequest c uuid proj upd = None \<longleftrightarrow> upd = \<lparr>upd_ACL = None, upd_Capacity = 0\<rparr>"
  by (cases upd) (simp add: mkUpdateVolumeRequest_def)

lemma doUpdateVolume_yields:
  "yields (Client_doUpdateVolume c ctx uuid proj hook)
     (\<lambda>r. \<forall>v. r = Some v \<longrightarrow> wf_Volume v \<and> vol_UUID v = uuid \<and>
        vol_State v \<in> {VolumeAvailable, VolumeMigrating} \<and> no_update (hook v))"
  unfolding Client_doUpdateVolume_def
  by (rule yields_bind, rule yields_call [OF Client_GetVolume_yields])
     (auto simp: no_update_def mkUpdateVolumeRequest_None_iff
       split: option.splits sum.splits intro!: yields_bind)

lemma Client_UpdateVolume_yields:
  "yields (Client_UpdateVolume c ctx uuid proj hook)
     (\<lambda>v. wf_Volume v \<and> vol_UUID v = uuid \<and> vol_State v \<in> {VolumeAvailable, VolumeMigrating} \<and>
        no_update (hook v))"
  unfolding Client_UpdateVolume_def
  by (intro yields_backoff yields_poll doUpdateVolume_yields)

lemma lbSnapshotFromGRPC_yields:
  "yields (lbSnapshotFromGRPC c sn name uuid)
     (\<lambda>w. wf_Snapshot w \<and> (\<forall>n. name = Some n \<longrightarrow> snap_Name w = n) \<and>
          (\<forall>u. uuid = Some u \<longrightarrow> snap_UUID w = u))"
  unfolding lbSnapshotFromGRPC_def Let_def
  by (auto simp: wf_Snapshot_def lbSnapshotStateFromGRPC_def SnapshotState_of_def
      split: option.splits intro!: yields_bind)

lemma getSnapshot_yields:
  "yields (Client_getSnapshot c ctx name uuid proj)
     (\<lambda>w. wf_Snapshot w \<and> (\<forall>n. name = Some n \<longrightarrow> snap_Name w = n) \<and>
          (\<forall>u. uuid = Some u \<longrightarrow> snap_UUID w = u))"
  unfolding Client_getSnapshot_def Let_def
  by (intro yields_bind) (auto split: sum.splits intro: lbSnapshotFromGRPC_yields)

lemma Client_GetSnapshot_yields:
  "yields (Client_GetSnapshot c ctx uuid proj) (\<lambda>sn. wf_Snapshot sn \<and> snap_UUID sn = uuid)"
  unfolding Client_GetSnapshot_def by (rule yields_mono [OF getSnapshot_yields]) simp

lemma Client_GetSnapshotByName_yields:
  "yields (Client_GetSnapshotByName c ctx name proj) (\<lambda>sn. wf_Snapshot sn \<and> snap_Name sn = name)"
  unfolding Client_GetSnapshotByName_def by (rule yields_mono [OF getSnapshot_yields]) simp

lemma poll_snap_created_yields:
  "yields (poll_snap_created c ctx uuid proj src)
     (\<lambda>r. \<forall>sn. r = Some sn \<longrightarrow> wf_Snapshot sn \<and> snap_State sn = SnapshotAvailable)"
  unfolding poll_snap_created_def
  by (intro yields_poll yields_call [OF Client_GetSnapshot_yields])
     (auto split: SnapshotState.splits)

lemma Client_CreateSnapshot_yields:
  "yields (Client_CreateSnapshot c ctx name proj src descr blocking)
     (\<lambda>sn. wf_Snapshot sn \<and>
        (snap_State sn = SnapshotAvailable \<or> \<not> blocking \<and> snap_State sn = SnapshotCreating))"
proof -
  have wait: "yields (WithExponentialBackoff E CreateRetryOpts (poll_snap_created c ctx uuid proj src))
      (\<lambda>sn. wf_Snapshot sn \<and> snap_State sn = SnapshotAvailable)" for ctx E uuid
    by (rule yields_backoff, rule yields_mono [OF poll_snap_created_yields]) auto
  have conv: "yields (lbSnapshotFromGRPC c sn name uuid) wf_Snapshot" for sn name uuid
    by (rule yields_mono [OF lbSnapshotFromGRPC_yields]) simp
  show ?thesis
    unfolding Client_CreateSnapshot_def
    by (intro yields_bind)
       (auto split: sum.splits SnapshotState.splits intro!: yields_call [OF conv]
         yields_mono [OF wait])
qed

text \<open>The gRPC client keeps the contract the driver relies on, whatever the service answers.\<close>

interpretation lbgrpc: lb_client "lbgrpc_Client c"
  by unfold_locales
     (simp_all only: lbgrpc_Client_def Client.select_convs Client_GetVolume_yields
       Client_GetVolumeByName_yields Client_CreateVolume_yields Client_UpdateVolume_yields
       Client_GetSnapshot_yields Client_GetSnapshotByName_yields Client_CreateSnapshot_yields)

subsection \<open>Where answers come from\<close>

text \<open>What the service has been asked for and answered: a volume read by its UUID or its name, and one
  that came out of a request to create it, as answered at once or as read when it was ready.\<close>

definition read_volume :: "'s GrpcClient \<Rightarrow> UUID \<Rightarrow> string \<Rightarrow> Volume \<Rightarrow> bool" where
  "read_volume c uuid proj v \<longleftrightarrow> (\<exists>ctx s t. run_state (Client_GetVolume c ctx uuid proj) s = (Inr v, t))"

definition read_volume_named :: "'s GrpcClient \<Rightarrow> string \<Rightarrow> string \<Rightarrow> Volume \<Rightarrow> bool" where
  "read_volume_named c name proj v \<longleftrightarrow>
     (\<exists>ctx s t. run_state (Client_GetVolumeByName c ctx name proj) s = (Inr v, t))"

definition created_volume ::
  "'s GrpcClient \<Rightarrow> string \<Rightarrow> uint64 \<Rightarrow> uint32 \<Rightarrow> bool \<Rightarrow> string list \<Rightarrow> string \<Rightarrow> UUID \<Rightarrow> string \<Rightarrow>
   Volume \<Rightarrow> bool" where
  "created_volume c name cap repl compress acl proj snap qos v \<longleftrightarrow>
     (\<exists>ctx s t vol lv. run_state (api_CreateVolume (gc_clnt c) ctx
          (mkCreateVolumeRequest c name cap repl compress acl proj snap qos)) s = (Inr vol, t) \<and>
        lbVolumeFromGRPC c vol (Some name) None = Inr lv \<and> vol_ACL lv = norm_acl acl \<and>
        (v = lv \<or> vol_State lv = VolumeCreating \<and> IsSameAs lv v \<and> read_volume c (vol_UUID lv) proj v))"

definition read_snapshot :: "'s GrpcClient \<Rightarrow> UUID \<Rightarrow> string \<Rightarrow> Snapshot \<Rightarrow> bool" where
  "read_snapshot c uuid proj sn \<longleftrightarrow>
     (\<exists>ctx s t. run_state (Client_GetSnapshot c ctx uuid proj) s = (Inr sn, t))"

definition read_snapshot_named :: "'s GrpcClient \<Rightarrow> string \<Rightarrow> string \<Rightarrow> Snapshot \<Rightarrow> bool" where
  "read_snapshot_named c name proj sn \<longleftrightarrow>
     (\<exists>ctx s t. run_state (Client_GetSnapshotByName c ctx name proj) s = (Inr sn, t))"

definition created_snapshot ::
  "'s GrpcClient \<Rightarrow> string \<Rightarrow> string \<Rightarrow> UUID \<Rightarrow> string \<Rightarrow> Snapshot \<Rightarrow> bool" where
  "created_snapshot c name proj src descr sn \<longleftrightarrow>
     (\<exists>ctx s t ans s' t' ls. run_state (api_CreateSnapshot (gc_clnt c) ctx
          \<lparr>csr_Name = name, csr_SourceVolumeUUID = guuid_String (gc_guuid c) src,
           csr_Description = descr, csr_ProjectName = proj\<rparr>) s = (Inr ans, t) \<and>
        run_state (lbSnapshotFromGRPC c ans (Some name) None) s' = (Inr ls, t') \<and>
        (sn = ls \<or> snap_State ls = SnapshotCreating \<and> snap_SrcVolUUID sn = src \<and>
          read_snapshot c (snap_UUID ls) proj sn))"

lemma poll_created_read:
  assumes "run_state (poll_created c ctx proj lv) s = (Inr (Some v), t)"
  shows "IsSameAs lv v \<and> read_volume c (vol_UUID lv) proj v"
  using assms unfolding poll_created_def read_volume_def
  by (auto simp: ExplainDiffsFrom_none split: prod.splits option.splits sum.splits if_splits VolumeState.splits)

lemma Client_CreateVolume_created:
  "yields (Client_CreateVolume c ctx name cap repl compress acl proj snap qos blocking)
     (created_volume c name cap repl compress acl proj snap qos)"
proof (rule yieldsI)
  fix s v t
  assume "run_state (Client_CreateVolume c ctx name cap repl compress acl proj snap qos blocking) s = (Inr v, t)"
  then obtain ctx' s1 vol s2 lv where
    ans: "run_state (api_CreateVolume (gc_clnt c) ctx'
        (mkCreateVolumeRequest c name cap repl compress acl proj snap qos)) s1 = (Inr vol, s2)"
      "lbVolumeFromGRPC c vol (Some name) None = Inr lv" "AreEqual (vol_ACL lv) (norm_acl acl)"
    and v: "v = lv \<or> vol_State lv = VolumeCreating \<and>
      run_state (WithExponentialBackoff (gc_env c) CreateRetryOpts (poll_created c ctx' proj lv)) s2 = (Inr v, t)"
    unfolding Client_CreateVolume_def Let_def
    by (auto split: prod.splits sum.splits if_splits VolumeState.splits)
  from v have "v = lv \<or> vol_State lv = VolumeCreating \<and> IsSameAs lv v \<and> read_volume c (vol_UUID lv) proj v"
    by (auto dest!: WithExponentialBackoff_Inr poll_created_read)
  with ans show "created_volume c name cap repl compress acl proj snap qos v"
    unfolding created_volume_def AreEqual_iff by blast
qed

lemma poll_snap_created_read:
  assumes "run_state (poll_snap_created c ctx uuid proj src) s = (Inr (Some sn), t)"
  shows "snap_SrcVolUUID sn = src \<and> read_snapshot c uuid proj sn"
  using assms unfolding poll_snap_created_def read_snapshot_def
  by (auto split: prod.splits option.splits sum.splits if_splits SnapshotState.splits)

lemma Client_CreateSnapshot_created:
  "yields (Client_CreateSnapshot c ctx name proj src descr blocking) (created_snapshot c name proj src descr)"
proof (rule yieldsI)
  fix s sn t
  assume "run_state (Client_CreateSnapshot c ctx name proj src descr blocking) s = (Inr sn, t)"
  then obtain ctx' s1 ans s2 s3 ls where
    ans: "run_state (api_CreateSnapshot (gc_clnt c) ctx'
        \<lparr>csr_Name = name, csr_SourceVolumeUUID = guuid_String (gc_guuid c) src,
         csr_Description = descr, csr_ProjectName = proj\<rparr>) s1 = (Inr ans, s2)"
      "run_state (lbSnapshotFromGRPC c ans (Some name) None) s2 = (Inr ls, s3)"
    and sn: "sn = ls \<or> snap_State ls = SnapshotCreating \<and> run_state (WithExponentialBackoff (gc_env c)
      CreateRetryOpts (poll_snap_created c ctx' (snap_UUID ls) proj src)) s3 = (Inr sn, t)"
    unfolding Client_CreateSnapshot_def
    by (auto split: prod.splits sum.splits if_splits SnapshotState.splits)
  from sn have "sn = ls \<or> snap_State ls = SnapshotCreating \<and> snap_SrcVolUUID sn = src \<and>
      read_snapshot c (snap_UUID ls) proj sn"
    by (auto dest!: WithExponentialBackoff_Inr poll_snap_created_read)
  with ans show "created_snapshot c name proj src descr sn"
    unfolding created_snapshot_def by blast
qed

lemma read_by_name:
  "yields (Client_GetVolumeByName c ctx name proj) (read_volume_named c name proj)"
  "yields (Client_GetSnapshotByName c ctx name proj) (read_snapshot_named c name proj)"
  unfolding yields_def read_volume_named_def read_snapshot_named_def by blast+

interpretation lbev: lb_evidence "lbgrpc_Client c" "read_volume_named c" "created_volume c"
  "read_snapshot_named c" "created_snapshot c"
  by unfold_locales
     (simp_all add: lbgrpc_Client_def Client_CreateVolume_created Client_CreateSnapshot_created read_by_name)

text \<open>
  An update that fails because the volume is not there: the service said so when the volume was read,
  or showed it as going or failed, or said so when it was asked for an update that the hook wants.
\<close>

definition volume_missing :: "'s GrpcClient \<Rightarrow> UUID \<Rightarrow> string \<Rightarrow> VolumeUpdateHook \<Rightarrow> bool" where
  "volume_missing c uuid proj hook \<longleftrightarrow>
     (\<exists>ctx s t err. run_state (Client_GetVolume c ctx uuid proj) s = (Inl err, t) \<and> isStatusNotFound err) \<or>
     (\<exists>v. read_volume c uuid proj v \<and> vol_State v \<in> {VolumeDeleting, VolumeFailed}) \<or>
     (\<exists>v upd req ctx s t err. read_volume c uuid proj v \<and> hook v = Inr (Some upd) \<and>
        mkUpdateVolumeRequest c uuid proj upd = Some req \<and>
        run_state (api_UpdateVolume (gc_clnt c) ctx req) s = (Inl err, t) \<and> isStatusNotFound err)"

lemma doUpdateVolume_missing:
  assumes "run_state (Client_doUpdateVolume c ctx uuid proj hook) s = (Inl err, t)"
    and "isStatusNotFound err" and "\<And>v e. hook v = Inl e \<Longrightarrow> \<not> isStatusNotFound e"
  shows "volume_missing c uuid proj hook"
proof -
  have codes: "\<not> isStatusNotFound (Status codes_Unknown [])" "\<not> isStatusNotFound (Status codes_Internal [])"
    "\<not> isStatusNotFound (ErrFromCtxErr e)" for e
    by (cases e; simp add: isStatusNotFound_def)+
  obtain ctx' s0 where ctx': "run_state (cloneCtxWithCap c ctx) s = (ctx', s0)" by fastforce
  obtain r s1 where r: "run_state (Client_GetVolume c ctx' uuid proj) s0 = (r, s1)" by fastforce
  show ?thesis
  proof (cases r)
    case (Inl e)
    with assms(1,2) ctx' r have "e = err"
      by (auto simp: Client_doUpdateVolume_def codes split: option.splits if_splits)
    with Inl r assms(2) show ?thesis unfolding volume_missing_def by blast
  next
    case (Inr v)
    with r have v: "read_volume c uuid proj v" unfolding read_volume_def by blast
    show ?thesis
    proof (cases "vol_State v \<in> {VolumeDeleting, VolumeFailed}")
      case True
      with v show ?thesis unfolding volume_missing_def by blast
    next
      case False
      then obtain upd req ctx2 s2 where "hook v = Inr (Some upd)" "mkUpdateVolumeRequest c uuid proj upd = Some req"
        "run_state (api_UpdateVolume (gc_clnt c) ctx2 req) s2 = (Inl err, t)"
        using assms(1,2) assms(3) [of v] ctx' r Inr
        by (auto simp: Client_doUpdateVolume_def codes split: sum.splits option.splits prod.splits if_splits)
      with v assms(2) show ?thesis unfolding volume_missing_def by blast
    qed
  qed
qed

lemma UpdateVolume_missing:
  assumes "run_state (Client_UpdateVolume c ctx uuid proj hook) s = (Inl err, t)"
    and "isStatusNotFound err" and "\<And>v e. hook v = Inl e \<Longrightarrow> \<not> isStatusNotFound e"
  shows "volume_missing c uuid proj hook"
proof -
  have codes: "\<not> isStatusNotFound (Status codes_DeadlineExceeded [])" "\<not> isStatusNotFound (ErrFromCtxErr e)" for e
    by (cases e; simp add: isStatusNotFound_def)+
  from WithExponentialBackoff_Inl [OF assms(1) [unfolded Client_UpdateVolume_def]] assms(2) codes(1)
  obtain s1 where "run_state (do {
      e \<leftarrow> env_CtxErr (gc_env c) ctx;
      (case e of
         Some err \<Rightarrow> fail (ErrFromCtxErr err)
       | None \<Rightarrow> Client_doUpdateVolume c ctx uuid proj hook) }) s1 = (Inl err, t)" by auto
  then obtain s2 where "run_state (Client_doUpdateVolume c ctx uuid proj hook) s2 = (Inl err, t)"
    using assms(2) codes(2) by (auto split: prod.splits option.splits)
  then show ?thesis using assms(2,3) by (rule doUpdateVolume_missing)
qed

subsection \<open>Effects\<close>

text \<open>Effects: what the operations keep of the world, given what the remote calls keep.\<close>

lemma keeps_backoff:
  assumes "\<And>d. keeps (env_Sleep E d) I" and "keeps fn I"
  shows "keeps (WithExponentialBackoff E opts fn) I"
proof (rule keepsI)
  fix s r t
  assume "run_state (WithExponentialBackoff E opts fn) s = (r, t)" and "I s"
  then show "I t"
    by (rule WithExponentialBackoff_invariant) (fact keepsD [OF assms(1)], fact keepsD [OF assms(2)])
qed

lemma keeps_cloneCtxWithCap: "keeps (env_Now (gc_env c)) I \<Longrightarrow> keeps (cloneCtxWithCap c ctx) I"
  unfolding cloneCtxWithCap_def by (intro keeps_bind) (auto split: option.splits)

lemma keeps_GetVolume:
  assumes "keeps (env_Now (gc_env c)) I" and "\<And>ctx req. keeps (api_GetVolume (gc_clnt c) ctx req) I"
  shows "keeps (Client_GetVolume c ctx uuid proj) I"
  unfolding Client_GetVolume_def Client_getVolume_def Let_def
  by (intro keeps_bind keeps_cloneCtxWithCap assms) (simp split: sum.splits)

lemma ResolveNow_eps: "res_eps (ResolveNow r) = rotate1 (res_eps r)"
  by (cases "res_eps r") (auto simp: ResolveNow_def updateCCState_def Let_def)

lemma ResolveNow_power_eps: "res_eps ((ResolveNow ^^ k) r) = rotate k (res_eps r)"
  by (induction k) (simp_all add: ResolveNow_eps)

lemma ResolveNow_addrs: "res_addrs (ResolveNow r) = map EP_String (res_eps (ResolveNow r))"
  by (simp add: ResolveNow_def updateCCState_def Let_def)

lemma Client_UpdateVolume_Inr:
  assumes "run_state (Client_UpdateVolume c ctx uuid proj hook) s = (Inr v, t)"
  shows "wf_Volume v \<and> vol_UUID v = uuid \<and> vol_State v \<in> {VolumeAvailable, VolumeMigrating} \<and>
    no_update (hook v) \<and>
    (\<exists>s' t' ctx'. run_state (Client_GetVolume c ctx' uuid proj) s' = (Inr v, t'))"
proof -
  from WithExponentialBackoff_Inr [OF assms [unfolded Client_UpdateVolume_def]]
  obtain s1 where "run_state (do {
      e \<leftarrow> env_CtxErr (gc_env c) ctx;
      (case e of
         Some err \<Rightarrow> fail (ErrFromCtxErr err)
       | None \<Rightarrow> Client_doUpdateVolume c ctx uuid proj hook) }) s1 = (Inr (Some v), t)" ..
  then obtain s2 where "run_state (Client_doUpdateVolume c ctx uuid proj hook) s2 = (Inr (Some v), t)"
    by (auto split: prod.splits option.splits)
  then have "\<exists>s' t' ctx'. run_state (Client_GetVolume c ctx' uuid proj) s' = (Inr v, t')"
    unfolding Client_doUpdateVolume_def
    by (auto split: prod.splits option.splits sum.splits if_splits)
  with yieldsD [OF Client_UpdateVolume_yields assms] show ?thesis by blast
qed

lemma Client_UpdateVolume_keeps:
  assumes "\<And>d. keeps (env_Sleep (gc_env c) d) I" and "keeps (env_Now (gc_env c)) I"
    and "\<And>ctx. keeps (env_CtxErr (gc_env c) ctx) I"
    and "\<And>ctx req. keeps (api_GetVolume (gc_clnt c) ctx req) I"
    and "\<And>v u ctx' req. hook v = Inr (Some u) \<Longrightarrow> vol_UUID v = uuid \<Longrightarrow>
      vol_State v \<in> {VolumeAvailable, VolumeMigrating} \<Longrightarrow>
      (\<exists>ctx0 s0 t0. run_state (Client_GetVolume c ctx0 uuid proj) s0 = (Inr v, t0)) \<Longrightarrow>
      mkUpdateVolumeRequest c uuid proj u = Some req \<Longrightarrow>
      ctx_md ctx' = ctx_md ctx @ [(ifMatchHeader, vol_ETag v)] \<Longrightarrow>
      keeps (api_UpdateVolume (gc_clnt c) ctx' req) I"
  shows "keeps (Client_UpdateVolume c ctx uuid proj hook) I"
proof -
  have md: "ctx_md ctx1 = ctx_md ctx" if "run_state (cloneCtxWithCap c ctx) s = (ctx1, s1)"
    for ctx1 s s1
    using that by (auto simp: cloneCtxWithCap_def split: option.splits prod.splits)
  have upd: "keeps (api_UpdateVolume (gc_clnt c) (cloneCtxWithETag ctx1 (vol_ETag v)) req) I"
    if "run_state (cloneCtxWithCap c ctx) s = (ctx1, s1)"
      and "run_state (Client_GetVolume c ctx1 uuid proj) s' = (Inr v, s2)"
      and "hook v = Inr (Some u)" and "vol_State v \<in> {VolumeAvailable, VolumeMigrating}"
      and "mkUpdateVolumeRequest c uuid proj u = Some req" for ctx1 s s1 s' s2 v u req
    using that md [OF that(1)] yieldsD [OF Client_GetVolume_yields that(2)]
    by (intro assms(5) [of v u]) (auto simp: cloneCtxWithETag_def)
  have "keeps (Client_doUpdateVolume c ctx uuid proj hook) I"
    unfolding Client_doUpdateVolume_def
    by (rule keeps_bind_run [OF keeps_cloneCtxWithCap [OF assms(2)]],
        rule keeps_bind_run [OF keeps_GetVolume [OF assms(2,4)]])
       (auto split: sum.splits option.splits intro!: keeps_bind assms(3) upd)
  note step = this
  show ?thesis
    unfolding Client_UpdateVolume_def
    by (intro keeps_backoff keeps_bind assms) (simp add: step split: option.splits)
qed

lemma Client_DeleteVolume_gone:
  assumes "run_state (Client_DeleteVolume c ctx uuid proj True) s = (Inr (), t)"
  shows "\<exists>s' r ctx'. run_state (Client_GetVolume c ctx' uuid proj) s' = (r, t) \<and>
    (case r of
       Inl err \<Rightarrow> isStatusNotFound err
     | Inr v \<Rightarrow> vol_State v \<in> {VolumeDeleting, VolumeFailed})"
proof -
  obtain ctx1 s1 where
    "run_state (WithExponentialBackoff (gc_env c) DeleteRetryOpts (poll_deleted c ctx1 uuid proj)) s1
      = (Inr (), t)"
    using assms by (auto simp: Client_DeleteVolume_def split: prod.splits sum.splits)
  from WithExponentialBackoff_Inr [OF this] obtain s2 where
    "run_state (poll_deleted c ctx1 uuid proj) s2 = (Inr (Some ()), t)" ..
  then obtain s' r where get: "run_state (Client_GetVolume c ctx1 uuid proj) s' = (r, t)"
    and "case r of Inl err \<Rightarrow> isStatusNotFound err
      | Inr v \<Rightarrow> vol_State v \<in> {VolumeDeleting, VolumeFailed}"
    unfolding poll_deleted_def
    by (auto split: prod.splits option.splits sum.splits if_splits VolumeState.splits)
  then show ?thesis by blast
qed

subsection \<open>Properties\<close>

text \<open>
  \<open>UpdateVolume\<close> reports success only with a volume it has just read from the cluster,
  with the UUID asked for, in a state that allows updates, and on which the caller's hook
  asks for nothing more: the desired state has been observed, not merely requested.
\<close>

theorem UpdateVolume_observed:
  assumes "run_state (Client_UpdateVolume c ctx uuid proj hook) s = (Inr v, t)"
  shows "wf_Volume v \<and> vol_UUID v = uuid \<and> vol_State v \<in> {VolumeAvailable, VolumeMigrating} \<and>
    no_update (hook v) \<and>
    (\<exists>s' t' ctx'. run_state (Client_GetVolume c ctx' uuid proj) s' = (Inr v, t'))"
  using assms by (rule Client_UpdateVolume_Inr)

text \<open>
  The only updates \<open>UpdateVolume\<close> ever sends are the ones its hook asked for on a volume
  just read, guarded by that volume's ETag (\<open>if-match\<close> is the last header of the call):
  every predicate of the world that such calls keep, and that reading, sleeping and the
  clock keep, is kept by the whole operation, however often it retries.
\<close>

theorem UpdateVolume_guarded:
  assumes "\<And>d. keeps (env_Sleep (gc_env c) d) I" and "keeps (env_Now (gc_env c)) I"
    and "\<And>ctx. keeps (env_CtxErr (gc_env c) ctx) I"
    and "\<And>ctx req. keeps (api_GetVolume (gc_clnt c) ctx req) I"
    and "\<And>v u ctx' req. hook v = Inr (Some u) \<Longrightarrow> vol_UUID v = uuid \<Longrightarrow>
      vol_State v \<in> {VolumeAvailable, VolumeMigrating} \<Longrightarrow>
      (\<exists>ctx0 s0 t0. run_state (Client_GetVolume c ctx0 uuid proj) s0 = (Inr v, t0)) \<Longrightarrow>
      mkUpdateVolumeRequest c uuid proj u = Some req \<Longrightarrow>
      ctx_md ctx' = ctx_md ctx @ [(ifMatchHeader, vol_ETag v)] \<Longrightarrow>
      keeps (api_UpdateVolume (gc_clnt c) ctx' req) I"
  shows "keeps (Client_UpdateVolume c ctx uuid proj hook) I"
  using assms by (rule Client_UpdateVolume_keeps)

text \<open>
  A blocking \<open>DeleteVolume\<close> that succeeds has seen the deletion take hold: its last look
  at the volume found it gone, being deleted, or failed.
\<close>

theorem DeleteVolume_observed:
  assumes "run_state (Client_DeleteVolume c ctx uuid proj True) s = (Inr (), t)"
  shows "\<exists>s' r ctx'. run_state (Client_GetVolume c ctx' uuid proj) s' = (r, t) \<and>
    (case r of
       Inl err \<Rightarrow> isStatusNotFound err
     | Inr v \<Rightarrow> vol_State v \<in> {VolumeDeleting, VolumeFailed})"
  using assms by (rule Client_DeleteVolume_gone)

text \<open>
  The waits fit the deadlines they run under. Polling for a created volume or snapshot
  sleeps at most 9.75s, less than the default 10s deadline less the 10ms the client takes
  off; the waits for deletions and updates may outlast it (12.4s and 12.03125s) and rely
  on the deadline check before each poll. No single sleep exceeds 2s.
\<close>

theorem retry_budgets:
  "sum_list (backoff_delays CreateRetryOpts) = 9750 * millisecond \<and>
   sum_list (backoff_delays CreateRetryOpts) < defaultTimeout - 10 * millisecond \<and>
   sum_list (backoff_delays DeleteRetryOpts) = 12400 * millisecond \<and>
   sum_list (backoff_delays UpdateRetryOpts) = 12031250000 \<and>
   list_all (\<lambda>d. 0 < d \<and> d \<le> 2 * second)
     (backoff_delays CreateRetryOpts @ backoff_delays DeleteRetryOpts @
      backoff_delays UpdateRetryOpts)"
  by (simp add: backoff_delays_def normalize_opts_def next_delay_def scale_def numeral_eq_Suc
      CreateRetryOpts_def DeleteRetryOpts_def UpdateRetryOpts_def defaultTimeout_def
      second_def millisecond_def)

text \<open>
  C37. The resolver tries every endpoint: \<open>k\<close> calls of \<open>ResolveNow\<close> rotate the list by \<open>k\<close> and
  tell the connection the rotated list; within as many calls as there are endpoints each
  of them comes first, and a full round restores the list.
\<close>

theorem ResolveNow_round_robin:
  assumes "res_eps r \<noteq> []" and "i < length (res_eps r)"
  shows "res_eps ((ResolveNow ^^ k) r) = rotate k (res_eps r) \<and>
    hd (res_eps ((ResolveNow ^^ i) r)) = res_eps r ! i \<and>
    res_eps ((ResolveNow ^^ length (res_eps r)) r) = res_eps r \<and>
    res_addrs ((ResolveNow ^^ Suc k) r) = map EP_String (rotate (Suc k) (res_eps r)) \<and>
    res_tgts ((ResolveNow ^^ Suc k) r) = Slice_String (rotate (Suc k) (res_eps r))"
proof -
  have "res_tgts (ResolveNow q) = Slice_String (rotate1 (res_eps q))" for q
    by (simp add: ResolveNow_eps [symmetric]) (simp add: ResolveNow_def updateCCState_def Let_def)
  then show ?thesis
    using assms by (simp add: ResolveNow_power_eps ResolveNow_addrs ResolveNow_eps hd_rotate_conv_nth)
qed

subsection \<open>Witnesses\<close>

text \<open>A one-volume, one-snapshot service: reads return the volume, an update replaces its ACL,
  a deletion turns its state.\<close>

lemma hex_guuid_inverse [simp]: "guuid_Parse hex_guuid (guuid_String hex_guuid u) = Some u"
  using guuid_ok_hex by (simp add: guuid_ok_def)

definition one_vol :: mgmt_Volume where
  "one_vol = \<lparr>mv_Name = ''v'', mv_UUID = guuid_String hex_guuid 1, mv_State = Volume_Available,
     mv_ProtectionState = ProtectionStateEnum_FullyProtected, mv_ReplicaCount = 3,
     mv_Acl = [ACLAllowNone], mv_Size = 4294967296, mv_LogicalUsedStorage = 0,
     mv_Compression = ''false'', mv_SourceSnapshotUUID = [], mv_ETag = ''7'',
     mv_ProjectName = ''p'', mv_QosPolicyName = []\<rparr>"

definition one_snap :: mgmt_Snapshot where
  "one_snap = \<lparr>ms_Name = ''sn'', ms_UUID = guuid_String hex_guuid 2,
     ms_SourceVolumeUUID = guuid_String hex_guuid 1, ms_SourceVolumeName = ''v'',
     ms_State = Snapshot_Available, ms_CreationTime = Some (Some 5), ms_Size = 4294967296,
     ms_ReplicaCount = 3, ms_Compression = False, ms_ETag = ''1'', ms_ProjectName = ''p''\<rparr>"

definition one_vol_api :: "mgmt_Volume DurosAPI" where
  "one_vol_api = \<lparr>api_GetVersion = (\<lambda>_. ok ''v2.0''),
     api_GetClusterInfo = (\<lambda>_. fail Plain), api_GetCluster = (\<lambda>_. fail Plain),
     api_ListNodes = (\<lambda>_. fail Plain), api_CreateVolume = (\<lambda>_ _. fail Plain),
     api_DeleteVolume = (\<lambda>_ _. State (\<lambda>v. (Inr (), v\<lparr>mv_State := Volume_Deleting\<rparr>))),
     api_GetVolume = (\<lambda>_ _. State (\<lambda>v. (Inr (Some v), v))),
     api_UpdateVolume = (\<lambda>_ req. State (\<lambda>v. (Inr (),
       v\<lparr>mv_Acl := (case uvr_Acl req of None \<Rightarrow> mv_Acl v | Some a \<Rightarrow> a)\<rparr>))),
     api_CreateSnapshot = (\<lambda>_ _. fail Plain), api_DeleteSnapshot = (\<lambda>_ _. fail Plain),
     api_GetSnapshot = (\<lambda>_ _. ok (Some one_snap))\<rparr>"

definition one_vol_client :: "mgmt_Volume GrpcClient" where
  "one_vol_client = \<lparr>gc_eps = [], gc_conn_Close = State_Monad.return (), gc_clnt = one_vol_api,
     gc_id = ''c'', gc_tgts = [], gc_guuid = hex_guuid,
     gc_env = \<lparr>env_Now = State_Monad.return 0, env_Sleep = (\<lambda>_. State_Monad.return ()),
       env_CtxErr = (\<lambda>_. State_Monad.return None)\<rparr>\<rparr>"

definition want_h :: VolumeUpdateHook where
  "want_h v = (if vol_ACL v = [''h''] then Inr None
     else Inr (Some \<lparr>upd_ACL = Some [''h''], upd_Capacity = 0\<rparr>))"

lemmas one_vol_defs = one_vol_client_def one_vol_api_def one_vol_def
  Client_GetVolume_def Client_getVolume_def cloneCtxWithCap_def lbVolumeFromGRPC_def
  lbVolumeStateFromGRPC_def VolumeState_of_def lbVolumeProtectionFromGRPC_def
  VolumeProtection_of_def MaxReplicaCount_def ToLower_def

definition one_vol_lb :: "string \<Rightarrow> VolumeState \<Rightarrow> Volume" where
  "one_vol_lb a st = \<lparr>vol_Name = ''v'', vol_UUID = 1, vol_ReplicaCount = 3, vol_Capacity = 4294967296,
     vol_LogicalUsedStorage = 0, vol_Compression = False, vol_SnapshotUUID = 0,
     vol_QosPolicyName = [], vol_ACL = [a], vol_State = st,
     vol_Protection = VolumeProtected, vol_ETag = ''7'', vol_ProjectName = ''p''\<rparr>"

lemma one_vol_get:
  "run_state (Client_GetVolume one_vol_client ctx 1 proj) (one_vol\<lparr>mv_Acl := [a]\<rparr>) =
    (Inr (one_vol_lb a VolumeAvailable), one_vol\<lparr>mv_Acl := [a]\<rparr>)"
  "run_state (Client_GetVolume one_vol_client ctx 1 proj)
     (one_vol\<lparr>mv_Acl := [a], mv_State := Volume_Deleting\<rparr>) =
    (Inr (one_vol_lb a VolumeDeleting), one_vol\<lparr>mv_Acl := [a], mv_State := Volume_Deleting\<rparr>)"
  by (simp_all add: one_vol_defs one_vol_lb_def Let_def split: option.split)

lemma one_vol_clone: "run_state (cloneCtxWithCap one_vol_client ctx) s =
    (ctx\<lparr>ctx_deadline := Some ((case ctx_deadline ctx of None \<Rightarrow> defaultTimeout | Some d \<Rightarrow> d)
       - 10 * millisecond)\<rparr>, s)"
  by (simp add: cloneCtxWithCap_def one_vol_client_def split: option.split)

lemma one_vol_one_vol: "one_vol = one_vol\<lparr>mv_Acl := [ACLAllowNone]\<rparr>"
  by (simp add: one_vol_def)

lemma one_vol_env: "env_CtxErr (gc_env one_vol_client) ctx = State_Monad.return None"
  "env_Sleep (gc_env one_vol_client) d = State_Monad.return ()"
  "gc_clnt one_vol_client = one_vol_api"
  by (simp_all add: one_vol_client_def)

text \<open>The update is sent, the second look finds it done.\<close>

lemma one_vol_update:
  assumes "hook (one_vol_lb ACLAllowNone VolumeAvailable) =
      Inr (Some \<lparr>upd_ACL = Some [a], upd_Capacity = 0\<rparr>)"
    and "hook (one_vol_lb a VolumeAvailable) = Inr None"
  shows "run_state (Client_UpdateVolume one_vol_client ctx 1 p hook) one_vol =
    (Inr (one_vol_lb a VolumeAvailable), one_vol\<lparr>mv_Acl := [a]\<rparr>)"
proof -
  have st: "vol_State (one_vol_lb b st) = st" for b st by (simp add: one_vol_lb_def)
  have first: "run_state (Client_doUpdateVolume one_vol_client ctx 1 p hook) one_vol =
      (Inr None, one_vol\<lparr>mv_Acl := [a]\<rparr>)"
    by (subst one_vol_one_vol) (simp add: Client_doUpdateVolume_def one_vol_get one_vol_clone
        one_vol_env st assms one_vol_api_def mkUpdateVolumeRequest_def Let_def)
  have second: "run_state (Client_doUpdateVolume one_vol_client ctx 1 p hook)
      (one_vol\<lparr>mv_Acl := [a]\<rparr>) =
      (Inr (Some (one_vol_lb a VolumeAvailable)), one_vol\<lparr>mv_Acl := [a]\<rparr>)"
    by (simp add: Client_doUpdateVolume_def one_vol_get one_vol_clone one_vol_env st assms)
  show ?thesis
    by (simp add: Client_UpdateVolume_def WithExponentialBackoff_def normalize_opts_def
        UpdateRetryOpts_def numeral_eq_Suc first second one_vol_env second_def millisecond_def)
qed

lemma one_vol_want_h:
  "run_state (Client_UpdateVolume one_vol_client ctx 1 p want_h) one_vol =
    (Inr (one_vol_lb ''h'' VolumeAvailable), one_vol\<lparr>mv_Acl := [''h'']\<rparr>)"
  by (rule one_vol_update) (simp_all add: want_h_def one_vol_lb_def ACLAllowNone_def)

text \<open>A deletion, seen by the first look.\<close>

lemma one_vol_delete:
  "run_state (Client_DeleteVolume one_vol_client ctx 1 p True) one_vol =
    (Inr (), one_vol\<lparr>mv_State := Volume_Deleting\<rparr>)"
proof -
  let ?v = "one_vol\<lparr>mv_Acl := [ACLAllowNone], mv_State := Volume_Deleting\<rparr>"
  have v: "one_vol\<lparr>mv_State := Volume_Deleting\<rparr> = ?v" by (simp add: one_vol_def)
  have poll: "run_state (poll_deleted one_vol_client ctx 1 p) ?v = (Inr (Some ()), ?v)" for ctx
    by (simp add: poll_deleted_def one_vol_env one_vol_get) (simp add: one_vol_lb_def)
  show ?thesis
    by (simp add: Client_DeleteVolume_def one_vol_clone one_vol_env one_vol_api_def
        WithExponentialBackoff_def normalize_opts_def DeleteRetryOpts_def numeral_eq_Suc v poll
        second_def millisecond_def)
qed

theorem UpdateVolume_observed_witness:
  "no_update (want_h (one_vol_lb ''h'' VolumeAvailable)) \<and>
   wf_Volume (one_vol_lb ''h'' VolumeAvailable)"
  using UpdateVolume_observed [OF one_vol_want_h [of "\<lparr>ctx_deadline = None, ctx_md = []\<rparr>" "''p''"]]
  by simp

text \<open>The ACL of the volume only ever holds the host the hook wants, or nobody.\<close>

theorem UpdateVolume_guarded_witness:
  "keeps (Client_UpdateVolume one_vol_client \<lparr>ctx_deadline = None, ctx_md = []\<rparr> 1 ''p'' want_h)
     (\<lambda>v. mv_Acl v = [ACLAllowNone] \<or> mv_Acl v = [''h''])"
  by (rule UpdateVolume_guarded)
     (auto simp: keeps_def one_vol_client_def one_vol_api_def want_h_def
       mkUpdateVolumeRequest_def split: if_splits)

theorem DeleteVolume_observed_witness:
  "\<exists>s' r ctx'. run_state (Client_GetVolume one_vol_client ctx' 1 ''p'') s' =
      (r, one_vol\<lparr>mv_State := Volume_Deleting\<rparr>) \<and>
    (case r of Inl err \<Rightarrow> isStatusNotFound err
     | Inr v \<Rightarrow> vol_State v \<in> {VolumeDeleting, VolumeFailed})"
  by (rule DeleteVolume_observed [OF one_vol_delete [of "\<lparr>ctx_deadline = None, ctx_md = []\<rparr>" "''p''"]])

theorem ResolveNow_round_robin_witness:
  "let a = \<lparr>ep_host = ''a'', ep_port = 1\<rparr>; b = \<lparr>ep_host = ''b'', ep_port = 2\<rparr>;
     r = newLbResolver ''s'' [a, b]
   in hd (res_eps (ResolveNow r)) = b \<and> res_eps (ResolveNow (ResolveNow r)) = [a, b]"
  using ResolveNow_round_robin [of "newLbResolver ''s''
      [\<lparr>ep_host = ''a'', ep_port = 1\<rparr>, \<lparr>ep_host = ''b'', ep_port = 2\<rparr>]" 1 0]
  by (simp add: newLbResolver_def Slice_Clone_def Let_def numeral_2_eq_2)

end
