(* ===== verification/Driver.thy ===== *)
theory Driver
  imports CSI_MD LBGRPC
begin

text \<open>
  \<^verbatim>\<open>pkg/driver/driver.go\<close>: the driver's state and start-up validation, node IDs and host
  NQNs, the global JWT, request credentials, and how request handlers borrow LightOS
  clients from the pool. A client is referred to by a handle, as the pool hands out the
  same object many times; \<open>d_client\<close> gives the object behind a handle. The file system,
  \<open>net/url\<close>, the logging package and the node backends are parameters.
\<close>

subsection \<open>Node IDs and host NQNs\<close>

definition maxHostNQNLen :: nat where "maxHostNQNLen = 223"

definition hostNQNPrefix :: string where
  "hostNQNPrefix = ''nqn.2019-09.com.lightbitslabs:host:''"

definition maxNodeIDLen :: nat where "maxNodeIDLen = maxHostNQNLen - length hostNQNPrefix"

text \<open>\<^verbatim>\<open>^[a-zA-Z0-9.-]+$\<close>\<close>

definition nodeIDRegex_match :: "string \<Rightarrow> bool" where
  "nodeIDRegex_match s \<longleftrightarrow>
     s \<noteq> [] \<and> list_all (\<lambda>ch. is_alnum ch \<or> ch = CHR ''.'' \<or> ch = CHR ''-'') s"

definition checkNodeID :: "string \<Rightarrow> gerr + unit" where
  "checkNodeID nodeID =
     (if nodeID = [] then Inl Plain
      else if \<not> nodeIDRegex_match nodeID then Inl Plain
      else if maxNodeIDLen < length nodeID then Inl Plain
      else Inr ())"

definition nodeIDToHostNQN :: "string \<Rightarrow> string" where
  "nodeIDToHostNQN nodeID = hostNQNPrefix @ nodeID"

definition hostNQNToNodeID :: "string \<Rightarrow> string" where
  "hostNQNToNodeID hostNQN =
     (if strings_HasPrefix hostNQN hostNQNPrefix then drop (length hostNQNPrefix) hostNQN else [])"

subsection \<open>Paths\<close>

text \<open>\<open>filepath.Clean\<close> and \<open>filepath.Join\<close> on Unix; the stack holds the components so far.\<close>

fun clean_comps :: "bool \<Rightarrow> string list \<Rightarrow> string list \<Rightarrow> string list" where
  "clean_comps rooted acc [] = rev acc"
| "clean_comps rooted acc (p # ps) =
     (if p = [] \<or> p = ''.'' then clean_comps rooted acc ps
      else if p = ''..'' then
        (case acc of
           q # acc' \<Rightarrow> if q \<noteq> ''..'' then clean_comps rooted acc' ps
                      else clean_comps rooted (p # acc) ps
         | [] \<Rightarrow> if rooted then clean_comps rooted [] ps else clean_comps rooted [p] ps)
      else clean_comps rooted (p # acc) ps)"

definition filepath_Clean :: "string \<Rightarrow> string" where
  "filepath_Clean path =
     (let rooted = strings_HasPrefix path ''/'';
          out = (if rooted then ''/'' else []) @
                strings_Join ''/'' (clean_comps rooted [] (strings_Split CHR ''/'' path))
      in if out = [] then ''.'' else out)"

definition filepath_Join :: "string \<Rightarrow> string \<Rightarrow> string" where
  "filepath_Join a b =
     (if a \<noteq> [] then filepath_Clean (a @ ''/'' @ b)
      else if b \<noteq> [] then filepath_Clean b else [])"

subsection \<open>Configuration and state\<close>

record Config =
  cfg_DefaultBackend :: string
  cfg_BackendCfgPath :: string
  cfg_JWTPath :: string
  cfg_LUKSCfgPath :: string
  cfg_NodeID :: string
  cfg_Endpoint :: string
  cfg_DefaultFS :: string
  cfg_LogLevel :: string
  cfg_LogRole :: string
  cfg_LogTimestamps :: bool
  cfg_LogFormat :: string
  cfg_BinaryName :: string
  cfg_Transport :: string
  cfg_SquelchPanics :: bool
  cfg_PrettyJSON :: bool
  cfg_RWX :: bool

text \<open>The client pool as the driver sees it: clients are borrowed and given back by handle.\<close>

record 's Pool =
  pool_GetClient :: "Ctx \<Rightarrow> Slice \<Rightarrow> string \<Rightarrow> ('s, gerr, nat) io"
  pool_PutClient :: "nat \<Rightarrow> ('s, unit) state"

record 's Driver =
  d_sockPath :: string
  d_jwtPath :: string
  d_luksCfgFile :: string
  d_nodeID :: string
  d_hostNQN :: string
  d_defaultFS :: string
  d_lbclients :: "'s Pool"
  d_client :: "nat \<Rightarrow> 's Client"
  d_transport :: string
  d_squelchPanics :: bool
  d_jwt :: string
  d_rwx :: bool
  d_guuid :: guuid

definition DefaultLUKSCfgFileName :: string where
  "DefaultLUKSCfgFileName = ''luks_config.yaml''"

datatype read_err = NotExist | OtherReadErr

text \<open>
  \<open>createBackend\<close>: the result of reading the config file picks the backend type. \<open>detect\<close>
  and \<open>mk\<close> are \<open>backend.DetectType\<close> and \<open>backend.Make\<close>; an unreadable file leaves the
  raw configuration nil.
\<close>

definition createBackend ::
  "(string \<Rightarrow> string option) \<Rightarrow> (string \<Rightarrow> string \<Rightarrow> string option \<Rightarrow> 'b option) \<Rightarrow>
   string \<Rightarrow> read_err + string \<Rightarrow> string \<Rightarrow> gerr + 'b" where
  "createBackend detect mk hostNQN rd defaultBackend =
     (case (case rd of
              Inr rawCfg \<Rightarrow> map_option (\<lambda>beType. (beType, Some rawCfg)) (detect rawCfg)
            | Inl NotExist \<Rightarrow> Some (defaultBackend, None)
            | Inl OtherReadErr \<Rightarrow> None) of
        None \<Rightarrow> Inl Plain
      | Some (beType, rawCfg) \<Rightarrow>
          (case mk beType hostNQN rawCfg of None \<Rightarrow> Inl Plain | Some be \<Rightarrow> Inr be))"

text \<open>
  \<open>New\<close>: \<open>urlParse\<close> gives the scheme and the path of a URL, \<open>ParseLevel\<close> the number of a log
  level (error 2, debug 5); \<open>be\<close> is the outcome of \<open>createBackend\<close>, \<open>pool\<close> and \<open>client\<close> the
  new client pool. The field \<open>defaultFS\<close> of the driver is not assigned.
\<close>

definition New ::
  "(string \<Rightarrow> (string \<times> string) option) \<Rightarrow> (string \<Rightarrow> nat option) \<Rightarrow> gerr + 'b \<Rightarrow>
   's Pool \<Rightarrow> (nat \<Rightarrow> 's Client) \<Rightarrow> guuid \<Rightarrow> Config \<Rightarrow> gerr + ('s Driver \<times> 'b)" where
  "New urlParse ParseLevel be pool client G cfg =
     (let d = \<lparr>d_sockPath = [], d_jwtPath = cfg_JWTPath cfg,
               d_luksCfgFile = filepath_Join (cfg_LUKSCfgPath cfg) DefaultLUKSCfgFileName,
               d_nodeID = cfg_NodeID cfg, d_hostNQN = [], d_defaultFS = [],
               d_lbclients = pool, d_client = client, d_transport = cfg_Transport cfg,
               d_squelchPanics = cfg_SquelchPanics cfg, d_jwt = [], d_rwx = cfg_RWX cfg,
               d_guuid = G\<rparr> in
      case checkNodeID (cfg_NodeID cfg) of
        Inl err \<Rightarrow> Inl Plain
      | Inr _ \<Rightarrow>
          (let d = d\<lparr>d_hostNQN := nodeIDToHostNQN (cfg_NodeID cfg)\<rparr> in
           case urlParse (cfg_Endpoint cfg) of
             None \<Rightarrow> Inl Plain
           | Some (scheme, path) \<Rightarrow>
               if scheme \<noteq> ''unix'' \<or> path = [] then Inl Plain
               else
                 let d = d\<lparr>d_sockPath := path\<rparr> in
                 if cfg_DefaultFS cfg \<noteq> Ext4FS \<and> cfg_DefaultFS cfg \<noteq> XfsFS then Inl Plain
                 else if cfg_Transport cfg \<noteq> ''tcp'' \<and> cfg_Transport cfg \<noteq> ''rdma'' then Inl Plain
                 else
                   (case ParseLevel (cfg_LogLevel cfg) of
                      None \<Rightarrow> Inl Plain
                    | Some level \<Rightarrow>
                        if level < 2 \<or> 5 < level then Inl Plain
                        else if cfg_LogFormat cfg \<noteq> ''json'' \<and> cfg_LogFormat cfg \<noteq> ''text''
                        then Inl Plain
                        else (case be of Inl err \<Rightarrow> Inl Plain | Inr b \<Rightarrow> Inr (d, b)))))"

subsection \<open>The global JWT and request credentials\<close>

definition setJWT :: "'s Driver \<Rightarrow> read_err + string \<Rightarrow> 's Driver" where
  "setJWT d rd =
     (case rd of
        Inl err \<Rightarrow> d\<lparr>d_jwt := []\<rparr>
      | Inr b \<Rightarrow> d\<lparr>d_jwt := TrimSpace b\<rparr>)"

text \<open>\<open>strings.Trim(s, "\n")\<close>\<close>

definition trim_nl :: "string \<Rightarrow> string" where
  "trim_nl s =
     (let cut = dropWhile (\<lambda>ch. ch = CHR 0x0A) in rev (cut (rev (cut s))))"

definition cloneCtxWithCreds :: "'s Driver \<Rightarrow> Ctx \<Rightarrow> (string \<rightharpoonup> string) \<Rightarrow> Ctx" where
  "cloneCtxWithCreds d ctx secrets =
     (let jwt = (case secrets ''jwt'' of Some v \<Rightarrow> v | None \<Rightarrow> d_jwt d)
      in if jwt \<noteq> []
         then ctx\<lparr>ctx_md := ctx_md ctx @ [(''Authorization'', ''Bearer '' @ trim_nl jwt)]\<rparr>
         else ctx)"

subsection \<open>Borrowing clients\<close>

definition PutLBClient :: "'s Driver \<Rightarrow> nat \<Rightarrow> ('s, unit) state" where
  "PutLBClient d h = pool_PutClient (d_lbclients d) h"

definition GetLBClient :: "'s Driver \<Rightarrow> Ctx \<Rightarrow> Slice \<Rightarrow> string \<Rightarrow> ('s, gerr, nat) io" where
  "GetLBClient d ctx mgmtEPs mgmtScheme = do {
     r \<leftarrow> pool_GetClient (d_lbclients d) ctx mgmtEPs mgmtScheme;
     (case r of
        Inl err \<Rightarrow>
          (case status_FromError err of
             None \<Rightarrow> fail mkInternal
           | Some cd \<Rightarrow>
               if cd = codes_Canceled \<or> cd = codes_DeadlineExceeded then fail err
               else fail mkEagain)
      | Inr h \<Rightarrow> do {
          e \<leftarrow> cl_RemoteOk (d_client d h) ctx;
          (case e of
             Inl err \<Rightarrow> do { _ \<leftarrow> pool_PutClient (d_lbclients d) h; fail err }
           | Inr _ \<Rightarrow> ok h)
        })
   }"

text \<open>
  The shape every handler has: get a client, defer giving it back, run the body with it.
\<close>

definition with_client ::
  "'s Driver \<Rightarrow> Ctx \<Rightarrow> Slice \<Rightarrow> string \<Rightarrow> ('s Client \<Rightarrow> ('s, gerr, 'a) io) \<Rightarrow> ('s, gerr, 'a) io"
where
  "with_client d ctx mgmtEPs mgmtScheme body = do {
     r \<leftarrow> GetLBClient d ctx mgmtEPs mgmtScheme;
     (case r of
        Inl err \<Rightarrow> fail err
      | Inr h \<Rightarrow> do {
          res \<leftarrow> body (d_client d h);
          _ \<leftarrow> PutLBClient d h;
          State_Monad.return res
        })
   }"

subsection \<open>Lemmas\<close>

lemma hostNQN_inverse [simp]: "hostNQNToNodeID (nodeIDToHostNQN n) = n"
  by (auto simp: hostNQNToNodeID_def nodeIDToHostNQN_def strings_HasPrefix_iff)

lemma nodeIDToHostNQN_inj [simp]: "nodeIDToHostNQN m = nodeIDToHostNQN n \<longleftrightarrow> m = n"
  by (simp add: nodeIDToHostNQN_def)

lemma nodeIDToHostNQN_not_special [simp]:
  "nodeIDToHostNQN n \<noteq> ACLAllowNone" "nodeIDToHostNQN n \<noteq> ACLAllowAny"
  by (simp_all add: nodeIDToHostNQN_def hostNQNPrefix_def ACLAllowNone_def ACLAllowAny_def)

lemma checkNodeID_Inr: "checkNodeID n = Inr () \<longleftrightarrow> nodeIDRegex_match n \<and> length n \<le> maxNodeIDLen"
  by (auto simp: checkNodeID_def nodeIDRegex_match_def)

lemma yields_with_client:
  assumes "\<And>h. yields (body (d_client d h)) P"
  shows "yields (with_client d ctx eps scheme body) P"
  unfolding with_client_def
proof (rule yields_bind)
  fix r
  have "yields (do { res \<leftarrow> body (d_client d h); _ \<leftarrow> PutLBClient d h; State_Monad.return res }) P"
    for h
    by (rule yields_call [OF assms]) (auto intro!: yields_bind)
  then show "yields (case r of Inl err \<Rightarrow> fail err
      | Inr h \<Rightarrow> do { res \<leftarrow> body (d_client d h); _ \<leftarrow> PutLBClient d h; State_Monad.return res }) P"
    by (simp split: sum.split)
qed

subsection \<open>Properties\<close>

text \<open>
  An accepted node ID and its host NQN determine each other, the NQN fits the NVMe limit
  of 223 bytes, and it is never one of the two reserved ACL entries.
\<close>

theorem nodeID_hostNQN:
  assumes "checkNodeID n = Inr ()"
  shows "hostNQNToNodeID (nodeIDToHostNQN n) = n \<and> length (nodeIDToHostNQN n) \<le> 223 \<and>
    nodeIDToHostNQN n \<notin> {ACLAllowAny, ACLAllowNone} \<and>
    (\<forall>m. nodeIDToHostNQN m = nodeIDToHostNQN n \<longrightarrow> m = n)"
  using assms
  by (simp add: checkNodeID_Inr maxNodeIDLen_def maxHostNQNLen_def)
     (simp add: nodeIDToHostNQN_def hostNQNPrefix_def)

theorem nodeID_hostNQN_witness: "hostNQNToNodeID (nodeIDToHostNQN ''rack7-node.3'') = ''rack7-node.3''"
  using nodeID_hostNQN [of "''rack7-node.3''"]
  by (simp add: checkNodeID_def nodeIDRegex_match_def is_alnum_def maxNodeIDLen_def
      maxHostNQNLen_def hostNQNPrefix_def)

text \<open>
  C39. A driver that starts has a valid node ID and the host NQN made from it, a socket path
  and a supported transport. The default file system of the configuration is checked but
  not kept: the driver's \<open>defaultFS\<close> stays empty.
\<close>

theorem New_validated:
  assumes "New urlParse ParseLevel be pool client G cfg = Inr (d, b)"
  shows "checkNodeID (d_nodeID d) = Inr () \<and> d_nodeID d = cfg_NodeID cfg \<and>
    d_hostNQN d = nodeIDToHostNQN (d_nodeID d) \<and> d_sockPath d \<noteq> [] \<and>
    d_transport d \<in> {''tcp'', ''rdma''} \<and> cfg_DefaultFS cfg \<in> {Ext4FS, XfsFS} \<and>
    d_defaultFS d = [] \<and> d_jwt d = [] \<and> d_rwx d = cfg_RWX cfg"
  using assms by (auto simp: New_def Let_def split: sum.splits option.splits if_splits)

definition sample_cfg :: Config where
  "sample_cfg = \<lparr>cfg_DefaultBackend = ''dsc'', cfg_BackendCfgPath = ''/b'', cfg_JWTPath = ''/j'',
     cfg_LUKSCfgPath = ''/etc/luks_config.yaml'', cfg_NodeID = ''n1'', cfg_Endpoint = ''unix:///s'',
     cfg_DefaultFS = XfsFS, cfg_LogLevel = ''info'', cfg_LogRole = ''node'',
     cfg_LogTimestamps = False, cfg_LogFormat = ''json'', cfg_BinaryName = [], cfg_Transport = ''tcp'',
     cfg_SquelchPanics = False, cfg_PrettyJSON = False, cfg_RWX = False\<rparr>"

theorem New_validated_witness:
  "\<forall>(pool :: unit Pool) client. \<exists>d. New (\<lambda>_. Some (''unix'', ''/s'')) (\<lambda>_. Some 4) (Inr ()) pool client hex_guuid sample_cfg =
      Inr (d, ()) \<and> d_luksCfgFile d = ''/etc/luks_config.yaml/luks_config.yaml'' \<and>
    d_defaultFS d = [] \<and> d_hostNQN d = nodeIDToHostNQN ''n1''"
proof (intro allI)
  fix pool :: "unit Pool" and client
  have "checkNodeID ''n1'' = Inr ()"
    by (simp add: checkNodeID_def nodeIDRegex_match_def is_alnum_def maxNodeIDLen_def
        maxHostNQNLen_def hostNQNPrefix_def)
  then obtain d where run: "New (\<lambda>_. Some (''unix'', ''/s'')) (\<lambda>_. Some 4) (Inr ()) pool client
      hex_guuid sample_cfg = Inr (d, ())"
    and luks: "d_luksCfgFile d = filepath_Join ''/etc/luks_config.yaml'' DefaultLUKSCfgFileName"
    by (simp add: New_def sample_cfg_def XfsFS_def Ext4FS_def)
  have "filepath_Join ''/etc/luks_config.yaml'' DefaultLUKSCfgFileName =
      ''/etc/luks_config.yaml/luks_config.yaml''"
    by (simp add: filepath_Join_def filepath_Clean_def DefaultLUKSCfgFileName_def)
  with New_validated [OF run] run luks
  show "\<exists>d. New (\<lambda>_. Some (''unix'', ''/s'')) (\<lambda>_. Some 4) (Inr ()) pool client hex_guuid sample_cfg =
      Inr (d, ()) \<and> d_luksCfgFile d = ''/etc/luks_config.yaml/luks_config.yaml'' \<and>
    d_defaultFS d = [] \<and> d_hostNQN d = nodeIDToHostNQN ''n1''"
    by (auto simp: sample_cfg_def)
qed

end
