(* ===== verification/Client_Pool.thy ===== *)
theory Client_Pool
  imports Driver
begin

text \<open>
  \<^verbatim>\<open>pkg/lb/clientpool.go\<close>: the pool of long-lived LightOS clients. Its goroutines (callers
  of \<open>GetClient\<close> and \<open>PutClient\<close>, one dialler per new member, the reaper, \<open>Close\<close>) share the
  maps and the members under two kinds of mutexes. Each critical section is a function on
  the pool state, and the interleavings are the step relation \<open>pstep\<close> over these
  functions. A member is a heap cell named by its index, a client is a handle whose methods
  \<open>ID()\<close> and \<open>Targets()\<close> are the parameters \<open>cid\<close> and \<open>ctgts\<close>. Two sections of the source
  that nest \<open>pm.mu\<close> inside \<open>cp.mu\<close> and release \<open>cp.mu\<close> first (reaping, closing one client) are
  one step each: every access to the member needs \<open>pm.mu\<close>, so nobody sees it in between.
  The ghost fields: \<open>cp_lent\<close> counts the clients handed out and not yet returned, \<open>cp_owner\<close>
  names the member each client was dialled for, \<open>cp_tgts\<close> the targets a member was made for.
\<close>

subsection \<open>Members and the pool\<close>

definition DefaultClientPoolDialTimeout :: int where
  "DefaultClientPoolDialTimeout = 10 * second"

definition DefaultClientPoolLingerTime :: int where
  "DefaultClientPoolLingerTime = 10 * 60 * second"

definition DefaultClientPoolReapCycle :: int where
  "DefaultClientPoolReapCycle = 60 * second"

record ClientPoolOptions =
  opt_DialTimeout :: int
  opt_LingerTime :: int
  opt_ReapCycle :: int

text \<open>\<open>pm_expireBy\<close> is \<open>None\<close> for the zero time, "never".\<close>

record poolMember =
  pm_clnt :: "nat option"
  pm_rc :: uint64
  pm_expireBy :: "int option"
  pm_dialErr :: "gerr option"
  pm_reaped :: bool
  pm_dialDone :: bool

text \<open>Where the dialling goroutine of a member is, by the section it runs next.\<close>

datatype dial_pc = Dialling string | Dialled string "nat option" | Registered

text \<open>The reaper: cycling, or closing all clients (between two of them, or with the entry of one
  still to be deleted from the pool), or retired.\<close>

datatype reaper_pc = RCycle | RClosing | RDelete string | RRetired

datatype closer_pc = CNotYet | CWaitDials | CKilled | CFinished

record ClientPool =
  cp_pool :: "string \<rightharpoonup> nat"
  cp_lut :: "string \<rightharpoonup> nat"
  cp_closed :: bool
  cp_mem :: "nat \<Rightarrow> poolMember"
  cp_next :: nat
  cp_dials :: "nat \<rightharpoonup> dial_pc"
  cp_reaper :: reaper_pc
  cp_closer :: closer_pc
  cp_lent :: "nat \<Rightarrow> nat"
  cp_owner :: "nat \<rightharpoonup> nat"
  cp_tgts :: "nat \<Rightarrow> string"

definition fresh_member :: poolMember where
  "fresh_member = \<lparr>pm_clnt = None, pm_rc = 0, pm_expireBy = None, pm_dialErr = None,
     pm_reaped = False, pm_dialDone = False\<rparr>"

definition NewClientPoolOptions :: "ClientPoolOptions \<Rightarrow> ClientPoolOptions" where
  "NewClientPoolOptions opts =
     \<lparr>opt_DialTimeout = (if opt_DialTimeout opts = 0 then DefaultClientPoolDialTimeout
                        else opt_DialTimeout opts),
      opt_LingerTime = (if opt_LingerTime opts = 0 then DefaultClientPoolLingerTime
                        else opt_LingerTime opts),
      opt_ReapCycle = (if opt_ReapCycle opts = 0 then DefaultClientPoolReapCycle
                       else opt_ReapCycle opts)\<rparr>"

definition NewClientPool :: ClientPool where
  "NewClientPool = \<lparr>cp_pool = Map.empty, cp_lut = Map.empty, cp_closed = False,
     cp_mem = (\<lambda>_. fresh_member), cp_next = 0, cp_dials = Map.empty, cp_reaper = RCycle,
     cp_closer = CNotYet, cp_lent = (\<lambda>_. 0), cp_owner = Map.empty, cp_tgts = (\<lambda>_. [])\<rparr>"

definition upd_mem :: "nat \<Rightarrow> (poolMember \<Rightarrow> poolMember) \<Rightarrow> ClientPool \<Rightarrow> ClientPool" where
  "upd_mem m f cp = cp\<lparr>cp_mem := (cp_mem cp)(m := f (cp_mem cp m))\<rparr>"

subsection \<open>Critical sections\<close>

text \<open>\<open>GetClient\<close>, no member for the targets yet: make one and start its dialler.\<close>

definition sec_new :: "string \<Rightarrow> ClientPool \<Rightarrow> ClientPool" where
  "sec_new tgts cp =
     (let m = cp_next cp in
      cp\<lparr>cp_pool := (cp_pool cp)(tgts \<mapsto> m), cp_mem := (cp_mem cp)(m := fresh_member),
         cp_next := Suc m, cp_dials := (cp_dials cp)(m \<mapsto> Dialling tgts),
         cp_tgts := (cp_tgts cp)(m := tgts)\<rparr>)"

text \<open>\<open>dial\<close>: store what the dialler returned.\<close>

definition sec_dialled :: "int \<Rightarrow> int \<Rightarrow> nat \<Rightarrow> string \<Rightarrow> gerr + nat \<Rightarrow> ClientPool \<Rightarrow> ClientPool" where
  "sec_dialled linger now m tgts res cp =
     (case res of
        Inl err \<Rightarrow>
          (upd_mem m (\<lambda>pm. pm\<lparr>pm_dialErr := Some err\<rparr>) cp)
            \<lparr>cp_dials := (cp_dials cp)(m \<mapsto> Dialled tgts None)\<rparr>
      | Inr h \<Rightarrow>
          (upd_mem m (\<lambda>pm. pm\<lparr>pm_clnt := Some h, pm_expireBy := Some (now + linger)\<rparr>) cp)
            \<lparr>cp_dials := (cp_dials cp)(m \<mapsto> Dialled tgts (Some h)),
             cp_owner := (cp_owner cp)(h \<mapsto> m)\<rparr>)"

text \<open>\<open>dial\<close>: enter the client into the look-up table, or drop the failed member.\<close>

definition sec_register ::
  "(nat \<Rightarrow> string) \<Rightarrow> nat \<Rightarrow> string \<Rightarrow> nat option \<Rightarrow> ClientPool \<Rightarrow> ClientPool" where
  "sec_register cid m tgts clnt cp =
     (case clnt of
        Some h \<Rightarrow> cp\<lparr>cp_lut := (cp_lut cp)(cid h \<mapsto> m), cp_dials := (cp_dials cp)(m \<mapsto> Registered)\<rparr>
      | None \<Rightarrow> cp\<lparr>cp_pool := (cp_pool cp)(tgts := None),
                  cp_dials := (cp_dials cp)(m \<mapsto> Registered)\<rparr>)"

text \<open>\<open>dial\<close>: close \<open>dialDone\<close>; the goroutine ends.\<close>

definition sec_dial_done :: "nat \<Rightarrow> ClientPool \<Rightarrow> ClientPool" where
  "sec_dial_done m cp =
     (upd_mem m (\<lambda>pm. pm\<lparr>pm_dialDone := True\<rparr>) cp)\<lparr>cp_dials := (cp_dials cp)(m := None)\<rparr>"

text \<open>\<open>GetClient\<close> after \<open>dialDone\<close>, no error: take a reference. \<open>h\<close> is the client returned.\<close>

definition sec_get :: "nat \<Rightarrow> nat \<Rightarrow> ClientPool \<Rightarrow> ClientPool" where
  "sec_get m h cp =
     (upd_mem m (\<lambda>pm. pm\<lparr>pm_rc := pm_rc pm + 1, pm_expireBy := None\<rparr>) cp)
       \<lparr>cp_lent := (cp_lent cp)(h := Suc (cp_lent cp h))\<rparr>"

text \<open>\<open>PutClient\<close>, pool open and client known: drop a reference.\<close>

definition sec_put :: "int \<Rightarrow> int \<Rightarrow> nat \<Rightarrow> nat \<Rightarrow> ClientPool \<Rightarrow> ClientPool" where
  "sec_put linger now m h cp =
     (upd_mem m (\<lambda>pm. let pm = pm\<lparr>pm_rc := pm_rc pm - 1\<rparr> in
          if pm_rc pm = 0 then pm\<lparr>pm_expireBy := Some (now + linger)\<rparr> else pm) cp)
       \<lparr>cp_lent := (cp_lent cp)(h := cp_lent cp h - 1)\<rparr>"

text \<open>The test and the effect of reaping one member.\<close>

definition reapable :: "int \<Rightarrow> poolMember \<Rightarrow> bool" where
  "reapable now pm \<longleftrightarrow> pm_rc pm = 0 \<and> (\<exists>e. pm_expireBy pm = Some e \<and> e < now)"

definition closing_err :: gerr where "closing_err = Status codes_Canceled []"

definition sec_reap ::
  "(nat \<Rightarrow> string) \<Rightarrow> string \<Rightarrow> nat \<Rightarrow> nat \<Rightarrow> ClientPool \<Rightarrow> ClientPool" where
  "sec_reap ctgts ident m h cp =
     (upd_mem m (\<lambda>pm. pm\<lparr>pm_reaped := True, pm_clnt := None, pm_dialErr := Some closing_err\<rparr>) cp)
       \<lparr>cp_lut := (cp_lut cp)(ident := None), cp_pool := (cp_pool cp)(ctgts h := None)\<rparr>"

text \<open>\<open>closeClients\<close>: one client, and then its entry in the pool.\<close>

definition sec_close_client ::
  "(nat \<Rightarrow> string) \<Rightarrow> string \<Rightarrow> nat \<Rightarrow> nat \<Rightarrow> ClientPool \<Rightarrow> ClientPool" where
  "sec_close_client ctgts ident m h cp =
     (upd_mem m (\<lambda>pm. pm\<lparr>pm_clnt := None, pm_dialErr := Some closing_err\<rparr>) cp)
       \<lparr>cp_lut := (cp_lut cp)(ident := None), cp_reaper := RDelete (ctgts h)\<rparr>"

definition sec_delete :: "string \<Rightarrow> ClientPool \<Rightarrow> ClientPool" where
  "sec_delete tgts cp = cp\<lparr>cp_pool := (cp_pool cp)(tgts := None), cp_reaper := RClosing\<rparr>"

subsection \<open>Interleavings\<close>

text \<open>
  The dialler is third-party code as far as the pool goes: what is assumed of a client it
  returns is that \<open>Targets()\<close> is the string of the dialled endpoints and that its \<open>ID()\<close> is
  not that of an earlier client, as the interface promises; the dialler of \<open>LBGRPC\<close> draws it at
  random from 32 bits, which makes this very likely only. A client is lent fewer than \<open>2^64 - 1\<close> times at once.
\<close>

inductive pstep :: "(nat \<Rightarrow> string) \<Rightarrow> (nat \<Rightarrow> string) \<Rightarrow> int \<Rightarrow> ClientPool \<Rightarrow> ClientPool \<Rightarrow> bool"
  for cid ctgts linger where
  get_new: "\<lbrakk>\<not> cp_closed cp; cp_pool cp tgts = None\<rbrakk> \<Longrightarrow> pstep cid ctgts linger cp (sec_new tgts cp)"
| dial_ok: "\<lbrakk>cp_dials cp m = Some (Dialling tgts); ctgts h = tgts; cid h \<notin> cid ` dom (cp_owner cp)\<rbrakk> \<Longrightarrow>
    pstep cid ctgts linger cp (sec_dialled linger now m tgts (Inr h) cp)"
| dial_fail: "cp_dials cp m = Some (Dialling tgts) \<Longrightarrow>
    pstep cid ctgts linger cp (sec_dialled linger now m tgts (Inl err) cp)"
| dial_register: "cp_dials cp m = Some (Dialled tgts clnt) \<Longrightarrow>
    pstep cid ctgts linger cp (sec_register cid m tgts clnt cp)"
| dial_done: "cp_dials cp m = Some Registered \<Longrightarrow> pstep cid ctgts linger cp (sec_dial_done m cp)"
| get: "\<lbrakk>m < cp_next cp; pm_dialDone (cp_mem cp m); pm_dialErr (cp_mem cp m) = None;
     pm_clnt (cp_mem cp m) = Some h; Suc (cp_lent cp h) < 2 ^ 64\<rbrakk> \<Longrightarrow>
    pstep cid ctgts linger cp (sec_get m h cp)"
| put: "\<lbrakk>0 < cp_lent cp h; \<not> cp_closed cp; cp_lut cp (cid h) = Some m\<rbrakk> \<Longrightarrow>
    pstep cid ctgts linger cp (sec_put linger now m h cp)"
| put_closed: "\<lbrakk>0 < cp_lent cp h; cp_closed cp\<rbrakk> \<Longrightarrow>
    pstep cid ctgts linger cp (cp\<lparr>cp_lent := (cp_lent cp)(h := cp_lent cp h - 1)\<rparr>)"
| reap: "\<lbrakk>cp_reaper cp = RCycle; cp_lut cp ident = Some m; reapable now (cp_mem cp m);
     pm_clnt (cp_mem cp m) = Some h\<rbrakk> \<Longrightarrow> pstep cid ctgts linger cp (sec_reap ctgts ident m h cp)"
| close: "\<not> cp_closed cp \<Longrightarrow>
    pstep cid ctgts linger cp (cp\<lparr>cp_closed := True, cp_closer := CWaitDials\<rparr>)"
| close_dialled: "\<lbrakk>cp_closer cp = CWaitDials; cp_dials cp = Map.empty\<rbrakk> \<Longrightarrow>
    pstep cid ctgts linger cp (cp\<lparr>cp_closer := CKilled\<rparr>)"
| close_clients: "\<lbrakk>cp_closer cp = CKilled; cp_reaper cp = RCycle\<rbrakk> \<Longrightarrow>
    pstep cid ctgts linger cp (cp\<lparr>cp_reaper := RClosing\<rparr>)"
| close_client: "\<lbrakk>cp_reaper cp = RClosing; cp_lut cp ident = Some m;
     pm_clnt (cp_mem cp m) = Some h\<rbrakk> \<Longrightarrow>
    pstep cid ctgts linger cp (sec_close_client ctgts ident m h cp)"
| close_delete: "cp_reaper cp = RDelete tgts \<Longrightarrow> pstep cid ctgts linger cp (sec_delete tgts cp)"
| close_retire: "\<lbrakk>cp_reaper cp = RClosing; cp_lut cp = Map.empty\<rbrakk> \<Longrightarrow>
    pstep cid ctgts linger cp (cp\<lparr>cp_reaper := RRetired\<rparr>)"
| close_finish: "\<lbrakk>cp_closer cp = CKilled; cp_reaper cp = RRetired; cp_pool cp = Map.empty;
     cp_lut cp = Map.empty\<rbrakk> \<Longrightarrow> pstep cid ctgts linger cp (cp\<lparr>cp_closer := CFinished\<rparr>)"

inductive_cases pstepE: "pstep cid ctgts linger cp cp'"

inductive preach :: "(nat \<Rightarrow> string) \<Rightarrow> (nat \<Rightarrow> string) \<Rightarrow> int \<Rightarrow> ClientPool \<Rightarrow> bool"
  for cid ctgts linger where
  preach_init: "preach cid ctgts linger NewClientPool"
| preach_step: "preach cid ctgts linger cp \<Longrightarrow> pstep cid ctgts linger cp cp' \<Longrightarrow>
    preach cid ctgts linger cp'"

text \<open>
  The points where the code panics: \<open>PutClient\<close> of a lent client it does not know,
  \<open>reapClients\<close> and \<open>closeClients\<close> finding a member without client, and \<open>Close\<close> finding
  something left when the reaper has retired. \<open>nil_client\<close>: \<open>GetClient\<close> about to return a
  nil client without an error.
\<close>

definition put_panics :: "(nat \<Rightarrow> string) \<Rightarrow> ClientPool \<Rightarrow> bool" where
  "put_panics cid cp \<longleftrightarrow> (\<exists>h. 0 < cp_lent cp h \<and> \<not> cp_closed cp \<and> cp_lut cp (cid h) = None)"

definition reap_panics :: "ClientPool \<Rightarrow> bool" where
  "reap_panics cp \<longleftrightarrow> (\<exists>ident m now. cp_reaper cp = RCycle \<and> cp_lut cp ident = Some m \<and>
     reapable now (cp_mem cp m) \<and> pm_clnt (cp_mem cp m) = None)"

definition close_clients_panics :: "ClientPool \<Rightarrow> bool" where
  "close_clients_panics cp \<longleftrightarrow> (\<exists>ident m. cp_reaper cp = RClosing \<and> cp_lut cp ident = Some m \<and>
     pm_clnt (cp_mem cp m) = None)"

definition close_panics :: "ClientPool \<Rightarrow> bool" where
  "close_panics cp \<longleftrightarrow> cp_closer cp = CKilled \<and> cp_reaper cp = RRetired \<and>
     (cp_pool cp \<noteq> Map.empty \<or> cp_lut cp \<noteq> Map.empty)"

definition nil_client :: "ClientPool \<Rightarrow> bool" where
  "nil_client cp \<longleftrightarrow> (\<exists>m < cp_next cp. pm_dialDone (cp_mem cp m) \<and>
     pm_dialErr (cp_mem cp m) = None \<and> pm_clnt (cp_mem cp m) = None)"

subsection \<open>The invariant\<close>

text \<open>An entry of the look-up table is a member with that client, also entered in the pool, whose
  reference count is the number of callers that hold the client.\<close>

definition lut_at :: "(nat \<Rightarrow> string) \<Rightarrow> (nat \<Rightarrow> string) \<Rightarrow> ClientPool \<Rightarrow> string \<Rightarrow> nat \<Rightarrow> bool" where
  "lut_at cid ctgts cp ident m \<longleftrightarrow>
     (case pm_clnt (cp_mem cp m) of
        None \<Rightarrow> False
      | Some h \<Rightarrow> cid h = ident \<and> cp_pool cp (ctgts h) = Some m \<and> pm_dialErr (cp_mem cp m) = None \<and>
          cp_dials cp m \<in> {None, Some Registered} \<and>
          (\<not> cp_closed cp \<longrightarrow> unat (pm_rc (cp_mem cp m)) = cp_lent cp h))"

text \<open>An entry of the pool is being dialled, is in the look-up table, or is being deleted.\<close>

definition pool_at :: "(nat \<Rightarrow> string) \<Rightarrow> (nat \<Rightarrow> string) \<Rightarrow> ClientPool \<Rightarrow> string \<Rightarrow> nat \<Rightarrow> bool" where
  "pool_at cid ctgts cp tgts m \<longleftrightarrow> m < cp_next cp \<and>
     (case cp_dials cp m of
        Some (Dialling t) \<Rightarrow> t = tgts
      | Some (Dialled t c) \<Rightarrow> t = tgts
      | _ \<Rightarrow>
          (case pm_clnt (cp_mem cp m) of
             None \<Rightarrow> cp_reaper cp = RDelete tgts
           | Some h \<Rightarrow> cp_reaper cp \<noteq> RDelete tgts \<and> cp_lut cp (cid h) = Some m \<and> ctgts h = tgts))"

text \<open>A member while its dialler runs.\<close>

definition dial_at :: "(nat \<Rightarrow> string) \<Rightarrow> (nat \<Rightarrow> string) \<Rightarrow> ClientPool \<Rightarrow> nat \<Rightarrow> dial_pc \<Rightarrow> bool" where
  "dial_at cid ctgts cp m pc \<longleftrightarrow> m < cp_next cp \<and> \<not> pm_dialDone (cp_mem cp m) \<and>
     (case pc of
        Dialling t \<Rightarrow> cp_pool cp t = Some m \<and> cp_mem cp m = fresh_member
      | Dialled t None \<Rightarrow> cp_pool cp t = Some m \<and> pm_dialErr (cp_mem cp m) \<noteq> None \<and>
          pm_clnt (cp_mem cp m) = None
      | Dialled t (Some h) \<Rightarrow> cp_pool cp t = Some m \<and> pm_dialErr (cp_mem cp m) = None \<and>
          pm_clnt (cp_mem cp m) = Some h \<and> ctgts h = t \<and> pm_rc (cp_mem cp m) = 0 \<and>
          cp_lent cp h = 0 \<and> cp_lut cp (cid h) = None
      | Registered \<Rightarrow> True)"

text \<open>A member has only a client that was dialled for it; past registration, and with no error,
  it has one, and the look-up table knows it.\<close>

definition mem_at :: "(nat \<Rightarrow> string) \<Rightarrow> ClientPool \<Rightarrow> nat \<Rightarrow> bool" where
  "mem_at cid cp m \<longleftrightarrow>
     (case pm_clnt (cp_mem cp m) of
        None \<Rightarrow> True
      | Some h \<Rightarrow> m < cp_next cp \<and> cp_owner cp h = Some m) \<and>
     (m < cp_next cp \<longrightarrow> cp_dials cp m \<in> {None, Some Registered} \<longrightarrow> pm_dialErr (cp_mem cp m) = None \<longrightarrow>
        (case pm_clnt (cp_mem cp m) of None \<Rightarrow> False | Some h \<Rightarrow> cp_lut cp (cid h) = Some m))"

text \<open>A client on loan was dialled, and is known until the pool is closed.\<close>

definition lent_at :: "(nat \<Rightarrow> string) \<Rightarrow> ClientPool \<Rightarrow> nat \<Rightarrow> bool" where
  "lent_at cid cp h \<longleftrightarrow> cp_lent cp h = 0 \<or>
     cp_lent cp h < 2 ^ 64 \<and>
     (case cp_owner cp h of
        None \<Rightarrow> False
      | Some m \<Rightarrow> \<not> cp_closed cp \<longrightarrow> cp_lut cp (cid h) = Some m \<and> pm_clnt (cp_mem cp m) = Some h)"

text \<open>The order in which \<open>Close\<close> and the reaper wind the pool up.\<close>

definition phase_ok :: "ClientPool \<Rightarrow> bool" where
  "phase_ok cp \<longleftrightarrow> (cp_closer cp \<noteq> CNotYet \<longleftrightarrow> cp_closed cp) \<and>
     (cp_closer cp \<in> {CKilled, CFinished} \<longrightarrow> cp_dials cp = Map.empty) \<and>
     (cp_reaper cp \<noteq> RCycle \<longrightarrow> cp_closer cp \<in> {CKilled, CFinished}) \<and>
     (cp_closer cp = CFinished \<longrightarrow> cp_reaper cp = RRetired) \<and>
     (cp_reaper cp = RRetired \<longrightarrow> cp_lut cp = Map.empty)"

definition pool_inv :: "(nat \<Rightarrow> string) \<Rightarrow> (nat \<Rightarrow> string) \<Rightarrow> ClientPool \<Rightarrow> bool" where
  "pool_inv cid ctgts cp \<longleftrightarrow> inj_on cid (dom (cp_owner cp)) \<and> phase_ok cp \<and>
     (\<forall>ident m. cp_lut cp ident = Some m \<longrightarrow> lut_at cid ctgts cp ident m) \<and>
     (\<forall>tgts m. cp_pool cp tgts = Some m \<longrightarrow> pool_at cid ctgts cp tgts m) \<and>
     (\<forall>m pc. cp_dials cp m = Some pc \<longrightarrow> dial_at cid ctgts cp m pc) \<and>
     (\<forall>m. mem_at cid cp m) \<and> (\<forall>h. lent_at cid cp h)"

lemma pool_invI:
  assumes "inj_on cid (dom (cp_owner cp))" "phase_ok cp"
    and "\<And>ident m. cp_lut cp ident = Some m \<Longrightarrow> lut_at cid ctgts cp ident m"
    and "\<And>tgts m. cp_pool cp tgts = Some m \<Longrightarrow> pool_at cid ctgts cp tgts m"
    and "\<And>m pc. cp_dials cp m = Some pc \<Longrightarrow> dial_at cid ctgts cp m pc"
    and "\<And>m. mem_at cid cp m" "\<And>h. lent_at cid cp h"
  shows "pool_inv cid ctgts cp"
  using assms by (simp add: pool_inv_def)

lemma pool_invD:
  assumes "pool_inv cid ctgts cp"
  shows pool_inv_inj: "inj_on cid (dom (cp_owner cp))"
    and pool_inv_phase: "phase_ok cp"
    and pool_inv_lut: "cp_lut cp ident = Some m \<longrightarrow> lut_at cid ctgts cp ident m"
    and pool_inv_pool: "cp_pool cp tgts = Some m \<longrightarrow> pool_at cid ctgts cp tgts m"
    and pool_inv_dial: "cp_dials cp m = Some pc \<longrightarrow> dial_at cid ctgts cp m pc"
    and pool_inv_mem: "mem_at cid cp m"
    and pool_inv_lent: "lent_at cid cp h"
  using assms by (simp_all add: pool_inv_def)

lemmas pool_at_defs = lut_at_def pool_at_def dial_at_def mem_at_def lent_at_def

lemmas sec_defs = sec_new_def sec_dialled_def sec_register_def sec_dial_done_def sec_get_def
  sec_put_def sec_reap_def sec_close_client_def sec_delete_def upd_mem_def Let_def

lemmas pool_splits = option.splits dial_pc.splits if_splits

lemma pool_inv_init: "pool_inv cid ctgts NewClientPool"
  by (simp add: pool_inv_def phase_ok_def pool_at_defs NewClientPool_def fresh_member_def)

lemma pool_inv_same:
  assumes inv: "pool_inv cid ctgts cp" and c: "pm_clnt (cp_mem cp m) = Some h"
    "pm_clnt (cp_mem cp m') = Some h'" "cid h = cid h'"
  shows "m = m' \<and> h = h'"
proof -
  have o: "cp_owner cp h = Some m" "cp_owner cp h' = Some m'"
    using pool_inv_mem[OF inv, of m] pool_inv_mem[OF inv, of m'] c by (simp_all add: mem_at_def)
  then have "h = h'" using pool_inv_inj[OF inv] c(3) by (auto dest: inj_onD)
  with o show ?thesis by simp
qed

lemma pool_inv_lutE:
  assumes "pool_inv cid ctgts cp" "cp_lut cp ident = Some m"
  obtains h where "pm_clnt (cp_mem cp m) = Some h" "cid h = ident" "cp_pool cp (ctgts h) = Some m"
    "pm_dialErr (cp_mem cp m) = None" "cp_dials cp m \<in> {None, Some Registered}"
    "\<not> cp_closed cp \<longrightarrow> unat (pm_rc (cp_mem cp m)) = cp_lent cp h"
  using pool_inv_lut[OF assms(1), of ident m] assms(2)
  by (auto simp: lut_at_def split: option.splits)

lemma pool_inv_new:
  assumes inv: "pool_inv cid ctgts cp" and g: "\<not> cp_closed cp" "cp_pool cp tgts = None"
  shows "pool_inv cid ctgts (sec_new tgts cp)"
proof (rule pool_invI, goal_cases)
  case 1
  show ?case using pool_inv_inj[OF inv] by (simp add: sec_defs)
next
  case 2
  show ?case using pool_inv_phase[OF inv] g by (auto simp: phase_ok_def sec_defs)
next
  case (3 i m)
  then show ?case
    using g pool_inv_lut[OF inv, of i m] pool_inv_mem[OF inv, of m]
    by (auto simp: pool_at_defs sec_defs split: option.splits)
next
  case (4 t m)
  then show ?case
    using g pool_inv_pool[OF inv, of t m]
    by (auto simp: pool_at_defs sec_defs less_Suc_eq split: pool_splits)
next
  case (5 m pc)
  then show ?case
    using g pool_inv_dial[OF inv, of m pc]
    by (auto simp: pool_at_defs sec_defs fresh_member_def split: pool_splits)
next
  case (6 m)
  then show ?case
    using g pool_inv_mem[OF inv, of m]
    by (auto simp: pool_at_defs sec_defs fresh_member_def less_Suc_eq split: pool_splits)
next
  case (7 h)
  then show ?case
    using g pool_inv_lent[OF inv, of h] pool_inv_mem[OF inv, of "cp_next cp"]
    by (auto simp: pool_at_defs sec_defs split: option.splits)
qed

lemma pool_inv_dial_ok:
  assumes inv: "pool_inv cid ctgts cp" and g: "cp_dials cp m = Some (Dialling tgts)"
    "ctgts h = tgts" "cid h \<notin> cid ` dom (cp_owner cp)"
  shows "pool_inv cid ctgts (sec_dialled linger now m tgts (Inr h) cp)"
proof -
  have m: "m < cp_next cp" "\<not> pm_dialDone (cp_mem cp m)" "cp_pool cp tgts = Some m" "cp_mem cp m = fresh_member"
    using pool_inv_dial[OF inv, of m "Dialling tgts"] g by (auto simp: dial_at_def)
  have h: "cid h' = cid h \<Longrightarrow> cp_owner cp h' = None" for h'
    using g(3) by (metis domIff imageI)
  have l: "cp_lut cp (cid h) = None"
    using pool_inv_lut[OF inv, of "cid h" "the (cp_lut cp (cid h))"] pool_inv_mem[OF inv, of "the (cp_lut cp (cid h))"] h
    by (cases "cp_lut cp (cid h)") (auto simp: pool_at_defs split: option.splits)
  show ?thesis
  proof (rule pool_invI, goal_cases)
    case 1
    show ?case using pool_inv_inj[OF inv] g(3) h by (auto simp: sec_defs inj_on_def)
  next
    case 2
    show ?case using pool_inv_phase[OF inv] g by (auto simp: phase_ok_def sec_defs)
  next
    case (3 i m')
    then show ?case
      using g m pool_inv_lut[OF inv, of i m'] pool_inv_mem[OF inv, of m']
      by (auto simp: pool_at_defs sec_defs split: option.splits)
  next
    case (4 t m')
    then show ?case
      using g m pool_inv_pool[OF inv, of t m']
      by (auto simp: pool_at_defs sec_defs split: pool_splits)
  next
    case (5 m' pc)
    then show ?case
      using g m l h pool_inv_dial[OF inv, of m' pc] pool_inv_lent[OF inv, of h]
      by (auto simp: pool_at_defs sec_defs fresh_member_def split: pool_splits)
  next
    case (6 m')
    then show ?case
      using g m h pool_inv_mem[OF inv, of m']
      by (auto simp: pool_at_defs sec_defs split: pool_splits)
  next
    case (7 h')
    then show ?case
      using g h m pool_inv_lent[OF inv, of h'] 
      by (auto simp: pool_at_defs sec_defs fresh_member_def split: option.splits)
  qed
qed


lemma pool_inv_dial_fail:
  assumes inv: "pool_inv cid ctgts cp" and g: "cp_dials cp m = Some (Dialling tgts)"
  shows "pool_inv cid ctgts (sec_dialled linger now m tgts (Inl err) cp)"
proof (rule pool_invI, goal_cases)
  case 1
  show ?case using pool_inv_inj[OF inv] by (simp add: sec_defs)
next
  case 2
  show ?case using pool_inv_phase[OF inv] g by (auto simp: phase_ok_def sec_defs)
next
  case (3 i m')
  then show ?case
    using g pool_inv_lut[OF inv, of i m']
    by (auto simp: pool_at_defs sec_defs split: option.splits)
next
  case (4 t m')
  then show ?case
    using g pool_inv_pool[OF inv, of t m']
    by (auto simp: pool_at_defs sec_defs split: pool_splits)
next
  case (5 m' pc)
  then show ?case
    using g pool_inv_dial[OF inv, of m' pc] pool_inv_dial[OF inv, of m "Dialling tgts"]
    by (auto simp: pool_at_defs sec_defs fresh_member_def split: pool_splits)
next
  case (6 m')
  then show ?case
    using g pool_inv_mem[OF inv, of m']
    by (auto simp: pool_at_defs sec_defs split: pool_splits)
next
  case (7 h')
  then show ?case
    using g pool_inv_lent[OF inv, of h'] by (auto simp: pool_at_defs sec_defs split: option.splits)
qed

lemma pool_inv_register:
  assumes inv: "pool_inv cid ctgts cp" and g: "cp_dials cp m = Some (Dialled tgts clnt)"
  shows "pool_inv cid ctgts (sec_register cid m tgts clnt cp)"
proof -
  have rd: "cp_reaper cp \<noteq> RDelete t" for t using pool_inv_phase[OF inv] g by (auto simp: phase_ok_def)
  show ?thesis
  proof (rule pool_invI, goal_cases)
    case 1
    show ?case using pool_inv_inj[OF inv] by (simp add: sec_defs split: option.splits)
  next
    case 2
    show ?case using pool_inv_phase[OF inv] g by (auto simp: phase_ok_def sec_defs split: option.splits)
  next
    case (3 i m')
    then show ?case
      using g pool_inv_lut[OF inv, of i m'] pool_inv_dial[OF inv, of m "Dialled tgts clnt"]
      by (auto simp: pool_at_defs sec_defs split: pool_splits)
  next
    case (4 t m')
    then show ?case
      using g rd[of t] pool_inv_pool[OF inv, of t m'] pool_inv_dial[OF inv, of m "Dialled tgts clnt"]
      by (auto simp: pool_at_defs sec_defs split: pool_splits)
  next
    case (5 m' pc)
    then show ?case
      using g pool_inv_dial[OF inv, of m' pc] pool_inv_dial[OF inv, of m "Dialled tgts clnt"]
      by (auto simp: pool_at_defs sec_defs split: pool_splits dest: pool_inv_same[OF inv])
  next
    case (6 m')
    then show ?case
      using g pool_inv_mem[OF inv, of m'] pool_inv_dial[OF inv, of m "Dialled tgts clnt"]
      by (auto simp: pool_at_defs sec_defs split: pool_splits)
  next
    case (7 h')
    then show ?case
      using g pool_inv_dial[OF inv, of m "Dialled tgts clnt"] pool_inv_lent[OF inv, of h'] by (auto simp: pool_at_defs sec_defs split: pool_splits)
  qed
qed

lemma pool_inv_dial_done:
  assumes inv: "pool_inv cid ctgts cp" and g: "cp_dials cp m = Some Registered"
  shows "pool_inv cid ctgts (sec_dial_done m cp)"
proof (rule pool_invI, goal_cases)
  case 1
  show ?case using pool_inv_inj[OF inv] by (simp add: sec_defs)
next
  case 2
  show ?case using pool_inv_phase[OF inv] g by (auto simp: phase_ok_def sec_defs)
next
  case (3 i m')
  then show ?case
    using g pool_inv_lut[OF inv, of i m']
    by (auto simp: pool_at_defs sec_defs split: option.splits)
next
  case (4 t m')
  then show ?case
    using g pool_inv_pool[OF inv, of t m']
    by (auto simp: pool_at_defs sec_defs split: pool_splits)
next
  case (5 m' pc)
  then show ?case
    using g pool_inv_dial[OF inv, of m' pc]
    by (auto simp: pool_at_defs sec_defs fresh_member_def split: pool_splits)
next
  case (6 m')
  then show ?case
    using g pool_inv_mem[OF inv, of m']
    by (auto simp: pool_at_defs sec_defs split: pool_splits)
next
  case (7 h')
  then show ?case
    using g pool_inv_lent[OF inv, of h'] by (auto simp: pool_at_defs sec_defs split: option.splits)
qed

lemma unat_plus_1:
  fixes w :: uint64
  assumes "Suc (unat w) < 2 ^ 64"
  shows "unat (w + 1) = Suc (unat w)"
  using assms by (simp add: unat_word_ariths)

lemma unat_minus_1:
  fixes w :: uint64
  assumes "0 < unat w"
  shows "unat (w - 1) = unat w - 1"
  using assms by (metis One_nat_def unat_eq_zero unat_minus_one less_irrefl)

text \<open>Lending and returning change the count and the expiry of one member, and its client's loans.\<close>

definition recount :: "nat \<Rightarrow> nat \<Rightarrow> uint64 \<Rightarrow> int option \<Rightarrow> nat \<Rightarrow> ClientPool \<Rightarrow> ClientPool" where
  "recount m h rc e k cp = (upd_mem m (\<lambda>pm. pm\<lparr>pm_rc := rc, pm_expireBy := e\<rparr>) cp)
     \<lparr>cp_lent := (cp_lent cp)(h := k)\<rparr>"

lemma recount_sel [simp]:
  "cp_owner (recount m h rc e k cp) = cp_owner cp" "cp_lut (recount m h rc e k cp) = cp_lut cp"
  "cp_pool (recount m h rc e k cp) = cp_pool cp" "cp_dials (recount m h rc e k cp) = cp_dials cp"
  "cp_next (recount m h rc e k cp) = cp_next cp" "cp_closed (recount m h rc e k cp) = cp_closed cp"
  "cp_closer (recount m h rc e k cp) = cp_closer cp" "cp_reaper (recount m h rc e k cp) = cp_reaper cp"
  "cp_lent (recount m h rc e k cp) = (cp_lent cp)(h := k)"
  "pm_clnt (cp_mem (recount m h rc e k cp) m') = pm_clnt (cp_mem cp m')"
  "pm_dialErr (cp_mem (recount m h rc e k cp) m') = pm_dialErr (cp_mem cp m')"
  "pm_dialDone (cp_mem (recount m h rc e k cp) m') = pm_dialDone (cp_mem cp m')"
  "pm_rc (cp_mem (recount m h rc e k cp) m') = (if m' = m then rc else pm_rc (cp_mem cp m'))"
  "m' \<noteq> m \<Longrightarrow> cp_mem (recount m h rc e k cp) m' = cp_mem cp m'"
  by (simp_all add: recount_def upd_mem_def)

lemma pool_inv_recount:
  assumes inv: "pool_inv cid ctgts cp" and c: "pm_clnt (cp_mem cp m) = Some h"
    and d: "cp_dials cp m = None \<or> cp_dials cp m = Some Registered" and l: "cp_lut cp (cid h) = Some m"
    and k: "k < 2 ^ 64" "\<not> cp_closed cp \<longrightarrow> unat rc = k"
  shows "pool_inv cid ctgts (recount m h rc e k cp)"
proof -
  have own: "cp_owner cp h = Some m" using pool_inv_mem[OF inv, of m] c by (simp add: mem_at_def)
  have m': "pm_clnt (cp_mem cp m') = Some h \<Longrightarrow> m' = m" for m'
    using pool_inv_same[OF inv c] by blast
  show ?thesis
  proof (rule pool_invI, goal_cases)
    case 1
    show ?case using pool_inv_inj[OF inv] by simp
  next
    case 2
    show ?case using pool_inv_phase[OF inv] by (simp add: phase_ok_def)
  next
    case (3 i m'')
    have "m'' \<noteq> m \<Longrightarrow> pm_clnt (cp_mem cp m'') \<noteq> Some h" using m' by blast
    with 3 show ?case using pool_inv_lut[OF inv, of i m''] c k
      by (cases "m'' = m") (auto simp: lut_at_def split: option.splits)
  next
    case (4 t m'')
    then show ?case using pool_inv_pool[OF inv, of t m''] by (auto simp: pool_at_def split: pool_splits)
  next
    case (5 m'' pc)
    have "m'' \<noteq> m \<Longrightarrow> pm_clnt (cp_mem cp m'') \<noteq> Some h" using m' by blast
    with 5 show ?case using pool_inv_dial[OF inv, of m'' pc] d
      by (cases "m'' = m") (auto simp: dial_at_def split: pool_splits)
  next
    case (6 m'')
    then show ?case using pool_inv_mem[OF inv, of m''] by (simp add: mem_at_def split: option.splits)
  next
    case (7 h')
    then show ?case using pool_inv_lent[OF inv, of h'] own l c k
      by (auto simp: lent_at_def split: option.splits)
  qed
qed

lemma sec_counts:
  "sec_get m h cp = recount m h (pm_rc (cp_mem cp m) + 1) None (Suc (cp_lent cp h)) cp"
  "sec_put linger now m h cp = recount m h (pm_rc (cp_mem cp m) - 1)
     (if pm_rc (cp_mem cp m) - 1 = 0 then Some (now + linger) else pm_expireBy (cp_mem cp m)) (cp_lent cp h - 1) cp"
  by (simp_all add: sec_get_def sec_put_def recount_def upd_mem_def Let_def)

lemma pool_inv_get:
  assumes inv: "pool_inv cid ctgts cp" and g: "m < cp_next cp" "pm_dialDone (cp_mem cp m)"
    "pm_dialErr (cp_mem cp m) = None" "pm_clnt (cp_mem cp m) = Some h" "Suc (cp_lent cp h) < 2 ^ 64"
  shows "pool_inv cid ctgts (sec_get m h cp)"
proof -
  have d: "cp_dials cp m = None"
    using pool_inv_dial[OF inv, of m "the (cp_dials cp m)"] g(2) by (cases "cp_dials cp m") (auto simp: dial_at_def)
  have l: "cp_lut cp (cid h) = Some m"
    using pool_inv_mem[OF inv, of m] g d by (simp add: mem_at_def)
  have "\<not> cp_closed cp \<longrightarrow> unat (pm_rc (cp_mem cp m)) = cp_lent cp h"
    using pool_inv_lut[OF inv, rule_format, OF l] g by (simp add: lut_at_def)
  then show ?thesis unfolding sec_counts
    using g d l unat_plus_1[of "pm_rc (cp_mem cp m)"] by (intro pool_inv_recount[OF inv]) auto
qed

lemma pool_inv_put:
  assumes inv: "pool_inv cid ctgts cp" and g: "0 < cp_lent cp h" "\<not> cp_closed cp" "cp_lut cp (cid h) = Some m"
  shows "pool_inv cid ctgts (sec_put linger now m h cp)"
proof -
  have c: "pm_clnt (cp_mem cp m) = Some h" and k: "cp_lent cp h < 2 ^ 64"
    using pool_inv_lent[OF inv, of h] g by (auto simp: lent_at_def split: option.splits)
  have r: "unat (pm_rc (cp_mem cp m)) = cp_lent cp h" and d: "cp_dials cp m = None \<or> cp_dials cp m = Some Registered"
    using pool_inv_lut[OF inv, rule_format, OF g(3)] g c by (auto simp: lut_at_def)
  have "unat (pm_rc (cp_mem cp m) - 1) = cp_lent cp h - 1" using r g unat_minus_1 by simp
  then show ?thesis unfolding sec_counts
    using c d g k by (intro pool_inv_recount[OF inv]) auto
qed

lemma pool_inv_put_closed:
  assumes inv: "pool_inv cid ctgts cp" and g: "cp_closed cp" "0 < cp_lent cp h"
  shows "pool_inv cid ctgts (cp\<lparr>cp_lent := (cp_lent cp)(h := cp_lent cp h - 1)\<rparr>)"
proof (rule pool_invI, goal_cases)
  case 1
  show ?case using pool_inv_inj[OF inv] by simp
next
  case 2
  show ?case using pool_inv_phase[OF inv] by (simp add: phase_ok_def)
next
  case (3 i m')
  then show ?case using g pool_inv_lut[OF inv, of i m'] by (simp add: lut_at_def split: option.splits)
next
  case (4 t m')
  then show ?case using pool_inv_pool[OF inv, of t m'] by (auto simp: pool_at_def split: pool_splits)
next
  case (5 m' pc)
  then show ?case using g pool_inv_dial[OF inv, of m' pc]
    by (auto simp: dial_at_def split: dial_pc.splits option.splits)
next
  case (6 m')
  then show ?case using pool_inv_mem[OF inv, of m'] by (auto simp: mem_at_def split: option.splits)
next
  case (7 h')
  then show ?case using g pool_inv_lent[OF inv, of h'] by (auto simp: lent_at_def split: option.splits)
qed

text \<open>Only the phase of \<open>Close\<close> or of the reaper moves, and no entry is being deleted before or after.\<close>

lemma pool_inv_phase_step:
  assumes inv: "pool_inv cid ctgts cp" and "phase_ok cp'"
    and "cp_owner cp' = cp_owner cp" "cp_lut cp' = cp_lut cp" "cp_pool cp' = cp_pool cp"
      "cp_dials cp' = cp_dials cp" "cp_mem cp' = cp_mem cp" "cp_next cp' = cp_next cp"
      "cp_lent cp' = cp_lent cp" "cp_closed cp \<longrightarrow> cp_closed cp'"
      "\<And>t. cp_reaper cp' = RDelete t \<longleftrightarrow> cp_reaper cp = RDelete t"
  shows "pool_inv cid ctgts cp'"
proof (rule pool_invI, goal_cases)
  case 1
  show ?case using pool_inv_inj[OF inv] assms by simp
next
  case 2
  show ?case by fact
next
  case (3 i m')
  then show ?case using assms pool_inv_lut[OF inv, of i m'] by (auto simp: lut_at_def split: option.splits)
next
  case (4 t m')
  then show ?case using assms pool_inv_pool[OF inv, of t m'] by (auto simp: pool_at_def split: pool_splits)
next
  case (5 m' pc)
  then show ?case using assms pool_inv_dial[OF inv, of m' pc] by (auto simp: dial_at_def split: pool_splits)
next
  case (6 m')
  then show ?case using assms pool_inv_mem[OF inv, of m'] by (auto simp: mem_at_def split: option.splits)
next
  case (7 h')
  then show ?case using assms pool_inv_lent[OF inv, of h'] by (auto simp: lent_at_def split: option.splits)
qed

lemma pool_inv_reap:
  assumes inv: "pool_inv cid ctgts cp" and g: "cp_reaper cp = RCycle" "cp_lut cp ident = Some m"
    "reapable now (cp_mem cp m)" "pm_clnt (cp_mem cp m) = Some h"
  shows "pool_inv cid ctgts (sec_reap ctgts ident m h cp)"
proof -
  have l: "cid h = ident" "cp_pool cp (ctgts h) = Some m" "cp_dials cp m \<in> {None, Some Registered}"
    "\<not> cp_closed cp \<longrightarrow> cp_lent cp h = 0"
    using pool_inv_lut[OF inv, of ident m] g by (auto simp: lut_at_def reapable_def)
  show ?thesis
  proof (rule pool_invI, goal_cases)
    case 1
    show ?case using pool_inv_inj[OF inv] by (simp add: sec_defs)
  next
    case 2
    show ?case using pool_inv_phase[OF inv] g by (auto simp: phase_ok_def sec_defs)
  next
    case (3 i m')
    then show ?case
      using g l pool_inv_lut[OF inv, of i m']
      by (auto simp: pool_at_defs sec_defs split: pool_splits)
  next
    case (4 t m')
    then show ?case
      using g l pool_inv_pool[OF inv, of t m'] pool_inv_pool[OF inv, of "ctgts h" m]
      by (auto simp: pool_at_defs sec_defs split: pool_splits)
  next
    case (5 m' pc)
    then show ?case
      using g l pool_inv_dial[OF inv, of m' pc]
      by (auto simp: pool_at_defs sec_defs split: pool_splits)
  next
    case (6 m')
    then show ?case
      using g l pool_inv_mem[OF inv, of m']
      by (auto simp: pool_at_defs sec_defs split: pool_splits dest: pool_inv_same[OF inv])
  next
    case (7 h')
    then show ?case
      using g l pool_inv_lent[OF inv, of h']
      by (auto simp: pool_at_defs sec_defs split: pool_splits dest: pool_inv_same[OF inv])
  qed
qed

lemma pool_inv_close_client:
  assumes inv: "pool_inv cid ctgts cp" and g: "cp_reaper cp = RClosing" "cp_lut cp ident = Some m"
    "pm_clnt (cp_mem cp m) = Some h"
  shows "pool_inv cid ctgts (sec_close_client ctgts ident m h cp)"
proof -
  have l: "cid h = ident" "cp_pool cp (ctgts h) = Some m" "cp_dials cp m \<in> {None, Some Registered}"
    using pool_inv_lut[OF inv, of ident m] g by (auto simp: lut_at_def)
  have cl: "cp_closed cp" "cp_dials cp = Map.empty" using pool_inv_phase[OF inv] g by (auto simp: phase_ok_def)
  show ?thesis
  proof (rule pool_invI, goal_cases)
    case 1
    show ?case using pool_inv_inj[OF inv] by (simp add: sec_defs)
  next
    case 2
    show ?case using pool_inv_phase[OF inv] g by (auto simp: phase_ok_def sec_defs)
  next
    case (3 i m')
    then show ?case
      using g l cl pool_inv_lut[OF inv, of i m']
      by (auto simp: pool_at_defs sec_defs split: pool_splits)
  next
    case (4 t m')
    then show ?case
      using g l cl pool_inv_pool[OF inv, of t m'] pool_inv_pool[OF inv, of "ctgts h" m]
      by (auto simp: pool_at_defs sec_defs split: pool_splits)
  next
    case (5 m' pc)
    then show ?case using cl by (simp add: sec_defs)
  next
    case (6 m')
    then show ?case
      using g l pool_inv_mem[OF inv, of m']
      by (auto simp: pool_at_defs sec_defs split: pool_splits dest: pool_inv_same[OF inv])
  next
    case (7 h')
    then show ?case
      using cl pool_inv_lent[OF inv, of h'] by (auto simp: pool_at_defs sec_defs split: pool_splits)
  qed
qed

lemma pool_inv_delete:
  assumes inv: "pool_inv cid ctgts cp" and g: "cp_reaper cp = RDelete tgts"
  shows "pool_inv cid ctgts (sec_delete tgts cp)"
proof -
  have cl: "cp_closed cp" "cp_dials cp = Map.empty" using pool_inv_phase[OF inv] g by (auto simp: phase_ok_def)
  show ?thesis
  proof (rule pool_invI, goal_cases)
    case 1
    show ?case using pool_inv_inj[OF inv] by (simp add: sec_defs)
  next
    case 2
    show ?case using pool_inv_phase[OF inv] g by (auto simp: phase_ok_def sec_defs)
  next
    case (3 i m')
    then show ?case
      using g cl pool_inv_lut[OF inv, of i m'] pool_inv_pool[OF inv, of tgts m']
      by (auto simp: pool_at_defs sec_defs split: pool_splits)
  next
    case (4 t m')
    then show ?case
      using g cl pool_inv_pool[OF inv, of t m']
      by (auto simp: pool_at_defs sec_defs split: pool_splits)
  next
    case (5 m' pc)
    then show ?case using cl by (simp add: sec_defs)
  next
    case (6 m')
    then show ?case
      using g pool_inv_mem[OF inv, of m']
      by (auto simp: pool_at_defs sec_defs split: pool_splits)
  next
    case (7 h')
    then show ?case
      using cl pool_inv_lent[OF inv, of h'] by (auto simp: pool_at_defs sec_defs split: pool_splits)
  qed
qed

lemma pool_inv_step:
  assumes "pstep cid ctgts linger cp cp'" "pool_inv cid ctgts cp"
  shows "pool_inv cid ctgts cp'"
  using assms(1)
proof cases
  case close
  then show ?thesis using pool_inv_phase[OF assms(2)]
    by (auto intro!: pool_inv_phase_step[OF assms(2)] simp: phase_ok_def)
next
  case close_dialled
  then show ?thesis using pool_inv_phase[OF assms(2)]
    by (auto intro!: pool_inv_phase_step[OF assms(2)] simp: phase_ok_def)
next
  case close_clients
  then show ?thesis using pool_inv_phase[OF assms(2)]
    by (auto intro!: pool_inv_phase_step[OF assms(2)] simp: phase_ok_def)
next
  case close_retire
  then show ?thesis using pool_inv_phase[OF assms(2)]
    by (auto intro!: pool_inv_phase_step[OF assms(2)] simp: phase_ok_def)
next
  case close_finish
  then show ?thesis using pool_inv_phase[OF assms(2)]
    by (auto intro!: pool_inv_phase_step[OF assms(2)] simp: phase_ok_def)
qed (use assms(2) in \<open>auto simp del: One_nat_def intro: pool_inv_new pool_inv_dial_ok pool_inv_dial_fail pool_inv_register
  pool_inv_dial_done pool_inv_get pool_inv_put pool_inv_put_closed pool_inv_reap
  pool_inv_close_client pool_inv_delete\<close>)

lemma preach_inv: "preach cid ctgts linger cp \<Longrightarrow> pool_inv cid ctgts cp"
  by (induction rule: preach.induct) (auto intro: pool_inv_init pool_inv_step)

subsection \<open>What the invariant gives\<close>

lemma pool_inv_retired:
  assumes inv: "pool_inv cid ctgts cp" and r: "cp_reaper cp = RRetired"
  shows "cp_lut cp = Map.empty" "cp_pool cp = Map.empty"
proof -
  show lut: "cp_lut cp = Map.empty" using pool_inv_phase[OF inv] r by (simp add: phase_ok_def)
  have "cp_dials cp = Map.empty" using pool_inv_phase[OF inv] r by (auto simp: phase_ok_def)
  then have "cp_pool cp t \<noteq> Some m" for t m
    using pool_inv_pool[OF inv, of t m] lut r by (auto simp: pool_at_def split: option.splits)
  then show "cp_pool cp = Map.empty" by (auto simp: fun_eq_iff intro: option.exhaust)
qed

lemma pool_inv_lent_known:
  assumes inv: "pool_inv cid ctgts cp" and h: "0 < cp_lent cp h" "\<not> cp_closed cp"
  obtains m where "cp_lut cp (cid h) = Some m" "pm_clnt (cp_mem cp m) = Some h"
    "unat (pm_rc (cp_mem cp m)) = cp_lent cp h"
proof -
  obtain m where m: "cp_lut cp (cid h) = Some m" "pm_clnt (cp_mem cp m) = Some h"
    using pool_inv_lent[OF inv, of h] h by (auto simp: lent_at_def split: option.splits)
  with h inv show thesis by (intro that[OF m]) (auto elim!: pool_inv_lutE)
qed

lemma pool_inv_safe:
  assumes inv: "pool_inv cid ctgts cp"
  shows "\<not> put_panics cid cp" "\<not> reap_panics cp" "\<not> close_clients_panics cp" "\<not> close_panics cp"
    "\<not> nil_client cp"
proof -
  show "\<not> put_panics cid cp"
  proof
    assume "put_panics cid cp"
    then obtain h where "0 < cp_lent cp h" "\<not> cp_closed cp" "cp_lut cp (cid h) = None"
      by (auto simp: put_panics_def)
    then show False by (auto elim!: pool_inv_lent_known[OF inv])
  qed
  show "\<not> reap_panics cp" "\<not> close_clients_panics cp"
    unfolding reap_panics_def close_clients_panics_def by (auto elim!: pool_inv_lutE[OF inv])
  show "\<not> close_panics cp" using pool_inv_retired[OF inv] by (auto simp: close_panics_def)
  show "\<not> nil_client cp"
  proof
    assume "nil_client cp"
    then obtain m where m: "m < cp_next cp" "pm_dialDone (cp_mem cp m)" "pm_dialErr (cp_mem cp m) = None"
      "pm_clnt (cp_mem cp m) = None"
      by (auto simp: nil_client_def)
    then have "cp_dials cp m = None"
      using pool_inv_dial[OF inv, of m "the (cp_dials cp m)"] by (cases "cp_dials cp m") (auto simp: dial_at_def)
    then show False using m pool_inv_mem[OF inv, of m] by (simp add: mem_at_def)
  qed
qed

text \<open>A way to wind up: a running dialler ends (its context is cancelled), the reaper closes one
  client after the other.\<close>

fun dial_left :: "dial_pc option \<Rightarrow> nat" where
  "dial_left None = 0"
| "dial_left (Some (Dialling t)) = 3"
| "dial_left (Some (Dialled t c)) = 2"
| "dial_left (Some Registered) = 1"

definition dials_left :: "ClientPool \<Rightarrow> nat" where
  "dials_left cp = (\<Sum>m < cp_next cp. dial_left (cp_dials cp m))"

fun reaper_left :: "reaper_pc \<Rightarrow> nat" where
  "reaper_left RCycle = 3"
| "reaper_left RClosing = 2"
| "reaper_left (RDelete t) = 3"
| "reaper_left RRetired = 0"

lemma dials_left_less:
  assumes "m < cp_next cp" "cp_next cp' = cp_next cp" "cp_dials cp' = (cp_dials cp)(m := pc)"
    "dial_left pc < dial_left (cp_dials cp m)"
  shows "dials_left cp' < dials_left cp"
  unfolding dials_left_def assms(2,3)
  by (rule sum_strict_mono_ex1) (use assms in auto)

lemma dials_progress:
  assumes inv: "pool_inv cid ctgts cp" and d: "cp_dials cp m = Some pc"
  shows "\<exists>cp'. pstep cid ctgts linger cp cp' \<and> cp_closer cp' = cp_closer cp \<and> dials_left cp' < dials_left cp"
proof (cases pc)
  case (Dialling t)
  then have "pstep cid ctgts linger cp (sec_dialled linger 0 m t (Inl closing_err) cp)"
    using d by (auto intro: pstep.intros)
  moreover have "dials_left (sec_dialled linger 0 m t (Inl closing_err) cp) < dials_left cp"
    using d Dialling pool_inv_dial[OF inv, of m pc]
    by (intro dials_left_less) (auto simp: sec_defs dial_at_def)
  ultimately show ?thesis by (intro exI conjI) (simp_all add: sec_defs)
next
  case (Dialled t c)
  then have "pstep cid ctgts linger cp (sec_register cid m t c cp)"
    using d by (auto intro: pstep.intros)
  moreover have "dials_left (sec_register cid m t c cp) < dials_left cp"
    using d Dialled pool_inv_dial[OF inv, of m pc]
    by (intro dials_left_less) (auto simp: sec_defs dial_at_def split: option.splits)
  ultimately show ?thesis by (intro exI conjI) (simp_all add: sec_defs split: option.splits)
next
  case Registered
  then have "pstep cid ctgts linger cp (sec_dial_done m cp)"
    using d by (auto intro: pstep.intros)
  moreover have "dials_left (sec_dial_done m cp) < dials_left cp"
    using d Registered pool_inv_dial[OF inv, of m pc]
    by (intro dials_left_less) (auto simp: sec_defs dial_at_def)
  ultimately show ?thesis by (intro exI conjI) (simp_all add: sec_defs)
qed

lemma finite_lut:
  assumes inv: "pool_inv cid ctgts cp"
  shows "finite (dom (cp_lut cp))"
proof (rule finite_imageD)
  have "m < cp_next cp" if "cp_lut cp i = Some m" for i m
    by (rule pool_inv_lutE[OF inv that]) (use pool_inv_mem[OF inv, of m] in \<open>auto simp: mem_at_def\<close>)
  then have "(\<lambda>i. the (cp_lut cp i)) ` dom (cp_lut cp) \<subseteq> {..< cp_next cp}" by auto
  then show "finite ((\<lambda>i. the (cp_lut cp i)) ` dom (cp_lut cp))" by (rule finite_subset) simp
  show "inj_on (\<lambda>i. the (cp_lut cp i)) (dom (cp_lut cp))"
  proof (rule inj_onI)
    fix i j assume "i \<in> dom (cp_lut cp)" "j \<in> dom (cp_lut cp)" "the (cp_lut cp i) = the (cp_lut cp j)"
    then obtain m where "cp_lut cp i = Some m" "cp_lut cp j = Some m" by auto
    then show "i = j" by (metis pool_inv_lutE[OF inv] option.inject)
  qed
qed

lemma reaper_progress:
  assumes inv: "pool_inv cid ctgts cp" and k: "cp_closer cp = CKilled" "cp_reaper cp \<noteq> RRetired"
  shows "\<exists>cp'. pstep cid ctgts linger cp cp' \<and> cp_closer cp' = CKilled \<and>
    2 * card (dom (cp_lut cp')) + reaper_left (cp_reaper cp') < 2 * card (dom (cp_lut cp)) + reaper_left (cp_reaper cp)"
proof (cases "cp_reaper cp")
  case RCycle
  then have "pstep cid ctgts linger cp (cp\<lparr>cp_reaper := RClosing\<rparr>)" using k by (auto intro: pstep.intros)
  then show ?thesis by (intro exI[of _ "cp\<lparr>cp_reaper := RClosing\<rparr>"]) (use k RCycle in simp)
next
  case RClosing
  show ?thesis
  proof (cases "cp_lut cp = Map.empty")
    case True
    then have "pstep cid ctgts linger cp (cp\<lparr>cp_reaper := RRetired\<rparr>)"
      using k RClosing by (auto intro: pstep.intros)
    then show ?thesis by (intro exI[of _ "cp\<lparr>cp_reaper := RRetired\<rparr>"]) (use k RClosing in simp)
  next
    case False
    then obtain i m where l: "cp_lut cp i = Some m" by (auto simp: fun_eq_iff)
    with inv obtain h where h: "pm_clnt (cp_mem cp m) = Some h" by (rule pool_inv_lutE)
    have "card (dom (cp_lut cp) - {i}) < card (dom (cp_lut cp))"
      using l finite_lut[OF inv] by (intro psubset_card_mono) auto
    moreover have "pstep cid ctgts linger cp (sec_close_client ctgts i m h cp)"
      using RClosing l h by (rule pstep.close_client)
    ultimately show ?thesis
      by (intro exI[of _ "sec_close_client ctgts i m h cp"]) (use k RClosing in \<open>auto simp: sec_defs\<close>)
  qed
next
  case (RDelete t)
  then have "pstep cid ctgts linger cp (sec_delete t cp)" by (rule pstep.close_delete)
  then show ?thesis by (intro exI[of _ "sec_delete t cp"]) (use k RDelete in \<open>simp add: sec_defs\<close>)
qed (use k in simp)

lemma pool_inv_steps: "(pstep cid ctgts linger)\<^sup>*\<^sup>* cp cp' \<Longrightarrow> pool_inv cid ctgts cp \<Longrightarrow> pool_inv cid ctgts cp'"
  by (induction rule: rtranclp_induct) (auto intro: pool_inv_step)

lemma dials_drain:
  assumes "pool_inv cid ctgts cp"
  shows "\<exists>cp'. (pstep cid ctgts linger)\<^sup>*\<^sup>* cp cp' \<and> cp_dials cp' = Map.empty \<and> cp_closer cp' = cp_closer cp"
  using assms
proof (induction "dials_left cp" arbitrary: cp rule: less_induct)
  case less
  show ?case
  proof (cases "cp_dials cp = Map.empty")
    case False
    then obtain m pc where "cp_dials cp m = Some pc" by (auto simp: fun_eq_iff)
    from dials_progress[OF less.prems this] obtain cp1 where
      1: "pstep cid ctgts linger cp cp1" "cp_closer cp1 = cp_closer cp" "dials_left cp1 < dials_left cp"
      by blast
    from less.hyps[OF 1(3) pool_inv_step[OF 1(1) less.prems]] 1 show ?thesis
      by (metis converse_rtranclp_into_rtranclp)
  qed blast
qed

lemma reaper_winds_up:
  assumes "pool_inv cid ctgts cp" "cp_closer cp = CKilled"
  shows "\<exists>cp'. (pstep cid ctgts linger)\<^sup>*\<^sup>* cp cp' \<and> cp_closer cp' = CKilled \<and> cp_reaper cp' = RRetired"
  using assms
proof (induction "2 * card (dom (cp_lut cp)) + reaper_left (cp_reaper cp)" arbitrary: cp rule: less_induct)
  case less
  show ?case
  proof (cases "cp_reaper cp = RRetired")
    case False
    from reaper_progress[OF less.prems this] obtain cp1 where
      1: "pstep cid ctgts linger cp cp1" "cp_closer cp1 = CKilled"
        "2 * card (dom (cp_lut cp1)) + reaper_left (cp_reaper cp1) < 2 * card (dom (cp_lut cp)) + reaper_left (cp_reaper cp)"
      by blast
    from less.hyps[OF 1(3) pool_inv_step[OF 1(1) less.prems(1)] 1(2)] 1 show ?thesis
      by (metis converse_rtranclp_into_rtranclp)
  qed (use less.prems in blast)
qed

end
