(* ===== verification/Pool_Calls.thy ===== *)
theory Pool_Calls
  imports Client_Pool "HOL-Library.Countable"
begin

text \<open>
  The calls of the client pool, \<open>GetClient\<close> and \<open>PutClient\<close> of \<^verbatim>\<open>pkg/lb/clientpool.go\<close>, as programs
  over the critical sections of \<open>Client_Pool\<close>. Where \<open>GetClient\<close> waits, the other goroutines run:
  what its \<open>select\<close> sees, and the pool they leave, is the parameter \<open>await\<close>. Its \<open>goto retry\<close> is a
  recursion bounded by the attempts it may make; no result (\<open>None\<close>) means it would still retry.
\<close>

subsection \<open>GetClient and PutClient\<close>

type_synonym awaits = "nat \<Rightarrow> ClientPool \<Rightarrow> ctx_err option \<times> ClientPool"

text \<open>The member of the targets, made when there is none.\<close>

definition get_member :: "string \<Rightarrow> ClientPool \<Rightarrow> nat \<times> ClientPool" where
  "get_member tgts cp =
     (case cp_pool cp tgts of
        Some m \<Rightarrow> (m, cp)
      | None \<Rightarrow> (cp_next cp, sec_new tgts cp))"

fun get_attempts ::
  "nat \<Rightarrow> awaits \<Rightarrow> string \<Rightarrow> ClientPool \<Rightarrow> (gerr + nat option) option \<times> ClientPool" where
  "get_attempts 0 await tgts cp = (None, cp)"
| "get_attempts (Suc n) await tgts cp =
     (if cp_closed cp then (Some (Inl (Status codes_Canceled [])), cp)
      else
        (case get_member tgts cp of (m, cp1) \<Rightarrow>
        (case await m cp1 of
           (Some context_Canceled, cp2) \<Rightarrow> (Some (Inl (Status codes_Canceled [])), cp2)
         | (Some context_DeadlineExceeded, cp2) \<Rightarrow> (Some (Inl (Status codes_DeadlineExceeded [])), cp2)
         | (Some context_OtherErr, cp2) \<Rightarrow> (Some (Inl (Status codes_Unknown [])), cp2)
         | (None, cp2) \<Rightarrow>
             (case pm_dialErr (cp_mem cp2 m) of
                Some dialErr \<Rightarrow>
                  if pm_reaped (cp_mem cp2 m) then get_attempts n await tgts cp2
                  else (Some (Inl dialErr), cp2)
              | None \<Rightarrow>
                  (Some (Inr (pm_clnt (cp_mem cp2 m))),
                   (case pm_clnt (cp_mem cp2 m) of
                      Some h \<Rightarrow> sec_get m h cp2
                    | None \<Rightarrow> upd_mem m (\<lambda>pm. pm\<lparr>pm_rc := pm_rc pm + 1, pm_expireBy := None\<rparr>) cp2))))))"

definition GetClient ::
  "nat \<Rightarrow> awaits \<Rightarrow> Slice \<Rightarrow> ClientPool \<Rightarrow> (gerr + nat option) option \<times> ClientPool" where
  "GetClient n await targets cp =
     (if \<not> Slice_IsValid targets then (Some (Inl (Status codes_InvalidArgument [])), cp)
      else get_attempts n await (Slice_String targets) cp)"

text \<open>\<open>PutClient\<close>; \<open>None\<close> is a panic. The count is unsigned, as in the source.\<close>

definition PutClient ::
  "(nat \<Rightarrow> string) \<Rightarrow> int \<Rightarrow> int \<Rightarrow> nat option \<Rightarrow> ClientPool \<Rightarrow> ClientPool option" where
  "PutClient cid linger now c cp =
     (case c of
        None \<Rightarrow> Some cp
      | Some h \<Rightarrow>
          if cp_closed cp then Some (cp\<lparr>cp_lent := (cp_lent cp)(h := cp_lent cp h - 1)\<rparr>)
          else
            (case cp_lut cp (cid h) of
               None \<Rightarrow> None
             | Some m \<Rightarrow>
                 let cp' = sec_put linger now m h cp in
                 if pm_rc (cp_mem cp' m) < 0 then None else Some cp'))"

subsection \<open>The pool the driver holds\<close>

text \<open>
  A world with the pool in it. A panic of the pool's code, or the use of a nil client, is
  recorded. The source retries without a bound; here a caller makes the attempts its context allows,
  and the next \<open>select\<close> after them sees the context done, which is reported as in \<open>GetClient\<close>. It
  gets there only when a member was reaped in each of its attempts.
\<close>

record 'w pool_world =
  pw_pool :: ClientPool
  pw_panicked :: bool
  pw_rest :: 'w

definition pool_calls ::
  "(nat \<Rightarrow> string) \<Rightarrow> int \<Rightarrow> ('w \<Rightarrow> int) \<Rightarrow> nat \<Rightarrow> (Ctx \<Rightarrow> awaits) \<Rightarrow> 'w pool_world Pool" where
  "pool_calls cid linger clock n await =
     \<lparr>pool_GetClient = (\<lambda>ctx eps scheme. State (\<lambda>w.
        (case GetClient n (await ctx) eps (pw_pool w) of
           (None, cp) \<Rightarrow> (Inl (Status codes_DeadlineExceeded []), w\<lparr>pw_pool := cp\<rparr>)
         | (Some (Inl err), cp) \<Rightarrow> (Inl err, w\<lparr>pw_pool := cp\<rparr>)
         | (Some (Inr None), cp) \<Rightarrow> (Inl Plain, w\<lparr>pw_pool := cp, pw_panicked := True\<rparr>)
         | (Some (Inr (Some h)), cp) \<Rightarrow> (Inr h, w\<lparr>pw_pool := cp\<rparr>)))),
      pool_PutClient = (\<lambda>h. State (\<lambda>w.
        (case PutClient cid linger (clock (pw_rest w)) (Some h) (pw_pool w) of
           None \<Rightarrow> ((), w\<lparr>pw_panicked := True\<rparr>)
         | Some cp \<Rightarrow> ((), w\<lparr>pw_pool := cp\<rparr>))))\<rparr>"

subsection \<open>Targets of members and clients\<close>

definition tgts_inv :: "(nat \<Rightarrow> string) \<Rightarrow> ClientPool \<Rightarrow> bool" where
  "tgts_inv ctgts cp \<longleftrightarrow>
     (\<forall>t m. cp_pool cp t = Some m \<longrightarrow> m < cp_next cp \<and> cp_tgts cp m = t) \<and>
     (\<forall>m h. pm_clnt (cp_mem cp m) = Some h \<longrightarrow> m < cp_next cp \<and> ctgts h = cp_tgts cp m)"

lemma tgts_inv_init: "tgts_inv ctgts NewClientPool"
  by (simp add: tgts_inv_def NewClientPool_def fresh_member_def)

lemma tgts_inv_step:
  assumes step: "pstep cid ctgts linger cp cp'" and inv: "pool_inv cid ctgts cp" and t: "tgts_inv ctgts cp"
  shows "tgts_inv ctgts cp'"
  using step
proof cases
  case (get_new tgts)
  then show ?thesis using t
    by (auto simp: tgts_inv_def sec_defs fresh_member_def split: if_splits intro: less_SucI)
next
  case (dial_ok m tgts h now)
  then show ?thesis using t pool_inv_dial[OF inv, of m "Dialling tgts"]
    by (auto simp: tgts_inv_def sec_defs dial_at_def split: if_splits)
qed (use t in \<open>auto simp: tgts_inv_def sec_defs split: if_splits option.splits\<close>)

lemma tgts_stable:
  assumes "pstep cid ctgts linger cp cp'" "m < cp_next cp"
  shows "cp_tgts cp' m = cp_tgts cp m \<and> m < cp_next cp'"
  using assms by cases (auto simp: sec_defs split: option.splits)

lemma preach_tgts: "preach cid ctgts linger cp \<Longrightarrow> tgts_inv ctgts cp"
  by (induction rule: preach.induct) (auto intro: tgts_inv_init tgts_inv_step preach_inv)

lemma preach_steps: "(pstep cid ctgts linger)\<^sup>*\<^sup>* cp cp' \<Longrightarrow> preach cid ctgts linger cp \<Longrightarrow> preach cid ctgts linger cp'"
  by (induction rule: rtranclp_induct) (auto intro: preach_step)

lemma tgts_stable_steps:
  "(pstep cid ctgts linger)\<^sup>*\<^sup>* cp cp' \<Longrightarrow> m < cp_next cp \<Longrightarrow>
     cp_tgts cp' m = cp_tgts cp m \<and> m < cp_next cp'"
  by (induction rule: rtranclp_induct) (auto dest: tgts_stable)

subsection \<open>What the waiting caller may assume\<close>

text \<open>While a caller waits the others take steps of the pool, and when it goes on without a
  context error the member has been dialled; fewer than \<open>2^64 - 1\<close> loans of a client are open.\<close>

definition await_ok :: "(nat \<Rightarrow> string) \<Rightarrow> (nat \<Rightarrow> string) \<Rightarrow> int \<Rightarrow> awaits \<Rightarrow> bool" where
  "await_ok cid ctgts linger await \<longleftrightarrow> (\<forall>m cp r cp'. await m cp = (r, cp') \<longrightarrow>
     (pstep cid ctgts linger)\<^sup>*\<^sup>* cp cp' \<and>
     (r = None \<longrightarrow> pm_dialDone (cp_mem cp' m) \<and> (\<forall>h. Suc (cp_lent cp' h) < 2 ^ 64)))"

lemma get_member_reach:
  assumes "preach cid ctgts linger cp" "\<not> cp_closed cp" "get_member tgts cp = (m, cp1)"
  shows "preach cid ctgts linger cp1 \<and> m < cp_next cp1 \<and> cp_tgts cp1 m = tgts"
  using assms preach_tgts[OF assms(1)]
  by (auto simp: get_member_def tgts_inv_def sec_new_def Let_def split: option.splits
      intro!: preach_step[OF _ pstep.get_new, unfolded sec_new_def Let_def])

lemma sec_get_step:
  assumes reach: "preach cid ctgts linger cp" and m: "m < cp_next cp" "pm_dialDone (cp_mem cp m)"
    "pm_dialErr (cp_mem cp m) = None" "\<forall>h. Suc (cp_lent cp h) < 2 ^ 64"
  obtains h where "pm_clnt (cp_mem cp m) = Some h" "ctgts h = cp_tgts cp m"
    "preach cid ctgts linger (sec_get m h cp)" "0 < cp_lent (sec_get m h cp) h"
proof -
  have "pm_clnt (cp_mem cp m) \<noteq> None"
    using pool_inv_safe(5)[OF preach_inv[OF reach]] m by (auto simp: nil_client_def)
  then obtain h where h: "pm_clnt (cp_mem cp m) = Some h" by blast
  then have "pstep cid ctgts linger cp (sec_get m h cp)" using m by (intro pstep.get) auto
  with h reach preach_tgts[OF reach] show thesis
    by (intro that) (auto simp: tgts_inv_def sec_get_def intro: preach_step)
qed

lemma get_attempts_reach:
  assumes "await_ok cid ctgts linger await"
  shows "preach cid ctgts linger cp \<Longrightarrow> get_attempts n await tgts cp = (r, cp') \<Longrightarrow>
    preach cid ctgts linger cp' \<and>
    (\<forall>c. r = Some (Inr c) \<longrightarrow> (\<exists>h. c = Some h \<and> ctgts h = tgts \<and> 0 < cp_lent cp' h))"
proof (induction n arbitrary: cp)
  case 0
  then show ?case by simp
next
  case (Suc n)
  show ?case
  proof (cases "cp_closed cp")
    case True
    with Suc.prems show ?thesis by auto
  next
    case False
    obtain m cp1 where m: "get_member tgts cp = (m, cp1)" by fastforce
    obtain e cp2 where a: "await m cp1 = (e, cp2)" by fastforce
    note m1 = get_member_reach[OF Suc.prems(1) False m]
    have st: "(pstep cid ctgts linger)\<^sup>*\<^sup>* cp1 cp2"
      and dn: "e = None \<Longrightarrow> pm_dialDone (cp_mem cp2 m) \<and> (\<forall>h. Suc (cp_lent cp2 h) < 2 ^ 64)"
      using assms a unfolding await_ok_def by blast+
    have 2: "preach cid ctgts linger cp2" "m < cp_next cp2" "cp_tgts cp2 m = tgts"
      using preach_steps[OF st] tgts_stable_steps[OF st] m1 by auto
    show ?thesis
    proof (cases e)
      case (Some x)
      with Suc.prems False m a 2 show ?thesis by (cases x) auto
    next
      case None
      show ?thesis
      proof (cases "pm_dialErr (cp_mem cp2 m)")
        case (Some err)
        with Suc None False m a 2 show ?thesis by (auto split: if_splits)
      next
        case none: None
        with 2 dn None obtain h where "pm_clnt (cp_mem cp2 m) = Some h" "ctgts h = cp_tgts cp2 m"
          "preach cid ctgts linger (sec_get m h cp2)" "0 < cp_lent (sec_get m h cp2) h"
          by (metis sec_get_step)
        with Suc.prems None none False m a 2 show ?thesis by auto
      qed
    qed
  qed
qed

fun lent_after :: "(gerr + nat option) option \<Rightarrow> (nat \<Rightarrow> nat) \<Rightarrow> nat \<Rightarrow> nat" where
  "lent_after (Some (Inr (Some h))) f = f(h := Suc (f h))"
| "lent_after _ f = f"

lemma get_attempts_lent:
  assumes quiet: "\<And>m cp r cp'. await m cp = (r, cp') \<Longrightarrow> cp_lent cp' = cp_lent cp"
  shows "get_attempts n await tgts cp = (r, cp') \<Longrightarrow>
    cp_lent cp' = lent_after r (cp_lent cp)"
proof (induction n arbitrary: cp)
  case 0
  then show ?case by auto
next
  case (Suc n)
  obtain m cp1 where m: "get_member tgts cp = (m, cp1)" by fastforce
  obtain e cp2 where a: "await m cp1 = (e, cp2)" by fastforce
  have l: "cp_lent cp2 = cp_lent cp"
    using quiet[OF a] m by (auto simp: get_member_def sec_new_def Let_def split: option.splits)
  show ?case
  proof (cases e)
    case (Some x)
    with Suc.prems m a l show ?thesis by (cases x) (auto split: if_splits)
  next
    case None
    with Suc m a l show ?thesis
      by (auto simp: sec_get_def upd_mem_def split: if_splits option.splits)
  qed
qed

lemma PutClient_step:
  assumes reach: "preach cid ctgts linger cp" and h: "0 < cp_lent cp h"
  obtains cp' where "PutClient cid linger now (Some h) cp = Some cp'" "preach cid ctgts linger cp'"
    "cp_lent cp' = (cp_lent cp)(h := cp_lent cp h - 1)"
proof (cases "cp_closed cp")
  case True
  with assms have "preach cid ctgts linger (cp\<lparr>cp_lent := (cp_lent cp)(h := cp_lent cp h - 1)\<rparr>)"
    by (intro preach_step[OF reach] pstep.put_closed)
  with True show thesis by (intro that) (auto simp: PutClient_def)
next
  case False
  with preach_inv[OF reach] h obtain m where m: "cp_lut cp (cid h) = Some m"
    by (rule pool_inv_lent_known)
  with h False have "pstep cid ctgts linger cp (sec_put linger now m h cp)" by (intro pstep.put)
  with reach m False show thesis
    by (intro that[of "sec_put linger now m h cp"])
      (auto simp: PutClient_def Let_def sec_put_def upd_mem_def intro: preach_step)
qed

subsection \<open>Interface: a pool that counts loans\<close>

text \<open>What the request handlers rely on: a client that is handed out is one loan more, an error
  is none, and giving back a client on loan is one less.\<close>

definition untouched :: "('s \<Rightarrow> bool) \<Rightarrow> ('s \<Rightarrow> nat \<Rightarrow> nat) \<Rightarrow> ('s, 'b) state \<Rightarrow> bool" where
  "untouched good loans m \<longleftrightarrow>
     (\<forall>w r w'. run_state m w = (r, w') \<longrightarrow> good w \<longrightarrow> good w' \<and> loans w' = loans w)"

lemma untouchedD:
  "untouched good loans m \<Longrightarrow> run_state m w = (r, w') \<Longrightarrow> good w \<Longrightarrow> good w' \<and> loans w' = loans w"
  by (auto simp: untouched_def)

locale client_pool =
  fixes pool :: "'s Pool"
    and good :: "'s \<Rightarrow> bool"
    and loans :: "'s \<Rightarrow> nat \<Rightarrow> nat"
  assumes Get_Inr: "run_state (pool_GetClient pool ctx eps scheme) w = (Inr h, w') \<Longrightarrow> good w \<Longrightarrow>
      good w' \<and> loans w' = (loans w)(h := Suc (loans w h))"
    and Get_Inl: "run_state (pool_GetClient pool ctx eps scheme) w = (Inl e, w') \<Longrightarrow> good w \<Longrightarrow>
      good w' \<and> loans w' = loans w"
    and Put_law: "run_state (pool_PutClient pool h) w = ((), w') \<Longrightarrow> good w \<Longrightarrow> 0 < loans w h \<Longrightarrow>
      good w' \<and> loans w' = (loans w)(h := loans w h - 1)"
begin

lemma GetLBClient_loan:
  assumes d: "d_lbclients d = pool" and rok: "\<And>h. untouched good loans (cl_RemoteOk (d_client d h) ctx)"
    and run: "run_state (GetLBClient d ctx eps scheme) w = (r, w')" and w: "good w"
  shows "good w' \<and> loans w' = (case r of Inr h \<Rightarrow> (loans w)(h := Suc (loans w h)) | Inl _ \<Rightarrow> loans w)"
proof -
  obtain g w1 where g: "run_state (pool_GetClient pool ctx eps scheme) w = (g, w1)" by fastforce
  show ?thesis
  proof (cases g)
    case (Inl err)
    with run g d Get_Inl[OF g[unfolded Inl] w] show ?thesis
      by (auto simp: GetLBClient_def split: option.splits if_splits)
  next
    case (Inr h)
    note 1 = Get_Inr[OF g[unfolded Inr] w]
    obtain e w2 where e: "run_state (cl_RemoteOk (d_client d h) ctx) w1 = (e, w2)" by fastforce
    with untouchedD[OF rok e] 1 have 2: "good w2" "loans w2 = loans w1" by simp_all
    obtain w3 where p: "run_state (pool_PutClient pool h) w2 = ((), w3)"
      by (metis old.unit.exhaust surj_pair)
    have 3: "good w3 \<and> loans w3 = (loans w2)(h := loans w2 h - 1)"
      using Put_law[OF p 2(1)] 1 2 by simp
    show ?thesis using run d g Inr e p 1 2 3
      by (cases e) (auto simp: GetLBClient_def)
  qed
qed

lemma with_client_loans:
  assumes d: "d_lbclients d = pool" and rok: "\<And>h. untouched good loans (cl_RemoteOk (d_client d h) ctx)"
    and body: "\<And>h. untouched good loans (body (d_client d h))"
  shows "untouched good loans (with_client d ctx eps scheme body)"
  unfolding untouched_def
proof (intro allI impI)
  fix w r w'
  assume run: "run_state (with_client d ctx eps scheme body) w = (r, w')" and w: "good w"
  obtain g w1 where g: "run_state (GetLBClient d ctx eps scheme) w = (g, w1)" by fastforce
  note 1 = GetLBClient_loan[OF d rok g w]
  show "good w' \<and> loans w' = loans w"
  proof (cases g)
    case (Inl err)
    with run g 1 show ?thesis by (simp add: with_client_def)
  next
    case (Inr h)
    obtain res w2 where b: "run_state (body (d_client d h)) w1 = (res, w2)" by fastforce
    with untouchedD[OF body b] 1 have 2: "good w2" "loans w2 = loans w1" by simp_all
    obtain w3 where p: "run_state (pool_PutClient pool h) w2 = ((), w3)"
      by (metis old.unit.exhaust surj_pair)
    from Put_law[OF p 2(1)] run d g Inr b p 1 2 show ?thesis
      by (auto simp: with_client_def PutLBClient_def)
  qed
qed

end

text \<open>The pool's code provides the interface in an environment that plays by the rules.\<close>

definition pool_good :: "(nat \<Rightarrow> string) \<Rightarrow> (nat \<Rightarrow> string) \<Rightarrow> int \<Rightarrow> 'w pool_world \<Rightarrow> bool" where
  "pool_good cid ctgts linger w \<longleftrightarrow> \<not> pw_panicked w \<and> preach cid ctgts linger (pw_pool w)"

abbreviation pool_loans :: "'w pool_world \<Rightarrow> nat \<Rightarrow> nat" where
  "pool_loans w \<equiv> cp_lent (pw_pool w)"

locale pool_env =
  fixes cid ctgts :: "nat \<Rightarrow> string" and linger :: int and clock :: "'w \<Rightarrow> int" and n :: nat
    and await :: "Ctx \<Rightarrow> awaits"
  assumes await_steps: "await_ok cid ctgts linger (await ctx)"
    and await_quiet: "await ctx m cp = (r, cp') \<Longrightarrow> cp_lent cp' = cp_lent cp"
begin

lemma GetClient_law:
  assumes "GetClient n (await ctx) eps cp = (r, cp')" "preach cid ctgts linger cp"
  shows "preach cid ctgts linger cp' \<and> r \<noteq> Some (Inr None) \<and>
    cp_lent cp' = lent_after r (cp_lent cp)"
proof (cases "Slice_IsValid eps")
  case True
  then have "get_attempts n (await ctx) (Slice_String eps) cp = (r, cp')"
    using assms(1) by (simp add: GetClient_def)
  with get_attempts_reach[OF await_steps assms(2) this] get_attempts_lent[of "await ctx", OF _ this] await_quiet
  show ?thesis by blast
qed (use assms in \<open>auto simp: GetClient_def\<close>)

end

sublocale pool_env \<subseteq> client_pool "pool_calls cid linger clock n await"
  "pool_good cid ctgts linger" pool_loans
proof (unfold_locales, goal_cases)
  case (1 ctx eps scheme w h w')
  then show ?case using GetClient_law[of ctx eps "pw_pool w"]
    by (auto simp: pool_calls_def pool_good_def split: prod.splits option.splits sum.splits)
next
  case (2 ctx eps scheme w e w')
  then show ?case using GetClient_law[of ctx eps "pw_pool w"]
    by (auto simp: pool_calls_def pool_good_def split: prod.splits option.splits sum.splits)
next
  case (3 h w w')
  from 3(2) have "preach cid ctgts linger (pw_pool w)" by (simp add: pool_good_def)
  from this 3(3) obtain cp' where "PutClient cid linger (clock (pw_rest w)) (Some h) (pw_pool w) = Some cp'"
    "preach cid ctgts linger cp'" "cp_lent cp' = (pool_loans w)(h := pool_loans w h - 1)"
    by (rule PutClient_step)
  with 3 show ?case by (auto simp: pool_calls_def pool_good_def)
qed

context pool_env
begin

text \<open>The handlers' lemma, for the pool's code.\<close>

lemmas handler_loans = with_client_loans

end

text \<open>
  An environment in which nobody else runs: the dialler of the member ends while the caller
  waits, with a client named by the targets and the member. (A name in use already, or a member
  whose dialler does not run, keeps the caller waiting to the deadline.)
\<close>

definition lone_ID :: "nat \<Rightarrow> string" where "lone_ID h = replicate h CHR ''x''"

definition lone_Targets :: "nat \<Rightarrow> string" where "lone_Targets h = fst (from_nat h :: string \<times> nat)"

definition lone_await :: awaits where
  "lone_await m cp =
     (if pm_dialDone (cp_mem cp m) \<and> (\<forall>h. Suc (cp_lent cp h) < 2 ^ 64) then (None, cp)
      else
        (case cp_dials cp m of
           Some (Dialling t) \<Rightarrow>
             let h = to_nat (t, m);
                 cp' = sec_dial_done m (sec_register lone_ID m t (Some h) (sec_dialled 0 0 m t (Inr h) cp))
             in if cp_owner cp h = None \<and> (\<forall>h. Suc (cp_lent cp h) < 2 ^ 64) then (None, cp')
                else (Some context_DeadlineExceeded, cp)
         | _ \<Rightarrow> (Some context_DeadlineExceeded, cp)))"

lemma lone_ID_inj: "inj lone_ID"
  by (auto simp: lone_ID_def inj_on_def dest: arg_cong[of _ _ length])

lemma lone_dial_steps:
  assumes "cp_dials cp m = Some (Dialling t)" "cp_owner cp (to_nat (t, m)) = None"
  shows "(pstep lone_ID lone_Targets 0)\<^sup>*\<^sup>* cp
    (sec_dial_done m (sec_register lone_ID m t (Some (to_nat (t, m))) (sec_dialled 0 0 m t (Inr (to_nat (t, m))) cp)))"
proof -
  let ?h = "to_nat (t, m)" and ?S = "pstep lone_ID lone_Targets 0"
  have 1: "?S cp (sec_dialled 0 0 m t (Inr ?h) cp)"
    using assms lone_ID_inj by (intro pstep.dial_ok) (auto simp: lone_Targets_def dest: injD)
  have 2: "?S (sec_dialled 0 0 m t (Inr ?h) cp)
      (sec_register lone_ID m t (Some ?h) (sec_dialled 0 0 m t (Inr ?h) cp))"
    by (rule pstep.dial_register) (simp add: sec_defs)
  have 3: "?S (sec_register lone_ID m t (Some ?h) (sec_dialled 0 0 m t (Inr ?h) cp))
      (sec_dial_done m (sec_register lone_ID m t (Some ?h) (sec_dialled 0 0 m t (Inr ?h) cp)))"
    by (rule pstep.dial_done) (simp add: sec_defs)
  show ?thesis
    by (rule converse_rtranclp_into_rtranclp[of ?S, OF 1 converse_rtranclp_into_rtranclp[of ?S, OF 2 r_into_rtranclp[of ?S, OF 3]]])
qed

lemma lone_await_ok: "await_ok lone_ID lone_Targets 0 lone_await"
  unfolding await_ok_def
proof (intro allI impI)
  fix m cp r cp'
  assume a: "lone_await m cp = (r, cp')"
  then show "(pstep lone_ID lone_Targets 0)\<^sup>*\<^sup>* cp cp' \<and>
      (r = None \<longrightarrow> pm_dialDone (cp_mem cp' m) \<and> (\<forall>h. Suc (cp_lent cp' h) < 2 ^ 64))"
    using lone_dial_steps[of cp m]
    by (auto simp: lone_await_def Let_def sec_dial_done_def upd_mem_def sec_register_def sec_dialled_def
        split: if_splits option.splits dial_pc.splits)
qed

lemma lone_await_quiet: "lone_await m cp = (r, cp') \<Longrightarrow> cp_lent cp' = cp_lent cp"
  by (auto simp: lone_await_def Let_def sec_defs split: if_splits option.splits dial_pc.splits)

interpretation lone: pool_env lone_ID lone_Targets 0 "\<lambda>_ :: unit. 0" 3 "\<lambda>_. lone_await"
  by unfold_locales (auto intro: lone_await_ok lone_await_quiet)

subsection \<open>Retries\<close>

definition reaped_count :: "ClientPool \<Rightarrow> nat" where
  "reaped_count cp = card {m. m < cp_next cp \<and> pm_reaped (cp_mem cp m)}"

lemma reaped_stable:
  assumes "pstep cid ctgts linger cp cp'" "m < cp_next cp" "pm_reaped (cp_mem cp m)"
  shows "pm_reaped (cp_mem cp' m) \<and> m < cp_next cp'"
  using assms by cases (auto simp: sec_defs split: option.splits)

lemma reaped_stable_steps:
  "(pstep cid ctgts linger)\<^sup>*\<^sup>* cp cp' \<Longrightarrow> m < cp_next cp \<Longrightarrow> pm_reaped (cp_mem cp m) \<Longrightarrow>
     pm_reaped (cp_mem cp' m) \<and> m < cp_next cp'"
  by (induction rule: rtranclp_induct) (auto dest: reaped_stable)

lemma reaped_count_mono:
  assumes "\<And>m. m < cp_next cp \<Longrightarrow> pm_reaped (cp_mem cp m) \<Longrightarrow> m < cp_next cp' \<and> pm_reaped (cp_mem cp' m)"
  shows "reaped_count cp \<le> reaped_count cp'"
  unfolding reaped_count_def by (rule card_mono) (use assms in auto)

lemma pool_not_reaped_step:
  assumes step: "pstep cid ctgts linger cp cp'" and inv: "pool_inv cid ctgts cp"
    and r: "\<And>t m. cp_pool cp t = Some m \<Longrightarrow> \<not> pm_reaped (cp_mem cp m)"
    and p: "cp_pool cp' t = Some m"
  shows "\<not> pm_reaped (cp_mem cp' m)"
  using step
proof cases
  case (get_new tgts)
  then show ?thesis using r p by (auto simp: sec_defs fresh_member_def split: if_splits)
next
  case (reap ident m' now h)
  have "cp_pool cp t = Some m" "t \<noteq> ctgts h" using p reap by (auto simp: sec_defs split: if_splits)
  moreover have "m \<noteq> m'"
    using pool_inv_pool[OF inv, of t m] pool_inv_pool[OF inv, of "ctgts h" m'] calculation reap
      pool_inv_lut[OF inv, of ident m']
    by (auto simp: pool_at_def lut_at_def)
  ultimately show ?thesis using r reap by (auto simp: sec_defs)
qed (use r p in \<open>auto simp: sec_defs split: option.splits if_splits\<close>)

lemma pool_not_reaped:
  assumes "preach cid ctgts linger cp" "cp_pool cp t = Some m"
  shows "\<not> pm_reaped (cp_mem cp m)"
  using assms
proof (induction arbitrary: t m)
  case preach_init
  then show ?case by (simp add: NewClientPool_def)
next
  case (preach_step cp cp')
  then show ?case using pool_not_reaped_step preach_inv by metis
qed

lemma get_member_not_reaped:
  assumes "preach cid ctgts linger cp" "get_member tgts cp = (m, cp1)"
  shows "\<not> pm_reaped (cp_mem cp m) \<or> cp_next cp \<le> m" "reaped_count cp \<le> reaped_count cp1"
    "m' < cp_next cp \<Longrightarrow> pm_reaped (cp_mem cp m') \<Longrightarrow> m' < cp_next cp1 \<and> pm_reaped (cp_mem cp1 m')"
  using assms pool_not_reaped[OF assms(1)]
  by (auto simp: get_member_def sec_new_def Let_def split: option.splits intro!: reaped_count_mono)

lemma get_attempts_retries:
  assumes ok: "await_ok cid ctgts linger await"
  shows "preach cid ctgts linger cp \<Longrightarrow> get_attempts n await tgts cp = (None, cp') \<Longrightarrow>
    reaped_count cp + n \<le> reaped_count cp'"
proof (induction n arbitrary: cp)
  case 0
  then show ?case by simp
next
  case (Suc n)
  then have opened: "\<not> cp_closed cp" by auto
  obtain m cp1 where m: "get_member tgts cp = (m, cp1)" by fastforce
  obtain e cp2 where a: "await m cp1 = (e, cp2)" by fastforce
  have run: "pm_reaped (cp_mem cp2 m)" "get_attempts n await tgts cp2 = (None, cp')"
    using Suc.prems opened m a by (auto split: option.splits ctx_err.splits if_splits)
  have st: "(pstep cid ctgts linger)\<^sup>*\<^sup>* cp1 cp2" using ok a unfolding await_ok_def by blast
  note m1 = get_member_reach[OF Suc.prems(1) opened m]
  have 2: "preach cid ctgts linger cp2" "m < cp_next cp2"
    using preach_steps[OF st] tgts_stable_steps[OF st] m1 by auto
  have sub: "insert m {m. m < cp_next cp \<and> pm_reaped (cp_mem cp m)} \<subseteq> {m. m < cp_next cp2 \<and> pm_reaped (cp_mem cp2 m)}"
    using run 2 get_member_not_reaped(3)[OF Suc.prems(1) m] reaped_stable_steps[OF st] by auto
  have "Suc (reaped_count cp) = card (insert m {m. m < cp_next cp \<and> pm_reaped (cp_mem cp m)})"
    using get_member_not_reaped(1)[OF Suc.prems(1) m] by (auto simp: reaped_count_def)
  also have "\<dots> \<le> reaped_count cp2" unfolding reaped_count_def by (rule card_mono[OF _ sub]) simp
  finally show ?case using Suc.IH[OF 2(1) run(2)] by simp
qed

text \<open>An error comes from a closed pool, from the context of the caller, or from a member that was dialled
  in vain and is not reaped.\<close>

definition get_error :: "awaits \<Rightarrow> string \<Rightarrow> gerr \<Rightarrow> ClientPool \<Rightarrow> bool" where
  "get_error await tgts err cp \<longleftrightarrow>
     err = Status codes_Canceled [] \<and> cp_closed cp \<or>
     (\<exists>m cp1 e. await m cp1 = (Some e, cp) \<and> err = ErrFromCtxErr e) \<or>
     (\<exists>m < cp_next cp. cp_tgts cp m = tgts \<and> pm_dialDone (cp_mem cp m) \<and>
        pm_dialErr (cp_mem cp m) = Some err \<and> \<not> pm_reaped (cp_mem cp m))"

lemma get_attempts_error:
  assumes ok: "await_ok cid ctgts linger await"
  shows "preach cid ctgts linger cp \<Longrightarrow> get_attempts n await tgts cp = (Some (Inl err), cp') \<Longrightarrow>
    get_error await tgts err cp'"
proof (induction n arbitrary: cp)
  case 0
  then show ?case by simp
next
  case (Suc n)
  show ?case
  proof (cases "cp_closed cp")
    case True
    with Suc.prems show ?thesis by (simp add: get_error_def)
  next
    case False
    obtain m cp1 where m: "get_member tgts cp = (m, cp1)" by fastforce
    obtain e cp2 where a: "await m cp1 = (e, cp2)" by fastforce
    note m1 = get_member_reach[OF Suc.prems(1) False m]
    have st: "(pstep cid ctgts linger)\<^sup>*\<^sup>* cp1 cp2" and dn: "e = None \<Longrightarrow> pm_dialDone (cp_mem cp2 m)"
      using ok a unfolding await_ok_def by blast+
    have 2: "preach cid ctgts linger cp2" "m < cp_next cp2" "cp_tgts cp2 m = tgts"
      using preach_steps[OF st] tgts_stable_steps[OF st] m1 by auto
    show ?thesis
    proof (cases e)
      case (Some x)
      then have "err = ErrFromCtxErr x" "cp' = cp2" using Suc.prems False m a by (cases x; simp)+
      with Some a show ?thesis unfolding get_error_def by blast
    next
      case None
      show ?thesis
      proof (cases "pm_reaped (cp_mem cp2 m)")
        case True
        with Suc.prems False m a None have "get_attempts n await tgts cp2 = (Some (Inl err), cp')"
          by (simp split: option.splits)
        then show ?thesis by (rule Suc.IH[OF 2(1)])
      next
        case live: False
        with Suc.prems False m a None have "pm_dialErr (cp_mem cp2 m) = Some err" "cp' = cp2"
          by (auto split: option.splits)
        with live dn[OF None] 2 show ?thesis unfolding get_error_def by blast
      qed
    qed
  qed
qed

subsection \<open>Properties\<close>

text \<open>A pool with one client on loan, for the witnesses.\<close>

definition one_loan :: ClientPool where
  "one_loan = snd (get_attempts 1 lone_await ''10.0.0.1:443'' NewClientPool)"

definition one_handle :: nat where "one_handle = to_nat (''10.0.0.1:443'', 0 :: nat)"

lemma one_loan_get:
  "get_attempts 1 lone_await ''10.0.0.1:443'' NewClientPool = (Some (Inr (Some one_handle)), one_loan)"
  by (simp add: one_loan_def one_handle_def get_member_def lone_await_def sec_defs NewClientPool_def
      fresh_member_def)

lemma one_loan_reach: "preach lone_ID lone_Targets 0 one_loan"
  using get_attempts_reach[OF lone_await_ok preach_init one_loan_get] by simp

lemma one_loan_fields [simp]: "cp_lent one_loan one_handle = 1" "\<not> cp_closed one_loan"
  by (simp_all add: one_loan_def one_handle_def get_member_def lone_await_def sec_defs
      NewClientPool_def fresh_member_def)

text \<open>
  C21. Whatever the interleaving of callers, diallers, the reaper and \<open>Close\<close>, the pool's code
  never reaches one of its panics, and \<open>GetClient\<close> never returns a nil client without an error.
\<close>

theorem pool_never_panics:
  assumes "preach cid ctgts linger cp"
  shows "\<not> put_panics cid cp \<and> \<not> reap_panics cp \<and> \<not> close_clients_panics cp \<and>
    \<not> close_panics cp \<and> \<not> nil_client cp"
  using pool_inv_safe[OF preach_inv[OF assms]] by blast

theorem pool_never_panics_witness:
  "\<not> put_panics lone_ID one_loan \<and> \<not> nil_client one_loan \<and> 0 < cp_lent one_loan one_handle"
  using pool_never_panics[OF one_loan_reach] by simp

text \<open>
  C22. A client on loan stays: until the pool is closed it is in the look-up table, its reference
  count is the number of callers that hold it, and the reaper never takes it, at any time.
\<close>

theorem lent_client_stays:
  assumes "preach cid ctgts linger cp" "0 < cp_lent cp h" "\<not> cp_closed cp"
  shows "\<exists>m. cp_lut cp (cid h) = Some m \<and> pm_clnt (cp_mem cp m) = Some h \<and>
    unat (pm_rc (cp_mem cp m)) = cp_lent cp h \<and> (\<forall>now. \<not> reapable now (cp_mem cp m))"
proof -
  from preach_inv[OF assms(1)] assms(2,3) obtain m where "cp_lut cp (cid h) = Some m"
    "pm_clnt (cp_mem cp m) = Some h" "unat (pm_rc (cp_mem cp m)) = cp_lent cp h"
    by (rule pool_inv_lent_known)
  with assms(2) show ?thesis by (intro exI[of _ m]) (auto simp: reapable_def)
qed

theorem lent_client_stays_witness:
  "\<exists>m. cp_lut one_loan (lone_ID one_handle) = Some m \<and> unat (pm_rc (cp_mem one_loan m)) = 1"
  using lent_client_stays[OF one_loan_reach, of one_handle] by auto

text \<open>
  C23. \<open>GetClient\<close> returns a client of the very targets it was asked for, on loan to the caller
  and known to the pool, whatever the other goroutines did while it waited.
\<close>

theorem GetClient_lends:
  assumes "preach cid ctgts linger cp" "await_ok cid ctgts linger await"
    and "GetClient n await targets cp = (Some (Inr c), cp')"
  shows "preach cid ctgts linger cp' \<and>
    (\<exists>h. c = Some h \<and> ctgts h = Slice_String targets \<and> 0 < cp_lent cp' h \<and>
      (\<not> cp_closed cp' \<longrightarrow> (\<exists>m. cp_lut cp' (cid h) = Some m \<and> pm_clnt (cp_mem cp' m) = Some h)))"
proof -
  have "get_attempts n await (Slice_String targets) cp = (Some (Inr c), cp')"
    using assms(3) by (auto simp: GetClient_def split: if_splits)
  from get_attempts_reach[OF assms(2,1) this] obtain h where "preach cid ctgts linger cp'" "c = Some h"
    "ctgts h = Slice_String targets" "0 < cp_lent cp' h" by blast
  then show ?thesis by (blast elim: pool_inv_lent_known[OF preach_inv])
qed

definition one_target :: Slice where "one_target = [\<lparr>ep_host = ''10.0.0.1'', ep_port = 443\<rparr>]"

text \<open>
  C24. \<open>GetClient\<close> makes a reaped member transparent: it tries again when the member it waited for was
  reaped, never returns the error that the reaper left behind, and makes at most one more attempt
  for each member that is reaped during the call. If it has not returned after \<open>n\<close> attempts, \<open>n\<close>
  members were reaped meanwhile; an error is that of invalid targets, of a closed pool, of the
  caller's context, or the dialling error of a member of these targets that is not reaped; and
  a client is one of these targets, on loan.
\<close>

theorem GetClient_retries:
  assumes "preach cid ctgts linger cp" "await_ok cid ctgts linger await"
    and "GetClient n await targets cp = (r, cp')"
  shows "case r of
      None \<Rightarrow> reaped_count cp + n \<le> reaped_count cp'
    | Some (Inl err) \<Rightarrow>
        (if Slice_IsValid targets then get_error await (Slice_String targets) err cp'
         else err = Status codes_InvalidArgument [] \<and> cp' = cp)
    | Some (Inr c) \<Rightarrow> \<exists>h. c = Some h \<and> ctgts h = Slice_String targets \<and> 0 < cp_lent cp' h"
  using assms get_attempts_retries[OF assms(2,1)] get_attempts_error[OF assms(2,1)]
    get_attempts_reach[OF assms(2,1)]
  by (fastforce simp: GetClient_def split: if_splits option.split sum.split)

text \<open>
  C25. \<open>Close\<close> is never stuck: from every state with the pool closed the remaining diallers and
  the reaper can take it to the end, and then both maps are empty.
\<close>

theorem Close_can_finish:
  assumes "preach cid ctgts linger cp" "cp_closed cp"
  shows "\<exists>cp'. (pstep cid ctgts linger)\<^sup>*\<^sup>* cp cp' \<and> cp_closer cp' = CFinished \<and>
    cp_pool cp' = Map.empty \<and> cp_lut cp' = Map.empty"
proof -
  let ?S = "pstep cid ctgts linger"
  note inv = preach_inv[OF assms(1)]
  have killed: "\<exists>cp1. ?S\<^sup>*\<^sup>* cp cp1 \<and> cp_closer cp1 = CKilled" if "cp_closer cp = CWaitDials"
  proof -
    from dials_drain[OF inv] obtain cp1 where 1: "?S\<^sup>*\<^sup>* cp cp1" "cp_dials cp1 = Map.empty"
      "cp_closer cp1 = CWaitDials" using \<open>cp_closer cp = CWaitDials\<close> by metis
    then have "?S cp1 (cp1\<lparr>cp_closer := CKilled\<rparr>)" by (intro pstep.close_dialled)
    with 1 show ?thesis by (intro exI[of _ "cp1\<lparr>cp_closer := CKilled\<rparr>"]) auto
  qed
  show ?thesis
  proof (cases "cp_closer cp = CFinished")
    case True
    then show ?thesis using pool_inv_phase[OF inv] pool_inv_retired[OF inv] by (auto simp: phase_ok_def)
  next
    case False
    then have "cp_closer cp = CWaitDials \<or> cp_closer cp = CKilled"
      using pool_inv_phase[OF inv] assms(2) by (cases "cp_closer cp") (auto simp: phase_ok_def)
    then obtain cp1 where 1: "?S\<^sup>*\<^sup>* cp cp1" "cp_closer cp1 = CKilled" using killed by blast
    from reaper_winds_up[OF pool_inv_steps[OF 1(1) inv] 1(2)] obtain cp2 where
      2: "?S\<^sup>*\<^sup>* cp1 cp2" "cp_closer cp2 = CKilled" "cp_reaper cp2 = RRetired" by blast
    note empty = pool_inv_retired[OF pool_inv_steps[OF 2(1) pool_inv_steps[OF 1(1) inv]] 2(3)]
    then have "?S cp2 (cp2\<lparr>cp_closer := CFinished\<rparr>)" using 2 by (intro pstep.close_finish)
    with 1 2 empty show ?thesis by (intro exI[of _ "cp2\<lparr>cp_closer := CFinished\<rparr>"]) auto
  qed
qed

text \<open>
  C30. Giving back a client that nobody holds is not noticed: the count is unsigned, so the test
  for a negative count never fires, and the member, with \<open>2^64 - 1\<close> references, is never reaped.
\<close>

theorem PutClient_wraps:
  assumes "\<not> cp_closed cp" "cp_lut cp (cid h) = Some m" "pm_rc (cp_mem cp m) = 0"
  shows "\<exists>cp'. PutClient cid linger now (Some h) cp = Some cp' \<and>
    unat (pm_rc (cp_mem cp' m)) = 2 ^ 64 - 1 \<and> (\<forall>t. \<not> reapable t (cp_mem cp' m))"
  using assms by (simp add: PutClient_def sec_put_def upd_mem_def reapable_def unsigned_minus_1_eq_mask mask_eq_exp_minus_1)

text \<open>
  C26. A request handler gives back every client it borrows, on success and on every error path
  (no client, remote not responding, failing body), and never trips a panic of the pool.
\<close>

theorem with_client_returns_loans:
  assumes env: "\<And>ctx. await_ok cid ctgts linger (await ctx)"
      "\<And>ctx m cp r cp'. await ctx m cp = (r, cp') \<Longrightarrow> cp_lent cp' = cp_lent cp"
    and d: "d_lbclients d = pool_calls cid linger clock n await"
    and clients: "\<And>h w. pw_pool (snd (run_state (cl_RemoteOk (d_client d h) ctx) w)) = pw_pool w"
      "\<And>h w. pw_panicked (snd (run_state (cl_RemoteOk (d_client d h) ctx) w)) = pw_panicked w"
      "\<And>h w. pw_pool (snd (run_state (body (d_client d h)) w)) = pw_pool w"
      "\<And>h w. pw_panicked (snd (run_state (body (d_client d h)) w)) = pw_panicked w"
    and w: "preach cid ctgts linger (pw_pool w)" "\<not> pw_panicked w"
    and run: "run_state (with_client d ctx eps scheme body) w = (r, w')"
  shows "\<not> pw_panicked w' \<and> preach cid ctgts linger (pw_pool w') \<and>
    cp_lent (pw_pool w') = cp_lent (pw_pool w)"
proof -
  have pe: "pool_env cid ctgts linger await" by unfold_locales (use env in blast)+
  have u: "untouched (pool_good cid ctgts linger) pool_loans m"
    if "\<And>w. pw_pool (snd (run_state m w)) = pw_pool w"
      "\<And>w. pw_panicked (snd (run_state m w)) = pw_panicked w" for m :: "('c pool_world, 'x) state"
    unfolding untouched_def pool_good_def using that by (metis snd_conv)
  from pool_env.handler_loans[OF pe d u u] clients
  have "untouched (pool_good cid ctgts linger) pool_loans (with_client d ctx eps scheme body)" by blast
  from untouchedD[OF this run] w show ?thesis by (simp add: pool_good_def)
qed

subsection \<open>Witnesses\<close>

lemma one_target_ok [simp]: "Slice_IsValid one_target" "Slice_String one_target = ''10.0.0.1:443''"
  by code_simp+

theorem GetClient_lends_witness:
  "GetClient 1 lone_await one_target NewClientPool = (Some (Inr (Some one_handle)), one_loan) \<and>
   lone_Targets one_handle = ''10.0.0.1:443'' \<and> 0 < cp_lent one_loan one_handle"
proof -
  have "GetClient 1 lone_await one_target NewClientPool = (Some (Inr (Some one_handle)), one_loan)"
    using one_loan_get by (simp add: GetClient_def)
  with GetClient_lends[OF preach_init lone_await_ok this] show ?thesis by simp
qed

text \<open>A member that is dialled and reaped while its caller waits.\<close>

definition idle_pool :: ClientPool where
  "idle_pool = snd (lone_await 0 (sec_new ''10.0.0.1:443'' NewClientPool))"

definition reap_await :: awaits where
  "reap_await m cp =
     (if m = 0 \<and> cp = sec_new ''10.0.0.1:443'' NewClientPool
      then (None, sec_reap lone_Targets (lone_ID one_handle) 0 one_handle idle_pool)
      else (Some context_Canceled, cp))"

lemma idle_pool_fields [simp]:
  "cp_lut idle_pool (lone_ID one_handle) = Some 0" "pm_rc (cp_mem idle_pool 0) = 0"
  "pm_clnt (cp_mem idle_pool 0) = Some one_handle" "pm_expireBy (cp_mem idle_pool 0) = Some 0"
  "cp_reaper idle_pool = RCycle" "\<not> cp_closed idle_pool" "cp_next idle_pool = 1"
  "pm_dialDone (cp_mem idle_pool 0)" "cp_lent idle_pool = (\<lambda>_. 0)"
  by (simp_all add: idle_pool_def one_handle_def lone_await_def sec_defs NewClientPool_def fresh_member_def)

lemma reap_await_ok: "await_ok lone_ID lone_Targets 0 reap_await"
proof -
  let ?S = "pstep lone_ID lone_Targets 0"
  have "fst (lone_await 0 (sec_new ''10.0.0.1:443'' NewClientPool)) = None"
    by (simp add: lone_await_def sec_defs NewClientPool_def fresh_member_def)
  then have 1: "?S\<^sup>*\<^sup>* (sec_new ''10.0.0.1:443'' NewClientPool) idle_pool"
    using lone_await_ok unfolding await_ok_def idle_pool_def by (metis prod.collapse)
  have 2: "?S idle_pool (sec_reap lone_Targets (lone_ID one_handle) 0 one_handle idle_pool)"
    by (rule pstep.reap[where now = 1]) (simp_all add: reapable_def)
  show ?thesis
    unfolding await_ok_def reap_await_def
    using rtranclp.rtrancl_into_rtrancl[of ?S, OF 1 2] by (auto simp: sec_reap_def upd_mem_def)
qed

theorem GetClient_retries_witness:
  "(\<exists>cp'. GetClient 1 reap_await one_target NewClientPool = (None, cp') \<and> 1 \<le> reaped_count cp') \<and>
   (\<exists>cp'. GetClient 2 reap_await one_target NewClientPool = (Some (Inl (Status codes_Canceled [])), cp') \<and>
     get_error reap_await (Slice_String one_target) (Status codes_Canceled []) cp')"
proof -
  let ?cp = "sec_reap lone_Targets (lone_ID one_handle) 0 one_handle idle_pool"
  have m: "get_member ''10.0.0.1:443'' NewClientPool = (0, sec_new ''10.0.0.1:443'' NewClientPool)"
    by (simp add: get_member_def NewClientPool_def)
  have reaped: "pm_reaped (cp_mem ?cp 0)" "pm_dialErr (cp_mem ?cp 0) \<noteq> None" "\<not> cp_closed ?cp"
    by (simp_all add: sec_reap_def upd_mem_def)
  have tgts: "Slice_IsValid one_target" "Slice_String one_target = ''10.0.0.1:443''"
    by (simp_all add: one_target_def Slice_IsValid_def EP_IsValid_def emptyEP_def ep_eval)
  have "get_member ''10.0.0.1:443'' ?cp = (1, sec_new ''10.0.0.1:443'' ?cp)"
    by (simp add: get_member_def sec_reap_def upd_mem_def) (simp add: lone_Targets_def one_handle_def)
  then have again: "get_attempts 1 reap_await ''10.0.0.1:443'' ?cp =
      (Some (Inl (Status codes_Canceled [])), sec_new ''10.0.0.1:443'' ?cp)"
    using reaped(3) by (simp add: reap_await_def)
  have 1: "GetClient 1 reap_await one_target NewClientPool = (None, ?cp)"
    using m reaped tgts by (auto simp: GetClient_def reap_await_def NewClientPool_def)
  have 2: "GetClient 2 reap_await one_target NewClientPool =
      (Some (Inl (Status codes_Canceled [])), sec_new ''10.0.0.1:443'' ?cp)"
    using m reaped tgts again by (auto simp: GetClient_def numeral_2_eq_2 reap_await_def NewClientPool_def)
  from GetClient_retries[OF preach_init reap_await_ok 1] GetClient_retries[OF preach_init reap_await_ok 2] 1 2 tgts
  show ?thesis by auto
qed

theorem Close_can_finish_witness:
  "\<exists>cp'. (pstep lone_ID lone_Targets 0)\<^sup>*\<^sup>* (one_loan\<lparr>cp_closed := True, cp_closer := CWaitDials\<rparr>) cp' \<and>
     cp_closer cp' = CFinished \<and> cp_lut cp' = Map.empty"
proof -
  have "preach lone_ID lone_Targets 0 (one_loan\<lparr>cp_closed := True, cp_closer := CWaitDials\<rparr>)"
    by (rule preach_step[OF one_loan_reach pstep.close]) simp
  from Close_can_finish[OF this] show ?thesis by auto
qed

theorem PutClient_wraps_witness:
  "\<exists>cp'. PutClient lone_ID 0 5 (Some one_handle) idle_pool = Some cp' \<and>
    unat (pm_rc (cp_mem cp' 0)) = 18446744073709551615"
  using PutClient_wraps[of idle_pool lone_ID one_handle 0 0 5] by auto

definition idle_client :: "'s Client" where
  "idle_client = \<lparr>cl_Close = State_Monad.return (), cl_ID = [], cl_Targets = [], cl_RemoteOk = (\<lambda>_. ok ()),
     cl_GetCluster = (\<lambda>_. fail mkEagain), cl_GetClusterInfo = (\<lambda>_. fail mkEagain),
     cl_ListNodes = (\<lambda>_. fail mkEagain), cl_CreateVolume = (\<lambda>_ _ _ _ _ _ _ _ _ _. fail mkEagain),
     cl_DeleteVolume = (\<lambda>_ _ _ _. fail mkEagain), cl_GetVolume = (\<lambda>_ _ _. fail mkEagain),
     cl_GetVolumeByName = (\<lambda>_ _ _. fail mkEagain), cl_UpdateVolume = (\<lambda>_ _ _ _. fail mkEagain),
     cl_CreateSnapshot = (\<lambda>_ _ _ _ _ _. fail mkEagain), cl_DeleteSnapshot = (\<lambda>_ _ _ _. fail mkEagain),
     cl_GetSnapshot = (\<lambda>_ _ _. fail mkEagain), cl_GetSnapshotByName = (\<lambda>_ _ _. fail mkEagain)\<rparr>"

definition idle_driver :: "unit pool_world Driver" where
  "idle_driver = \<lparr>d_sockPath = ''/s'', d_jwtPath = [], d_luksCfgFile = [], d_nodeID = ''n1'',
     d_hostNQN = nodeIDToHostNQN ''n1'', d_defaultFS = [],
     d_lbclients = pool_calls lone_ID 0 (\<lambda>_. 0) 3 (\<lambda>_. lone_await), d_client = (\<lambda>_. idle_client),
     d_transport = ''tcp'', d_squelchPanics = False, d_jwt = [], d_rwx = False, d_guuid = hex_guuid\<rparr>"

theorem with_client_returns_loans_witness:
  "\<exists>r w'. run_state (with_client idle_driver \<lparr>ctx_deadline = None, ctx_md = []\<rparr> one_target ''grpc''
        (\<lambda>c. cl_GetVolume c \<lparr>ctx_deadline = None, ctx_md = []\<rparr> 1 ''p''))
      \<lparr>pw_pool = one_loan, pw_panicked = False, pw_rest = ()\<rparr> = (r, w') \<and>
    \<not> pw_panicked w' \<and> cp_lent (pw_pool w') one_handle = 1"
proof -
  obtain r w' where run: "run_state (with_client idle_driver \<lparr>ctx_deadline = None, ctx_md = []\<rparr> one_target ''grpc''
        (\<lambda>c. cl_GetVolume c \<lparr>ctx_deadline = None, ctx_md = []\<rparr> 1 ''p''))
      \<lparr>pw_pool = one_loan, pw_panicked = False, pw_rest = ()\<rparr> = (r, w')" by fastforce
  have "\<not> pw_panicked w' \<and> preach lone_ID lone_Targets 0 (pw_pool w') \<and> cp_lent (pw_pool w') = cp_lent one_loan"
    using with_client_returns_loans[OF lone_await_ok lone_await_quiet _ _ _ _ _ _ _ run]
    by (simp add: idle_driver_def idle_client_def one_loan_reach)
  with run show ?thesis by simp
qed

end
