(* ===== verification/Host.thy ===== *)
theory Host
  imports Driver
begin

text \<open>
  The host the node service runs on. Files, processes and mounts live in the world; the calls
  of the packages \<^verbatim>\<open>os\<close>, \<^verbatim>\<open>path/filepath\<close>, \<^verbatim>\<open>os/exec\<close> and \<^verbatim>\<open>unix\<close> that reach it are the record
  \<open>OS\<close>, those of \<^verbatim>\<open>k8s.io/mount-utils\<close> the record \<open>Mounter\<close>. An error of the host is kept as far as
  the code looks at it: \<open>os.IsNotExist\<close>, \<open>os.IsExist\<close>, and whether its text contains
  "input/output error". The string and number functions of the standard library are
  definitions.
\<close>

subsection \<open>Strings and numbers\<close>

definition strings_TrimPrefix :: "string \<Rightarrow> string \<Rightarrow> string" where
  "strings_TrimPrefix s p = (case strip_prefix p s of Some r \<Rightarrow> r | None \<Rightarrow> s)"

definition strings_TrimSuffix :: "string \<Rightarrow> string \<Rightarrow> string" where
  "strings_TrimSuffix s p = (case strip_prefix (rev p) (rev s) of Some r \<Rightarrow> rev r | None \<Rightarrow> s)"

text \<open>\<open>strings.SplitN(s, sep, 2)\<close> for a one-byte separator.\<close>

definition strings_SplitN2 :: "char \<Rightarrow> string \<Rightarrow> string list" where
  "strings_SplitN2 c s =
     (case index_byte c s of None \<Rightarrow> [s] | Some i \<Rightarrow> [take i s, drop (Suc i) s])"

text \<open>\<open>strings.Fields\<close>: the maximal runs without white space; \<open>acc\<close> is the current run.\<close>

function fields_from :: "string \<Rightarrow> string \<Rightarrow> string list" where
  "fields_from acc [] = (if acc = [] then [] else [acc])"
| "fields_from acc (x # xs) =
     (case find (\<lambda>r. strip_prefix r (x # xs) \<noteq> None) space_runes of
        None \<Rightarrow> fields_from (acc @ [x]) xs
      | Some r \<Rightarrow>
          (if acc = [] then [] else [acc]) @ fields_from [] (drop (length r - 1) xs))"
  by pat_completeness auto
termination by (relation "measure (length \<circ> snd)") auto

definition strings_Fields :: "string \<Rightarrow> string list" where
  "strings_Fields s = fields_from [] s"

text \<open>Text between visible ASCII characters has no space to trim.\<close>

lemma space_runes_ends:
  assumes "r \<in> set space_runes"
  shows "r \<noteq> [] \<and> of_char (hd r) \<notin> {33..<128 :: nat} \<and> of_char (last r) \<notin> {33..<128 :: nat}"
  using assms unfolding space_runes_def by (auto simp: hd_map last_map)

abbreviation visible :: "char \<Rightarrow> bool" where "visible c \<equiv> of_char c \<in> {33..<128 :: nat}"

lemma strip_prefix_hd: "p \<noteq> [] \<Longrightarrow> hd p \<noteq> c \<Longrightarrow> strip_prefix p (c # s) = None"
  by (cases p) auto

lemma no_space_prefix:
  assumes "visible c"
  shows "find (\<lambda>r. strip_prefix r (c # s) \<noteq> None) space_runes = None"
    and "find (\<lambda>r. strip_prefix (rev r) (c # s) \<noteq> None) space_runes = None"
proof -
  have "strip_prefix r (c # s) = None \<and> strip_prefix (rev r) (c # s) = None" if "r \<in> set space_runes" for r
    using space_runes_ends[OF that] assms by (intro conjI strip_prefix_hd) (auto simp: hd_rev)
  then show "find (\<lambda>r. strip_prefix r (c # s) \<noteq> None) space_runes = None"
    "find (\<lambda>r. strip_prefix (rev r) (c # s) \<noteq> None) space_runes = None"
    by (auto simp: find_None_iff)
qed

lemma TrimSpace_id:
  assumes "visible (hd s)" "visible (last s)" "s \<noteq> []"
  shows "TrimSpace s = s"
proof -
  obtain c cs where s: "s = c # cs" using assms(3) by (cases s) auto
  obtain d ds where d: "s = ds @ [d]" using assms(3) by (cases s rule: rev_cases) auto
  have "trim_left s = s" using no_space_prefix(1)[of c cs] assms(1) by (simp add: s trim_left.simps[of "c # cs"])
  moreover have "trim_right s = s" using no_space_prefix(2)[of d "rev ds"] assms(2)
    by (simp add: d trim_right.simps[of "ds @ [d]"])
  ultimately show ?thesis by (simp add: TrimSpace_def)
qed

lemma fields_from_visible:
  "list_all visible xs \<Longrightarrow> fields_from acc xs = (if acc @ xs = [] then [] else [acc @ xs])"
  by (induction xs arbitrary: acc) (simp_all add: no_space_prefix del: not_None_eq)

text \<open>\<open>filepath.Base\<close> on Unix.\<close>

definition filepath_Base :: "string \<Rightarrow> string" where
  "filepath_Base path =
     (if path = [] then ''.''
      else
        let p = rev (dropWhile (\<lambda>c. c = CHR ''/'') (rev path));
            b = (case last_index_byte CHR ''/'' p of Some i \<Rightarrow> drop (Suc i) p | None \<Rightarrow> p)
        in if b = [] then ''/'' else b)"

text \<open>\<open>fmt\<close>'s \<^verbatim>\<open>%d\<close> of an \<open>int64\<close>, and \<open>strconv.ParseInt(s, 10, 64)\<close>.\<close>

definition FormatInt10 :: "int64 \<Rightarrow> string" where
  "FormatInt10 n =
     (if sint n < 0 then ''-'' @ FormatUint10 (nat (- sint n)) else FormatUint10 (nat (sint n)))"

definition ParseInt64 :: "string \<Rightarrow> int64 option" where
  "ParseInt64 s =
     (case s of
        [] \<Rightarrow> None
      | c # cs \<Rightarrow>
          let neg = (c = CHR ''-'');
              digits = (if c = CHR ''+'' \<or> c = CHR ''-'' then cs else s)
          in if digits \<noteq> [] \<and> list_all is_digit digits \<and>
                (if neg then decimal_value digits \<le> 2 ^ 63 else decimal_value digits < 2 ^ 63)
             then Some (word_of_int (if neg then - int (decimal_value digits)
                                     else int (decimal_value digits)))
             else None)"

subsection \<open>The operating system\<close>

datatype os_err = os_NotExist | os_Exist | os_IOError | os_OtherErr

record FileInfo =
  fi_IsDir :: bool
  fi_IsDevice :: bool

text \<open>A finished command: its exit status, or it could not be run.\<close>

datatype exec_err = ExitError int | ExecFailed

record Statfs_t =
  sf_Bavail :: uint64
  sf_Bsize :: int64
  sf_Blocks :: uint64
  sf_Bfree :: uint64
  sf_Files :: uint64
  sf_Ffree :: uint64

record 's OS =
  os_ReadFile :: "string \<Rightarrow> ('s, os_err, string) io"
  os_Stat :: "string \<Rightarrow> ('s, os_err, FileInfo) io"
  os_EvalSymlinks :: "string \<Rightarrow> ('s, os_err, string) io"
  os_Abs :: "string \<Rightarrow> ('s, os_err, string) io"
  os_Glob :: "string \<Rightarrow> ('s, os_err, string list) io"
  os_OpenCreate :: "string \<Rightarrow> ('s, os_err, unit) io"
  os_CloseFile :: "string \<Rightarrow> ('s, os_err, unit) io"
  os_Remove :: "string \<Rightarrow> ('s, os_err, unit) io"
  os_RemoveAll :: "string \<Rightarrow> ('s, os_err, unit) io"
  os_MkdirAll :: "string \<Rightarrow> ('s, os_err, unit) io"
  os_CreateTemp :: "string \<Rightarrow> string \<Rightarrow> ('s, os_err, string) io"
  os_WriteString :: "string \<Rightarrow> string \<Rightarrow> ('s, os_err, unit) io"
  os_Rename :: "string \<Rightarrow> string \<Rightarrow> ('s, os_err, unit) io"
  os_Exec :: "string \<Rightarrow> string list \<Rightarrow> string \<Rightarrow> ('s, string \<times> exec_err option) state"
  os_Statfs :: "string \<Rightarrow> ('s, os_err, Statfs_t) io"

text \<open>\<open>IsMountPoint\<close> gives its answer next to its error, as in Go.\<close>

record 's Mounter =
  mt_IsMountPoint :: "string \<Rightarrow> ('s, bool \<times> os_err option) state"
  mt_IsLikelyNotMountPoint :: "string \<Rightarrow> ('s, os_err, bool) io"
  mt_GetDeviceNameFromMount :: "string \<Rightarrow> ('s, os_err, string) io"
  mt_ListProcMounts :: "string \<Rightarrow> ('s, os_err, (string \<times> string) list) io"
  mt_Mount :: "string \<Rightarrow> string \<Rightarrow> string \<Rightarrow> string list \<Rightarrow> ('s, os_err, unit) io"
  mt_Unmount :: "string \<Rightarrow> ('s, os_err, unit) io"
  mt_GetDiskFormat :: "string \<Rightarrow> ('s, os_err, string) io"
  mt_FormatAndMount :: "string \<Rightarrow> string \<Rightarrow> string \<Rightarrow> string list \<Rightarrow> ('s, os_err, unit) io"
  mt_Resize :: "string \<Rightarrow> string \<Rightarrow> ('s, os_err, bool) io"

text \<open>Calls whose error becomes the error \<open>e\<close> of the caller.\<close>

definition or_fail :: "'e \<Rightarrow> ('s, 'f, 'a) io \<Rightarrow> ('s, 'e, 'a) io" where
  "or_fail e m = do { r \<leftarrow> m; (case r of Inl _ \<Rightarrow> fail e | Inr a \<Rightarrow> ok a) }"

text \<open>Sequencing that stops at the first error, for \<open>if err != nil { return err }\<close>.\<close>

definition then_io :: "('s, 'e, 'a) io \<Rightarrow> ('a \<Rightarrow> ('s, 'e, 'b) io) \<Rightarrow> ('s, 'e, 'b) io" where
  "then_io m f = do { r \<leftarrow> m; (case r of Inl e \<Rightarrow> fail e | Inr a \<Rightarrow> f a) }"

lemma run_or_fail:
  "run_state (or_fail e m) s =
     (case run_state m s of (Inl _, t) \<Rightarrow> (Inl e, t) | (Inr a, t) \<Rightarrow> (Inr a, t))"
  by (auto simp: or_fail_def split: prod.splits sum.splits)

lemma run_then_io:
  "run_state (then_io m f) s =
     (case run_state m s of (Inl e, t) \<Rightarrow> (Inl e, t) | (Inr a, t) \<Rightarrow> run_state (f a) t)"
  by (auto simp: then_io_def split: prod.splits sum.splits)

lemma then_io_InrE:
  assumes "run_state (then_io m f) s = (Inr b, u)"
  obtains a t where "run_state m s = (Inr a, t)" "run_state (f a) t = (Inr b, u)"
  using assms by (auto simp: run_then_io split: prod.splits sum.splits)

lemma or_fail_InrE:
  assumes "run_state (or_fail e m) s = (Inr a, t)"
  obtains "run_state m s = (Inr a, t)"
  using assms by (auto simp: run_or_fail split: prod.splits sum.splits)

named_theorems keeps_intros

lemmas [keeps_intros] = keeps_return keeps_bind

lemma keeps_then_io [keeps_intros]:
  "keeps m I \<Longrightarrow> (\<And>a. keeps (f a) I) \<Longrightarrow> keeps (then_io m f) I"
  unfolding keeps_def by (auto simp: run_then_io split: prod.splits sum.splits)

lemma keeps_sum [keeps_intros]:
  "(\<And>e. x = Inl e \<Longrightarrow> keeps (g e) I) \<Longrightarrow> (\<And>a. x = Inr a \<Longrightarrow> keeps (h a) I) \<Longrightarrow>
     keeps (case x of Inl e \<Rightarrow> g e | Inr a \<Rightarrow> h a) I"
  by (cases x) auto

lemma keeps_option [keeps_intros]:
  "(x = None \<Longrightarrow> keeps g I) \<Longrightarrow> (\<And>a. x = Some a \<Longrightarrow> keeps (h a) I) \<Longrightarrow>
     keeps (case x of None \<Rightarrow> g | Some a \<Rightarrow> h a) I"
  by (cases x) auto

lemma keeps_if [keeps_intros]: "(b \<Longrightarrow> keeps m I) \<Longrightarrow> (\<not> b \<Longrightarrow> keeps m' I) \<Longrightarrow> keeps (if b then m else m') I"
  by auto

lemma keeps_case_prod [keeps_intros]: "(\<And>a b. keeps (g a b) I) \<Longrightarrow> keeps (case x of (a, b) \<Rightarrow> g a b) I"
  by (cases x) auto

lemma keeps_os_err [keeps_intros]:
  "keeps a I \<Longrightarrow> keeps b I \<Longrightarrow> keeps c I \<Longrightarrow> keeps d I \<Longrightarrow>
     keeps (case x of os_NotExist \<Rightarrow> a | os_Exist \<Rightarrow> b | os_IOError \<Rightarrow> c | os_OtherErr \<Rightarrow> d) I"
  by (cases x) auto

lemma keeps_or_fail [keeps_intros]: "keeps m I \<Longrightarrow> keeps (or_fail e m) I"
  unfolding keeps_def by (auto simp: run_or_fail split: prod.splits sum.splits)

text \<open>\<open>same f m\<close>: the call \<open>m\<close> leaves the view \<open>f\<close> of the world as it is, whatever it returns.\<close>

definition same :: "('s \<Rightarrow> 'v) \<Rightarrow> ('s, 'a) state \<Rightarrow> bool" where
  "same f m \<longleftrightarrow> (\<forall>w r w'. run_state m w = (r, w') \<longrightarrow> f w' = f w)"

named_theorems same_intros

lemma sameD: "same f m \<Longrightarrow> run_state m w = (r, w') \<Longrightarrow> f w' = f w"
  by (auto simp: same_def)

text \<open>A predicate that looks only at the view is kept.\<close>

lemma same_keeps: "same f m \<Longrightarrow> (\<And>w w'. f w' = f w \<Longrightarrow> I w \<Longrightarrow> I w') \<Longrightarrow> keeps m I"
  by (auto simp: same_def keeps_def)

lemma sameI: "(\<And>w r w'. run_state m w = (r, w') \<Longrightarrow> f w' = f w) \<Longrightarrow> same f m"
  by (auto simp: same_def)

lemma same_return [same_intros]: "same f (State_Monad.return x)"
  by (simp add: same_def)

lemma same_bind [same_intros]: "same f m \<Longrightarrow> (\<And>x. same f (g x)) \<Longrightarrow> same f (State_Monad.bind m g)"
  unfolding same_def by (auto split: prod.splits)

lemma same_then_io [same_intros]: "same f m \<Longrightarrow> (\<And>a. same f (g a)) \<Longrightarrow> same f (then_io m g)"
  unfolding same_def by (auto simp: run_then_io split: prod.splits sum.splits)

lemma same_or_fail [same_intros]: "same f m \<Longrightarrow> same f (or_fail e m)"
  unfolding same_def by (auto simp: run_or_fail split: prod.splits sum.splits)

lemma same_sum [same_intros]:
  "(\<And>e. x = Inl e \<Longrightarrow> same f (g e)) \<Longrightarrow> (\<And>a. x = Inr a \<Longrightarrow> same f (h a)) \<Longrightarrow>
     same f (case x of Inl e \<Rightarrow> g e | Inr a \<Rightarrow> h a)"
  by (cases x) auto

lemma same_option [same_intros]:
  "(x = None \<Longrightarrow> same f g) \<Longrightarrow> (\<And>a. x = Some a \<Longrightarrow> same f (h a)) \<Longrightarrow>
     same f (case x of None \<Rightarrow> g | Some a \<Rightarrow> h a)"
  by (cases x) auto

lemma same_if [same_intros]: "(b \<Longrightarrow> same f m) \<Longrightarrow> (\<not> b \<Longrightarrow> same f m') \<Longrightarrow> same f (if b then m else m')"
  by auto

lemma same_case_prod [same_intros]:
  "(\<And>a b. same f (g a b)) \<Longrightarrow> same f (case x of (a, b) \<Rightarrow> g a b)"
  by (cases x) auto

lemma same_os_err [same_intros]:
  "same f a \<Longrightarrow> same f b \<Longrightarrow> same f c \<Longrightarrow> same f d \<Longrightarrow>
     same f (case x of os_NotExist \<Rightarrow> a | os_Exist \<Rightarrow> b | os_IOError \<Rightarrow> c | os_OtherErr \<Rightarrow> d)"
  by (cases x) auto

lemma same_backoff_loop [same_intros]:
  assumes "same f fn" "\<And>t. same f (env_Sleep E t)"
  shows "same f (backoff_loop E opts fn n first delay)"
  by (induction n arbitrary: first delay)
    (auto intro!: same_intros assms)

lemma same_WithRetries [same_intros]:
  assumes "same f fn" "\<And>t. same f (env_Sleep E t)"
  shows "same f (WithRetries E n delay fn)"
  unfolding WithRetries_def WithExponentialBackoff_def Let_def by (intro same_intros assms)

end
