(* ===== verification/Backend.thy ===== *)
theory Backend
  imports Host
begin

text \<open>
  \<^verbatim>\<open>pkg/driver/backend\<close>: the interface of the node backends, their registry and configuration, the
  logging wrapper, and the discovery-client backend \<^verbatim>\<open>dsc\<close>, which talks to the Discovery Service
  Client through files: one file per volume in the client's configuration directory.
\<close>

subsection \<open>The interface\<close>

record TargetEnv =
  te_SubsysNQN :: string
  te_DiscoveryEPs :: Slice
  te_NvmeEPs :: Slice

text \<open>Backend calls return a gRPC status, nil on success.\<close>

record 's Backend =
  be_Type :: string
  be_LBVolEligible :: "Ctx \<Rightarrow> Volume \<Rightarrow> ('s, gerr option) state"
  be_Attach :: "Ctx \<Rightarrow> TargetEnv \<Rightarrow> UUID \<Rightarrow> ('s, gerr option) state"
  be_Detach :: "Ctx \<Rightarrow> UUID \<Rightarrow> ('s, gerr option) state"

text \<open>\<open>(*status.Status).Err()\<close>: nil for nil and for the code OK.\<close>

fun status_Err :: "gerr option \<Rightarrow> gerr option" where
  "status_Err None = None"
| "status_Err (Some (Status c f)) = (if c = codes_OK then None else Some (Status c f))"
| "status_Err (Some Plain) = Some Plain"

subsection \<open>Configuration\<close>

datatype yaml_err = yaml_TypeError "string list" | yaml_OtherErr string

definition FmtYAMLError :: "yaml_err option \<Rightarrow> string" where
  "FmtYAMLError err =
     (case err of
        None \<Rightarrow> ''<nil>''
      | Some (yaml_TypeError msgs) \<Rightarrow> strings_Join '', '' msgs
      | Some (yaml_OtherErr msg) \<Rightarrow> msg)"

text \<open>\<open>unmarshal\<close> is the YAML package's reading of the top-level key \<open>backend\<close>.\<close>

definition DetectType :: "(string \<Rightarrow> yaml_err + string) \<Rightarrow> string \<Rightarrow> gerr + string" where
  "DetectType unmarshal rawCfg =
     (case unmarshal rawCfg of
        Inl err \<Rightarrow> Inl Plain
      | Inr backend \<Rightarrow>
          let be = TrimSpace backend in if be = [] then Inl Plain else Inr be)"

subsection \<open>Registry\<close>

definition is_lc :: "char \<Rightarrow> bool" where
  "is_lc c \<longleftrightarrow> CHR ''a'' \<le> c \<and> c \<le> CHR ''z''"

text \<open>\<^verbatim>\<open>^[a-z]([a-z0-9-]{0,30}[a-z0-9])?$\<close>\<close>

definition beTypeRegex_match :: "string \<Rightarrow> bool" where
  "beTypeRegex_match s =
     (case s of
        [] \<Rightarrow> False
      | c # cs \<Rightarrow> is_lc c \<and>
          (cs = [] \<or>
           length cs \<le> 31 \<and> list_all (\<lambda>x. is_lc x \<or> is_digit x \<or> x = CHR ''-'') (butlast cs) \<and>
           (is_lc (last cs) \<or> is_digit (last cs))))"

type_synonym 's MakerFn = "string \<Rightarrow> string option \<Rightarrow> gerr + 's Backend"

type_synonym 's registry = "string \<rightharpoonup> 's MakerFn"

text \<open>\<open>RegisterBackend\<close>; \<open>None\<close> is a panic.\<close>

definition RegisterBackend :: "string \<Rightarrow> 's MakerFn \<Rightarrow> 's registry \<Rightarrow> 's registry option" where
  "RegisterBackend beType maker reg =
     (if \<not> beTypeRegex_match beType then None
      else if reg beType \<noteq> None then None
      else Some (reg(beType \<mapsto> maker)))"

text \<open>In Go the names come in an unspecified order.\<close>

definition ListBackends :: "'s registry \<Rightarrow> string set" where
  "ListBackends reg = dom reg"

subsection \<open>The wrapper\<close>

text \<open>The wrapper counts its calls next to the world of the backend it wraps.\<close>

definition lift_fst :: "('s, 'a) state \<Rightarrow> ('s \<times> 'c, 'a) state" where
  "lift_fst m = State (\<lambda>(s, c). let (a, s') = run_state m s in (a, (s', c)))"

definition wrapCall :: "('s, gerr option) state \<Rightarrow> ('s \<times> uint64, gerr option) state" where
  "wrapCall f = do {
     (s, callID) \<leftarrow> State_Monad.get;
     _ \<leftarrow> State_Monad.set (s, callID + 1);
     st \<leftarrow> lift_fst f;
     (case st of
        Some st \<Rightarrow> State_Monad.return (Some st)
      | None \<Rightarrow> State_Monad.return None)
   }"

definition Wrapper_Type :: "'s Backend \<Rightarrow> string" where
  "Wrapper_Type be = be_Type be"

definition Wrapper_LBVolEligible ::
  "'s Backend \<Rightarrow> Ctx \<Rightarrow> Volume \<Rightarrow> ('s \<times> uint64, gerr option) state" where
  "Wrapper_LBVolEligible be ctx vol = wrapCall (be_LBVolEligible be ctx vol)"

definition Wrapper_Attach ::
  "'s Backend \<Rightarrow> Ctx \<Rightarrow> TargetEnv \<Rightarrow> UUID \<Rightarrow> ('s \<times> uint64, gerr option) state" where
  "Wrapper_Attach be ctx tgtEnv nguid = wrapCall (be_Attach be ctx tgtEnv nguid)"

definition Wrapper_Detach :: "'s Backend \<Rightarrow> Ctx \<Rightarrow> UUID \<Rightarrow> ('s \<times> uint64, gerr option) state" where
  "Wrapper_Detach be ctx nguid = wrapCall (be_Detach be ctx nguid)"

lemmas [simp] = Wrapper_Type_def Wrapper_LBVolEligible_def Wrapper_Attach_def Wrapper_Detach_def

definition Wrapper :: "'s Backend \<Rightarrow> ('s \<times> uint64) Backend" where
  "Wrapper be =
     \<lparr>be_Type = Wrapper_Type be, be_LBVolEligible = Wrapper_LBVolEligible be,
      be_Attach = Wrapper_Attach be, be_Detach = Wrapper_Detach be\<rparr>"

definition NewWrapper ::
  "'s MakerFn \<Rightarrow> string \<Rightarrow> string option \<Rightarrow> gerr + ('s \<times> uint64) Backend" where
  "NewWrapper mkBE hostNQN rawCfg =
     (case mkBE hostNQN rawCfg of
        Inl err \<Rightarrow> Inl err
      | Inr be \<Rightarrow> Inr (Wrapper be))"

definition Make ::
  "'s registry \<Rightarrow> string \<Rightarrow> string \<Rightarrow> string option \<Rightarrow> gerr + ('s \<times> uint64) Backend" where
  "Make reg beType hostNQN rawCfg =
     (case reg beType of
        Some maker \<Rightarrow> NewWrapper maker hostNQN rawCfg
      | None \<Rightarrow> Inl Plain)"

subsection \<open>The discovery-client backend\<close>

definition beType :: string where "beType = ''dsc''"

definition defaultDSCConfigPath :: string where
  "defaultDSCConfigPath = ''/etc/discovery-client/discovery.d''"

definition dscReservedPrefix :: string where "dscReservedPrefix = ''tmp.dc.''"

definition dscWarnPeriod :: int where "dscWarnPeriod = 10 * 60 * second"

text \<open>
  The backend object: its fixed fields, and next to the host's world the time of the last warning
  (\<open>None\<close> is the zero time) and the times of all warnings it logged.
\<close>

record dsc_Backend =
  dsc_hostNQN :: string
  dsc_dscCfgPath :: string

record dsc_state =
  dsc_lastDSCWarnTime :: "int option"
  dsc_warned :: "int list"

definition dsc_New :: "string \<Rightarrow> gerr + dsc_Backend" where
  "dsc_New hostNQN = Inr \<lparr>dsc_hostNQN = hostNQN, dsc_dscCfgPath = defaultDSCConfigPath\<rparr>"

definition dsc_warn :: "int \<Rightarrow> dsc_state \<Rightarrow> dsc_state" where
  "dsc_warn now st =
     (if (case dsc_lastDSCWarnTime st of None \<Rightarrow> True | Some t \<Rightarrow> t + dscWarnPeriod < now)
      then st\<lparr>dsc_lastDSCWarnTime := Some now, dsc_warned := dsc_warned st @ [now]\<rparr> else st)"

definition checkDSCCfgPath ::
  "'s env \<Rightarrow> 's OS \<Rightarrow> dsc_Backend \<Rightarrow> ('s \<times> dsc_state, gerr, unit) io" where
  "checkDSCCfgPath E os be = do {
     r \<leftarrow> lift_fst (os_Stat os (dsc_dscCfgPath be));
     _ \<leftarrow> (if (case r of Inl _ \<Rightarrow> True | Inr fi \<Rightarrow> \<not> fi_IsDir fi)
          then do {
            now \<leftarrow> lift_fst (env_Now E);
            (s, st) \<leftarrow> State_Monad.get;
            State_Monad.set (s, dsc_warn now st)
          }
          else State_Monad.return ());
     (case r of
        Inl os_NotExist \<Rightarrow> fail Plain
      | Inr fi \<Rightarrow> if \<not> fi_IsDir fi then fail Plain else ok ()
      | Inl _ \<Rightarrow> fail Plain)
   }"

definition dsc_line :: "dsc_Backend \<Rightarrow> TargetEnv \<Rightarrow> EP \<Rightarrow> string" where
  "dsc_line be tgtEnv ep =
     ''-t tcp -a '' @ ep_host ep @ '' -s '' @ FormatUint10 (unat (ep_port ep)) @ '' -q '' @
     dsc_hostNQN be @ '' -n '' @ te_SubsysNQN tgtEnv @ [CHR 0x0A]"

definition dsc_content :: "dsc_Backend \<Rightarrow> TargetEnv \<Rightarrow> string" where
  "dsc_content be tgtEnv = concat (map (dsc_line be tgtEnv) (te_DiscoveryEPs tgtEnv))"

text \<open>\<open>writeDSCCfgFile\<close>: the deferred removal of the temporary file runs last on every path.\<close>

definition writeDSCCfgFile ::
  "'s OS \<Rightarrow> dsc_Backend \<Rightarrow> string \<Rightarrow> TargetEnv \<Rightarrow> ('s, gerr, unit) io" where
  "writeDSCCfgFile os be finalPath tgtEnv =
     then_io (or_fail Plain (os_CreateTemp os (dsc_dscCfgPath be) dscReservedPrefix)) (\<lambda>tmpPath. do {
       res \<leftarrow> then_io (or_fail Plain (os_WriteString os tmpPath (dsc_content be tgtEnv))) (\<lambda>_.
              then_io (or_fail Plain (os_CloseFile os tmpPath)) (\<lambda>_.
              or_fail Plain (os_Rename os tmpPath finalPath)));
       _ \<leftarrow> os_Remove os tmpPath;
       State_Monad.return res
     })"

definition dsc_Attach ::
  "'s env \<Rightarrow> 's OS \<Rightarrow> guuid \<Rightarrow> dsc_Backend \<Rightarrow> TargetEnv \<Rightarrow> UUID \<Rightarrow> ('s \<times> dsc_state, gerr option) state"
where
  "dsc_Attach E os G be tgtEnv nguid = do {
     r \<leftarrow> checkDSCCfgPath E os be;
     (case r of
        Inl err \<Rightarrow> State_Monad.return (Some (Status codes_Unknown []))
      | Inr _ \<Rightarrow> do {
          w \<leftarrow> lift_fst (writeDSCCfgFile os be
                 (filepath_Join (dsc_dscCfgPath be) (guuid_String G nguid)) tgtEnv);
          (case w of
             Inl err \<Rightarrow> State_Monad.return (Some (Status codes_Unknown []))
           | Inr _ \<Rightarrow> State_Monad.return None)
        })
   }"

definition dsc_Detach ::
  "'s env \<Rightarrow> 's OS \<Rightarrow> guuid \<Rightarrow> dsc_Backend \<Rightarrow> UUID \<Rightarrow> ('s \<times> dsc_state, gerr option) state" where
  "dsc_Detach E os G be nguid = do {
     r \<leftarrow> checkDSCCfgPath E os be;
     (case r of
        Inl err \<Rightarrow> State_Monad.return (Some (Status codes_Unknown []))
      | Inr _ \<Rightarrow> do {
          w \<leftarrow> lift_fst (os_Remove os (filepath_Join (dsc_dscCfgPath be) (guuid_String G nguid)));
          (case w of
             Inl os_NotExist \<Rightarrow> State_Monad.return None
           | Inl err \<Rightarrow> State_Monad.return (Some (Status codes_Unknown []))
           | Inr _ \<Rightarrow> State_Monad.return None)
        })
   }"

definition dsc_Backend_of :: "'s env \<Rightarrow> 's OS \<Rightarrow> guuid \<Rightarrow> dsc_Backend \<Rightarrow> ('s \<times> dsc_state) Backend" where
  "dsc_Backend_of E os G be =
     \<lparr>be_Type = beType, be_LBVolEligible = (\<lambda>_ _. State_Monad.return None),
      be_Attach = (\<lambda>_ tgtEnv nguid. dsc_Attach E os G be tgtEnv nguid),
      be_Detach = (\<lambda>_ nguid. dsc_Detach E os G be nguid)\<rparr>"

text \<open>The maker the package registers in its \<open>init\<close>.\<close>

definition dsc_maker :: "'s env \<Rightarrow> 's OS \<Rightarrow> guuid \<Rightarrow> ('s \<times> dsc_state) MakerFn" where
  "dsc_maker E os G hostNQN rawCfg =
     (case dsc_New hostNQN of Inl err \<Rightarrow> Inl err | Inr be \<Rightarrow> Inr (dsc_Backend_of E os G be))"

definition dsc_init :: "'s env \<Rightarrow> 's OS \<Rightarrow> guuid \<Rightarrow> ('s \<times> dsc_state) registry option" where
  "dsc_init E os G = RegisterBackend beType (dsc_maker E os G) Map.empty"

text \<open>A sequence of calls of the backend, as the node service makes them one at a time.\<close>

datatype dsc_call = Call_Attach TargetEnv UUID | Call_Detach UUID

fun dsc_calls ::
  "'s env \<Rightarrow> 's OS \<Rightarrow> guuid \<Rightarrow> dsc_Backend \<Rightarrow> dsc_call list \<Rightarrow> ('s \<times> dsc_state, gerr option list) state" where
  "dsc_calls E os G be [] = State_Monad.return []"
| "dsc_calls E os G be (c # cs) = do {
     r \<leftarrow> (case c of
            Call_Attach tgtEnv u \<Rightarrow> dsc_Attach E os G be tgtEnv u
          | Call_Detach u \<Rightarrow> dsc_Detach E os G be u);
     rs \<leftarrow> dsc_calls E os G be cs;
     State_Monad.return (r # rs)
   }"

text \<open>
  The abstract registry the Discovery Service Client sees: the volumes that have a file in its
  directory, each with what the file says. A successful call updates it, a failed one does not.
\<close>

definition dsc_attached :: "guuid \<Rightarrow> (string \<rightharpoonup> string) \<Rightarrow> UUID \<rightharpoonup> string" where
  "dsc_attached G fs u = fs (defaultDSCConfigPath @ ''/'' @ guuid_String G u)"

definition attached_step ::
  "dsc_Backend \<Rightarrow> dsc_call \<times> gerr option \<Rightarrow> (UUID \<rightharpoonup> string) \<Rightarrow> (UUID \<rightharpoonup> string)" where
  "attached_step be cr A =
     (case cr of
        (Call_Attach tgtEnv u, None) \<Rightarrow> A(u \<mapsto> dsc_content be tgtEnv)
      | (Call_Detach u, None) \<Rightarrow> A(u := None)
      | _ \<Rightarrow> A)"

subsection \<open>Interface: files\<close>

text \<open>
  What the documentation of the package \<^verbatim>\<open>os\<close> says of the calls the backend makes, in terms of the
  contents of the files. A failed write may leave anything in the file it was writing.
\<close>

locale host_files =
  fixes E :: "'s env" and os :: "'s OS" and files :: "'s \<Rightarrow> string \<rightharpoonup> string"
  assumes CreateTemp_Inr: "run_state (os_CreateTemp os d p) w = (Inr t, w') \<Longrightarrow>
      (\<exists>sfx. t = d @ ''/'' @ p @ sfx) \<and> files w t = None \<and> files w' = (files w)(t \<mapsto> [])"
    and CreateTemp_Inl: "run_state (os_CreateTemp os d p) w = (Inl e, w') \<Longrightarrow> files w' = files w"
    and Write_Inr: "run_state (os_WriteString os t c) w = (Inr u, w') \<Longrightarrow> files w t = Some old \<Longrightarrow>
      files w' = (files w)(t \<mapsto> old @ c)"
    and Write_Inl: "run_state (os_WriteString os t c) w = (Inl e, w') \<Longrightarrow> q \<noteq> t \<Longrightarrow> files w' q = files w q"
    and Close_files: "run_state (os_CloseFile os t) w = (r, w') \<Longrightarrow> files w' = files w"
    and Rename_Inr: "run_state (os_Rename os a b) w = (Inr u, w') \<Longrightarrow> a \<noteq> b \<Longrightarrow>
      files w' = (files w)(b := files w a, a := None)"
    and Rename_Inl: "run_state (os_Rename os a b) w = (Inl e, w') \<Longrightarrow> files w' = files w"
    and Remove_Inr: "run_state (os_Remove os t) w = (Inr u, w') \<Longrightarrow> files w' = (files w)(t := None)"
    and Remove_Inl: "run_state (os_Remove os t) w = (Inl e, w') \<Longrightarrow>
      files w' = files w \<and> (e = os_NotExist \<longrightarrow> files w t = None)"
    and Stat_files: "run_state (os_Stat os t) w = (fi, w') \<Longrightarrow> files w' = files w"
    and Now_files: "run_state (env_Now E) w = (n, w') \<Longrightarrow> files w' = files w"
begin

lemma Remove_others: "run_state (os_Remove os t) w = (r, w') \<Longrightarrow> q \<noteq> t \<Longrightarrow> files w' q = files w q"
  by (cases r) (auto dest: Remove_Inl Remove_Inr)

lemma Remove_gone: "run_state (os_Remove os t) w = (r, w') \<Longrightarrow> files w t = None \<Longrightarrow> files w' = files w"
  by (cases r) (auto dest!: Remove_Inl Remove_Inr simp: fun_eq_iff)

text \<open>Filling the temporary file and renaming it.\<close>

lemma install_Inr:
  assumes run: "run_state (then_io (or_fail Plain (os_WriteString os t c))
      (\<lambda>_. then_io (or_fail Plain (os_CloseFile os t)) (\<lambda>_. or_fail Plain (os_Rename os t final)))) w = (Inr u, w')"
    and t: "files w = F(t \<mapsto> [])" "F t = None" "t \<noteq> final"
  shows "files w' = F(final \<mapsto> c)"
proof -
  from run obtain a wa b wb where
    1: "run_state (os_WriteString os t c) w = (Inr a, wa)"
      "run_state (os_CloseFile os t) wa = (Inr b, wb)" "run_state (os_Rename os t final) wb = (Inr u, w')"
    by (elim then_io_InrE or_fail_InrE) blast
  have "files wb = F(t \<mapsto> c)"
    using Write_Inr[OF 1(1)] Close_files[OF 1(2)] t by simp
  then show ?thesis using Rename_Inr[OF 1(3)] t by (auto simp: fun_eq_iff)
qed

lemma install_Inl:
  assumes run: "run_state (then_io (or_fail Plain (os_WriteString os t c))
      (\<lambda>_. then_io (or_fail Plain (os_CloseFile os t)) (\<lambda>_. or_fail Plain (os_Rename os t final)))) w = (Inl e, w')"
    and t: "files w t \<noteq> None" "q \<noteq> t"
  shows "files w' q = files w q"
proof -
  obtain a wa where a: "run_state (os_WriteString os t c) w = (a, wa)" by fastforce
  have fa: "files wa q = files w q"
    using a t by (cases a) (auto dest: Write_Inl Write_Inr)
  obtain b wb where b: "run_state (os_CloseFile os t) wa = (b, wb)" by fastforce
  obtain x wx where x: "run_state (os_Rename os t final) wb = (x, wx)" by fastforce
  show ?thesis using run a b x fa Close_files[OF b] Rename_Inl[of t final wb]
    by (auto simp: run_then_io run_or_fail split: sum.splits)
qed

text \<open>The write-and-rename: on success the final file has the new content and nothing else changed;
  on failure every file that existed is as before, and no file appears but a temporary one.\<close>

lemma writeDSCCfgFile_files:
  assumes run: "run_state (writeDSCCfgFile os be final tgtEnv) w = (r, w')"
    and final: "\<And>sfx. final \<noteq> dsc_dscCfgPath be @ ''/'' @ dscReservedPrefix @ sfx"
  shows "case r of
      Inr _ \<Rightarrow> files w' = (files w)(final \<mapsto> dsc_content be tgtEnv)
    | Inl _ \<Rightarrow> (\<forall>q. files w q \<noteq> None \<or> (\<forall>sfx. q \<noteq> dsc_dscCfgPath be @ ''/'' @ dscReservedPrefix @ sfx) \<longrightarrow>
        files w' q = files w q)"
proof -
  obtain c w1 where c: "run_state (os_CreateTemp os (dsc_dscCfgPath be) dscReservedPrefix) w = (c, w1)"
    by fastforce
  show ?thesis
  proof (cases c)
    case (Inl e)
    with run c have "r = Inl Plain" "w' = w1"
      by (auto simp: writeDSCCfgFile_def run_then_io run_or_fail)
    with c Inl show ?thesis by (auto dest: CreateTemp_Inl)
  next
    case (Inr t)
    with c obtain sfx where sfx: "t = dsc_dscCfgPath be @ ''/'' @ dscReservedPrefix @ sfx"
      and t: "files w t = None" "files w1 = (files w)(t \<mapsto> [])"
      using CreateTemp_Inr by blast
    then have final_t: "t \<noteq> final" using final by metis
    obtain res w2 where res: "run_state (then_io (or_fail Plain (os_WriteString os t (dsc_content be tgtEnv)))
        (\<lambda>_. then_io (or_fail Plain (os_CloseFile os t)) (\<lambda>_. or_fail Plain (os_Rename os t final)))) w1 = (res, w2)"
      by fastforce
    obtain d w3 where d: "run_state (os_Remove os t) w2 = (d, w3)" by fastforce
    have r: "r = res" "w' = w3" using run c Inr res d
      by (auto simp: writeDSCCfgFile_def run_then_io run_or_fail)
    show ?thesis
    proof (cases res)
      case ok: (Inr u)
      have "files w2 = (files w)(final \<mapsto> dsc_content be tgtEnv)"
        using install_Inr[OF res[unfolded ok]] t final_t by simp
      with Remove_gone[OF d] t final_t r ok show ?thesis by auto
    next
      case err: (Inl e)
      have "files w2 q = files w1 q" if "q \<noteq> t" for q
        using install_Inl[OF res[unfolded err] _ that] t by simp
      then have "files w3 q = files w q" if "q \<noteq> t" for q using Remove_others[OF d] t that by simp
      moreover have "q \<noteq> t" if "files w q \<noteq> None \<or> (\<forall>sfx. q \<noteq> dsc_dscCfgPath be @ ''/'' @ dscReservedPrefix @ sfx)" for q
        using that t sfx by auto
      ultimately show ?thesis using r err by simp
    qed
  qed
qed

lemma checkDSCCfgPath_files:
  "run_state (checkDSCCfgPath E os be) (w, st) = (r, (w', st')) \<Longrightarrow> files w' = files w"
  by (auto simp: checkDSCCfgPath_def lift_fst_def
      dest!: Stat_files Now_files split: prod.splits if_splits sum.splits os_err.splits)

end

lemma lift_fst_run: "run_state (lift_fst m) (s, c) = (let (a, s') = run_state m s in (a, (s', c)))"
  by (simp add: lift_fst_def)

lemma wrapCall_run:
  "run_state (wrapCall f) (s, n) = (let (r, s') = run_state f s in (r, (s', n + 1)))"
  by (simp add: wrapCall_def lift_fst_def split: prod.splits option.splits)

text \<open>A view of the world that the file operations leave alone is left alone by the backend.\<close>

lemma same_lift_fst: "same f m \<Longrightarrow> same (f \<circ> fst) (lift_fst m)"
  by (auto simp: same_def lift_fst_def split: prod.splits)

lemma dsc_same:
  assumes "\<And>p. same f (os_Stat os p)" "same f (env_Now E)" "\<And>d p. same f (os_CreateTemp os d p)"
    "\<And>t c. same f (os_WriteString os t c)" "\<And>p. same f (os_CloseFile os p)"
    "\<And>a b. same f (os_Rename os a b)" "\<And>p. same f (os_Remove os p)"
  shows "same (f \<circ> fst) (dsc_Attach E os G be tgtEnv u)" "same (f \<circ> fst) (dsc_Detach E os G be u)"
proof -
  have set: "same (f \<circ> fst) (do { (s, st) \<leftarrow> State_Monad.get; State_Monad.set (s, g st) })" for g
    by (auto simp: same_def)
  have chk: "same (f \<circ> fst) (checkDSCCfgPath E os be)"
    unfolding checkDSCCfgPath_def by (intro same_intros same_lift_fst assms set)
  have "same f (writeDSCCfgFile os be p tgtEnv)" for p
    unfolding writeDSCCfgFile_def by (intro same_intros assms)
  with chk show "same (f \<circ> fst) (dsc_Attach E os G be tgtEnv u)"
    unfolding dsc_Attach_def by (intro same_intros same_lift_fst)
  from chk show "same (f \<circ> fst) (dsc_Detach E os G be u)"
    unfolding dsc_Detach_def by (intro same_intros same_lift_fst assms)
qed

text \<open>The file of a volume: the UUID's text has no slash and does not look like a temporary name.\<close>

lemma uuid_form_hex:
  assumes "uuid_form s"
  shows "length s = 36" and "c \<in> set s \<Longrightarrow> is_hex c \<or> c = CHR ''-''"
proof -
  from assms obtain v w x y z where sp: "strings_Split CHR ''-'' s = [v, w, x, y, z]"
    "length v = 8" "length w = 4" "length x = 4" "length y = 4" "length z = 12"
    "list_all is_hex (v @ w @ x @ y @ z)"
    by (auto simp: uuid_form_def split: list.splits)
  then have s: "s = v @ ''-'' @ w @ ''-'' @ x @ ''-'' @ y @ ''-'' @ z"
    using strings_Join_Split[of "CHR ''-''" s] by simp
  show "length s = 36" using s sp by simp
  show "c \<in> set s \<Longrightarrow> is_hex c \<or> c = CHR ''-''" using s sp by (auto simp: list_all_iff)
qed

lemma guuid_ok_inj: "guuid_ok G \<Longrightarrow> guuid_String G u = guuid_String G v \<longleftrightarrow> u = v"
  by (metis guuid_ok_def option.inject)

lemma dsc_path:
  assumes "guuid_ok G"
  shows "filepath_Join defaultDSCConfigPath (guuid_String G u) = defaultDSCConfigPath @ ''/'' @ guuid_String G u"
    and "defaultDSCConfigPath @ ''/'' @ guuid_String G u \<noteq> defaultDSCConfigPath @ ''/'' @ dscReservedPrefix @ sfx"
proof -
  let ?u = "guuid_String G u"
  have form: "uuid_form ?u" using assms by (simp add: guuid_ok_def)
  then have len: "length ?u = 36" and slash: "CHR ''/'' \<notin> set ?u" and t: "CHR ''t'' \<notin> set ?u"
    using uuid_form_hex(1)[OF form] uuid_form_hex(2)[OF form, of "CHR ''/''"]
      uuid_form_hex(2)[OF form, of "CHR ''t''"]
    by (auto simp: is_hex_def less_eq_char_def)
  have ne: "?u \<noteq> []" "?u \<noteq> ''.''" "?u \<noteq> ''..''" using len by auto
  show "filepath_Join defaultDSCConfigPath ?u = defaultDSCConfigPath @ ''/'' @ ?u"
    using slash ne by (simp add: filepath_Join_def filepath_Clean_def defaultDSCConfigPath_def)
  show "defaultDSCConfigPath @ ''/'' @ ?u \<noteq> defaultDSCConfigPath @ ''/'' @ dscReservedPrefix @ sfx"
    using t by (auto simp: dscReservedPrefix_def)
qed

text \<open>Warnings: each is more than the warning period after the one before.\<close>

definition warns_ok :: "dsc_state \<Rightarrow> bool" where
  "warns_ok st \<longleftrightarrow> sorted_wrt (\<lambda>a b. a + dscWarnPeriod < b) (dsc_warned st) \<and>
     (case dsc_lastDSCWarnTime st of
        None \<Rightarrow> dsc_warned st = []
      | Some t \<Rightarrow> dsc_warned st \<noteq> [] \<and> (\<forall>a \<in> set (dsc_warned st). a \<le> t))"

lemma dsc_warn_ok: "warns_ok st \<Longrightarrow> warns_ok (dsc_warn now st)"
proof (cases "dsc_lastDSCWarnTime st")
  case (Some t)
  assume "warns_ok st"
  with Some have a: "a \<le> t" if "a \<in> set (dsc_warned st)" for a using that by (simp add: warns_ok_def)
  have "0 < dscWarnPeriod" by (simp add: dscWarnPeriod_def second_def millisecond_def)
  with a have "a + dscWarnPeriod < now \<and> a \<le> now" if "a \<in> set (dsc_warned st)" "t + dscWarnPeriod < now" for a
    using that by fastforce
  with \<open>warns_ok st\<close> Some show ?thesis by (auto simp: warns_ok_def dsc_warn_def sorted_wrt_append)
qed (simp add: warns_ok_def dsc_warn_def)

lemma checkDSCCfgPath_warns:
  "run_state (checkDSCCfgPath E os be) (w, st) = (r, (w', st')) \<Longrightarrow> warns_ok st \<Longrightarrow> warns_ok st'"
  by (auto simp: checkDSCCfgPath_def lift_fst_def dsc_warn_ok
      split: prod.splits if_splits sum.splits os_err.splits)

lemma dsc_Attach_run:
  "run_state (dsc_Attach E os G be tgtEnv u) (w, st) =
     (case run_state (checkDSCCfgPath E os be) (w, st) of
        (Inl e, w1) \<Rightarrow> (Some (Status codes_Unknown []), w1)
      | (Inr _, (w1, st1)) \<Rightarrow>
          (case run_state (writeDSCCfgFile os be (filepath_Join (dsc_dscCfgPath be) (guuid_String G u)) tgtEnv) w1 of
             (Inl e, w2) \<Rightarrow> (Some (Status codes_Unknown []), (w2, st1))
           | (Inr _, w2) \<Rightarrow> (None, (w2, st1))))"
  by (auto simp: dsc_Attach_def lift_fst_run split: prod.splits sum.splits)

lemma dsc_Detach_run:
  "run_state (dsc_Detach E os G be u) (w, st) =
     (case run_state (checkDSCCfgPath E os be) (w, st) of
        (Inl e, w1) \<Rightarrow> (Some (Status codes_Unknown []), w1)
      | (Inr _, (w1, st1)) \<Rightarrow>
          (case run_state (os_Remove os (filepath_Join (dsc_dscCfgPath be) (guuid_String G u))) w1 of
             (Inl e, w2) \<Rightarrow>
               (if e = os_NotExist then None else Some (Status codes_Unknown []), (w2, st1))
           | (Inr _, w2) \<Rightarrow> (None, (w2, st1))))"
  by (auto simp: dsc_Detach_def lift_fst_run split: prod.splits sum.splits os_err.splits)

lemma dsc_calls_warns:
  "run_state (dsc_calls E os G be cs) (w, st) = (rs, (w', st')) \<Longrightarrow> warns_ok st \<Longrightarrow> warns_ok st'"
proof (induction cs arbitrary: w st rs)
  case Nil
  then show ?case by simp
next
  case (Cons c cs)
  obtain r w1 st1 where c: "run_state (case c of Call_Attach tgtEnv u \<Rightarrow> dsc_Attach E os G be tgtEnv u
      | Call_Detach u \<Rightarrow> dsc_Detach E os G be u) (w, st) = (r, (w1, st1))"
    by (metis surj_pair)
  have "warns_ok st1"
    using c Cons.prems(2) checkDSCCfgPath_warns[of E os be w st]
    by (auto simp: dsc_Attach_run dsc_Detach_run split: dsc_call.splits prod.splits sum.splits if_splits)
  with Cons c show ?case by (auto simp: split: prod.splits)
qed

context host_files
begin

lemma dsc_Attach_files:
  assumes "run_state (dsc_Attach E os G be tgtEnv u) (w, st) = (r, (w', st'))"
    and "guuid_ok G" "dsc_dscCfgPath be = defaultDSCConfigPath"
  shows "if r = None
    then files w' = (files w)(defaultDSCConfigPath @ ''/'' @ guuid_String G u \<mapsto> dsc_content be tgtEnv)
    else \<forall>q. files w q \<noteq> None \<or> (\<forall>sfx. q \<noteq> defaultDSCConfigPath @ ''/'' @ dscReservedPrefix @ sfx) \<longrightarrow>
      files w' q = files w q"
proof -
  let ?p = "defaultDSCConfigPath @ ''/'' @ guuid_String G u"
  obtain c w1 st1 where c: "run_state (checkDSCCfgPath E os be) (w, st) = (c, (w1, st1))" by (metis surj_pair)
  obtain x w2 where x: "run_state (writeDSCCfgFile os be ?p tgtEnv) w1 = (x, w2)" by fastforce
  have final: "?p \<noteq> dsc_dscCfgPath be @ ''/'' @ dscReservedPrefix @ sfx" for sfx
    using dsc_path(2)[OF assms(2)] assms(3) by simp
  show ?thesis
    using assms(1) c x writeDSCCfgFile_files[OF x final] checkDSCCfgPath_files[OF c] assms(3) dsc_path(1)[OF assms(2)]
    by (auto simp: dsc_Attach_run split: sum.splits)
qed

lemma dsc_Detach_files:
  assumes "run_state (dsc_Detach E os G be u) (w, st) = (r, (w', st'))"
    and "guuid_ok G" "dsc_dscCfgPath be = defaultDSCConfigPath"
  shows "files w' = (if r = None then (files w)(defaultDSCConfigPath @ ''/'' @ guuid_String G u := None) else files w)"
proof -
  let ?p = "defaultDSCConfigPath @ ''/'' @ guuid_String G u"
  obtain c w1 st1 where c: "run_state (checkDSCCfgPath E os be) (w, st) = (c, (w1, st1))" by (metis surj_pair)
  obtain x w2 where x: "run_state (os_Remove os ?p) w1 = (x, w2)" by fastforce
  show ?thesis
  proof (cases x)
    case (Inl e)
    with assms(1) c x Remove_Inl[OF x[unfolded Inl]] checkDSCCfgPath_files[OF c] assms(3) dsc_path(1)[OF assms(2)]
    show ?thesis by (auto simp: dsc_Detach_run fun_upd_idem split: sum.splits if_splits)
  next
    case (Inr a)
    with assms(1) c x Remove_Inr[OF x[unfolded Inr]] checkDSCCfgPath_files[OF c] assms(3) dsc_path(1)[OF assms(2)]
    show ?thesis by (auto simp: dsc_Detach_run split: sum.splits)
  qed
qed

text \<open>The calls against the abstract registry of attached volumes.\<close>

lemma dsc_Attach_attached:
  assumes "run_state (dsc_Attach E os G be tgtEnv u) (w, st) = (r, (w', st'))"
    and "guuid_ok G" "dsc_dscCfgPath be = defaultDSCConfigPath"
  shows "dsc_attached G (files w') =
    (if r = None then (dsc_attached G (files w))(u \<mapsto> dsc_content be tgtEnv) else dsc_attached G (files w))"
proof -
  note inj = guuid_ok_inj[OF assms(2)]
  from inj dsc_Attach_files[OF assms] dsc_path(2)[OF assms(2)] show ?thesis
    by (auto simp: dsc_attached_def fun_eq_iff split: if_splits)
qed

lemma dsc_Detach_attached:
  assumes "run_state (dsc_Detach E os G be u) (w, st) = (r, (w', st'))"
    and "guuid_ok G" "dsc_dscCfgPath be = defaultDSCConfigPath"
  shows "dsc_attached G (files w') =
    (if r = None then (dsc_attached G (files w))(u := None) else dsc_attached G (files w))"
proof -
  note inj = guuid_ok_inj[OF assms(2)]
  from inj dsc_Detach_files[OF assms] show ?thesis by (auto simp: dsc_attached_def fun_eq_iff)
qed

lemma dsc_calls_attached:
  assumes "guuid_ok G" "dsc_dscCfgPath be = defaultDSCConfigPath"
  shows "run_state (dsc_calls E os G be cs) (w, st) = (rs, (w', st')) \<Longrightarrow>
    length rs = length cs \<and>
    dsc_attached G (files w') = fold (attached_step be) (zip cs rs) (dsc_attached G (files w))"
proof (induction cs arbitrary: w st rs)
  case (Cons c cs)
  obtain r w1 st1 where c: "run_state (case c of Call_Attach tgtEnv u \<Rightarrow> dsc_Attach E os G be tgtEnv u
      | Call_Detach u \<Rightarrow> dsc_Detach E os G be u) (w, st) = (r, (w1, st1))"
    by (metis surj_pair)
  obtain rs1 where rs1: "run_state (dsc_calls E os G be cs) (w1, st1) = (rs1, (w', st'))" "rs = r # rs1"
    using Cons.prems c by (auto split: prod.splits)
  have "dsc_attached G (files w1) = attached_step be (c, r) (dsc_attached G (files w))"
    using c dsc_Attach_attached[OF _ assms] dsc_Detach_attached[OF _ assms]
    by (cases c) (auto simp: attached_step_def)
  with Cons.IH[OF rs1(1)] rs1(2) show ?case by simp
qed simp

end

end
