(* ===== verification/Luks.thy ===== *)
theory Luks
  imports Backend
begin

text \<open>
  \<^verbatim>\<open>pkg/driver/luks.go\<close> and the device look-up of \<^verbatim>\<open>pkg/driver/node.go\<close>: finding the block device of
  a volume, and its encryption on the host by the external tool \<^verbatim>\<open>cryptsetup\<close>. The tool is run
  through \<open>os_Exec\<close> of the host with the arguments the code builds; its meaning is not modelled
  here.
\<close>

subsection \<open>Finding the device of a volume\<close>

definition diskByIDPath :: string where "diskByIDPath = ''/dev/disk/by-id''"

definition nvmeUUIDPrefix :: string where "nvmeUUIDPrefix = ''nvme-uuid.''"

definition getDeviceUUID :: "'s OS \<Rightarrow> string \<Rightarrow> ('s, gerr, string) io" where
  "getDeviceUUID os device = do {
     r \<leftarrow> os_ReadFile os (filepath_Join (filepath_Join ''/sys/block'' device) ''wwid'');
     (case r of
        Inl err \<Rightarrow> fail Plain
      | Inr devUUID \<Rightarrow>
          let devUUIDstr = strings_TrimSuffix devUUID [CHR 0x0A] in
          if strings_Contains devUUIDstr ''uuid''
          then ok (strings_TrimPrefix devUUIDstr ''uuid.'') else ok [])
   }"

text \<open>The scan over the devices: an unreadable identifier ends it with "not found".\<close>

fun find_device :: "'s OS \<Rightarrow> string \<Rightarrow> string list \<Rightarrow> ('s, gerr, string) io" where
  "find_device os uuid [] = ok []"
| "find_device os uuid (dev # devs) = do {
     r \<leftarrow> getDeviceUUID os (filepath_Base dev);
     (case r of
        Inl err \<Rightarrow> ok []
      | Inr devUUID \<Rightarrow> if devUUID = uuid then ok dev else find_device os uuid devs)
   }"

definition effDevices :: "string list \<Rightarrow> string list" where
  "effDevices devices =
     filter (\<lambda>d. \<not> strings_Contains d ''c'' \<and> \<not> strings_Contains d ''p'') devices"

definition getDevPathByUUID :: "'s OS \<Rightarrow> guuid \<Rightarrow> UUID \<Rightarrow> ('s, gerr, string) io" where
  "getDevPathByUUID os G uuid = do {
     r \<leftarrow> os_EvalSymlinks os (filepath_Join diskByIDPath (nvmeUUIDPrefix @ guuid_String G uuid));
     (case r of
        Inr devicePath \<Rightarrow> or_fail Plain (os_Abs os devicePath)
      | Inl _ \<Rightarrow> do {
          g \<leftarrow> os_Glob os (filepath_Join ''/dev'' ''nvme[0-9]*n[0-9]*'');
          (case g of
             Inl err \<Rightarrow> fail Plain
           | Inr devices \<Rightarrow> find_device os (guuid_String G uuid) (effDevices devices))
        })
   }"

definition getDevicePath :: "'s env \<Rightarrow> 's OS \<Rightarrow> guuid \<Rightarrow> UUID \<Rightarrow> ('s, gerr, string) io" where
  "getDevicePath E os G uuid = do {
     r \<leftarrow> WithRetries E 30 (100 * millisecond) (do {
            d \<leftarrow> getDevPathByUUID os G uuid;
            (case d of
               Inl err \<Rightarrow> fail err
             | Inr devPath \<Rightarrow> if devPath \<noteq> [] then ok (Some devPath) else ok None)
          });
     (case r of
        Inl err \<Rightarrow> fail mkEExec
      | Inr devPath \<Rightarrow> ok devPath)
   }"

subsection \<open>Running cryptsetup\<close>

definition cryptsetupCmd :: string where "cryptsetupCmd = ''cryptsetup''"
definition defaultLuksHash :: string where "defaultLuksHash = ''sha256''"
definition defaultLuksCipher :: string where "defaultLuksCipher = ''aes-xts-plain64''"
definition defaultLuksKeyize :: string where "defaultLuksKeyize = ''256''"
definition diskMapperPath :: string where "diskMapperPath = ''/dev/mapper/''"

text \<open>The first line of \<^verbatim>\<open>/proc/cpuinfo\<close> whose key is \<open>flags\<close> decides.\<close>

fun aes_in_lines :: "string list \<Rightarrow> bool" where
  "aes_in_lines [] = False"
| "aes_in_lines (line # ls) =
     (case strings_SplitN2 CHR '':'' line of
        [key, val] \<Rightarrow>
          if TrimSpace key = ''flags'' then ''aes'' \<in> set (strings_Fields val) else aes_in_lines ls
      | _ \<Rightarrow> aes_in_lines ls)"

definition isAESSupported :: "'s OS \<Rightarrow> ('s, bool) state" where
  "isAESSupported os = do {
     r \<leftarrow> os_ReadFile os ''/proc/cpuinfo'';
     (case r of
        Inl err \<Rightarrow> State_Monad.return False
      | Inr b \<Rightarrow> State_Monad.return (aes_in_lines (strings_Split CHR 0x0A b)))
   }"

text \<open>\<open>unmarshal\<close> is the YAML package's reading of the file over the default value.\<close>

definition loadLuksConfig ::
  "'s OS \<Rightarrow> (string \<Rightarrow> int64 \<Rightarrow> int64 option) \<Rightarrow> string \<Rightarrow> ('s, gerr, int64) io" where
  "loadLuksConfig os unmarshal luksCfgFile = do {
     let pbkdfMemory = 65535;
     r \<leftarrow> os_ReadFile os luksCfgFile;
     (case r of
        Inl os_NotExist \<Rightarrow> ok pbkdfMemory
      | Inl _ \<Rightarrow> fail Plain
      | Inr rawCfg \<Rightarrow>
          (case unmarshal rawCfg pbkdfMemory of None \<Rightarrow> fail Plain | Some m \<Rightarrow> ok m))
   }"

text \<open>The part of the driver and the host the encryption code uses.\<close>

record 's Luks =
  lk_os :: "'s OS"
  lk_guuid :: guuid
  lk_yaml :: "string \<Rightarrow> int64 \<Rightarrow> int64 option"
  lk_cfgFile :: string

definition luksFormat_args :: "int64 \<Rightarrow> string \<Rightarrow> string list" where
  "luksFormat_args pbkdfMemory devicePath =
     [''-q'', ''--type='' @ defaultLuksFormat, ''--hash'', defaultLuksHash, ''--cipher'',
      defaultLuksCipher, ''--key-size'', defaultLuksKeyize, ''--key-file'', ''/dev/stdin'',
      ''--pbkdf-memory='' @ FormatInt10 pbkdfMemory, ''luksFormat'', devicePath]"

definition luksFormat :: "'s Luks \<Rightarrow> string \<Rightarrow> string \<Rightarrow> ('s, gerr, unit) io" where
  "luksFormat L devicePath passphrase = do {
     c \<leftarrow> loadLuksConfig (lk_os L) (lk_yaml L) (lk_cfgFile L);
     (case c of
        Inl err \<Rightarrow> fail mkExternal
      | Inr pbkdfMemory \<Rightarrow> do {
          aes \<leftarrow> isAESSupported (lk_os L);
          if \<not> aes then fail mkExternal
          else do {
            (_, err) \<leftarrow> os_Exec (lk_os L) cryptsetupCmd (luksFormat_args pbkdfMemory devicePath) passphrase;
            (case err of Some _ \<Rightarrow> fail Plain | None \<Rightarrow> ok ())
          }
        })
   }"

definition luksOpen_args :: "string \<Rightarrow> string \<Rightarrow> string list" where
  "luksOpen_args devicePath mapperFile =
     [''luksOpen'', devicePath, mapperFile, ''--disable-keyring'', ''--key-file'', ''/dev/stdin'',
      ''--perf-same_cpu_crypt'', ''--perf-submit_from_crypt_cpus'', ''--perf-no_read_workqueue'',
      ''--perf-no_write_workqueue'']"

definition luksOpen :: "'s Luks \<Rightarrow> string \<Rightarrow> string \<Rightarrow> string \<Rightarrow> ('s, gerr, unit) io" where
  "luksOpen L devicePath mapperFile passphrase = do {
     aes \<leftarrow> isAESSupported (lk_os L);
     if \<not> aes then fail mkExternal
     else do {
       (_, err) \<leftarrow> os_Exec (lk_os L) cryptsetupCmd (luksOpen_args devicePath mapperFile) passphrase;
       (case err of Some _ \<Rightarrow> fail mkEExec | None \<Rightarrow> ok ())
     }
   }"

definition luksResize :: "'s Luks \<Rightarrow> string \<Rightarrow> ('s, gerr, unit) io" where
  "luksResize L devicePath = do {
     aes \<leftarrow> isAESSupported (lk_os L);
     if \<not> aes then fail mkExternal
     else do {
       (_, err) \<leftarrow> os_Exec (lk_os L) cryptsetupCmd [''resize'', devicePath] [];
       (case err of Some _ \<Rightarrow> fail mkEExec | None \<Rightarrow> ok ())
     }
   }"

definition luksClose :: "'s Luks \<Rightarrow> string \<Rightarrow> ('s, gerr, unit) io" where
  "luksClose L mapperFile = do {
     (_, err) \<leftarrow> os_Exec (lk_os L) cryptsetupCmd [''luksClose'', mapperFile] [];
     (case err of Some _ \<Rightarrow> fail Plain | None \<Rightarrow> ok ())
   }"

definition luksStatus :: "'s Luks \<Rightarrow> string \<Rightarrow> ('s, bool) state" where
  "luksStatus L mapperFile = do {
     (stdout, _) \<leftarrow> os_Exec (lk_os L) cryptsetupCmd [''status'', mapperFile] [];
     (case strings_Split CHR 0x0A stdout of
        [] \<Rightarrow> State_Monad.return False
      | l # _ \<Rightarrow> State_Monad.return (strings_Contains l ''is active''))
   }"

definition luksIsLuks :: "'s Luks \<Rightarrow> string \<Rightarrow> ('s, gerr, bool) io" where
  "luksIsLuks L devicePath = do {
     (_, err) \<leftarrow> os_Exec (lk_os L) cryptsetupCmd [''isLuks'', devicePath] [];
     (case err of
        Some (ExitError c) \<Rightarrow> if c = 1 then ok False else fail Plain
      | Some ExecFailed \<Rightarrow> fail Plain
      | None \<Rightarrow> ok True)
   }"

subsection \<open>Encrypted devices\<close>

definition luksMapperFileName :: "guuid \<Rightarrow> UUID \<Rightarrow> string" where
  "luksMapperFileName G vid = ''lb-csi-'' @ nvmeUUIDPrefix @ guuid_String G vid"

definition getEncryptedDevicePath :: "'s Luks \<Rightarrow> UUID \<Rightarrow> ('s, gerr, string) io" where
  "getEncryptedDevicePath L volUUID = do {
     let encryptedDevicePath = diskMapperPath @ luksMapperFileName (lk_guuid L) volUUID;
     r \<leftarrow> os_Stat (lk_os L) encryptedDevicePath;
     (case r of
        Inl os_NotExist \<Rightarrow> ok []
      | Inl _ \<Rightarrow> fail mkEExec
      | Inr _ \<Rightarrow> do {
          act \<leftarrow> luksStatus L encryptedDevicePath;
          if \<not> act then fail mkInternal else ok encryptedDevicePath
        })
   }"

definition encryptAndOpenDevice :: "'s Luks \<Rightarrow> UUID \<Rightarrow> string \<Rightarrow> ('s, gerr, string) io" where
  "encryptAndOpenDevice L volUUID passphrase =
     then_io (getEncryptedDevicePath L volUUID) (\<lambda>encryptedDevicePath.
     if encryptedDevicePath \<noteq> [] then ok encryptedDevicePath
     else
       then_io (or_fail mkEnoent (getDevPathByUUID (lk_os L) (lk_guuid L) volUUID)) (\<lambda>devicePath.
       then_io (or_fail mkEExec (luksIsLuks L devicePath)) (\<lambda>isLuks.
       then_io (if \<not> isLuks then luksFormat L devicePath passphrase else ok ()) (\<lambda>_.
       then_io (luksOpen L devicePath (luksMapperFileName (lk_guuid L) volUUID) passphrase) (\<lambda>_.
       ok (filepath_Join diskMapperPath (luksMapperFileName (lk_guuid L) volUUID)))))))"

definition resizeEncryptedDevice :: "'s Luks \<Rightarrow> UUID \<Rightarrow> ('s, gerr, unit) io" where
  "resizeEncryptedDevice L volUUID =
     then_io (getEncryptedDevicePath L volUUID) (\<lambda>encryptedDevicePath.
     if encryptedDevicePath = [] then fail mkInternal
     else or_fail mkInternal (luksResize L encryptedDevicePath))"

definition closeEncryptedDevice :: "'s Luks \<Rightarrow> UUID \<Rightarrow> ('s, gerr, unit) io" where
  "closeEncryptedDevice L volUUID =
     then_io (getEncryptedDevicePath L volUUID) (\<lambda>encryptedDevicePath.
     if encryptedDevicePath = [] then fail mkInternal
     else or_fail mkInternal (luksClose L encryptedDevicePath))"

end
