(* ===== verification/Controller.thy ===== *)
theory Controller
  imports Driver "HOL-Library.Signed_Division"
begin

text \<open>
  \<^verbatim>\<open>pkg/driver/controller.go\<close>: the CSI controller service. Every RPC handler is a
  definition over the driver record; a request is the record of the fields it reads, a
  protobuf pointer that may be nil is an option, and a Go map a HOL map. The handlers talk
  to the cluster only through the client they borrow (\<open>with_client\<close> of \<open>Driver\<close>), so all
  of them are parametric in the LightOS client.
\<close>

subsection \<open>Capacities\<close>

abbreviation KiB :: int64 where "KiB \<equiv> 1024"
abbreviation MiB :: int64 where "MiB \<equiv> 1024 * KiB"
abbreviation GiB :: int64 where "GiB \<equiv> 1024 * MiB"

definition volCapGranularity :: int64 where "volCapGranularity = GiB"

definition minVolCap :: int64 where "minVolCap = volCapGranularity"

record CapacityRange =
  cr_RequiredBytes :: int64
  cr_LimitBytes :: int64

text \<open>The division of two \<open>int64\<close> values truncates towards zero.\<close>

definition quo64 :: "int64 \<Rightarrow> int64 \<Rightarrow> int64" where
  "quo64 a b = word_of_int (sint a sdiv sint b)"

definition getReqCapacity :: "CapacityRange option \<Rightarrow> gerr + uint64" where
  "getReqCapacity capRange =
     (let volCap = minVolCap; capGran = volCapGranularity in
      case capRange of
        None \<Rightarrow> Inr volCap
      | Some cr \<Rightarrow>
          let minCap = cr_RequiredBytes cr; maxCap = cr_LimitBytes cr in
          if sint minCap < 0 \<or> sint maxCap < 0 then Inl (mkEinvalf capRangeField)
          else if minCap = 0 \<and> maxCap = 0 then Inl (mkEinvalf capRangeField)
          else if maxCap \<noteq> 0 \<and> sint maxCap < sint minVolCap then Inl mkErange
          else if minCap \<noteq> 0 \<and> maxCap \<noteq> 0 \<and> sint maxCap < sint minCap
          then Inl (mkEinvalf capRangeField)
          else
            let volCap = quo64 (minCap + capGran - 1) capGran * capGran in
            if maxCap \<noteq> 0 \<and> sint maxCap < sint volCap then Inl mkErange
            else Inr volCap)"

subsection \<open>Requests and responses\<close>

datatype VolumeContentSource =
    CS_Volume "string option" | CS_Snapshot "string option" | CS_NoType

record csi_CreateVolumeRequest =
  cv_Name :: string
  cv_CapacityRange :: "CapacityRange option"
  cv_VolumeCapabilities :: "VolumeCapability option list"
  cv_Parameters :: "string \<rightharpoonup> string"
  cv_Secrets :: "string \<rightharpoonup> string"
  cv_VolumeContentSource :: "VolumeContentSource option"
  cv_AccessibilityRequirements :: "unit option"

record csi_Volume =
  rv_CapacityBytes :: int64
  rv_VolumeId :: string
  rv_ContentSource :: "VolumeContentSource option"

record csi_VolRequest =
  vr_VolumeId :: string
  vr_Secrets :: "string \<rightharpoonup> string"

record csi_PublishRequest = csi_VolRequest +
  pr_NodeId :: string
  pr_VolumeCapability :: "VolumeCapability option"
  pr_Readonly :: bool

record csi_UnpublishRequest = csi_VolRequest +
  ur_NodeId :: string

record csi_ValidateRequest = csi_VolRequest +
  va_VolumeCapabilities :: "VolumeCapability option list option"
  va_VolumeContext :: "string \<rightharpoonup> string"
  va_Parameters :: "string \<rightharpoonup> string"

record csi_Confirmed =
  cf_VolumeContext :: "string \<rightharpoonup> string"
  cf_VolumeCapabilities :: "VolumeCapability option list"
  cf_Parameters :: "string \<rightharpoonup> string"

record csi_GetCapacityRequest =
  gcr_VolumeCapabilities :: "VolumeCapability option list option"
  gcr_Parameters :: "(string \<rightharpoonup> string) option"

record csi_ExpandRequest = csi_VolRequest +
  er_CapacityRange :: "CapacityRange option"
  er_VolumeCapability :: "VolumeCapability option"

record csi_ExpandResponse =
  ex_CapacityBytes :: int64
  ex_NodeExpansionRequired :: bool

record csi_CreateSnapshotRequest =
  cs_Name :: string
  cs_SourceVolumeId :: string
  cs_Secrets :: "string \<rightharpoonup> string"

record csi_Snapshot =
  rs_SnapshotId :: string
  rs_SourceVolumeId :: string
  rs_SizeBytes :: int64
  rs_CreationTime :: int
  rs_ReadyToUse :: bool

record csi_DeleteSnapshotRequest =
  ds_SnapshotId :: string
  ds_Secrets :: "string \<rightharpoonup> string"

subsection \<open>Capabilities\<close>

datatype controllerCap =
    CREATE_DELETE_VOLUME | PUBLISH_UNPUBLISH_VOLUME | EXPAND_VOLUME | CREATE_DELETE_SNAPSHOT
  | CLONE_VOLUME | GET_CAPACITY

definition controllerCaps :: "controllerCap list" where
  "controllerCaps = [CREATE_DELETE_VOLUME, PUBLISH_UNPUBLISH_VOLUME, EXPAND_VOLUME,
     CREATE_DELETE_SNAPSHOT, CLONE_VOLUME]"

datatype ControllerServiceCapability = Capability_Rpc controllerCap

text \<open>The cache that \<open>init\<close> fills.\<close>

definition capsCache :: "ControllerServiceCapability list" where
  "capsCache = map Capability_Rpc controllerCaps"

definition ControllerGetCapabilities :: "'s Driver \<Rightarrow> ControllerServiceCapability list" where
  "ControllerGetCapabilities d =
     (let caps = capsCache in
      if d_jwt d \<noteq> [] then [Capability_Rpc GET_CAPACITY] @ caps else caps)"

text \<open>The capacity of the cluster is offered exactly when the driver has a JWT of its own.\<close>

lemma ControllerGetCapabilities_GET_CAPACITY:
  "Capability_Rpc GET_CAPACITY \<in> set (ControllerGetCapabilities d) \<longleftrightarrow> d_jwt d \<noteq> []"
  by (auto simp: ControllerGetCapabilities_def capsCache_def controllerCaps_def)

definition allowNoneACL :: "string list" where
  "allowNoneACL = [ACLAllowNone]"

declare allowNoneACL_def [simp]

subsection \<open>Snapshots, the part shared with volume cloning\<close>

definition doCreateSnapshot ::
  "'s Client \<Rightarrow> Ctx \<Rightarrow> string \<Rightarrow> lbResourceID \<Rightarrow> string \<Rightarrow> ('s, gerr, Snapshot) io" where
  "doCreateSnapshot clnt ctx name srcVid descr = do {
     r \<leftarrow> cl_GetSnapshotByName clnt ctx name (rid_projName srcVid);
     (case r of
        Inl err \<Rightarrow>
          if \<not> isStatusNotFound err then fail (mungeLBErr err)
          else do {
            c \<leftarrow> cl_CreateSnapshot clnt ctx name (rid_projName srcVid) (rid_uuid srcVid) descr True;
            (case c of
               Inl err \<Rightarrow> fail (mungeLBErr err)
             | Inr snap \<Rightarrow> ok snap)
          }
      | Inr snap \<Rightarrow>
          if snap_SrcVolUUID snap \<noteq> rid_uuid srcVid then fail mkEExist
          else (case snap_State snap of
                  SnapshotAvailable \<Rightarrow> ok snap
                | SnapshotCreating \<Rightarrow> fail mkEagain
                | SnapshotDeleting \<Rightarrow> fail mkAbort
                | _ \<Rightarrow> fail mkInternal))
   }"

definition doDeleteSnapshot ::
  "'s Client \<Rightarrow> Ctx \<Rightarrow> lbResourceID \<Rightarrow> ('s, gerr, unit) io" where
  "doDeleteSnapshot clnt ctx sid = do {
     r \<leftarrow> cl_GetSnapshot clnt ctx (rid_uuid sid) (rid_projName sid);
     (case r of
        Inl err \<Rightarrow> if isStatusNotFound err then ok () else fail (mungeLBErr err)
      | Inr snap \<Rightarrow>
          (case snap_State snap of
             SnapshotAvailable \<Rightarrow> do {
               e \<leftarrow> cl_DeleteSnapshot clnt ctx (rid_uuid sid) (rid_projName sid) True;
               (case e of Inl err \<Rightarrow> fail (mungeLBErr err) | Inr _ \<Rightarrow> ok ())
             }
           | SnapshotDeleting \<Rightarrow> ok ()
           | SnapshotFailed \<Rightarrow> ok ()
           | SnapshotCreating \<Rightarrow> fail mkEagain
           | _ \<Rightarrow> fail mkInternal))
   }"

subsection \<open>Creating volumes\<close>

definition mkVolumeResponse ::
  "guuid \<Rightarrow> Slice \<Rightarrow> Volume \<Rightarrow> string \<Rightarrow> string \<Rightarrow> VolumeContentSource option \<Rightarrow> csi_Volume" where
  "mkVolumeResponse G mgmtEPs vol hostEncryption mgmtScheme volSrc =
     (let volID = \<lparr>rid_mgmtEPs = mgmtEPs, rid_uuid = vol_UUID vol,
                   rid_projName = vol_ProjectName vol, rid_scheme = mgmtScheme,
                   rid_hostCrypto = hostEncryption\<rparr>
      in \<lparr>rv_CapacityBytes = vol_Capacity vol, rv_VolumeId = lbResourceID_String G volID,
          rv_ContentSource = volSrc\<rparr>)"

text \<open>The capacity range is compared as \<open>uint64\<close> values.\<close>

definition chkContentSourceCompat ::
  "uint32 \<Rightarrow> bool \<Rightarrow> uint64 \<Rightarrow> Volume \<Rightarrow> CapacityRange \<Rightarrow> string \<Rightarrow> gerr + unit" where
  "chkContentSourceCompat srcReplicaCount srcCompression srcCapacity req reqCapacity field =
     (if vol_ReplicaCount req \<noteq> srcReplicaCount then Inl (mkEinvalf field)
      else if vol_Compression req \<noteq> srcCompression then Inl (mkEinvalf field)
      else
        let minCap = cr_RequiredBytes reqCapacity; maxCap = cr_LimitBytes reqCapacity in
        if srcCapacity < minCap \<or> maxCap \<noteq> 0 \<and> maxCap < srcCapacity then Inl mkErange
        else Inr ())"

text \<open>The two source checks return the request with the capacity of the source.\<close>

definition chkSourceSnapCompat ::
  "'s Client \<Rightarrow> Ctx \<Rightarrow> Volume \<Rightarrow> CapacityRange \<Rightarrow> lbResourceID \<Rightarrow> ('s, gerr, Volume) io" where
  "chkSourceSnapCompat clnt ctx req reqCapacity srcSid = do {
     r \<leftarrow> cl_GetSnapshot clnt ctx (rid_uuid srcSid) (rid_projName srcSid);
     (case r of
        Inl err \<Rightarrow> if isStatusNotFound err then fail mkEnoent else fail (mungeLBErr err)
      | Inr snap \<Rightarrow>
          (case snap_State snap of
             SnapshotAvailable \<Rightarrow>
               (case chkContentSourceCompat (snap_SrcVolReplicaCount snap)
                       (snap_SrcVolCompression snap) (snap_Capacity snap) req reqCapacity
                       volContSrcSnapField of
                  Inl err \<Rightarrow> fail err
                | Inr _ \<Rightarrow> ok (req\<lparr>vol_Capacity := snap_Capacity snap\<rparr>))
           | SnapshotDeleting \<Rightarrow> fail (mkEinvalf volContSrcSnapField)
           | SnapshotCreating \<Rightarrow> fail mkEagain
           | _ \<Rightarrow> fail mkInternal))
   }"

definition chkSourceVolCompat ::
  "'s Client \<Rightarrow> Ctx \<Rightarrow> Volume \<Rightarrow> CapacityRange \<Rightarrow> lbResourceID \<Rightarrow> ('s, gerr, Volume) io" where
  "chkSourceVolCompat clnt ctx req reqCapacity srcVid = do {
     r \<leftarrow> cl_GetVolume clnt ctx (rid_uuid srcVid) (rid_projName srcVid);
     (case r of
        Inl err \<Rightarrow> if isStatusNotFound err then fail mkEnoent else fail (mungeLBErr err)
      | Inr vol \<Rightarrow>
          if vol_State vol = VolumeAvailable \<or> vol_State vol = VolumeMigrating then
            (case chkContentSourceCompat (vol_ReplicaCount vol) (vol_Compression vol)
                    (vol_Capacity vol) req reqCapacity volContSrcVolField of
               Inl err \<Rightarrow> fail err
             | Inr _ \<Rightarrow> ok (req\<lparr>vol_Capacity := vol_Capacity vol\<rparr>))
          else if vol_State vol = VolumeDeleting then fail (mkEinvalf volContSrcVolField)
          else if vol_State vol = VolumeUpdating then fail mkEagain
          else fail mkInternal)
   }"

text \<open>
  \<open>findExistingVolume\<close>, cut at its provenance check (which may read a snapshot): the checks
  after it are \<open>chkExistingVolume\<close>.
\<close>

definition chkExistingVolume ::
  "Volume \<Rightarrow> CapacityRange \<Rightarrow> lbResourceID option \<Rightarrow> lbResourceID option \<Rightarrow> Volume \<Rightarrow>
   gerr + Volume option" where
  "chkExistingVolume req reqCapacity srcVid srcSid vol =
     (if ExplainDiffsFrom req vol (SkipUUID OR SkipSnapUUID OR SkipCapacity) \<noteq> []
      then Inl mkEExist
      else if (srcSid \<noteq> None \<or> srcVid \<noteq> None) \<and> vol_Capacity vol < cr_RequiredBytes reqCapacity
      then Inl mkEExist
      else if (srcSid \<noteq> None \<or> srcVid \<noteq> None) \<and> cr_LimitBytes reqCapacity \<noteq> 0 \<and>
              cr_LimitBytes reqCapacity < vol_Capacity vol
      then Inl mkEExist
      else if \<not> (srcSid \<noteq> None \<or> srcVid \<noteq> None) \<and> vol_Capacity vol \<noteq> vol_Capacity req
      then Inl mkEExist
      else if vol_State vol = VolumeCreating then Inl mkEagain
      else Inr (Some vol))"

definition findExistingVolume ::
  "'s Client \<Rightarrow> Ctx \<Rightarrow> Volume \<Rightarrow> CapacityRange \<Rightarrow> lbResourceID option \<Rightarrow> lbResourceID option \<Rightarrow>
   ('s, gerr, Volume option) io" where
  "findExistingVolume clnt ctx req reqCapacity srcVid srcSid = do {
     r \<leftarrow> cl_GetVolumeByName clnt ctx (vol_Name req) (vol_ProjectName req);
     (case r of
        Inl err \<Rightarrow> if isStatusNotFound err then ok None else fail (mungeLBErr err)
      | Inr vol \<Rightarrow>
          if vol_State vol = VolumeDeleting then ok None
          else if vol_State vol \<notin> {VolumeAvailable, VolumeUpdating, VolumeCreating, VolumeMigrating}
          then fail mkInternal
          else
            (case (srcSid, srcVid) of
               (Some sid, _) \<Rightarrow>
                 if vol_SnapshotUUID vol \<noteq> rid_uuid sid then fail mkEExist
                 else State_Monad.return (chkExistingVolume req reqCapacity srcVid srcSid vol)
             | (None, Some vid) \<Rightarrow>
                 if vol_SnapshotUUID vol = guuid_Nil then fail mkEExist
                 else do {
                   s \<leftarrow> cl_GetSnapshot clnt ctx (vol_SnapshotUUID vol) (vol_ProjectName vol);
                   (case s of
                      Inl err \<Rightarrow> fail (mungeLBErr err)
                    | Inr snap \<Rightarrow>
                        if snap_SrcVolUUID snap \<noteq> rid_uuid vid then fail mkEExist
                        else State_Monad.return
                          (chkExistingVolume req reqCapacity srcVid srcSid vol))
                 }
             | (None, None) \<Rightarrow>
                 State_Monad.return (chkExistingVolume req reqCapacity srcVid srcSid vol)))
   }"

text \<open>The final call of \<open>doCreateVolume\<close>.\<close>

definition lbCreateVolume :: "'s Client \<Rightarrow> Ctx \<Rightarrow> Volume \<Rightarrow> ('s, gerr, Volume) io" where
  "lbCreateVolume clnt ctx req = do {
     r \<leftarrow> cl_CreateVolume clnt ctx (vol_Name req) (vol_Capacity req) (vol_ReplicaCount req)
            (vol_Compression req) (vol_ACL req) (vol_ProjectName req) (vol_SnapshotUUID req)
            (vol_QosPolicyName req) True;
     (case r of Inl err \<Rightarrow> fail (mungeLBErr err) | Inr vol \<Rightarrow> ok vol)
   }"

text \<open>
  Cloning a volume goes through an intermediate snapshot, whose deletion is deferred: it is
  requested after the creation, whatever that returned, and its own error is only logged.
\<close>

definition doCreateVolume ::
  "'s Client \<Rightarrow> Ctx \<Rightarrow> Volume \<Rightarrow> CapacityRange \<Rightarrow> lbResourceID option \<Rightarrow> lbResourceID option \<Rightarrow>
   ('s, gerr, Volume) io" where
  "doCreateVolume clnt ctx req reqCapacity srcVid srcSid =
     (case srcVid of
        Some vid \<Rightarrow> do {
          c \<leftarrow> chkSourceVolCompat clnt ctx req reqCapacity vid;
          (case c of
             Inl err \<Rightarrow> fail err
           | Inr req \<Rightarrow> do {
               r \<leftarrow> doCreateSnapshot clnt ctx (''snapshot-'' @ vol_Name req) vid
                      ''auto-snap for clone, by: LB CSI'';
               (case r of
                  Inl err \<Rightarrow> fail (prefixErr err)
                | Inr snap \<Rightarrow> do {
                    let tmpSid = \<lparr>rid_mgmtEPs = rid_mgmtEPs vid, rid_uuid = snap_UUID snap,
                                  rid_projName = snap_ProjectName snap,
                                  rid_scheme = rid_scheme vid,
                                  rid_hostCrypto = rid_hostCrypto vid\<rparr>;
                    res \<leftarrow> lbCreateVolume clnt ctx (req\<lparr>vol_SnapshotUUID := snap_UUID snap\<rparr>);
                    _ \<leftarrow> doDeleteSnapshot clnt ctx tmpSid;
                    State_Monad.return res
                  })
             })
        }
      | None \<Rightarrow>
          (case srcSid of
             Some sid \<Rightarrow> do {
               c \<leftarrow> chkSourceSnapCompat clnt ctx req reqCapacity sid;
               (case c of
                  Inl err \<Rightarrow> fail err
                | Inr req \<Rightarrow>
                    lbCreateVolume clnt ctx (req\<lparr>vol_SnapshotUUID := rid_uuid sid\<rparr>))
             }
           | None \<Rightarrow> lbCreateVolume clnt ctx req))"

text \<open>The content source of a request: the source volume, the source snapshot, and the source
  that the response echoes.\<close>

definition parseContentSource ::
  "guuid \<Rightarrow> lbCreateVolumeParams \<Rightarrow> VolumeContentSource option \<Rightarrow>
   gerr + (lbResourceID option \<times> lbResourceID option \<times> VolumeContentSource option)" where
  "parseContentSource G params volSrc =
     (case volSrc of
        Some (CS_Volume (Some volId)) \<Rightarrow>
          (case parseCSIResourceIDEnoent G volContSrcVolField volId of
             Inl err \<Rightarrow> Inl err
           | Inr vid \<Rightarrow>
               if rid_projName vid \<noteq> par_projectName params then Inl (mkEinvalf volContSrcVolField)
               else if rid_hostCrypto vid \<noteq> par_hostCrypto params
               then Inl (mkEinvalf volContSrcVolField)
               else Inr (Some vid, None, volSrc))
      | Some (CS_Snapshot (Some snapId)) \<Rightarrow>
          (case parseCSIResourceIDEnoent G volContSrcSnapField snapId of
             Inl err \<Rightarrow> Inl err
           | Inr sid \<Rightarrow>
               if rid_projName sid \<noteq> par_projectName params then Inl (mkEinvalf volContSrcSnapField)
               else if rid_hostCrypto sid \<noteq> par_hostCrypto params
               then Inl (mkEinvalf volContSrcSnapField)
               else Inr (None, Some sid, volSrc))
      | Some CS_NoType \<Rightarrow> Inr (None, None, None)
      | Some _ \<Rightarrow> Inl (mkEinvalf volContSrcField)
      | None \<Rightarrow> Inr (None, None, None))"

definition mkWantVol :: "string \<Rightarrow> uint64 \<Rightarrow> lbCreateVolumeParams \<Rightarrow> Volume" where
  "mkWantVol name capacity params =
     \<lparr>vol_Name = name, vol_UUID = guuid_Nil, vol_ReplicaCount = par_replicaCount params,
      vol_Capacity = capacity, vol_LogicalUsedStorage = 0,
      vol_Compression = par_compression params, vol_SnapshotUUID = guuid_Nil,
      vol_QosPolicyName = par_qosPolicyName params, vol_ACL = [ACLAllowNone],
      vol_State = VolumeStateUnknown, vol_Protection = VolumeProtectionUnknown, vol_ETag = [],
      vol_ProjectName = par_projectName params\<rparr>"

definition CreateVolume ::
  "'s Driver \<Rightarrow> Ctx \<Rightarrow> csi_CreateVolumeRequest \<Rightarrow> ('s, gerr, csi_Volume) io" where
  "CreateVolume d ctx req =
     (if cv_Name req = [] then fail (mkEinvalMissing ''name'')
      else if cv_AccessibilityRequirements req \<noteq> None
      then fail (mkEinval ''accessibility_requirements'')
      else
        (case getReqCapacity (cv_CapacityRange req) of Inl err \<Rightarrow> fail err | Inr capacity \<Rightarrow>
         let reqCapacity = (case cv_CapacityRange req of
                              Some cr \<Rightarrow> cr
                            | None \<Rightarrow> \<lparr>cr_RequiredBytes = 0, cr_LimitBytes = 0\<rparr>) in
        (case validateVolumeCapabilities (d_rwx d) (cv_VolumeCapabilities req) of
           Inl err \<Rightarrow> fail err | Inr _ \<Rightarrow>
        (case parseCSICreateVolumeParams (cv_Parameters req) of Inl err \<Rightarrow> fail err | Inr params \<Rightarrow>
        (case parseContentSource (d_guuid d) params (cv_VolumeContentSource req) of
           Inl err \<Rightarrow> fail err | Inr (srcVid, srcSid, volSrc) \<Rightarrow>
         let wantVol = mkWantVol (cv_Name req) capacity params;
             ctx = cloneCtxWithCreds d ctx (cv_Secrets req) in
         with_client d ctx (par_mgmtEPs params) (par_mgmtScheme params) (\<lambda>clnt. do {
           v \<leftarrow> findExistingVolume clnt ctx wantVol reqCapacity srcVid srcSid;
           (case v of
              Inl err \<Rightarrow> fail err
            | Inr found \<Rightarrow> do {
                r \<leftarrow> (case found of
                        Some vol \<Rightarrow> ok vol
                      | None \<Rightarrow> doCreateVolume clnt ctx wantVol reqCapacity srcVid srcSid);
                (case r of
                   Inl err \<Rightarrow> fail err
                 | Inr vol \<Rightarrow>
                     ok (mkVolumeResponse (d_guuid d) (par_mgmtEPs params) vol
                           (par_hostCrypto params) (par_mgmtScheme params) volSrc))
              })
         }))))))"

definition ControllerGetVolume :: "('s, gerr, unit) io" where
  "ControllerGetVolume = fail (Status codes_Unimplemented [])"

definition ListVolumes :: "('s, gerr, unit) io" where
  "ListVolumes = fail (Status codes_Unimplemented [])"

definition ListSnapshots :: "('s, gerr, unit) io" where
  "ListSnapshots = fail (Status codes_Unimplemented [])"

subsection \<open>Deleting volumes\<close>

text \<open>The part of \<open>DeleteVolume\<close> that runs with a client.\<close>

definition doDeleteVolume :: "'s Client \<Rightarrow> Ctx \<Rightarrow> lbResourceID \<Rightarrow> ('s, gerr, unit) io" where
  "doDeleteVolume clnt ctx vid = do {
     r \<leftarrow> cl_GetVolume clnt ctx (rid_uuid vid) (rid_projName vid);
     (case r of
        Inl err \<Rightarrow> if isStatusNotFound err then ok () else fail mkEagain
      | Inr vol \<Rightarrow>
          if vol_State vol = VolumeAvailable \<or> vol_State vol = VolumeMigrating
          then cl_DeleteVolume clnt ctx (vol_UUID vol) (rid_projName vid) True
          else if vol_State vol = VolumeDeleting \<or> vol_State vol = VolumeFailed then ok ()
          else if vol_State vol = VolumeCreating then fail mkEagain
          else if vol_State vol = VolumeUpdating then fail mkEagain
          else fail mkInternal)
   }"

definition DeleteVolume :: "'s Driver \<Rightarrow> Ctx \<Rightarrow> csi_VolRequest \<Rightarrow> ('s, gerr, unit) io" where
  "DeleteVolume d ctx req =
     (case parseCSIResourceIDEnoent (d_guuid d) volIDField (vr_VolumeId req) of
        Inl err \<Rightarrow> if isStatusNotFound err then ok () else fail err
      | Inr vid \<Rightarrow>
          let ctx = cloneCtxWithCreds d ctx (vr_Secrets req) in
          with_client d ctx (rid_mgmtEPs vid) (rid_scheme vid)
            (\<lambda>clnt. doDeleteVolume clnt ctx vid))"

subsection \<open>Publishing volumes\<close>

text \<open>The update hooks; the ACL is read from the volume, \<open>ace\<close> is the node's host NQN.\<close>

definition publishRWXHook :: "string \<Rightarrow> VolumeUpdateHook" where
  "publishRWXHook ace vol =
     (let numACEs = length (vol_ACL vol) in
      if Contains (vol_ACL vol) ace then Inr None
      else if numACEs = 0 \<or> \<not> Contains (vol_ACL vol) ace
      then Inr (Some \<lparr>upd_ACL = Some (fst (Remove (vol_ACL vol) ACLAllowNone) @ [ace]),
                      upd_Capacity = 0\<rparr>)
      else Inr None)"

definition publishRWOHook :: "string \<Rightarrow> VolumeUpdateHook" where
  "publishRWOHook ace vol =
     (let numACEs = length (vol_ACL vol) in
      if numACEs = 1 \<and> vol_ACL vol ! 0 = ace then Inr None
      else if numACEs = 0 \<or> numACEs = 1 \<and> vol_ACL vol ! 0 = ACLAllowNone
      then Inr (Some \<lparr>upd_ACL = Some [ace], upd_Capacity = 0\<rparr>)
      else if numACEs = 1 \<and> vol_ACL vol ! 0 = ACLAllowAny then Inl mkPrecond
      else Inl mkPrecond)"

definition doPublishVolumeRWX ::
  "'s Client \<Rightarrow> Ctx \<Rightarrow> lbResourceID \<Rightarrow> string \<Rightarrow> ('s, gerr, unit) io" where
  "doPublishVolumeRWX clnt ctx vid nodeId = do {
     let ace = nodeIDToHostNQN nodeId;
     r \<leftarrow> cl_UpdateVolume clnt ctx (rid_uuid vid) (rid_projName vid) (publishRWXHook ace);
     (case r of
        Inl err \<Rightarrow> fail err
      | Inr vol \<Rightarrow>
          if length (vol_ACL vol) = 0 \<or> \<not> Contains (vol_ACL vol) ace then fail mkEagain
          else ok ())
   }"

definition doPublishVolumeRWO ::
  "'s Client \<Rightarrow> Ctx \<Rightarrow> lbResourceID \<Rightarrow> string \<Rightarrow> ('s, gerr, unit) io" where
  "doPublishVolumeRWO clnt ctx vid nodeId = do {
     let ace = nodeIDToHostNQN nodeId;
     r \<leftarrow> cl_UpdateVolume clnt ctx (rid_uuid vid) (rid_projName vid) (publishRWOHook ace);
     (case r of
        Inl err \<Rightarrow> fail err
      | Inr vol \<Rightarrow>
          if length (vol_ACL vol) \<noteq> 1 \<or> vol_ACL vol ! 0 \<noteq> ace then fail mkEagain
          else ok ())
   }"

definition ControllerPublishVolume ::
  "'s Driver \<Rightarrow> Ctx \<Rightarrow> csi_PublishRequest \<Rightarrow> ('s, gerr, unit) io" where
  "ControllerPublishVolume d ctx req =
     (if vr_VolumeId req = [] then fail (mkEinvalMissing volIDField)
      else
        (case checkNodeID (pr_NodeId req) of Inl err \<Rightarrow> fail (mkEinval nodeIDField) | Inr _ \<Rightarrow>
        (case validateVolumeCapability (d_rwx d) (pr_VolumeCapability req) of
           Inl err \<Rightarrow> fail err | Inr _ \<Rightarrow>
        (case parseCSIResourceID (d_guuid d) (vr_VolumeId req) of
           Inl err \<Rightarrow> fail mkEnoent | Inr vid \<Rightarrow>
         if pr_Readonly req then fail (mkEinval ''readonly'')
         else
           let ctx = cloneCtxWithCreds d ctx (vr_Secrets req) in
           with_client d ctx (rid_mgmtEPs vid) (rid_scheme vid)
             (\<lambda>clnt. if d_rwx d then doPublishVolumeRWX clnt ctx vid (pr_NodeId req)
                     else doPublishVolumeRWO clnt ctx vid (pr_NodeId req))))))"

definition unpublishRWOHook :: "string \<Rightarrow> VolumeUpdateHook" where
  "unpublishRWOHook ace vol =
     (let numACEs = length (vol_ACL vol) in
      if numACEs = 1 \<and> vol_ACL vol ! 0 = ACLAllowNone then Inr None
      else if numACEs = 0 \<or> numACEs = 1 \<and> vol_ACL vol ! 0 = ace
      then Inr (Some \<lparr>upd_ACL = Some allowNoneACL, upd_Capacity = 0\<rparr>)
      else if 1 < numACEs \<or> numACEs = 1 \<and> vol_ACL vol ! 0 = ACLAllowAny then Inl mkInternal
      else Inr None)"

definition unpublishRWXHook :: "string \<Rightarrow> VolumeUpdateHook" where
  "unpublishRWXHook ace vol =
     (let numACEs = length (vol_ACL vol) in
      if numACEs = 1 \<and> vol_ACL vol ! 0 = ACLAllowNone then Inr None
      else if numACEs = 0 \<or> numACEs = 1 \<and> vol_ACL vol ! 0 = ace
      then Inr (Some \<lparr>upd_ACL = Some allowNoneACL, upd_Capacity = 0\<rparr>)
      else if Contains (vol_ACL vol) ACLAllowAny then Inl mkInternal
      else if Contains (vol_ACL vol) ace
      then Inr (Some \<lparr>upd_ACL = Some (fst (Remove (vol_ACL vol) ace)), upd_Capacity = 0\<rparr>)
      else Inr None)"

definition doUnpublishVolumeRWO ::
  "'s Client \<Rightarrow> Ctx \<Rightarrow> lbResourceID \<Rightarrow> string \<Rightarrow> ('s, gerr, unit) io" where
  "doUnpublishVolumeRWO clnt ctx vid nodeId = do {
     let ace = nodeIDToHostNQN nodeId;
     r \<leftarrow> cl_UpdateVolume clnt ctx (rid_uuid vid) (rid_projName vid) (unpublishRWOHook ace);
     (case r of
        Inl err \<Rightarrow> if isStatusNotFound err then ok () else fail err
      | Inr vol \<Rightarrow>
          let numACEs = length (vol_ACL vol) in
          if 1 < numACEs \<or> numACEs = 1 \<and> vol_ACL vol ! 0 = ace then fail mkEagain
          else ok ())
   }"

definition doUnpublishVolumeRWX ::
  "'s Client \<Rightarrow> Ctx \<Rightarrow> lbResourceID \<Rightarrow> string \<Rightarrow> ('s, gerr, unit) io" where
  "doUnpublishVolumeRWX clnt ctx vid nodeId = do {
     let ace = nodeIDToHostNQN nodeId;
     r \<leftarrow> cl_UpdateVolume clnt ctx (rid_uuid vid) (rid_projName vid) (unpublishRWXHook ace);
     (case r of
        Inl err \<Rightarrow> if isStatusNotFound err then ok () else fail err
      | Inr vol \<Rightarrow> if Contains (vol_ACL vol) ace then fail mkEagain else ok ())
   }"

definition ControllerUnpublishVolume ::
  "'s Driver \<Rightarrow> Ctx \<Rightarrow> csi_UnpublishRequest \<Rightarrow> ('s, gerr, unit) io" where
  "ControllerUnpublishVolume d ctx req =
     (case parseCSIResourceIDEinval (d_guuid d) volIDField (vr_VolumeId req) of
        Inl err \<Rightarrow> fail err
      | Inr vid \<Rightarrow>
          (case checkNodeID (ur_NodeId req) of
             Inl err \<Rightarrow> fail (mkEinval ''node_id'')
           | Inr _ \<Rightarrow>
               let ctx = cloneCtxWithCreds d ctx (vr_Secrets req) in
               with_client d ctx (rid_mgmtEPs vid) (rid_scheme vid)
                 (\<lambda>clnt. if d_rwx d then doUnpublishVolumeRWX clnt ctx vid (ur_NodeId req)
                         else doUnpublishVolumeRWO clnt ctx vid (ur_NodeId req))))"

subsection \<open>Validation, capacity and expansion\<close>

definition ValidateVolumeCapabilities ::
  "'s Driver \<Rightarrow> Ctx \<Rightarrow> csi_ValidateRequest \<Rightarrow> ('s, gerr, csi_Confirmed) io" where
  "ValidateVolumeCapabilities d ctx req =
     (case parseCSIResourceIDEnoent (d_guuid d) volIDField (vr_VolumeId req) of
        Inl err \<Rightarrow> fail err
      | Inr vid \<Rightarrow>
          (case va_VolumeCapabilities req of
             None \<Rightarrow> fail (mkEinvalMissing ''volume_capabilities'')
           | Some caps \<Rightarrow>
               let ctx = cloneCtxWithCreds d ctx (vr_Secrets req) in
               with_client d ctx (rid_mgmtEPs vid) (rid_scheme vid) (\<lambda>clnt. do {
                 r \<leftarrow> cl_GetVolume clnt ctx (rid_uuid vid) (rid_projName vid);
                 (case r of
                    Inl err \<Rightarrow>
                      if isStatusNotFound err then fail mkEnoent else fail (mungeLBErr err)
                  | Inr _ \<Rightarrow>
                      (case validateVolumeCapabilities (d_rwx d) caps of
                         Inl err \<Rightarrow> fail err
                       | Inr _ \<Rightarrow> ok \<lparr>cf_VolumeContext = va_VolumeContext req,
                                     cf_VolumeCapabilities = caps,
                                     cf_Parameters = va_Parameters req\<rparr>))
               })))"

definition GetCapacity :: "'s Driver \<Rightarrow> Ctx \<Rightarrow> csi_GetCapacityRequest \<Rightarrow> ('s, gerr, int64) io" where
  "GetCapacity d ctx req =
     (case (case gcr_VolumeCapabilities req of
              Some caps \<Rightarrow> validateVolumeCapabilities (d_rwx d) caps
            | None \<Rightarrow> Inr ()) of
        Inl err \<Rightarrow> fail err
      | Inr _ \<Rightarrow>
          (case gcr_Parameters req of
             None \<Rightarrow> ok 0
           | Some ps \<Rightarrow>
               let ps = (if map_idx ps volParRepCntKey = []
                         then ps(volParRepCntKey \<mapsto> ''1'') else ps) in
               (case parseCSICreateVolumeParams ps of
                  Inl err \<Rightarrow> fail err
                | Inr params \<Rightarrow>
                    let ctx = cloneCtxWithCreds d ctx Map.empty in
                    with_client d ctx (par_mgmtEPs params) (par_mgmtScheme params) (\<lambda>clnt. do {
                      r \<leftarrow> cl_GetCluster clnt ctx;
                      (case r of
                         Inl err \<Rightarrow> fail err
                       | Inr cluster \<Rightarrow> ok (cluster_Capacity cluster))
                    }))))"

definition expandVolumeHook :: "uint64 \<Rightarrow> VolumeUpdateHook" where
  "expandVolumeHook requestedCapacity vol =
     (if requestedCapacity \<le> vol_Capacity vol then Inr None
      else Inr (Some \<lparr>upd_ACL = None, upd_Capacity = requestedCapacity\<rparr>))"

definition ControllerExpandVolume ::
  "'s Driver \<Rightarrow> Ctx \<Rightarrow> csi_ExpandRequest \<Rightarrow> ('s, gerr, csi_ExpandResponse) io" where
  "ControllerExpandVolume d ctx req =
     (case parseCSIResourceIDEinval (d_guuid d) volIDField (vr_VolumeId req) of
        Inl err \<Rightarrow> fail err
      | Inr vid \<Rightarrow>
          (case getReqCapacity (er_CapacityRange req) of
             Inl err \<Rightarrow> fail err
           | Inr requestedCapacity \<Rightarrow>
               let ctx = cloneCtxWithCreds d ctx (vr_Secrets req) in
               with_client d ctx (rid_mgmtEPs vid) (rid_scheme vid) (\<lambda>clnt. do {
                 r \<leftarrow> cl_UpdateVolume clnt ctx (rid_uuid vid) (rid_projName vid)
                        (expandVolumeHook requestedCapacity);
                 (case r of
                    Inl err \<Rightarrow> fail err
                  | Inr vol \<Rightarrow>
                      if vol_Capacity vol < requestedCapacity then fail mkEagain
                      else ok \<lparr>ex_CapacityBytes = vol_Capacity vol,
                               ex_NodeExpansionRequired =
                                 nodeExpansionRequired (er_VolumeCapability req)\<rparr>)
               })))"

subsection \<open>Snapshots\<close>

definition mkSnapshotResponse :: "guuid \<Rightarrow> lbResourceID \<Rightarrow> Snapshot \<Rightarrow> csi_Snapshot" where
  "mkSnapshotResponse G srcVid snap =
     (let snapID = \<lparr>rid_mgmtEPs = rid_mgmtEPs srcVid, rid_uuid = snap_UUID snap,
                    rid_projName = snap_ProjectName snap, rid_scheme = rid_scheme srcVid,
                    rid_hostCrypto = rid_hostCrypto srcVid\<rparr>
      in \<lparr>rs_SnapshotId = lbResourceID_String G snapID,
          rs_SourceVolumeId = lbResourceID_String G srcVid, rs_SizeBytes = snap_Capacity snap,
          rs_CreationTime = snap_CreationTime snap, rs_ReadyToUse = True\<rparr>)"

definition CreateSnapshot ::
  "'s Driver \<Rightarrow> Ctx \<Rightarrow> csi_CreateSnapshotRequest \<Rightarrow> ('s, gerr, csi_Snapshot) io" where
  "CreateSnapshot d ctx req =
     (case parseCSIResourceIDEinval (d_guuid d) srcVolField (cs_SourceVolumeId req) of
        Inl err \<Rightarrow> fail err
      | Inr srcVid \<Rightarrow>
          let ctx = cloneCtxWithCreds d ctx (cs_Secrets req) in
          with_client d ctx (rid_mgmtEPs srcVid) (rid_scheme srcVid) (\<lambda>clnt. do {
            r \<leftarrow> doCreateSnapshot clnt ctx (cs_Name req) srcVid ''by: LB CSI'';
            (case r of
               Inl err \<Rightarrow> fail err
             | Inr snap \<Rightarrow> ok (mkSnapshotResponse (d_guuid d) srcVid snap))
          }))"

definition DeleteSnapshot ::
  "'s Driver \<Rightarrow> Ctx \<Rightarrow> csi_DeleteSnapshotRequest \<Rightarrow> ('s, gerr, unit) io" where
  "DeleteSnapshot d ctx req =
     (case parseCSIResourceIDEnoent (d_guuid d) snapIDField (ds_SnapshotId req) of
        Inl err \<Rightarrow> if isStatusNotFound err then ok () else fail err
      | Inr sid \<Rightarrow>
          let ctx = cloneCtxWithCreds d ctx (ds_Secrets req) in
          with_client d ctx (rid_mgmtEPs sid) (rid_scheme sid)
            (\<lambda>clnt. doDeleteSnapshot clnt ctx sid))"

end
