(* ===== verification/Node.thy ===== *)
theory Node
  imports Luks Controller
begin

text \<open>
  \<^verbatim>\<open>pkg/driver/node.go\<close>: the CSI node service. Every handler is a definition over the driver, the
  host and the backend (record \<open>NodeSvc\<close>); what a handler does under the mutex \<open>bdl\<close> is one
  uninterrupted run. A handler that may return a nil response without an error returns an
  optional response.
\<close>

subsection \<open>The node\<close>

record 's NodeSvc =
  nd_d :: "'s Driver"
  nd_env :: "'s env"
  nd_os :: "'s OS"
  nd_mnt :: "'s Mounter"
  nd_be :: "'s Backend"
  nd_isIP :: "string \<Rightarrow> bool"
  nd_yaml :: "string \<Rightarrow> int64 \<Rightarrow> int64 option"

definition nd_luks :: "'s NodeSvc \<Rightarrow> 's Luks" where
  "nd_luks n = \<lparr>lk_os = nd_os n, lk_guuid = d_guuid (nd_d n), lk_yaml = nd_yaml n,
     lk_cfgFile = d_luksCfgFile (nd_d n)\<rparr>"

abbreviation nd_getDevicePath :: "'s NodeSvc \<Rightarrow> UUID \<Rightarrow> ('s, gerr, string) io" where
  "nd_getDevicePath n u \<equiv> getDevicePath (nd_env n) (nd_os n) (d_guuid (nd_d n)) u"

definition procMountsPath :: string where "procMountsPath = ''/proc/mounts''"

definition volHostEncryptionPassphraseKeyMaxLen :: nat where
  "volHostEncryptionPassphraseKeyMaxLen = 512"

record csi_NodeStageRequest =
  ns_VolumeId :: string
  ns_StagingTargetPath :: string
  ns_VolumeCapability :: "VolumeCapability option"
  ns_Secrets :: "string \<rightharpoonup> string"

record csi_NodeUnstageRequest =
  nu_VolumeId :: string
  nu_StagingTargetPath :: string

record csi_NodePublishRequest =
  np_VolumeId :: string
  np_StagingTargetPath :: string
  np_TargetPath :: string
  np_VolumeCapability :: "VolumeCapability option"
  np_Readonly :: bool

record csi_NodeUnpublishRequest =
  nq_VolumeId :: string
  nq_TargetPath :: string

record csi_NodeStatsRequest =
  nt_VolumeId :: string
  nt_VolumePath :: string

record csi_NodeExpandRequest =
  ne_VolumeId :: string
  ne_VolumePath :: string
  ne_CapacityRange :: "CapacityRange option"

datatype usage_unit = VolumeUsage_BYTES | VolumeUsage_INODES

record csi_VolumeUsage =
  vu_Available :: int64
  vu_Total :: int64
  vu_Used :: int64
  vu_Unit :: usage_unit

text \<open>The nil-safe getters of the generated capability type.\<close>

definition GetMount :: "VolumeCapability option \<Rightarrow> MountVolume option" where
  "GetMount c = (case Option.bind c cap_AccessType of Some (AT_Mount m) \<Rightarrow> m | _ \<Rightarrow> None)"

definition GetBlock :: "VolumeCapability option \<Rightarrow> unit option" where
  "GetBlock c = (case Option.bind c cap_AccessType of Some (AT_Block b) \<Rightarrow> b | _ \<Rightarrow> None)"

definition GetMode :: "VolumeCapability option \<Rightarrow> AccessMode_Mode" where
  "GetMode c = (case Option.bind c cap_AccessMode of Some m \<Rightarrow> m | None \<Rightarrow> UNKNOWN)"

subsection \<open>Mount options\<close>

fun add_flags :: "string list \<Rightarrow> string list \<Rightarrow> string list" where
  "add_flags mountOptions [] = mountOptions"
| "add_flags mountOptions (f # fs) =
     add_flags (if f \<in> set mountOptions then mountOptions else mountOptions @ [f]) fs"

definition ConstructMountOptions :: "string list \<Rightarrow> VolumeCapability option \<Rightarrow> string list" where
  "ConstructMountOptions mountOptions volCap =
     (case GetMount volCap of
        Some m \<Rightarrow> add_flags mountOptions (mnt_MountFlags m)
      | None \<Rightarrow> mountOptions)"

definition IsVolumeReadOnly :: "VolumeCapability option \<Rightarrow> bool" where
  "IsVolumeReadOnly capability =
     (let accMode = GetMode capability in
      accMode = SINGLE_NODE_READER_ONLY \<or> accMode = MULTI_NODE_READER_ONLY)"

subsection \<open>Staging\<close>

definition lbVolEligible :: "'s NodeSvc \<Rightarrow> Ctx \<Rightarrow> 's Client \<Rightarrow> lbResourceID \<Rightarrow> ('s, gerr, unit) io" where
  "lbVolEligible n ctx clnt vid = do {
     r \<leftarrow> cl_GetVolume clnt ctx (rid_uuid vid) (rid_projName vid);
     (case r of
        Inl err \<Rightarrow> if isStatusNotFound err then fail mkEnoent else fail (mungeLBErr err)
      | Inr vol \<Rightarrow>
          if \<not> IsUsable vol then fail mkEagain
          else if d_hostNQN (nd_d n) \<notin> set (vol_ACL vol) then fail mkPrecond
          else do {
            st \<leftarrow> be_LBVolEligible (nd_be n) ctx vol;
            (case status_Err st of Some err \<Rightarrow> fail err | None \<Rightarrow> ok ())
          })
   }"

definition queryLBforTargetEnv :: "'s NodeSvc \<Rightarrow> Ctx \<Rightarrow> 's Client \<Rightarrow> ('s, gerr, TargetEnv) io" where
  "queryLBforTargetEnv n ctx clnt = do {
     r \<leftarrow> cl_GetClusterInfo clnt ctx;
     (case r of
        Inl err \<Rightarrow> fail (mungeLBErr err)
      | Inr ci \<Rightarrow>
          (case ParseSliceIP (nd_isIP n) (ci_DiscoveryEndpoints ci) of
             Inl err \<Rightarrow> fail (mungeLBErr err)
           | Inr discoveryEPs \<Rightarrow>
               (case ParseSliceIP (nd_isIP n) (ci_NvmeEndpoints ci) of
                  Inl err \<Rightarrow> fail (mungeLBErr err)
                | Inr nvmeEPs \<Rightarrow>
                    ok \<lparr>te_SubsysNQN = ci_SubsysNQN ci, te_DiscoveryEPs = discoveryEPs,
                        te_NvmeEPs = nvmeEPs\<rparr>)))
   }"

text \<open>The device for an encrypted volume: the mapped one.\<close>

definition stage_encrypted ::
  "'s NodeSvc \<Rightarrow> lbResourceID \<Rightarrow> (string \<rightharpoonup> string) \<Rightarrow> string \<Rightarrow> ('s, gerr, string) io" where
  "stage_encrypted n vid secrets devPath =
     (if rid_hostCrypto vid \<noteq> [] then
        (case secrets volHostEncryptionPassphraseKey of
           None \<Rightarrow> fail (Status codes_InvalidArgument [])
         | Some passphrase \<Rightarrow>
             if volHostEncryptionPassphraseKeyMaxLen < length passphrase
             then fail (Status codes_InvalidArgument [])
             else or_fail (Status codes_Internal [])
                    (encryptAndOpenDevice (nd_luks n) (rid_uuid vid) passphrase))
      else ok devPath)"

text \<open>The file system to mount, from the one found on the device and the one asked for.\<close>

definition stage_fstype :: "string \<Rightarrow> string \<Rightarrow> string \<Rightarrow> string \<Rightarrow> gerr + string" where
  "stage_fstype subj defaultFS fsType wantFSType =
     (if fsType \<noteq> [] then
        if fsType \<noteq> wantFSType \<and> wantFSType \<noteq> [] then Inl (mkEbadOp ''mismatch'' subj) else Inr fsType
      else if wantFSType = [] then Inr defaultFS else Inr wantFSType)"

definition stage_mount ::
  "'s NodeSvc \<Rightarrow> lbResourceID \<Rightarrow> VolumeCapability option \<Rightarrow> string \<Rightarrow> string \<Rightarrow> ('s, gerr, unit option) io" where
  "stage_mount n vid volCap tgtPath devPath =
     (if GetBlock volCap \<noteq> None then ok (Some ())
      else
        (case GetMount volCap of
           None \<Rightarrow> fail (mkEinvalMissing ''volume_capability.mount'')
         | Some mntCap \<Rightarrow>
             then_io (or_fail mkEExec (mt_GetDiskFormat (nd_mnt n) devPath)) (\<lambda>fsType.
             (case stage_fstype (guuid_String (d_guuid (nd_d n)) (rid_uuid vid)) (d_defaultFS (nd_d n))
                     fsType (mnt_FsType mntCap) of
                Inl err \<Rightarrow> fail err
              | Inr wantFSType \<Rightarrow>
                  let mntOpts = ConstructMountOptions [] volCap;
                      mntOpts = mntOpts @ (if IsVolumeReadOnly volCap then [''ro''] else []);
                      mntOpts = mntOpts @ (if wantFSType = XfsFS then [''nouuid''] else [])
                  in
                  then_io (or_fail mkEExec
                             (mt_FormatAndMount (nd_mnt n) devPath tgtPath wantFSType mntOpts)) (\<lambda>_.
                  then_io (or_fail mkEExec (mt_Resize (nd_mnt n) devPath tgtPath)) (\<lambda>_.
                  ok (Some ())))))))"

definition stage_attach ::
  "'s NodeSvc \<Rightarrow> Ctx \<Rightarrow> 's Client \<Rightarrow> lbResourceID \<Rightarrow> csi_NodeStageRequest \<Rightarrow> ('s, gerr, unit option) io" where
  "stage_attach n ctx clnt vid req =
     then_io (queryLBforTargetEnv n ctx clnt) (\<lambda>tgtEnv. do {
       st \<leftarrow> be_Attach (nd_be n) ctx tgtEnv (rid_uuid vid);
       (case st of
          Some _ \<Rightarrow> (case status_Err st of Some err \<Rightarrow> fail err | None \<Rightarrow> ok None)
        | None \<Rightarrow>
            then_io (nd_getDevicePath n (rid_uuid vid)) (\<lambda>devPath.
            then_io (stage_encrypted n vid (ns_Secrets req) devPath) (\<lambda>devPath.
            stage_mount n vid (ns_VolumeCapability req) (ns_StagingTargetPath req) devPath)))
     })"

definition stage_local ::
  "'s NodeSvc \<Rightarrow> Ctx \<Rightarrow> 's Client \<Rightarrow> lbResourceID \<Rightarrow> csi_NodeStageRequest \<Rightarrow> ('s, gerr, unit option) io" where
  "stage_local n ctx clnt vid req = do {
     let tgtPath = ns_StagingTargetPath req;
     (isMnt, err) \<leftarrow> mt_IsMountPoint (nd_mnt n) tgtPath;
     (case err of
        Some os_NotExist \<Rightarrow> fail (mkEinvalf ''staging_target_path'')
      | Some _ \<Rightarrow> fail mkEExec
      | None \<Rightarrow>
          if isMnt then do {
            _ \<leftarrow> mt_GetDeviceNameFromMount (nd_mnt n) tgtPath;
            ok (Some ())
          }
          else stage_attach n ctx clnt vid req)
   }"

definition NodeStageVolume ::
  "'s NodeSvc \<Rightarrow> Ctx \<Rightarrow> csi_NodeStageRequest \<Rightarrow> ('s, gerr, unit option) io" where
  "NodeStageVolume n ctx req =
     (let d = nd_d n in
      case parseCSIResourceIDEinval (d_guuid d) volIDField (ns_VolumeId req) of
        Inl err \<Rightarrow> fail err
      | Inr vid \<Rightarrow>
          if ns_StagingTargetPath req = [] then fail (mkEinvalMissing ''staging_target_path'')
          else
            (case validateVolumeCapability (d_rwx d) (ns_VolumeCapability req) of
               Inl err \<Rightarrow> fail err
             | Inr _ \<Rightarrow>
                 let ctx = cloneCtxWithCreds d ctx (ns_Secrets req) in
                 with_client d ctx (rid_mgmtEPs vid) (rid_scheme vid) (\<lambda>clnt.
                   then_io (lbVolEligible n ctx clnt vid) (\<lambda>_. stage_local n ctx clnt vid req))))"

text \<open>Unmounting a path, shared by unstaging and unpublishing. An I/O error on examining it is
  no reason not to try.\<close>

definition unmount_path :: "'s NodeSvc \<Rightarrow> string \<Rightarrow> ('s, gerr, unit) io" where
  "unmount_path n tgtPath = do {
     (isMnt, err) \<leftarrow> mt_IsMountPoint (nd_mnt n) tgtPath;
     (if err \<noteq> None \<and> err \<noteq> Some os_NotExist \<and> err \<noteq> Some os_IOError then fail mkEExec
      else
        let ioErr = (err = Some os_IOError) in
        if isMnt \<or> ioErr then or_fail mkEExec (mt_Unmount (nd_mnt n) tgtPath) else ok ())
   }"

definition unstage_close :: "'s NodeSvc \<Rightarrow> lbResourceID \<Rightarrow> ('s, gerr, unit) io" where
  "unstage_close n vid =
     (if rid_hostCrypto vid \<noteq> []
      then or_fail mkEExec (closeEncryptedDevice (nd_luks n) (rid_uuid vid)) else ok ())"

definition NodeUnstageVolume ::
  "'s NodeSvc \<Rightarrow> Ctx \<Rightarrow> csi_NodeUnstageRequest \<Rightarrow> ('s, gerr, unit option) io" where
  "NodeUnstageVolume n ctx req =
     (case parseCSIResourceIDEinval (d_guuid (nd_d n)) volIDField (nu_VolumeId req) of
        Inl err \<Rightarrow> fail err
      | Inr vid \<Rightarrow>
          if nu_StagingTargetPath req = [] then fail (mkEinvalMissing ''staging_target_path'')
          else
            then_io (unmount_path n (nu_StagingTargetPath req)) (\<lambda>_.
            then_io (unstage_close n vid) (\<lambda>_.
            do {
              st \<leftarrow> be_Detach (nd_be n) ctx (rid_uuid vid);
              (case st of
                 Some _ \<Rightarrow> (case status_Err st of Some err \<Rightarrow> fail err | None \<Rightarrow> ok None)
               | None \<Rightarrow> ok (Some ()))
            })))"

subsection \<open>Publishing\<close>

text \<open>An existing file would leave the file nil, and closing it fails.\<close>

definition MakeFile :: "'s OS \<Rightarrow> string \<Rightarrow> ('s, os_err, unit) io" where
  "MakeFile os path = do {
     r \<leftarrow> os_OpenCreate os path;
     (case r of
        Inl err \<Rightarrow> if err \<noteq> os_Exist then fail err else fail os_OtherErr
      | Inr _ \<Rightarrow> os_CloseFile os path)
   }"

text \<open>After a failure the target is removed; both outcomes are an internal error.\<close>

definition remove_target :: "'s NodeSvc \<Rightarrow> string \<Rightarrow> ('s, gerr, unit) io" where
  "remove_target n target = do {
     r \<leftarrow> os_Remove (nd_os n) target;
     (case r of
        Inl removeErr \<Rightarrow> fail (Status codes_Internal [])
      | Inr _ \<Rightarrow> fail (Status codes_Internal []))
   }"

text \<open>The mapped device of an encrypted volume is looked up, and not used: the \<open>source\<close> it is
  assigned to is a new variable of the inner block.\<close>

definition nodePublishVolumeForBlock ::
  "'s NodeSvc \<Rightarrow> lbResourceID \<Rightarrow> csi_NodePublishRequest \<Rightarrow> string list \<Rightarrow> ('s, gerr, unit) io" where
  "nodePublishVolumeForBlock n vid req mountOptions =
     (let target = np_TargetPath req in
      then_io (or_fail mkEExec (nd_getDevicePath n (rid_uuid vid))) (\<lambda>source.
      then_io (if rid_hostCrypto vid \<noteq> []
               then then_io (or_fail (Status codes_Internal [])
                      (getEncryptedDevicePath (nd_luks n) (rid_uuid vid))) (\<lambda>_. ok ())
               else ok ()) (\<lambda>_.
      do {
        m \<leftarrow> MakeFile (nd_os n) target;
        (case m of
           Inl err \<Rightarrow> remove_target n target
         | Inr _ \<Rightarrow> do {
             r \<leftarrow> mt_Mount (nd_mnt n) source target [] mountOptions;
             (case r of Inl err \<Rightarrow> remove_target n target | Inr _ \<Rightarrow> ok ())
           })
      })))"

definition getDeviceNameFromMount :: "'s NodeSvc \<Rightarrow> string \<Rightarrow> ('s, gerr, string) io" where
  "getDeviceNameFromMount n tgtPath = do {
     r \<leftarrow> mt_ListProcMounts (nd_mnt n) procMountsPath;
     (case r of
        Inl err \<Rightarrow> fail Plain
      | Inr info \<Rightarrow>
          (case find (\<lambda>(device, path). tgtPath = path) info of
             Some (device, path) \<Rightarrow> ok device
           | None \<Rightarrow> fail (mkEinvalf ''Failed to find device for tgtPath'')))
   }"

definition nodePublishVolumeForFileSystem ::
  "'s NodeSvc \<Rightarrow> csi_NodePublishRequest \<Rightarrow> string list \<Rightarrow> ('s, gerr, unit) io" where
  "nodePublishVolumeForFileSystem n req mountOptions =
     then_io (or_fail (mkEinvalf ''Failed to create target_path'') (os_MkdirAll (nd_os n) (np_TargetPath req)))
       (\<lambda>_. or_fail mkEExec
              (mt_Mount (nd_mnt n) (np_StagingTargetPath req) (np_TargetPath req) [] mountOptions))"

definition publish_by_type ::
  "'s NodeSvc \<Rightarrow> lbResourceID \<Rightarrow> csi_NodePublishRequest \<Rightarrow> string list \<Rightarrow> ('s, gerr, unit) io" where
  "publish_by_type n vid req mountOptions =
     (case Option.bind (np_VolumeCapability req) cap_AccessType of
        Some (AT_Block _) \<Rightarrow> nodePublishVolumeForBlock n vid req mountOptions
      | Some (AT_Mount _) \<Rightarrow> nodePublishVolumeForFileSystem n req mountOptions
      | None \<Rightarrow> fail (mkEinval ''volume capability''))"

definition publish_local ::
  "'s NodeSvc \<Rightarrow> lbResourceID \<Rightarrow> csi_NodePublishRequest \<Rightarrow> string list \<Rightarrow> ('s, gerr, unit) io" where
  "publish_local n vid req mountOptions = do {
     s \<leftarrow> os_Stat (nd_os n) (np_TargetPath req);
     (case s of
        Inl err \<Rightarrow> publish_by_type n vid req mountOptions
      | Inr _ \<Rightarrow> do {
          (isMnt, err) \<leftarrow> mt_IsMountPoint (nd_mnt n) (np_TargetPath req);
          (if err \<noteq> None then fail mkEExec
           else if isMnt then do {
             _ \<leftarrow> getDeviceNameFromMount n (np_TargetPath req);
             ok ()
           }
           else publish_by_type n vid req mountOptions)
        })
   }"

definition NodePublishVolume :: "'s NodeSvc \<Rightarrow> csi_NodePublishRequest \<Rightarrow> ('s, gerr, unit) io" where
  "NodePublishVolume n req =
     (case parseCSIResourceIDEinval (d_guuid (nd_d n)) volIDField (np_VolumeId req) of
        Inl err \<Rightarrow> fail err
      | Inr vid \<Rightarrow>
          if np_StagingTargetPath req = [] then fail (mkEbadOp ''ordering'' ''staging_target_path'')
          else if np_TargetPath req = [] then fail (mkEinvalMissing ''target_path'')
          else
            (case validateVolumeCapability (d_rwx (nd_d n)) (np_VolumeCapability req) of
               Inl err \<Rightarrow> fail err
             | Inr _ \<Rightarrow>
                 publish_local n vid req
                   (''bind'' # (if np_Readonly req then [''ro''] else []))))"

definition NodeUnpublishVolume :: "'s NodeSvc \<Rightarrow> csi_NodeUnpublishRequest \<Rightarrow> ('s, gerr, unit) io" where
  "NodeUnpublishVolume n req =
     (case parseCSIResourceIDEinval (d_guuid (nd_d n)) volIDField (nq_VolumeId req) of
        Inl err \<Rightarrow> fail err
      | Inr _ \<Rightarrow>
          if nq_TargetPath req = [] then fail (mkEinvalMissing ''target_path'')
          else
            then_io (unmount_path n (nq_TargetPath req)) (\<lambda>_.
            or_fail mkEExec (os_RemoveAll (nd_os n) (nq_TargetPath req))))"

subsection \<open>Information and statistics\<close>

datatype nodeCap = NODE_STAGE_UNSTAGE_VOLUME | NODE_EXPAND_VOLUME | NODE_GET_VOLUME_STATS

definition NodeGetCapabilities :: "nodeCap list" where
  "NodeGetCapabilities = [NODE_STAGE_UNSTAGE_VOLUME, NODE_EXPAND_VOLUME, NODE_GET_VOLUME_STATS]"

definition NodeGetInfo :: "'s NodeSvc \<Rightarrow> string" where
  "NodeGetInfo n = d_nodeID (nd_d n)"

definition IsMountPoint :: "'s Mounter \<Rightarrow> string \<Rightarrow> ('s, os_err, bool) io" where
  "IsMountPoint mnt p = do {
     r \<leftarrow> mt_IsLikelyNotMountPoint mnt p;
     (case r of Inl err \<Rightarrow> fail err | Inr notMnt \<Rightarrow> ok (\<not> notMnt))
   }"

text \<open>The arithmetic is that of \<open>int64\<close>; the conversions keep the bits.\<close>

definition statfs_usage :: "Statfs_t \<Rightarrow> csi_VolumeUsage list" where
  "statfs_usage sf =
     [\<lparr>vu_Available = sf_Bavail sf * sf_Bsize sf, vu_Total = sf_Blocks sf * sf_Bsize sf,
       vu_Used = (sf_Blocks sf - sf_Bfree sf) * sf_Bsize sf, vu_Unit = VolumeUsage_BYTES\<rparr>,
      \<lparr>vu_Available = sf_Ffree sf, vu_Total = sf_Files sf, vu_Used = sf_Files sf - sf_Ffree sf,
       vu_Unit = VolumeUsage_INODES\<rparr>]"

definition filesystemNodeGetVolumeStats ::
  "'s NodeSvc \<Rightarrow> string \<Rightarrow> ('s, gerr, csi_VolumeUsage list) io" where
  "filesystemNodeGetVolumeStats n volPath =
     then_io (or_fail mkExternal (IsMountPoint (nd_mnt n) volPath)) (\<lambda>isMnt.
     if \<not> isMnt then fail mkEnoent
     else then_io (or_fail mkExternal (os_Statfs (nd_os n) volPath)) (\<lambda>sf. ok (statfs_usage sf)))"

definition blockNodeGetVolumeStats ::
  "'s NodeSvc \<Rightarrow> string \<Rightarrow> ('s, gerr, csi_VolumeUsage list) io" where
  "blockNodeGetVolumeStats n targetPath = do {
     (lsblkSize, err) \<leftarrow>
       os_Exec (nd_os n) ''/bin/lsblk'' [''--noheadings'', ''--bytes'', ''--output=SIZE'', targetPath] [];
     (case err of
        Some (ExitError c) \<Rightarrow> fail mkExternal
      | Some ExecFailed \<Rightarrow> fail mkExternal
      | None \<Rightarrow>
          (case ParseInt64 (TrimSpace lsblkSize) of
             None \<Rightarrow> fail mkExternal
           | Some sz \<Rightarrow>
               ok [\<lparr>vu_Available = 0, vu_Total = sz, vu_Used = 0, vu_Unit = VolumeUsage_BYTES\<rparr>]))
   }"

definition NodeGetVolumeStats ::
  "'s NodeSvc \<Rightarrow> csi_NodeStatsRequest \<Rightarrow> ('s, gerr, csi_VolumeUsage list) io" where
  "NodeGetVolumeStats n req =
     (if nt_VolumePath req = [] then fail (mkEinvalMissing volPathField)
      else
        (case parseCSIResourceIDEnoent (d_guuid (nd_d n)) volIDField (nt_VolumeId req) of
           Inl err \<Rightarrow> fail err
         | Inr _ \<Rightarrow> do {
             s \<leftarrow> os_Stat (nd_os n) (nt_VolumePath req);
             (case s of
                Inl os_NotExist \<Rightarrow> fail mkEnoent
              | Inl _ \<Rightarrow> fail mkExternal
              | Inr fi \<Rightarrow>
                  if fi_IsDir fi then filesystemNodeGetVolumeStats n (nt_VolumePath req)
                  else if fi_IsDevice fi then blockNodeGetVolumeStats n (nt_VolumePath req)
                  else fail mkExternal)
           }))"

subsection \<open>Expansion\<close>

definition NodeExpandVolume :: "'s NodeSvc \<Rightarrow> csi_NodeExpandRequest \<Rightarrow> ('s, gerr, int64) io" where
  "NodeExpandVolume n req =
     (case parseCSIResourceIDEnoent (d_guuid (nd_d n)) volIDField (ne_VolumeId req) of
        Inl err \<Rightarrow> fail err
      | Inr vid \<Rightarrow>
          if ne_VolumePath req = [] then fail (mkEinval ''volumePath'')
          else
            (case getReqCapacity (ne_CapacityRange req) of
               Inl err \<Rightarrow> fail err
             | Inr reqBytes \<Rightarrow>
                 then_io (nd_getDevicePath n (rid_uuid vid)) (\<lambda>devicePath.
                 then_io (if rid_hostCrypto vid \<noteq> []
                          then then_io (resizeEncryptedDevice (nd_luks n) (rid_uuid vid)) (\<lambda>_.
                               getEncryptedDevicePath (nd_luks n) (rid_uuid vid))
                          else ok devicePath) (\<lambda>devicePath.
                 then_io (or_fail mkInternal (mt_Resize (nd_mnt n) devicePath (ne_VolumePath req))) (\<lambda>_.
                 ok reqBytes)))))"

end
