(* ===== verification/Node_Spec.thy ===== *)
theory Node_Spec
  imports Node
begin

text \<open>
  What the node service does to the host: its mounts, the file systems on its devices and the
  encryption headers. The host is seen through three views of the world, and what the code relies
  on from the operating system, \<^verbatim>\<open>mount-utils\<close> and \<^verbatim>\<open>cryptsetup\<close> is the locale \<open>node_host\<close>.
\<close>

lemma nd_luks_fields:
  "lk_os (nd_luks n) = nd_os n" "lk_guuid (nd_luks n) = d_guuid (nd_d n)"
  by (simp_all add: nd_luks_def)

text \<open>Headers that are still there, and file systems that are still there.\<close>

definition headers_kept :: "('s \<Rightarrow> string \<rightharpoonup> string) \<Rightarrow> (string \<rightharpoonup> string) \<Rightarrow> 's \<Rightarrow> bool" where
  "headers_kept header H w \<longleftrightarrow> (\<forall>dev k. H dev = Some k \<longrightarrow> header w dev = Some k)"

definition disks_kept :: "('s \<Rightarrow> string \<Rightarrow> string) \<Rightarrow> (string \<Rightarrow> string) \<Rightarrow> 's \<Rightarrow> bool" where
  "disks_kept disk D w \<longleftrightarrow> (\<forall>dev. D dev \<noteq> [] \<longrightarrow> disk w dev = D dev)"

subsection \<open>Interface: the host of a node\<close>

text \<open>
  \<open>mounted w p\<close>: what is mounted at the path \<open>p\<close> (at most one thing). \<open>disk w dev\<close>: the file system
  on a device, empty for none. \<open>header w dev\<close>: the encryption header of a device. The calls of the
  first groups leave all of them alone. \<open>GetDiskFormat\<close> reports no file system only for a device that
  carries no signature, so not for one with an encryption header. \<open>FormatAndMount\<close> is trusted only as
  far as the code's own comment trusts it: it does not format a device that has the requested file
  system; what it does to the file system and the header of a device without one or with another
  one is left open. Of \<^verbatim>\<open>cryptsetup\<close> only the six commands of the code are assumed anything of, and
  nothing is assumed of any other program.
\<close>

locale node_host =
  fixes n :: "'s NodeSvc"
    and mounted :: "'s \<Rightarrow> string \<rightharpoonup> string"
    and disk :: "'s \<Rightarrow> string \<Rightarrow> string"
    and header :: "'s \<Rightarrow> string \<rightharpoonup> string"
  assumes os_same:
      "same (\<lambda>w. (mounted w, disk w, header w)) (os_ReadFile (nd_os n) p)"
      "same (\<lambda>w. (mounted w, disk w, header w)) (os_Stat (nd_os n) p)"
      "same (\<lambda>w. (mounted w, disk w, header w)) (os_EvalSymlinks (nd_os n) p)"
      "same (\<lambda>w. (mounted w, disk w, header w)) (os_Abs (nd_os n) p)"
      "same (\<lambda>w. (mounted w, disk w, header w)) (os_Glob (nd_os n) p)"
      "same (\<lambda>w. (mounted w, disk w, header w)) (os_OpenCreate (nd_os n) p)"
      "same (\<lambda>w. (mounted w, disk w, header w)) (os_CloseFile (nd_os n) p)"
      "same (\<lambda>w. (mounted w, disk w, header w)) (os_Remove (nd_os n) p)"
      "same (\<lambda>w. (mounted w, disk w, header w)) (os_RemoveAll (nd_os n) p)"
      "same (\<lambda>w. (mounted w, disk w, header w)) (os_MkdirAll (nd_os n) p)"
      "same (\<lambda>w. (mounted w, disk w, header w)) (env_Sleep (nd_env n) t)"
    and mnt_same:
      "same (\<lambda>w. (mounted w, disk w, header w)) (mt_IsMountPoint (nd_mnt n) p)"
      "same (\<lambda>w. (mounted w, disk w, header w)) (mt_GetDeviceNameFromMount (nd_mnt n) p)"
      "same (\<lambda>w. (mounted w, disk w, header w)) (mt_ListProcMounts (nd_mnt n) p)"
      "same (\<lambda>w. (mounted w, disk w, header w)) (mt_GetDiskFormat (nd_mnt n) p)"
      "same (\<lambda>w. (mounted w, disk w, header w)) (mt_Resize (nd_mnt n) p q)"
    and remote_same:
      "same (\<lambda>w. (mounted w, disk w, header w)) (be_LBVolEligible (nd_be n) ctx vol)"
      "same (\<lambda>w. (mounted w, disk w, header w)) (be_Attach (nd_be n) ctx tgtEnv u)"
      "same (\<lambda>w. (mounted w, disk w, header w)) (be_Detach (nd_be n) ctx u)"
      "same (\<lambda>w. (mounted w, disk w, header w)) (cl_RemoteOk (d_client (nd_d n) h) ctx)"
      "same (\<lambda>w. (mounted w, disk w, header w)) (cl_GetVolume (d_client (nd_d n) h) ctx u proj)"
      "same (\<lambda>w. (mounted w, disk w, header w)) (cl_GetClusterInfo (d_client (nd_d n) h) ctx)"
      "same (\<lambda>w. (mounted w, disk w, header w)) (pool_GetClient (d_lbclients (nd_d n)) ctx eps scheme)"
      "same (\<lambda>w. (mounted w, disk w, header w)) (pool_PutClient (d_lbclients (nd_d n)) h)"
    and IsMountPoint_law: "run_state (mt_IsMountPoint (nd_mnt n) p) w = ((b, e), w') \<Longrightarrow>
      (e = None \<longrightarrow> b = (mounted w p \<noteq> None)) \<and> (e = Some os_NotExist \<longrightarrow> \<not> b \<and> mounted w p = None)"
    and Mount_law: "run_state (mt_Mount (nd_mnt n) src p fs opts) w = (r, w') \<Longrightarrow>
      disk w' = disk w \<and> header w' = header w \<and>
      mounted w' = (case r of Inr _ \<Rightarrow> (mounted w)(p \<mapsto> src) | Inl _ \<Rightarrow> mounted w)"
    and Unmount_law: "run_state (mt_Unmount (nd_mnt n) p) w = (r, w') \<Longrightarrow>
      disk w' = disk w \<and> header w' = header w \<and>
      mounted w' = (case r of Inr _ \<Rightarrow> (mounted w)(p := None) | Inl _ \<Rightarrow> mounted w)"
    and GetDiskFormat_law: "run_state (mt_GetDiskFormat (nd_mnt n) dev) w = (Inr fs, w') \<Longrightarrow>
      fs = disk w dev \<and> (fs = [] \<longrightarrow> header w dev = None)"
    and FormatAndMount_law: "run_state (mt_FormatAndMount (nd_mnt n) dev p fs opts) w = (r, w') \<Longrightarrow>
      (\<forall>d. d \<noteq> dev \<longrightarrow> disk w' d = disk w d \<and> header w' d = header w d) \<and>
      (disk w dev = fs \<longrightarrow> disk w' dev = disk w dev \<and> header w' dev = header w dev) \<and>
      mounted w' = (case r of Inr _ \<Rightarrow> (mounted w)(p \<mapsto> dev) | Inl _ \<Rightarrow> mounted w)"
    and exec_same:
      "same (\<lambda>w. (mounted w, header w)) (os_Exec (nd_os n) cryptsetupCmd [''isLuks'', dev] [])"
      "same (\<lambda>w. (mounted w, header w)) (os_Exec (nd_os n) cryptsetupCmd [''status'', dev] [])"
      "same (\<lambda>w. (mounted w, header w)) (os_Exec (nd_os n) cryptsetupCmd [''resize'', dev] [])"
      "same (\<lambda>w. (mounted w, header w)) (os_Exec (nd_os n) cryptsetupCmd [''luksClose'', dev] [])"
      "same (\<lambda>w. (mounted w, header w)) (os_Exec (nd_os n) cryptsetupCmd (luksOpen_args dev f) pp)"
    and Exec_format: "run_state (os_Exec (nd_os n) cryptsetupCmd (luksFormat_args m dev) pp) w = (x, w') \<Longrightarrow>
      mounted w' = mounted w \<and> (\<forall>d. d \<noteq> dev \<longrightarrow> header w' d = header w d)"
    and isLuks_law: "run_state (os_Exec (nd_os n) cryptsetupCmd [''isLuks'', dev] []) w = ((out, Some (ExitError 1)), w') \<Longrightarrow>
      header w dev = None"
begin

abbreviation view :: "'s \<Rightarrow> (string \<rightharpoonup> string) \<times> (string \<Rightarrow> string) \<times> (string \<rightharpoonup> string)" where
  "view \<equiv> \<lambda>w. (mounted w, disk w, header w)"

lemmas host_same = os_same mnt_same remote_same

lemma same_fst: "same view m \<Longrightarrow> same mounted m" "same view m \<Longrightarrow> same header m" "same view m \<Longrightarrow> same disk m"
  "same view m \<Longrightarrow> same (\<lambda>w. (mounted w, header w)) m"
  by (auto simp: same_def)

lemma getDevPathByUUID_same: "same view (getDevPathByUUID (nd_os n) G u)"
proof -
  have "same view (find_device (nd_os n) s devs)" for s devs
    by (induction devs)
      (auto simp: getDeviceUUID_def Let_def intro!: same_intros host_same)
  then show ?thesis
    unfolding getDevPathByUUID_def by (intro same_intros host_same)
qed

lemma getDevicePath_same: "same view (nd_getDevicePath n u)"
  unfolding getDevicePath_def by (intro same_intros host_same getDevPathByUUID_same)

lemma queryLB_same: "same view (queryLBforTargetEnv n ctx (d_client (nd_d n) h))"
  unfolding queryLBforTargetEnv_def by (intro same_intros host_same)

lemma lbVolEligible_same: "same view (lbVolEligible n ctx (d_client (nd_d n) h) vid)"
  unfolding lbVolEligible_def by (intro same_intros host_same)

lemma GetLBClient_same: "same view (GetLBClient (nd_d n) ctx eps scheme)"
  unfolding GetLBClient_def by (intro same_intros host_same)

text \<open>Unmounting and unpublishing.\<close>

lemma unmount_path_run:
  assumes "run_state (unmount_path n p) w = (r, w')"
  shows "mounted w' = (case r of Inr _ \<Rightarrow> (mounted w)(p := None) | Inl _ \<Rightarrow> mounted w) \<and>
    disk w' = disk w \<and> header w' = header w"
proof -
  obtain b e w1 where i: "run_state (mt_IsMountPoint (nd_mnt n) p) w = ((b, e), w1)" by (metis surj_pair)
  have s: "mounted w1 = mounted w" "disk w1 = disk w" "header w1 = header w"
    using sameD[OF mnt_same(1) i] by simp_all
  obtain u w2 where u: "run_state (mt_Unmount (nd_mnt n) p) w1 = (u, w2)" by fastforce
  show ?thesis
    using assms i u s Unmount_law[OF u] IsMountPoint_law[OF i]
    by (auto simp: unmount_path_def run_or_fail Let_def split: if_splits sum.splits)
qed

lemma NodeUnpublish_run:
  assumes "run_state (NodeUnpublishVolume n req) w = (Inr u, w')"
  shows "mounted w' = (mounted w)(nq_TargetPath req := None)"
proof -
  from assms obtain u1 w1 where 1: "run_state (unmount_path n (nq_TargetPath req)) w = (Inr u1, w1)"
    "run_state (os_RemoveAll (nd_os n) (nq_TargetPath req)) w1 = (Inr u, w')"
    by (auto simp: NodeUnpublishVolume_def split: sum.splits if_splits elim!: then_io_InrE or_fail_InrE)
  show ?thesis using unmount_path_run[OF 1(1)] sameD[OF os_same(9) 1(2)] by simp
qed

text \<open>The encryption tool.\<close>

lemma isAES_same: "same view (isAESSupported (nd_os n))"
  unfolding isAESSupported_def by (intro same_intros host_same)

lemma luks_same:
  "same (\<lambda>w. (mounted w, header w)) (luksOpen (nd_luks n) dev f pp)"
  "same (\<lambda>w. (mounted w, header w)) (luksClose (nd_luks n) dev)"
  "same (\<lambda>w. (mounted w, header w)) (luksResize (nd_luks n) dev)"
  "same (\<lambda>w. (mounted w, header w)) (luksStatus (nd_luks n) dev)"
  "same (\<lambda>w. (mounted w, header w)) (luksIsLuks (nd_luks n) dev)"
  unfolding luksOpen_def luksClose_def luksResize_def luksStatus_def luksIsLuks_def
  by (auto simp: nd_luks_def split: option.split exec_err.split list.split
      intro!: same_intros exec_same isAES_same[THEN same_fst(4)])

lemma getEncrypted_same: "same (\<lambda>w. (mounted w, header w)) (getEncryptedDevicePath (nd_luks n) u)"
  unfolding getEncryptedDevicePath_def Let_def
  by (intro same_intros luks_same) (auto simp: nd_luks_def intro: same_fst(4) host_same)

lemma closeEncrypted_same: "same (\<lambda>w. (mounted w, header w)) (closeEncryptedDevice (nd_luks n) u)"
  unfolding closeEncryptedDevice_def by (intro same_intros getEncrypted_same luks_same)

text \<open>Existing encryption headers survive: the device is formatted only after the tool has said that
  there is none.\<close>

lemma luksFormat_run:
  assumes "run_state (luksFormat (nd_luks n) dev pp) w = (r, w')"
  shows "mounted w' = mounted w \<and> (\<forall>d. d \<noteq> dev \<longrightarrow> header w' d = header w d)"
proof -
  obtain c w1 where c: "run_state (loadLuksConfig (nd_os n) (nd_yaml n) (d_luksCfgFile (nd_d n))) w = (c, w1)"
    by fastforce
  have "same view (loadLuksConfig (nd_os n) (nd_yaml n) (d_luksCfgFile (nd_d n)))"
    unfolding loadLuksConfig_def Let_def by (intro same_intros host_same)
  from sameD[OF this c] have 1: "mounted w1 = mounted w" "header w1 = header w" by simp_all
  obtain a w2 where a: "run_state (isAESSupported (nd_os n)) w1 = (a, w2)" by fastforce
  from sameD[OF isAES_same a] have 2: "mounted w2 = mounted w1" "header w2 = header w1" by simp_all
  show ?thesis
  proof (cases c)
    case (Inr m)
    obtain x w3 where x: "run_state (os_Exec (nd_os n) cryptsetupCmd (luksFormat_args m dev) pp) w2 = (x, w3)"
      by fastforce
    from Exec_format[OF x] assms c Inr a x 1 2 show ?thesis
      by (auto simp: luksFormat_def nd_luks_def split: if_splits prod.splits option.splits)
  qed (use assms c 1 in \<open>auto simp: luksFormat_def nd_luks_def\<close>)
qed

lemma luksIsLuks_False:
  assumes "run_state (luksIsLuks (nd_luks n) dev) w = (Inr False, w')"
  shows "header w dev = None"
proof -
  obtain out e w1 where x: "run_state (os_Exec (nd_os n) cryptsetupCmd [''isLuks'', dev] []) w = ((out, e), w1)"
    by (metis surj_pair)
  then have "e = Some (ExitError 1)"
    using assms by (auto simp: luksIsLuks_def nd_luks_def split: option.splits exec_err.splits if_splits)
  with x show ?thesis by (auto dest: isLuks_law)
qed

lemma same_headers: "same (\<lambda>w. (mounted w, header w)) m \<Longrightarrow> keeps m (headers_kept header H)"
  by (erule same_keeps) (simp add: headers_kept_def)

lemma isLuks_format_headers:
  assumes k: "keeps k (headers_kept header H)"
  shows "keeps (then_io (or_fail e (luksIsLuks (nd_luks n) dev)) (\<lambda>isLuks.
      then_io (if \<not> isLuks then luksFormat (nd_luks n) dev pp else ok ()) (\<lambda>_. k))) (headers_kept header H)"
proof (rule keepsI)
  fix w r w'
  assume run: "run_state (then_io (or_fail e (luksIsLuks (nd_luks n) dev)) (\<lambda>isLuks.
      then_io (if \<not> isLuks then luksFormat (nd_luks n) dev pp else ok ()) (\<lambda>_. k))) w = (r, w')"
    and w: "headers_kept header H w"
  obtain b w1 where b: "run_state (luksIsLuks (nd_luks n) dev) w = (b, w1)" by fastforce
  from sameD[OF luks_same(5) b] w have w1: "headers_kept header H w1" by (simp add: headers_kept_def)
  show "headers_kept header H w'"
  proof (cases "b = Inr False")
    case True
    obtain x w2 where x: "run_state (luksFormat (nd_luks n) dev pp) w1 = (x, w2)" by fastforce
    have "header w dev = None" using b True luksIsLuks_False by blast
    then have "H dev = None" using w by (cases "H dev") (auto simp: headers_kept_def)
    then have "headers_kept header H w2" using luksFormat_run[OF x] w1 by (metis headers_kept_def option.distinct(1))
    then show ?thesis using run b True x keepsD[OF k]
      by (auto simp: run_then_io run_or_fail split: sum.splits)
  next
    case False
    with run b w1 keepsD[OF k] show ?thesis by (auto simp: run_then_io run_or_fail split: sum.splits)
  qed
qed

lemma encrypt_headers: "keeps (encryptAndOpenDevice (nd_luks n) u pp) (headers_kept header H)"
  unfolding encryptAndOpenDevice_def nd_luks_fields
  by (intro keeps_then_io keeps_if isLuks_format_headers keeps_or_fail same_headers getEncrypted_same luks_same
      getDevPathByUUID_same[THEN same_fst(4)] same_return)

lemma luksFormat_mounted: "same mounted (luksFormat (nd_luks n) dev pp)"
  by (rule sameI) (simp add: luksFormat_run)

lemma same_mounted: "same (\<lambda>w. (mounted w, header w)) m \<Longrightarrow> same mounted m"
  by (auto simp: same_def)

lemma encrypt_mounted: "same mounted (encryptAndOpenDevice (nd_luks n) u pp)"
  unfolding encryptAndOpenDevice_def nd_luks_fields
  by (intro same_then_io same_or_fail same_if same_return luksFormat_mounted same_mounted getEncrypted_same
      luks_same getDevPathByUUID_same[THEN same_fst(4)])

text \<open>The device is mounted with the file system it has, or formatted when it has none.\<close>

lemma format_mount_keeps:
  assumes k: "\<And>a. keeps (k a) I" and I: "keeps (mt_GetDiskFormat (nd_mnt n) dev) I"
    and mount: "\<And>fs ml w r w'. run_state (mt_FormatAndMount (nd_mnt n) dev p fs ml) w = (r, w') \<Longrightarrow> I w \<Longrightarrow>
      disk w dev = fs \<or> disk w dev = [] \<and> header w dev = None \<Longrightarrow> I w'"
  shows "keeps (then_io (or_fail e (mt_GetDiskFormat (nd_mnt n) dev)) (\<lambda>fsType.
      case stage_fstype subj dflt fsType want of
        Inl err \<Rightarrow> fail err
      | Inr fs \<Rightarrow> then_io (or_fail e' (mt_FormatAndMount (nd_mnt n) dev p fs (opts fs))) k)) I"
proof (rule keepsI)
  fix w r w'
  assume run: "run_state (then_io (or_fail e (mt_GetDiskFormat (nd_mnt n) dev)) (\<lambda>fsType.
      case stage_fstype subj dflt fsType want of
        Inl err \<Rightarrow> fail err
      | Inr fs \<Rightarrow> then_io (or_fail e' (mt_FormatAndMount (nd_mnt n) dev p fs (opts fs))) k)) w = (r, w')"
    and w: "I w"
  obtain f w1 where f: "run_state (mt_GetDiskFormat (nd_mnt n) dev) w = (f, w1)" by fastforce
  note w1 = keepsD[OF I f w]
  show "I w'"
  proof (cases "\<exists>fsType fs. f = Inr fsType \<and> stage_fstype subj dflt fsType want = Inr fs")
    case True
    then obtain fsType fs where t: "f = Inr fsType" "stage_fstype subj dflt fsType want = Inr fs" by blast
    obtain x w2 where x: "run_state (mt_FormatAndMount (nd_mnt n) dev p fs (opts fs)) w1 = (x, w2)" by fastforce
    have "fsType = disk w1 dev" "fsType = [] \<Longrightarrow> header w1 dev = None"
      using GetDiskFormat_law[OF f[unfolded t]] sameD[OF mnt_same(4) f] by simp_all
    then have "disk w1 dev = fs \<or> disk w1 dev = [] \<and> header w1 dev = None"
      using t(2) by (auto simp: stage_fstype_def split: if_splits)
    from mount[OF x w1 this] have "I w2" .
    with run f t x keepsD[OF k] show ?thesis by (auto simp: run_then_io run_or_fail split: sum.splits)
  next
    case False
    with run f w1 show ?thesis by (auto simp: run_then_io run_or_fail split: sum.splits)
  qed
qed

lemma FormatAndMount_headers:
  assumes "run_state (mt_FormatAndMount (nd_mnt n) dev p fs ml) w = (r, w')" "headers_kept header H w"
    and "disk w dev = fs \<or> disk w dev = [] \<and> header w dev = None"
  shows "headers_kept header H w'"
  unfolding headers_kept_def
proof (intro allI impI)
  fix d k
  assume H: "H d = Some k"
  with assms(2) have "header w d = Some k" by (simp add: headers_kept_def)
  with FormatAndMount_law[OF assms(1)] assms(3) show "header w' d = Some k" by (cases "d = dev") auto
qed

lemmas host_headers = host_same[THEN same_fst(4), THEN same_headers]

lemma stage_headers: "keeps (stage_local n ctx (d_client (nd_d n) h) vid req) (headers_kept header H)"
proof -
  have "keeps (stage_mount n vid volCap p dev) (headers_kept header H)" for volCap p dev
    unfolding stage_mount_def Let_def
    by (intro keeps_if keeps_option keeps_return format_mount_keeps keeps_then_io keeps_or_fail host_headers)
      (rule FormatAndMount_headers)
  moreover have "keeps (stage_encrypted n vid secrets dev) (headers_kept header H)" for secrets dev
    unfolding stage_encrypted_def by (intro keeps_intros encrypt_headers)
  moreover note getDevicePath_same[THEN same_fst(4), THEN same_headers] queryLB_same[THEN same_fst(4), THEN same_headers]
  ultimately show ?thesis
    unfolding stage_local_def stage_attach_def Let_def by (intro keeps_intros host_headers)
qed

lemma with_client_keeps:
  assumes "keeps (GetLBClient d ctx eps scheme) I" "\<And>h. keeps (body (d_client d h)) I"
    "\<And>h. keeps (PutLBClient d h) I"
  shows "keeps (with_client d ctx eps scheme body) I"
  unfolding with_client_def by (intro keeps_intros assms)

lemma NodeStage_headers: "keeps (NodeStageVolume n ctx req) (headers_kept header H)"
proof -
  note GetLBClient_same[THEN same_fst(4), THEN same_headers] lbVolEligible_same[THEN same_fst(4), THEN same_headers]
  then show ?thesis
    unfolding NodeStageVolume_def Let_def PutLBClient_def
    by (intro keeps_intros with_client_keeps stage_headers) (simp_all add: PutLBClient_def host_headers)
qed

text \<open>Existing file systems survive: the device is formatted only when it has none, and mounted
  with the file system it has.\<close>

lemma same_disks: "same view m \<Longrightarrow> keeps m (disks_kept disk D)"
  by (erule same_keeps) (simp add: disks_kept_def)

lemma FormatAndMount_disks:
  assumes "run_state (mt_FormatAndMount (nd_mnt n) dev p fs ml) w = (r, w')" "disks_kept disk D w"
    and "disk w dev = fs \<or> disk w dev = [] \<and> header w dev = None"
  shows "disks_kept disk D w'"
  unfolding disks_kept_def
proof (intro allI impI)
  fix d
  assume "D d \<noteq> []"
  with assms(2) have "disk w d = D d" "disk w d \<noteq> []" by (simp_all add: disks_kept_def)
  with FormatAndMount_law[OF assms(1)] assms(3) show "disk w' d = D d" by (cases "d = dev") auto
qed

lemma stage_disks:
  assumes "rid_hostCrypto vid = []"
  shows "keeps (stage_local n ctx (d_client (nd_d n) h) vid req) (disks_kept disk D)"
proof -
  have "keeps (stage_mount n vid volCap p dev) (disks_kept disk D)" for volCap p dev
    unfolding stage_mount_def Let_def
    by (intro keeps_if keeps_option keeps_return format_mount_keeps keeps_then_io keeps_or_fail host_same[THEN same_disks])
      (rule FormatAndMount_disks)
  moreover have "keeps (stage_encrypted n vid secrets dev) (disks_kept disk D)" for secrets dev
    unfolding stage_encrypted_def using assms by auto
  moreover note getDevicePath_same[THEN same_disks] queryLB_same[THEN same_disks]
  ultimately show ?thesis
    unfolding stage_local_def stage_attach_def Let_def by (intro keeps_intros host_same[THEN same_disks])
qed

lemma NodeStage_disks:
  assumes "\<And>vid. parseCSIResourceID (d_guuid (nd_d n)) (ns_VolumeId req) = Inr vid \<Longrightarrow> rid_hostCrypto vid = []"
  shows "keeps (NodeStageVolume n ctx req) (disks_kept disk D)"
proof -
  note GetLBClient_same[THEN same_disks] lbVolEligible_same[THEN same_disks]
  then show ?thesis
    unfolding NodeStageVolume_def Let_def
    by (intro keeps_intros with_client_keeps stage_disks assms)
      (simp_all add: PutLBClient_def host_same[THEN same_disks] parseEinval_Inr)
qed

text \<open>What staging mounts.\<close>

lemma stage_mount_mounted:
  assumes "run_state (stage_mount n vid volCap p dev) w = (Inr u, w')"
  shows "mounted w' = (if GetBlock volCap \<noteq> None then mounted w else (mounted w)(p \<mapsto> dev))"
proof (cases "GetBlock volCap")
  case None
  with assms obtain fs fs' w1 opts a w2 b where
    1: "run_state (mt_GetDiskFormat (nd_mnt n) dev) w = (Inr fs, w1)"
      "run_state (mt_FormatAndMount (nd_mnt n) dev p fs' opts) w1 = (Inr a, w2)"
      "run_state (mt_Resize (nd_mnt n) dev p) w2 = (Inr b, w')"
    by (auto simp: stage_mount_def Let_def split: option.splits sum.splits
        elim!: then_io_InrE or_fail_InrE)
  from sameD[OF mnt_same(4) 1(1)] FormatAndMount_law[OF 1(2)] sameD[OF mnt_same(5) 1(3)] None
  show ?thesis by simp
qed (use assms in \<open>auto simp: stage_mount_def\<close>)

lemma stage_attach_mounted:
  assumes "run_state (stage_attach n ctx (d_client (nd_d n) h) vid req) w = (Inr (Some u), w')"
  shows "\<exists>dev. mounted w' = (if GetBlock (ns_VolumeCapability req) \<noteq> None then mounted w
    else (mounted w)(ns_StagingTargetPath req \<mapsto> dev))"
proof -
  obtain te w1 st w2 where 1: "run_state (queryLBforTargetEnv n ctx (d_client (nd_d n) h)) w = (Inr te, w1)"
    "run_state (be_Attach (nd_be n) ctx te (rid_uuid vid)) w1 = (st, w2)"
    using assms unfolding stage_attach_def by (elim then_io_InrE) (metis surj_pair)
  then have "st = None" using assms
    by (auto simp: stage_attach_def run_then_io split: option.splits)
  with 1 assms obtain dp w3 dev w4 where
    2: "run_state (nd_getDevicePath n (rid_uuid vid)) w2 = (Inr dp, w3)"
      "run_state (stage_encrypted n vid (ns_Secrets req) dp) w3 = (Inr dev, w4)"
      "run_state (stage_mount n vid (ns_VolumeCapability req) (ns_StagingTargetPath req) dev) w4 = (Inr (Some u), w')"
    by (auto simp: stage_attach_def run_then_io[of "queryLBforTargetEnv _ _ _"] elim!: then_io_InrE)
  have "same mounted (stage_encrypted n vid (ns_Secrets req) dp)"
    unfolding stage_encrypted_def by (intro same_intros encrypt_mounted)
  from sameD[OF this 2(2)] sameD[OF getDevicePath_same 2(1)] sameD[OF remote_same(2) 1(2)] sameD[OF queryLB_same 1(1)]
  show ?thesis using stage_mount_mounted[OF 2(3)] by auto
qed

lemma stage_local_mounted:
  assumes run: "run_state (stage_local n ctx (d_client (nd_d n) h) vid req) w = (Inr (Some u), w')"
  shows "if mounted w (ns_StagingTargetPath req) \<noteq> None then mounted w' = mounted w
    else \<exists>dev. mounted w' = (if GetBlock (ns_VolumeCapability req) \<noteq> None then mounted w
      else (mounted w)(ns_StagingTargetPath req \<mapsto> dev))"
proof -
  let ?p = "ns_StagingTargetPath req"
  obtain b e w1 where i: "run_state (mt_IsMountPoint (nd_mnt n) ?p) w = ((b, e), w1)" by (metis surj_pair)
  then have e: "e = None" using run by (auto simp: stage_local_def Let_def split: option.splits os_err.splits)
  note b = IsMountPoint_law[OF i] and s = sameD[OF mnt_same(1) i]
  show ?thesis
  proof (cases b)
    case True
    obtain x w2 where x: "run_state (mt_GetDeviceNameFromMount (nd_mnt n) ?p) w1 = (x, w2)" by fastforce
    with run i e True have "w' = w2" by (auto simp: stage_local_def Let_def)
    with sameD[OF mnt_same(2) x] b s e True show ?thesis by auto
  next
    case False
    with run i e have "run_state (stage_attach n ctx (d_client (nd_d n) h) vid req) w1 = (Inr (Some u), w')"
      by (simp add: stage_local_def Let_def)
    from stage_attach_mounted[OF this] b s e False show ?thesis by auto
  qed
qed

lemma with_client_InrE:
  assumes "run_state (with_client d ctx eps scheme body) w = (Inr v, w')"
  obtains h w1 w2 where "run_state (GetLBClient d ctx eps scheme) w = (Inr h, w1)"
    "run_state (body (d_client d h)) w1 = (Inr v, w2)" "run_state (pool_PutClient (d_lbclients d) h) w2 = ((), w')"
  using assms by (auto simp: with_client_def PutLBClient_def split: prod.splits sum.splits)

lemma NodeStage_mounted:
  assumes "run_state (NodeStageVolume n ctx req) w = (Inr (Some u), w')"
  shows "if mounted w (ns_StagingTargetPath req) \<noteq> None then mounted w' = mounted w
    else \<exists>dev. mounted w' = (if GetBlock (ns_VolumeCapability req) \<noteq> None then mounted w
      else (mounted w)(ns_StagingTargetPath req \<mapsto> dev))"
proof -
  from assms obtain vid c h w1 w2 w3 e where
    1: "run_state (GetLBClient (nd_d n) c (rid_mgmtEPs vid) (rid_scheme vid)) w = (Inr h, w1)"
      "run_state (lbVolEligible n c (d_client (nd_d n) h) vid) w1 = (Inr e, w2)"
      "run_state (stage_local n c (d_client (nd_d n) h) vid req) w2 = (Inr (Some u), w3)"
      "run_state (pool_PutClient (d_lbclients (nd_d n)) h) w3 = ((), w')"
    by (auto simp: NodeStageVolume_def Let_def split: sum.splits if_splits
        elim!: with_client_InrE then_io_InrE)
  from sameD[OF GetLBClient_same 1(1)] sameD[OF lbVolEligible_same 1(2)] sameD[OF remote_same(8) 1(4)]
  show ?thesis using stage_local_mounted[OF 1(3)] by auto
qed

lemma NodeUnstage_run:
  assumes "run_state (NodeUnstageVolume n ctx req) w = (Inr u, w')"
  shows "mounted w' = (mounted w)(nu_StagingTargetPath req := None) \<and> header w' = header w"
proof -
  from assms obtain vid a w1 b w2 st where
    1: "run_state (unmount_path n (nu_StagingTargetPath req)) w = (Inr a, w1)"
      "run_state (unstage_close n vid) w1 = (Inr b, w2)"
      "run_state (be_Detach (nd_be n) ctx (rid_uuid vid)) w2 = (st, w')"
    by (auto simp: NodeUnstageVolume_def split: sum.splits if_splits prod.splits option.splits
        elim!: then_io_InrE)
  have "same (\<lambda>w. (mounted w, header w)) (unstage_close n vid)"
    unfolding unstage_close_def by (intro same_intros closeEncrypted_same)
  from sameD[OF this 1(2)] unmount_path_run[OF 1(1)] sameD[OF remote_same(3) 1(3)] show ?thesis by simp
qed

text \<open>What publishing mounts.\<close>

lemma publish_fs_run:
  assumes "run_state (nodePublishVolumeForFileSystem n req opts) w = (Inr u, w')"
  shows "mounted w' = (mounted w)(np_TargetPath req \<mapsto> np_StagingTargetPath req)"
proof -
  from assms obtain a w1 where "run_state (os_MkdirAll (nd_os n) (np_TargetPath req)) w = (Inr a, w1)"
    "run_state (mt_Mount (nd_mnt n) (np_StagingTargetPath req) (np_TargetPath req) [] opts) w1 = (Inr u, w')"
    by (auto simp: nodePublishVolumeForFileSystem_def elim!: then_io_InrE or_fail_InrE)
  from sameD[OF os_same(10) this(1)] Mount_law[OF this(2)] show ?thesis by simp
qed

lemma publish_block_run:
  assumes "run_state (nodePublishVolumeForBlock n vid req opts) w = (Inr u, w')"
  shows "\<exists>source w1. run_state (nd_getDevicePath n (rid_uuid vid)) w = (Inr source, w1) \<and>
    mounted w' = (mounted w)(np_TargetPath req \<mapsto> source)"
proof -
  from assms obtain source w1 a w2 where
    1: "run_state (nd_getDevicePath n (rid_uuid vid)) w = (Inr source, w1)"
    and 2: "run_state (if rid_hostCrypto vid \<noteq> [] then then_io (or_fail (Status codes_Internal [])
         (getEncryptedDevicePath (nd_luks n) (rid_uuid vid))) (\<lambda>_. ok ()) else ok ()) w1 = (Inr a, w2)"
    and rest: "run_state (do { m \<leftarrow> MakeFile (nd_os n) (np_TargetPath req);
        (case m of Inl err \<Rightarrow> remove_target n (np_TargetPath req)
         | Inr _ \<Rightarrow> do { r \<leftarrow> mt_Mount (nd_mnt n) source (np_TargetPath req) [] opts;
             (case r of Inl err \<Rightarrow> remove_target n (np_TargetPath req) | Inr _ \<Rightarrow> ok ()) }) }) w2 = (Inr u, w')"
    unfolding nodePublishVolumeForBlock_def Let_def by (elim then_io_InrE or_fail_InrE) blast
  have rm: "run_state (remove_target n p) s \<noteq> (Inr x, s')" for p s x s'
    by (auto simp: remove_target_def split: prod.splits sum.splits)
  obtain m w3 where m: "run_state (MakeFile (nd_os n) (np_TargetPath req)) w2 = (m, w3)" by fastforce
  obtain r w4 where r: "run_state (mt_Mount (nd_mnt n) source (np_TargetPath req) [] opts) w3 = (r, w4)" by fastforce
  have ok: "m = Inr ()" "r = Inr ()" "w' = w4" using rest m r rm by (auto split: sum.splits)
  have e: "same (\<lambda>w. (mounted w, header w)) (if rid_hostCrypto vid \<noteq> [] then then_io (or_fail (Status codes_Internal [])
         (getEncryptedDevicePath (nd_luks n) (rid_uuid vid))) (\<lambda>_. ok ()) else ok ())"
    by (intro same_intros getEncrypted_same)
  have mf: "same view (MakeFile (nd_os n) (np_TargetPath req))"
    unfolding MakeFile_def by (intro same_intros host_same)
  show ?thesis
    using 1 sameD[OF getDevicePath_same 1] sameD[OF e 2] sameD[OF mf m] Mount_law[OF r] ok by auto
qed

lemma publish_local_run:
  assumes run: "run_state (publish_local n vid req opts) w = (Inr u, w')"
  shows "mounted w (np_TargetPath req) \<noteq> None \<and> mounted w' = mounted w \<or>
    (\<exists>w1. mounted w1 = mounted w \<and> run_state (publish_by_type n vid req opts) w1 = (Inr u, w'))"
proof -
  let ?p = "np_TargetPath req"
  obtain s w1 where s: "run_state (os_Stat (nd_os n) ?p) w = (s, w1)" by fastforce
  note s1 = sameD[OF os_same(2) s]
  show ?thesis
  proof (cases s)
    case (Inl e)
    with run s s1 show ?thesis by (auto simp: publish_local_def)
  next
    case (Inr fi)
    obtain b e w2 where i: "run_state (mt_IsMountPoint (nd_mnt n) ?p) w1 = ((b, e), w2)" by (metis surj_pair)
    note i2 = sameD[OF mnt_same(1) i] IsMountPoint_law[OF i]
    have g: "same view (getDeviceNameFromMount n ?p)"
      unfolding getDeviceNameFromMount_def by (auto intro!: same_intros host_same split: option.split)
    obtain x w3 where x: "run_state (getDeviceNameFromMount n ?p) w2 = (x, w3)" by fastforce
    from run s Inr i x sameD[OF g x] i2 s1 show ?thesis
      by (auto simp: publish_local_def split: if_splits)
  qed
qed

lemma NodePublish_run:
  assumes "run_state (NodePublishVolume n req) w = (Inr u, w')"
  obtains (already) "mounted w (np_TargetPath req) \<noteq> None" "mounted w' = mounted w"
  | (fs) m where "Option.bind (np_VolumeCapability req) cap_AccessType = Some (AT_Mount m)"
      "mounted w' = (mounted w)(np_TargetPath req \<mapsto> np_StagingTargetPath req)"
  | (block) b vid source w1 w2 where "Option.bind (np_VolumeCapability req) cap_AccessType = Some (AT_Block b)"
      "parseCSIResourceID (d_guuid (nd_d n)) (np_VolumeId req) = Inr vid"
      "run_state (nd_getDevicePath n (rid_uuid vid)) w1 = (Inr source, w2)"
      "mounted w' = (mounted w)(np_TargetPath req \<mapsto> source)"
proof -
  from assms obtain vid opts where vid: "parseCSIResourceID (d_guuid (nd_d n)) (np_VolumeId req) = Inr vid"
    and run: "run_state (publish_local n vid req opts) w = (Inr u, w')"
    by (auto simp: NodePublishVolume_def parseEinval_Inr split: sum.splits if_splits)
  from publish_local_run[OF run] show thesis
  proof (elim disjE exE conjE)
    fix w1 assume w1: "mounted w1 = mounted w" and p: "run_state (publish_by_type n vid req opts) w1 = (Inr u, w')"
    show thesis
    proof (cases "Option.bind (np_VolumeCapability req) cap_AccessType")
      case None
      with p show thesis by (simp add: publish_by_type_def)
    next
      case (Some t)
      show thesis
      proof (cases t)
        case (AT_Mount m)
        with Some p publish_fs_run[of req opts w1 u w'] w1 show thesis
          by (intro fs) (auto simp: publish_by_type_def)
      next
        case (AT_Block b)
        with Some p have "run_state (nodePublishVolumeForBlock n vid req opts) w1 = (Inr u, w')"
          by (simp add: publish_by_type_def)
        from publish_block_run[OF this] w1 Some AT_Block vid show thesis by (auto intro: block)
      qed
    qed
  qed (rule already)
qed

end

end
