(* ===== verification/Sim_Host.thy ===== *)
theory Sim_Host
  imports Node_Spec
begin

text \<open>
  A host that has the properties the development assumes of one: files, symbolic links, mounts,
  file systems and encryption headers as maps, a \<^verbatim>\<open>cryptsetup\<close> that keeps the passphrase as the
  header. The backend of its node is the discovery-client backend of the development on these files.
  It shows that the assumptions of \<open>host_files\<close> and \<open>node_host\<close> can hold together, and the witnesses of
  the node service run on it.
\<close>

record sim_world =
  sw_files :: "string \<rightharpoonup> string"
  sw_links :: "string \<rightharpoonup> string"
  sw_mounts :: "string \<rightharpoonup> string"
  sw_disks :: "string \<Rightarrow> string"
  sw_headers :: "string \<rightharpoonup> string"
  sw_open :: "string list"
  sw_temp :: nat
  sw_dsc :: dsc_state

text \<open>A query that leaves the world alone, and an update.\<close>

definition ask :: "(sim_world \<Rightarrow> 'a) \<Rightarrow> (sim_world, 'a) state" where
  "ask f = State (\<lambda>w. (f w, w))"

definition upd :: "(sim_world \<Rightarrow> sim_world) \<Rightarrow> (sim_world, 'e, unit) io" where
  "upd f = State (\<lambda>w. (Inr (), f w))"

lemma run_ask [simp]: "run_state (ask f) w = (f w, w)"
  by (simp add: ask_def)

lemma run_upd [simp]: "run_state (upd f) w = (Inr (), f w)"
  by (simp add: upd_def)

definition found :: "'a option \<Rightarrow> os_err + 'a" where
  "found x = (case x of Some a \<Rightarrow> Inr a | None \<Rightarrow> Inl os_NotExist)"

definition sim_stat :: "string \<Rightarrow> sim_world \<Rightarrow> os_err + FileInfo" where
  "sim_stat p w =
     (if p = defaultDSCConfigPath \<or> sw_mounts w p \<noteq> None then Inr \<lparr>fi_IsDir = True, fi_IsDevice = False\<rparr>
      else if p \<in> set (sw_open w) then Inr \<lparr>fi_IsDir = False, fi_IsDevice = True\<rparr>
      else if sw_files w p \<noteq> None then Inr \<lparr>fi_IsDir = False, fi_IsDevice = False\<rparr>
      else Inl os_NotExist)"

definition sim_remove :: "string \<Rightarrow> (sim_world, os_err, unit) io" where
  "sim_remove p = State (\<lambda>w.
     if sw_files w p = None then (Inl os_NotExist, w) else (Inr (), w\<lparr>sw_files := (sw_files w)(p := None)\<rparr>))"

definition sim_temp :: "string \<Rightarrow> string \<Rightarrow> (sim_world, os_err, string) io" where
  "sim_temp d p = State (\<lambda>w.
     let t = d @ ''/'' @ p @ FormatUint10 (sw_temp w) in
     if sw_files w t \<noteq> None then (Inl os_Exist, w\<lparr>sw_temp := Suc (sw_temp w)\<rparr>)
     else (Inr t, w\<lparr>sw_files := (sw_files w)(t \<mapsto> []), sw_temp := Suc (sw_temp w)\<rparr>))"

definition sim_write :: "string \<Rightarrow> string \<Rightarrow> (sim_world, os_err, unit) io" where
  "sim_write t c = State (\<lambda>w.
     case sw_files w t of
       None \<Rightarrow> (Inl os_OtherErr, w)
     | Some old \<Rightarrow> (Inr (), w\<lparr>sw_files := (sw_files w)(t \<mapsto> old @ c)\<rparr>))"

definition sim_rename :: "string \<Rightarrow> string \<Rightarrow> (sim_world, os_err, unit) io" where
  "sim_rename a b = State (\<lambda>w.
     if sw_files w a = None then (Inl os_NotExist, w)
     else (Inr (), w\<lparr>sw_files := (sw_files w)(b := sw_files w a, a := None)\<rparr>))"

definition is_format :: "string list \<Rightarrow> bool" where
  "is_format args \<longleftrightarrow> (\<exists>m dev. args = luksFormat_args m dev)"

definition sim_exec :: "string \<Rightarrow> string list \<Rightarrow> string \<Rightarrow> (sim_world, string \<times> exec_err option) state" where
  "sim_exec c args stdin = State (\<lambda>w.
     if is_format args then (([], None), w\<lparr>sw_headers := (sw_headers w)(last args \<mapsto> stdin)\<rparr>)
     else
       (case args of
          [cmd, dev] \<Rightarrow>
            if cmd = ''isLuks'' then (([], if sw_headers w dev = None then Some (ExitError 1) else None), w)
            else if cmd = ''status'' then
              ((if dev \<in> set (sw_open w) then dev @ '' is active.'' else [], None), w)
            else if cmd = ''luksClose'' then (([], None), w\<lparr>sw_open := removeAll dev (sw_open w)\<rparr>)
            else (([], None), w)
        | cmd # dev # mapper # _ \<Rightarrow>
            if cmd = ''luksOpen'' then
              if sw_headers w dev = Some stdin
              then (([], None), w\<lparr>sw_open := (diskMapperPath @ mapper) # sw_open w\<rparr>)
              else ((''No key available'', Some (ExitError 2)), w)
            else (([], None), w)
        | _ \<Rightarrow> (([], None), w)))"

definition sim_os :: "sim_world OS" where
  "sim_os =
     \<lparr>os_ReadFile = (\<lambda>p. ask (\<lambda>w. found (sw_files w p))),
      os_Stat = (\<lambda>p. ask (sim_stat p)),
      os_EvalSymlinks = (\<lambda>p. ask (\<lambda>w. found (sw_links w p))),
      os_Abs = (\<lambda>p. ask (\<lambda>w. Inr p)), os_Glob = (\<lambda>p. ask (\<lambda>w. Inr [])),
      os_OpenCreate = (\<lambda>p. upd (\<lambda>w. if sw_files w p = None then w\<lparr>sw_files := (sw_files w)(p \<mapsto> [])\<rparr> else w)),
      os_CloseFile = (\<lambda>p. ask (\<lambda>w. Inr ())),
      os_Remove = sim_remove,
      os_RemoveAll = (\<lambda>p. upd (\<lambda>w. w\<lparr>sw_files := (sw_files w)(p := None)\<rparr>)),
      os_MkdirAll = (\<lambda>p. ask (\<lambda>w. Inr ())),
      os_CreateTemp = sim_temp, os_WriteString = sim_write, os_Rename = sim_rename,
      os_Exec = sim_exec,
      os_Statfs = (\<lambda>p. ask (\<lambda>w. Inl os_OtherErr))\<rparr>"

text \<open>What \<^verbatim>\<open>blkid\<close> says of a device: an encryption header counts as a signature. A device is formatted
  when it has another signature than the wanted one, and loses its header.\<close>

definition sim_format :: "sim_world \<Rightarrow> string \<Rightarrow> string" where
  "sim_format w dev = (if sw_disks w dev = [] \<and> sw_headers w dev \<noteq> None then ''crypto_LUKS'' else sw_disks w dev)"

definition sim_mkfs :: "string \<Rightarrow> string \<Rightarrow> sim_world \<Rightarrow> sim_world" where
  "sim_mkfs dev fs w = (if sim_format w dev = fs then w
     else w\<lparr>sw_disks := (sw_disks w)(dev := fs), sw_headers := (sw_headers w)(dev := None)\<rparr>)"

definition sim_mounter :: "sim_world Mounter" where
  "sim_mounter =
     \<lparr>mt_IsMountPoint = (\<lambda>p. ask (\<lambda>w. (sw_mounts w p \<noteq> None, None))),
      mt_IsLikelyNotMountPoint = (\<lambda>p. ask (\<lambda>w. Inr (sw_mounts w p = None))),
      mt_GetDeviceNameFromMount = (\<lambda>p. ask (\<lambda>w. found (sw_mounts w p))),
      mt_ListProcMounts = (\<lambda>p. ask (\<lambda>w. Inr [])),
      mt_Mount = (\<lambda>src p fs opts. upd (\<lambda>w. w\<lparr>sw_mounts := (sw_mounts w)(p \<mapsto> src)\<rparr>)),
      mt_Unmount = (\<lambda>p. State (\<lambda>w. if sw_mounts w p = None then (Inl os_OtherErr, w)
         else (Inr (), w\<lparr>sw_mounts := (sw_mounts w)(p := None)\<rparr>))),
      mt_GetDiskFormat = (\<lambda>dev. ask (\<lambda>w. Inr (sim_format w dev))),
      mt_FormatAndMount = (\<lambda>dev p fs opts. upd (\<lambda>w.
         (sim_mkfs dev fs w)\<lparr>sw_mounts := (sw_mounts w)(p \<mapsto> dev)\<rparr>)),
      mt_Resize = (\<lambda>dev p. ask (\<lambda>w. Inr False))\<rparr>"

definition sim_env :: "sim_world env" where
  "sim_env = \<lparr>env_Now = ask (\<lambda>w. 0), env_Sleep = (\<lambda>t. ask (\<lambda>w. ())), env_CtxErr = (\<lambda>ctx. ask (\<lambda>w. None))\<rparr>"

text \<open>The backend is the discovery-client one, with its state kept in the world.\<close>

definition on_dsc :: "(sim_world \<times> dsc_state, 'a) state \<Rightarrow> (sim_world, 'a) state" where
  "on_dsc m = State (\<lambda>w. let (a, (w', st)) = run_state m (w, sw_dsc w) in (a, w'\<lparr>sw_dsc := st\<rparr>))"

definition sim_dsc :: dsc_Backend where
  "sim_dsc = \<lparr>dsc_hostNQN = nodeIDToHostNQN ''n1'', dsc_dscCfgPath = defaultDSCConfigPath\<rparr>"

definition sim_backend :: "sim_world Backend" where
  "sim_backend = (let be = dsc_Backend_of sim_env sim_os hex_guuid sim_dsc in
     \<lparr>be_Type = be_Type be, be_LBVolEligible = (\<lambda>ctx vol. on_dsc (be_LBVolEligible be ctx vol)),
      be_Attach = (\<lambda>ctx tgtEnv u. on_dsc (be_Attach be ctx tgtEnv u)),
      be_Detach = (\<lambda>ctx u. on_dsc (be_Detach be ctx u))\<rparr>)"

text \<open>A cluster with one volume that is published to the node \<open>n1\<close>.\<close>

definition sim_volume :: Volume where
  "sim_volume = \<lparr>vol_Name = ''v'', vol_UUID = 5, vol_ReplicaCount = 3, vol_Capacity = 4294967296,
     vol_LogicalUsedStorage = 0, vol_Compression = False, vol_SnapshotUUID = 0, vol_QosPolicyName = [],
     vol_ACL = [nodeIDToHostNQN ''n1''], vol_State = VolumeAvailable, vol_Protection = VolumeProtected,
     vol_ETag = ''1'', vol_ProjectName = ''p''\<rparr>"

definition sim_cluster :: ClusterInfo where
  "sim_cluster = \<lparr>ci_UUID = 1, ci_SubsysNQN = ''nqn.s'', ci_CurrMaxReplicas = 3, ci_MaxReplicas = 3,
     ci_DiscoveryEndpoints = [''10.0.0.1:80''], ci_ApiEndpoints = [], ci_NvmeEndpoints = [''10.0.0.1:44'']\<rparr>"

definition sim_client :: "sim_world Client" where
  "sim_client = \<lparr>cl_Close = ask (\<lambda>w. ()), cl_ID = [], cl_Targets = [], cl_RemoteOk = (\<lambda>_. ok ()),
     cl_GetCluster = (\<lambda>_. fail mkEagain), cl_GetClusterInfo = (\<lambda>_. ok sim_cluster),
     cl_ListNodes = (\<lambda>_. fail mkEagain), cl_CreateVolume = (\<lambda>_ _ _ _ _ _ _ _ _ _. fail mkEagain),
     cl_DeleteVolume = (\<lambda>_ _ _ _. fail mkEagain), cl_GetVolume = (\<lambda>_ _ _. ok sim_volume),
     cl_GetVolumeByName = (\<lambda>_ _ _. fail mkEagain), cl_UpdateVolume = (\<lambda>_ _ _ _. fail mkEagain),
     cl_CreateSnapshot = (\<lambda>_ _ _ _ _ _. fail mkEagain), cl_DeleteSnapshot = (\<lambda>_ _ _ _. fail mkEagain),
     cl_GetSnapshot = (\<lambda>_ _ _. fail mkEagain), cl_GetSnapshotByName = (\<lambda>_ _ _. fail mkEagain)\<rparr>"

definition sim_driver :: "sim_world Driver" where
  "sim_driver = \<lparr>d_sockPath = ''/s'', d_jwtPath = [], d_luksCfgFile = ''/l'', d_nodeID = ''n1'',
     d_hostNQN = nodeIDToHostNQN ''n1'', d_defaultFS = [],
     d_lbclients = \<lparr>pool_GetClient = (\<lambda>_ _ _. ok 0), pool_PutClient = (\<lambda>_. State_Monad.return ())\<rparr>,
     d_client = (\<lambda>_. sim_client), d_transport = ''tcp'', d_squelchPanics = False, d_jwt = [],
     d_rwx = False, d_guuid = hex_guuid\<rparr>"

definition sim_node :: "sim_world NodeSvc" where
  "sim_node = \<lparr>nd_d = sim_driver, nd_env = sim_env, nd_os = sim_os, nd_mnt = sim_mounter,
     nd_be = sim_backend, nd_isIP = (\<lambda>_. True), nd_yaml = (\<lambda>_ _. None)\<rparr>"

subsection \<open>The laws hold\<close>

lemma same_ask [simp]: "same f (ask g)"
  by (simp add: same_def)

interpretation sim_files: host_files sim_env sim_os sw_files
  by unfold_locales
    (auto simp: sim_os_def sim_env_def sim_temp_def sim_write_def sim_rename_def sim_remove_def Let_def
      split: if_splits option.splits)

lemma same_on_dsc:
  "same (f \<circ> fst) m \<Longrightarrow> (\<And>w st. f (w\<lparr>sw_dsc := st\<rparr>) = f w) \<Longrightarrow> same f (on_dsc m)"
  by (fastforce simp: same_def on_dsc_def split: prod.splits)

lemma sim_backend_same:
  "same (\<lambda>w. (sw_mounts w, sim_format w, sw_headers w)) (be_LBVolEligible sim_backend ctx vol)"
  "same (\<lambda>w. (sw_mounts w, sim_format w, sw_headers w)) (be_Attach sim_backend ctx tgtEnv u)"
  "same (\<lambda>w. (sw_mounts w, sim_format w, sw_headers w)) (be_Detach sim_backend ctx u)"
  by (auto simp: sim_backend_def dsc_Backend_of_def Let_def intro!: same_on_dsc dsc_same same_return)
    (auto simp: same_def sim_os_def sim_env_def sim_temp_def sim_write_def sim_rename_def sim_remove_def
      sim_format_def fun_eq_iff Let_def split: if_splits option.splits)

lemma sim_exec_views:
  "run_state (sim_exec c args stdin) w = (r, w') \<Longrightarrow>
     sw_mounts w' = sw_mounts w \<and>
     sw_headers w' = (if is_format args then (sw_headers w)(last args \<mapsto> stdin) else sw_headers w)"
  by (auto simp: sim_exec_def split: if_splits list.splits)

lemma is_format_args [simp]: "is_format (luksFormat_args m dev)" "last (luksFormat_args m dev) = dev"
  by (auto simp: is_format_def luksFormat_args_def)

lemma not_is_format [simp]: "\<not> is_format [a, b]" "\<not> is_format (luksOpen_args d f)"
  by (auto simp: is_format_def luksFormat_args_def luksOpen_args_def)

lemmas sim_defs = sim_node_def sim_os_def sim_mounter_def sim_env_def sim_driver_def
  sim_client_def

interpretation sim: node_host sim_node sw_mounts sim_format sw_headers
proof (unfold_locales, goal_cases)
  case (17 ctx vol)
  then show ?case by (simp add: sim_node_def sim_backend_same)
next
  case (18 ctx tgtEnv u)
  then show ?case by (simp add: sim_node_def sim_backend_same)
next
  case (19 ctx u)
  then show ?case by (simp add: sim_node_def sim_backend_same)
next
  case (29 dev p fs opts w r w')
  then have "w' = (sim_mkfs dev fs w)\<lparr>sw_mounts := (sw_mounts w)(p \<mapsto> dev)\<rparr>" "r = Inr ()" by (simp_all add: sim_defs)
  then show ?case by (auto simp: sim_mkfs_def sim_format_def)
next
  case (35 m dev pp w x w')
  then show ?case by (auto simp: sim_node_def sim_os_def dest!: sim_exec_views)
next
  case (36 dev w out w')
  then show ?case by (auto simp: sim_node_def sim_os_def sim_exec_def split: if_splits)
qed (auto simp: sim_defs same_def sim_remove_def sim_format_def fun_eq_iff dest!: sim_exec_views split: if_splits)

end
