(* ===== verification/Controller_Spec.thy ===== *)
theory Controller_Spec
  imports Controller
begin

text \<open>
  What the controller service guarantees. The lemmas on handler bodies are proved once over
  the client contracts \<open>lb_client\<close> and \<open>lb_evidence\<close>; the properties state them for a driver whose pool hands
  out gRPC clients (\<open>d_client d h = lbgrpc_Client (g h)\<close> for every handle), about whose
  remote service nothing is assumed.
\<close>

subsection \<open>Capacity arithmetic\<close>

lemma sint_of_int64:
  "- (2 ^ 63) \<le> k \<Longrightarrow> k < 2 ^ 63 \<Longrightarrow> sint (word_of_int k :: int64) = k"
  by (simp add: signed_of_int signed_take_bit_int_eq_self)

lemma sint_GiB: "sint volCapGranularity = 2 ^ 30" "sint minVolCap = 2 ^ 30"
  by (simp_all add: volCapGranularity_def minVolCap_def)

lemma int64_bounds: "sint (w :: int64) < 2 ^ 63" "- (2 ^ 63) \<le> sint (w :: int64)"
  using sint_lt [of w] sint_ge [of w] by simp_all

text \<open>Rounding up to the granularity, as long as the sum does not overflow.\<close>

lemma round_up_value:
  fixes m :: int64
  assumes "0 \<le> sint m" and "sint m + 2 ^ 30 - 1 < 2 ^ 63"
  defines "c \<equiv> quo64 (m + volCapGranularity - 1) volCapGranularity * volCapGranularity"
  shows "sint c = (sint m + 2 ^ 30 - 1) div 2 ^ 30 * 2 ^ 30"
proof -
  define k where "k = (sint m + 2 ^ 30 - 1) div 2 ^ 30"
  have m: "m + volCapGranularity - 1 = word_of_int (sint m + 2 ^ 30 - 1)"
    by (simp add: volCapGranularity_def)
  have k: "0 \<le> k" "k * 2 ^ 30 < 2 ^ 63"
    using assms(1,2) by (simp_all add: k_def)
  have "sint (m + volCapGranularity - 1) = sint m + 2 ^ 30 - 1"
    unfolding m using assms(1,2) by (intro sint_of_int64) simp_all
  then have "quo64 (m + volCapGranularity - 1) volCapGranularity = word_of_int k"
    using assms(1) by (simp add: quo64_def sint_GiB signed_divide_int_def k_def)
  then have "c = word_of_int (k * 2 ^ 30)"
    by (simp add: c_def volCapGranularity_def)
  then show ?thesis
    using k sint_of_int64 [of "k * 2 ^ 30"] by (simp add: k_def)
qed

lemma getReqCapacity_Inr:
  assumes "getReqCapacity (Some cr) = Inr c" and "sint (cr_RequiredBytes cr) + 2 ^ 30 - 1 < 2 ^ 63"
  shows "sint c = (sint (cr_RequiredBytes cr) + 2 ^ 30 - 1) div 2 ^ 30 * 2 ^ 30"
    and "0 \<le> sint (cr_RequiredBytes cr)"
    and "cr_LimitBytes cr \<noteq> 0 \<Longrightarrow> sint c \<le> sint (cr_LimitBytes cr)"
  using assms round_up_value [of 0, simplified]
  by (auto simp: getReqCapacity_def Let_def round_up_value split: if_splits)

subsection \<open>Properties of the capacity request\<close>

text \<open>
  C32. Away from the overflow at the top of the \<open>int64\<close> range, an accepted capacity range
  yields the smallest multiple of 1 GiB that covers \<open>required_bytes\<close>, and never more than a
  given \<open>limit_bytes\<close>.
\<close>

theorem getReqCapacity_rounds:
  assumes "getReqCapacity (Some cr) = Inr c" and "sint (cr_RequiredBytes cr) + 2 ^ 30 - 1 < 2 ^ 63"
  shows "2 ^ 30 dvd sint c \<and> sint (cr_RequiredBytes cr) \<le> sint c \<and>
    sint c < sint (cr_RequiredBytes cr) + 2 ^ 30 \<and>
    (cr_LimitBytes cr \<noteq> 0 \<longrightarrow> sint c \<le> sint (cr_LimitBytes cr))"
proof -
  define R where "R = sint (cr_RequiredBytes cr)"
  have c: "sint c = (R + 2 ^ 30 - 1) div 2 ^ 30 * 2 ^ 30"
    using getReqCapacity_Inr(1) [OF assms] by (simp add: R_def)
  have "R \<le> sint c" "sint c < R + 2 ^ 30"
    unfolding c by (simp_all add: minus_mod_eq_div_mult [symmetric])
  then show ?thesis
    using getReqCapacity_Inr(3) [OF assms] by (simp add: R_def c)
qed

lemma unat_nonneg: "0 \<le> sint (w :: int64) \<Longrightarrow> unat w < 2 ^ 63"
proof -
  assume "0 \<le> sint w"
  then have "uint w = sint w"
    using int64_bounds(1) [of w] by (simp add: uint_sint take_bit_int_eq_self)
  then show ?thesis using int64_bounds(1) [of w] by (simp add: nat_less_iff flip: nat_uint_eq)
qed

text \<open>The sum that overflows: it wraps to the bottom of the range, and the quotient is cut towards zero.\<close>

lemma round_up_wraps:
  fixes m :: int64
  assumes "2 ^ 63 - 2 ^ 30 < sint m"
  shows "quo64 (m + volCapGranularity - 1) volCapGranularity * volCapGranularity =
    (if sint m = 2 ^ 63 - 2 ^ 30 + 1 then 2 ^ 63 else 2 ^ 63 + 2 ^ 30)"
proof -
  define k where "k = sint m + 2 ^ 30 - 1 - 2 ^ 63"
  have k: "0 \<le> k" "k < 2 ^ 30 - 1" "k = 0 \<longleftrightarrow> sint m = 2 ^ 63 - 2 ^ 30 + 1"
    using assms int64_bounds [of m] by (auto simp: k_def)
  have "m + volCapGranularity - 1 = word_of_int (sint m + 2 ^ 30 - 1)"
    by (simp add: volCapGranularity_def)
  also have "\<dots> = word_of_int (k - 2 ^ 63)"
    by (simp add: k_def)
  finally have eq: "m + volCapGranularity - 1 = word_of_int (k - 2 ^ 63)" .
  have "sint (m + volCapGranularity - 1) = k - 2 ^ 63"
    unfolding eq by (rule sint_of_int64) (use k in simp_all)
  then have "quo64 (m + volCapGranularity - 1) volCapGranularity = word_of_int (- ((2 ^ 63 - k) div 2 ^ 30))"
    using k by (simp add: quo64_def sint_GiB signed_divide_int_def)
  moreover have "(2 ^ 63 - k) div 2 ^ 30 = (if k = 0 then 2 ^ 33 else 2 ^ 33 - 1)"
    using k(1,2) by (auto simp: int_div_pos_eq)
  ultimately show ?thesis using k(3) by (auto simp: volCapGranularity_def)
qed

text \<open>
  C33. Two kinds of ranges that the arithmetic does not get right. Every required size within 1 GiB of
  the top of \<open>int64\<close>, with no limit or with one that is not below it, is accepted with a capacity that
  is negative as an \<open>int64\<close>, so that it passes the limit check, and is at least \<open>2 ^ 63\<close> as the
  \<open>uint64\<close> it is used as, above any limit. Every range with only a limit (of the minimum
  volume size or more) is accepted with a capacity of 0, below the minimum volume size.
\<close>

theorem getReqCapacity_flaws:
  "(2 ^ 63 - 2 ^ 30 < sint (cr_RequiredBytes cr) \<and>
      (cr_LimitBytes cr = 0 \<or> sint (cr_RequiredBytes cr) \<le> sint (cr_LimitBytes cr)) \<longrightarrow>
    (\<exists>c. getReqCapacity (Some cr) = Inr c \<and> sint c < 0 \<and> 2 ^ 63 \<le> unat c \<and> cr_LimitBytes cr < c)) \<and>
   (cr_RequiredBytes cr = 0 \<and> sint minVolCap \<le> sint (cr_LimitBytes cr) \<longrightarrow>
    getReqCapacity (Some cr) = Inr 0 \<and> 0 < sint minVolCap)"
proof (intro conjI impI)
  assume top: "2 ^ 63 - 2 ^ 30 < sint (cr_RequiredBytes cr) \<and>
    (cr_LimitBytes cr = 0 \<or> sint (cr_RequiredBytes cr) \<le> sint (cr_LimitBytes cr))"
  define c :: int64 where
    "c = (if sint (cr_RequiredBytes cr) = 2 ^ 63 - 2 ^ 30 + 1 then 2 ^ 63 else 2 ^ 63 + 2 ^ 30)"
  have c: "sint c < 0" "2 ^ 63 \<le> unat c" by (simp_all add: c_def)
  have lim: "0 \<le> sint (cr_LimitBytes cr)" using top by auto
  have "getReqCapacity (Some cr) = Inr c"
    using top lim c(1) round_up_wraps [of "cr_RequiredBytes cr", folded c_def]
    by (auto simp: getReqCapacity_def Let_def sint_GiB)
  moreover have "cr_LimitBytes cr < c"
    unfolding word_less_nat_alt using unat_nonneg [OF lim] c(2) by (rule order_less_le_trans)
  ultimately show "\<exists>c. getReqCapacity (Some cr) = Inr c \<and> sint c < 0 \<and> 2 ^ 63 \<le> unat c \<and> cr_LimitBytes cr < c"
    using c by blast
next
  assume lim: "cr_RequiredBytes cr = 0 \<and> sint minVolCap \<le> sint (cr_LimitBytes cr)"
  then have "cr_LimitBytes cr \<noteq> 0" by (auto simp: sint_GiB)
  with lim show "getReqCapacity (Some cr) = Inr 0"
    by (auto simp: getReqCapacity_def Let_def sint_GiB quo64_def volCapGranularity_def signed_divide_int_def)
  show "0 < sint minVolCap" by (simp add: sint_GiB)
qed

theorem getReqCapacity_flaws_witness:
  "(\<exists>c. getReqCapacity (Some \<lparr>cr_RequiredBytes = 2 ^ 63 - 5, cr_LimitBytes = 2 ^ 63 - 1\<rparr>) = Inr c \<and>
     sint c < 0 \<and> 2 ^ 63 - 1 < c) \<and>
   getReqCapacity (Some \<lparr>cr_RequiredBytes = 0, cr_LimitBytes = 2 ^ 40\<rparr>) = Inr 0"
  using getReqCapacity_flaws [of "\<lparr>cr_RequiredBytes = 2 ^ 63 - 5, cr_LimitBytes = 2 ^ 63 - 1\<rparr>"]
    getReqCapacity_flaws [of "\<lparr>cr_RequiredBytes = 0, cr_LimitBytes = 2 ^ 40\<rparr>"]
  by (auto simp: sint_GiB)

theorem getReqCapacity_rounds_witness:
  "\<exists>c. getReqCapacity (Some \<lparr>cr_RequiredBytes = 5 * 10 ^ 8 + 2 ^ 30, cr_LimitBytes = 0\<rparr>) = Inr c \<and>
     2 ^ 30 dvd sint c \<and> 5 * 10 ^ 8 + 2 ^ 30 \<le> sint c"
proof -
  have run: "getReqCapacity (Some \<lparr>cr_RequiredBytes = 5 * 10 ^ 8 + 2 ^ 30, cr_LimitBytes = 0\<rparr>)
      = Inr (2 ^ 31)"
    by (simp add: getReqCapacity_def quo64_def minVolCap_def volCapGranularity_def
        signed_divide_int_def)
  show ?thesis using getReqCapacity_rounds [OF run] run by simp
qed

subsection \<open>Handlers and the client they borrow\<close>

lemma with_client_Inr:
  assumes "run_state (with_client d ctx eps scheme body) s = (Inr a, t)"
  obtains h s1 s2 where "run_state (GetLBClient d ctx eps scheme) s = (Inr h, s1)"
    and "run_state (body (d_client d h)) s1 = (Inr a, s2)"
    and "run_state (PutLBClient d h) s2 = ((), t)"
  using assms unfolding with_client_def by (auto split: prod.splits sum.splits)

text \<open>
  \<open>quiet c I\<close>: reading, sleeping, looking at the clock and the version handshake of the
  client \<open>c\<close> keep \<open>I\<close>. \<open>quiet_pool d I\<close>: so do borrowing and returning clients.
\<close>

definition quiet :: "'s GrpcClient \<Rightarrow> ('s \<Rightarrow> bool) \<Rightarrow> bool" where
  "quiet c I \<longleftrightarrow> (\<forall>t. keeps (env_Sleep (gc_env c) t) I) \<and> keeps (env_Now (gc_env c)) I \<and>
     (\<forall>ctx. keeps (env_CtxErr (gc_env c) ctx) I) \<and>
     (\<forall>ctx req. keeps (api_GetVolume (gc_clnt c) ctx req) I) \<and>
     (\<forall>ctx. keeps (api_GetVersion (gc_clnt c) ctx) I)"

definition quiet_pool :: "'s Driver \<Rightarrow> ('s \<Rightarrow> bool) \<Rightarrow> bool" where
  "quiet_pool d I \<longleftrightarrow> (\<forall>ctx eps scheme. keeps (pool_GetClient (d_lbclients d) ctx eps scheme) I) \<and>
     (\<forall>h. keeps (pool_PutClient (d_lbclients d) h) I)"

lemma keeps_with_client:
  assumes "quiet_pool d I" and "\<And>h. d_client d h = lbgrpc_Client (g h)" and "\<And>h. quiet (g h) I"
    and "\<And>h. keeps (body (lbgrpc_Client (g h))) I"
  shows "keeps (with_client d ctx eps scheme body) I"
proof -
  have "keeps (Client_RemoteOk (g h) ctx) I" for h
    using assms(3) [of h] unfolding Client_RemoteOk_def quiet_def
    by (auto intro!: keeps_bind split: sum.splits)
  then have "keeps (GetLBClient d ctx eps scheme) I"
    using assms(1,2) unfolding GetLBClient_def quiet_pool_def
    by (auto intro!: keeps_bind split: sum.splits option.splits simp: lbgrpc_Client_def)
  then show ?thesis
    using assms(1,2,4) unfolding with_client_def PutLBClient_def quiet_pool_def
    by (auto intro!: keeps_bind split: sum.splits)
qed

lemma keeps_UpdateVolume:
  assumes "quiet c I"
    and "\<And>v u ctx' req. hook v = Inr (Some u) \<Longrightarrow>
      (\<exists>ctx0 s0 t0. run_state (Client_GetVolume c ctx0 uuid proj) s0 = (Inr v, t0)) \<Longrightarrow>
      mkUpdateVolumeRequest c uuid proj u = Some req \<Longrightarrow>
      ctx_md ctx' = ctx_md ctx @ [(ifMatchHeader, vol_ETag v)] \<Longrightarrow>
      keeps (api_UpdateVolume (gc_clnt c) ctx' req) I"
  shows "keeps (cl_UpdateVolume (lbgrpc_Client c) ctx uuid proj hook) I"
proof -
  have q: "\<And>t. keeps (env_Sleep (gc_env c) t) I" "keeps (env_Now (gc_env c)) I"
    "\<And>ctx. keeps (env_CtxErr (gc_env c) ctx) I"
    "\<And>ctx req. keeps (api_GetVolume (gc_clnt c) ctx req) I"
    using assms(1) by (auto simp: quiet_def)
  show ?thesis
    unfolding lbgrpc_Client_def Client.select_convs
    by (rule Client_UpdateVolume_keeps [OF q]) (rule assms(2))
qed

subsection \<open>Publishing and unpublishing\<close>

lemma UpdateVolume_seen:
  assumes "run_state (cl_UpdateVolume (lbgrpc_Client c) ctx uuid proj hook) s = (Inr v, t)"
  shows "no_update (hook v) \<and> vol_UUID v = uuid \<and>
    (\<exists>s' t' ctx'. run_state (Client_GetVolume c ctx' uuid proj) s' = (Inr v, t'))"
  using Client_UpdateVolume_Inr [of c ctx uuid proj hook s v t] assms
  by (simp add: lbgrpc_Client_def)

lemma publish_body:
  assumes "run_state (if rwx then doPublishVolumeRWX clnt ctx vid n
      else doPublishVolumeRWO clnt ctx vid n) s = (Inr (), t)"
  shows "\<exists>v hook. run_state (cl_UpdateVolume clnt ctx (rid_uuid vid) (rid_projName vid) hook) s = (Inr v, t) \<and>
    (if rwx then nodeIDToHostNQN n \<in> set (vol_ACL v) else vol_ACL v = [nodeIDToHostNQN n])"
proof -
  have one: "length xs = Suc 0 \<Longrightarrow> xs ! 0 = x \<Longrightarrow> xs = [x]" for xs and x :: string
    by (cases xs) auto
  show ?thesis
    using assms
    by (auto simp: doPublishVolumeRWX_def doPublishVolumeRWO_def Let_def one
        split: if_splits prod.splits sum.splits)
qed

lemma unpublish_hooks_done:
  "no_update (unpublishRWOHook ace v) \<Longrightarrow> ace \<noteq> ACLAllowNone \<Longrightarrow> ace \<notin> set (vol_ACL v)"
  "no_update (unpublishRWXHook ace v) \<Longrightarrow> ace \<noteq> ACLAllowNone \<Longrightarrow> ace \<notin> set (vol_ACL v)"
proof -
  have one: "length xs = Suc 0 \<Longrightarrow> x \<in> set xs \<longleftrightarrow> xs ! 0 = x" for xs and x :: string
    by (cases xs) auto
  show "no_update (unpublishRWOHook ace v) \<Longrightarrow> ace \<noteq> ACLAllowNone \<Longrightarrow> ace \<notin> set (vol_ACL v)"
    by (cases "length (vol_ACL v)" rule: nat.exhaust)
       (auto simp: unpublishRWOHook_def no_update_def Let_def one split: if_splits)
  show "no_update (unpublishRWXHook ace v) \<Longrightarrow> ace \<noteq> ACLAllowNone \<Longrightarrow> ace \<notin> set (vol_ACL v)"
    by (auto simp: unpublishRWXHook_def no_update_def Let_def one split: if_splits)
qed

lemma publish_read:
  assumes "run_state (ControllerPublishVolume d ctx req) s = (Inr (), t)"
    and "\<And>h. d_client d h = lbgrpc_Client (g h)"
  shows "checkNodeID (pr_NodeId req) = Inr () \<and> \<not> pr_Readonly req \<and>
    validateVolumeCapability (d_rwx d) (pr_VolumeCapability req) = Inr () \<and>
    (\<exists>vid h ctx' s' t' v. parseCSIResourceID (d_guuid d) (vr_VolumeId req) = Inr vid \<and>
      run_state (Client_GetVolume (g h) ctx' (rid_uuid vid) (rid_projName vid)) s' = (Inr v, t') \<and>
      vol_UUID v = rid_uuid vid \<and>
      (if d_rwx d then nodeIDToHostNQN (pr_NodeId req) \<in> set (vol_ACL v)
       else vol_ACL v = [nodeIDToHostNQN (pr_NodeId req)]))"
proof -
  obtain vid ctx1 where vid: "parseCSIResourceID (d_guuid d) (vr_VolumeId req) = Inr vid"
    and ok: "checkNodeID (pr_NodeId req) = Inr ()" "\<not> pr_Readonly req"
      "validateVolumeCapability (d_rwx d) (pr_VolumeCapability req) = Inr ()"
    and run: "run_state (with_client d ctx1 (rid_mgmtEPs vid) (rid_scheme vid)
      (\<lambda>clnt. if d_rwx d then doPublishVolumeRWX clnt ctx1 vid (pr_NodeId req)
              else doPublishVolumeRWO clnt ctx1 vid (pr_NodeId req))) s = (Inr (), t)"
    using assms(1) by (auto simp: ControllerPublishVolume_def Let_def split: if_splits sum.splits)
  from run obtain h s1 s2 where "run_state (if d_rwx d
      then doPublishVolumeRWX (d_client d h) ctx1 vid (pr_NodeId req)
      else doPublishVolumeRWO (d_client d h) ctx1 vid (pr_NodeId req)) s1 = (Inr (), s2)"
    by (rule with_client_Inr)
  from publish_body [OF this] obtain v hook where
    "run_state (cl_UpdateVolume (lbgrpc_Client (g h)) ctx1 (rid_uuid vid) (rid_projName vid) hook) s1
      = (Inr v, s2)"
    and acl: "if d_rwx d then nodeIDToHostNQN (pr_NodeId req) \<in> set (vol_ACL v)
      else vol_ACL v = [nodeIDToHostNQN (pr_NodeId req)]"
    unfolding assms(2) by blast
  with UpdateVolume_seen [OF this(1)] vid ok show ?thesis by blast
qed

text \<open>
  C1. \<open>ControllerPublishVolume\<close> succeeds only after it has read the volume from the cluster
  with the node on its ACL: in the default (RWO) mode as the only entry, so that no other
  host has access; in RWX mode among others. The node ID and the capability were valid.
\<close>

theorem publish_observed:
  assumes "run_state (ControllerPublishVolume d ctx req) s = (Inr (), t)"
    and "\<And>h. d_client d h = lbgrpc_Client (g h)"
  shows "checkNodeID (pr_NodeId req) = Inr () \<and> \<not> pr_Readonly req \<and>
    validateVolumeCapability (d_rwx d) (pr_VolumeCapability req) = Inr () \<and>
    (\<exists>vid h ctx' s' t' v. parseCSIResourceID (d_guuid d) (vr_VolumeId req) = Inr vid \<and>
      run_state (Client_GetVolume (g h) ctx' (rid_uuid vid) (rid_projName vid)) s' = (Inr v, t') \<and>
      vol_UUID v = rid_uuid vid \<and>
      (if d_rwx d then nodeIDToHostNQN (pr_NodeId req) \<in> set (vol_ACL v)
       else vol_ACL v = [nodeIDToHostNQN (pr_NodeId req)]))"
  using assms by (rule publish_read)

lemma unpublish_hooks_codes:
  "unpublishRWOHook ace v = Inl e \<Longrightarrow> \<not> isStatusNotFound e"
  "unpublishRWXHook ace v = Inl e \<Longrightarrow> \<not> isStatusNotFound e"
  by (auto simp: unpublishRWOHook_def unpublishRWXHook_def mkInternal_def isStatusNotFound_def Let_def
      split: if_splits)

text \<open>
  C11. \<open>ControllerUnpublishVolume\<close> succeeds only after the volume was read from the cluster without the
  node on its ACL, or when the volume is not there: the cluster said so when it was read or when it
  was asked to take the node off an ACL just read, or showed the volume as being deleted or failed.
\<close>

theorem unpublish_observed:
  assumes "run_state (ControllerUnpublishVolume d ctx req) s = (Inr (), t)"
    and "\<And>h. d_client d h = lbgrpc_Client (g h)"
  shows "\<exists>vid h. parseCSIResourceID (d_guuid d) (vr_VolumeId req) = Inr vid \<and>
    ((\<exists>v. read_volume (g h) (rid_uuid vid) (rid_projName vid) v \<and> vol_UUID v = rid_uuid vid \<and>
        nodeIDToHostNQN (ur_NodeId req) \<notin> set (vol_ACL v)) \<or>
     volume_missing (g h) (rid_uuid vid) (rid_projName vid)
       (if d_rwx d then unpublishRWXHook (nodeIDToHostNQN (ur_NodeId req))
        else unpublishRWOHook (nodeIDToHostNQN (ur_NodeId req))))"
proof -
  obtain vid ctx1 where vid: "parseCSIResourceID (d_guuid d) (vr_VolumeId req) = Inr vid"
    and run: "run_state (with_client d ctx1 (rid_mgmtEPs vid) (rid_scheme vid)
      (\<lambda>clnt. if d_rwx d then doUnpublishVolumeRWX clnt ctx1 vid (ur_NodeId req)
              else doUnpublishVolumeRWO clnt ctx1 vid (ur_NodeId req))) s = (Inr (), t)"
    using assms(1)
    by (auto simp: ControllerUnpublishVolume_def parseCSIResourceIDEinval_def Let_def
        split: if_splits sum.splits)
  let ?ace = "nodeIDToHostNQN (ur_NodeId req)"
  let ?hook = "if d_rwx d then unpublishRWXHook ?ace else unpublishRWOHook ?ace"
  from run obtain h s1 s2 where "run_state (if d_rwx d
      then doUnpublishVolumeRWX (d_client d h) ctx1 vid (ur_NodeId req)
      else doUnpublishVolumeRWO (d_client d h) ctx1 vid (ur_NodeId req)) s1 = (Inr (), s2)"
    by (rule with_client_Inr)
  then obtain r where upd: "run_state (cl_UpdateVolume (lbgrpc_Client (g h)) ctx1 (rid_uuid vid)
      (rid_projName vid) ?hook) s1 = (r, s2)" and r: "\<And>err. r = Inl err \<Longrightarrow> isStatusNotFound err"
    unfolding assms(2)
    by (auto simp: doUnpublishVolumeRWX_def doUnpublishVolumeRWO_def Let_def
        split: if_splits prod.splits sum.splits)
  show ?thesis
  proof (cases r)
    case (Inl err)
    have "run_state (Client_UpdateVolume (g h) ctx1 (rid_uuid vid) (rid_projName vid) ?hook) s1 =
        (Inl err, s2)"
      using upd Inl by (simp add: lbgrpc_Client_def)
    from UpdateVolume_missing [OF this r [OF Inl]] unpublish_hooks_codes vid show ?thesis by metis
  next
    case (Inr v)
    have "?ace \<notin> set (vol_ACL v)"
      using UpdateVolume_seen [OF upd [unfolded Inr]]
      by (cases "d_rwx d") (simp_all add: unpublish_hooks_done)
    with UpdateVolume_seen [OF upd [unfolded Inr]] vid show ?thesis
      unfolding read_volume_def by blast
  qed
qed

text \<open>
  C2. In RWO mode publishing never takes a volume away from another host: the only update
  it sends replaces an ACL that was read as empty or as "nobody" by the node's own entry,
  guarded by the ETag of that read. Any predicate of the world that such updates keep, and
  that reading and the client pool keep, is kept by the whole RPC, retries included.
\<close>

theorem publish_never_steals:
  assumes "\<not> d_rwx d" and "\<And>h. d_client d h = lbgrpc_Client (g h)"
    and "quiet_pool d I" and "\<And>h. quiet (g h) I"
    and "\<And>h ctx' upd v uuid proj. vol_ACL v = [] \<or> vol_ACL v = [ACLAllowNone] \<Longrightarrow>
      (\<exists>ctx0 s0 t0. run_state (Client_GetVolume (g h) ctx0 uuid proj) s0 = (Inr v, t0)) \<Longrightarrow>
      uvr_UUID upd = guuid_String (gc_guuid (g h)) uuid \<Longrightarrow> uvr_ProjectName upd = proj \<Longrightarrow>
      uvr_Acl upd = Some [nodeIDToHostNQN (pr_NodeId req)] \<Longrightarrow> uvr_Size upd = [] \<Longrightarrow>
      last (ctx_md ctx') = (ifMatchHeader, vol_ETag v) \<Longrightarrow>
      keeps (api_UpdateVolume (gc_clnt (g h)) ctx' upd) I"
  shows "keeps (ControllerPublishVolume d ctx req) I"
proof -
  have hook: "(vol_ACL v = [] \<or> vol_ACL v = [ACLAllowNone]) \<and>
      u = \<lparr>upd_ACL = Some [ace], upd_Capacity = 0\<rparr>"
    if "publishRWOHook ace v = Inr (Some u)" for ace v u
    using that
    by (cases "vol_ACL v" rule: list.exhaust)
       (auto simp: publishRWOHook_def Let_def split: if_splits)
  have upd: "keeps (api_UpdateVolume (gc_clnt (g h)) ctx' rq) I"
    if "publishRWOHook (nodeIDToHostNQN (pr_NodeId req)) v = Inr (Some u)"
      and "\<exists>ctx0 s0 t0. run_state (Client_GetVolume (g h) ctx0 uuid proj) s0 = (Inr v, t0)"
      and "mkUpdateVolumeRequest (g h) uuid proj u = Some rq"
      and "ctx_md ctx' = ctx_md ctx1 @ [(ifMatchHeader, vol_ETag v)]" for h ctx' ctx1 rq v u uuid proj
    using that hook [OF that(1)]
    by (intro assms(5) [of v h uuid proj]) (auto simp: mkUpdateVolumeRequest_def Let_def)
  have "keeps (doPublishVolumeRWO (lbgrpc_Client (g h)) ctx1 vid (pr_NodeId req)) I" for h ctx1 vid
    unfolding doPublishVolumeRWO_def Let_def
    by (intro keeps_bind keeps_UpdateVolume [OF assms(4)])
       (auto split: sum.splits intro: upd)
  then show ?thesis
    using assms(1) unfolding ControllerPublishVolume_def Let_def
    by (auto intro!: keeps_with_client [OF assms(3,2,4)] split: sum.splits)
qed

subsection \<open>Expanding and deleting\<close>

text \<open>
  C14. \<open>ControllerExpandVolume\<close> succeeds only after it has read the volume from the cluster
  with at least the capacity computed from the request; that capacity is what it reports.
\<close>

theorem expand_observed:
  assumes "run_state (ControllerExpandVolume d ctx req) s = (Inr resp, t)"
    and "\<And>h. d_client d h = lbgrpc_Client (g h)"
  shows "\<exists>vid cap h ctx' s' t' v. parseCSIResourceID (d_guuid d) (vr_VolumeId req) = Inr vid \<and>
    getReqCapacity (er_CapacityRange req) = Inr cap \<and>
    run_state (Client_GetVolume (g h) ctx' (rid_uuid vid) (rid_projName vid)) s' = (Inr v, t') \<and>
    vol_UUID v = rid_uuid vid \<and> cap \<le> vol_Capacity v \<and> ex_CapacityBytes resp = vol_Capacity v \<and>
    ex_NodeExpansionRequired resp = nodeExpansionRequired (er_VolumeCapability req)"
proof -
  obtain vid cap ctx1 where vid: "parseCSIResourceID (d_guuid d) (vr_VolumeId req) = Inr vid"
    and cap: "getReqCapacity (er_CapacityRange req) = Inr cap"
    and run: "run_state (with_client d ctx1 (rid_mgmtEPs vid) (rid_scheme vid) (\<lambda>clnt. do {
        r \<leftarrow> cl_UpdateVolume clnt ctx1 (rid_uuid vid) (rid_projName vid) (expandVolumeHook cap);
        (case r of
           Inl err \<Rightarrow> fail err
         | Inr vol \<Rightarrow>
             if vol_Capacity vol < cap then fail mkEagain
             else ok \<lparr>ex_CapacityBytes = vol_Capacity vol,
                      ex_NodeExpansionRequired =
                        nodeExpansionRequired (er_VolumeCapability req)\<rparr>) })) s = (Inr resp, t)"
    using assms(1)
    by (auto simp: ControllerExpandVolume_def parseCSIResourceIDEinval_def Let_def
        split: if_splits sum.splits)
  from run obtain h s1 s2 v where
    upd: "run_state (cl_UpdateVolume (lbgrpc_Client (g h)) ctx1 (rid_uuid vid) (rid_projName vid)
      (expandVolumeHook cap)) s1 = (Inr v, s2)"
    and v: "cap \<le> vol_Capacity v" "ex_CapacityBytes resp = vol_Capacity v"
      "ex_NodeExpansionRequired resp = nodeExpansionRequired (er_VolumeCapability req)"
    by (rule with_client_Inr)
       (auto simp: assms(2) not_less split: prod.splits sum.splits if_splits)
  from UpdateVolume_seen [OF upd] vid cap v show ?thesis by blast
qed

lemma doDeleteVolume_gone:
  assumes "run_state (doDeleteVolume (lbgrpc_Client c) ctx vid) s = (Inr (), t)"
  shows "\<exists>ctx' s' t' r.
    run_state (Client_GetVolume c ctx' (rid_uuid vid) (rid_projName vid)) s' = (r, t') \<and>
    (case r of Inl err \<Rightarrow> isStatusNotFound err
     | Inr v \<Rightarrow> vol_State v \<in> {VolumeDeleting, VolumeFailed})"
proof -
  from assms obtain r s3 where
    get: "run_state (Client_GetVolume c ctx (rid_uuid vid) (rid_projName vid)) s = (r, s3)"
    and "(case r of Inl err \<Rightarrow> isStatusNotFound err
        | Inr v \<Rightarrow> vol_State v \<in> {VolumeDeleting, VolumeFailed}) \<or>
      (\<exists>v. r = Inr v \<and>
        run_state (Client_DeleteVolume c ctx (vol_UUID v) (rid_projName vid) True) s3 = (Inr (), t))"
    unfolding doDeleteVolume_def lbgrpc_Client_def Client.select_convs
    by (auto split: prod.splits sum.splits if_splits)
  then consider "case r of Inl err \<Rightarrow> isStatusNotFound err
      | Inr v \<Rightarrow> vol_State v \<in> {VolumeDeleting, VolumeFailed}"
    | v where "r = Inr v"
      "run_state (Client_DeleteVolume c ctx (vol_UUID v) (rid_projName vid) True) s3 = (Inr (), t)"
    by blast
  then show ?thesis
  proof cases
    case 1
    with get show ?thesis by blast
  next
    case 2
    have "vol_UUID v = rid_uuid vid"
      using yieldsD [OF Client_GetVolume_yields get [unfolded 2]] by simp
    with Client_DeleteVolume_gone [OF 2(2)] show ?thesis by metis
  qed
qed

text \<open>
  C15. \<open>DeleteVolume\<close> succeeds for an ID that names a volume only after the cluster reported
  that volume as not found, being deleted or failed; an ID that is not a resource ID is
  reported as deleted without any call.
\<close>

theorem delete_observed:
  assumes "run_state (DeleteVolume d ctx req) s = (Inr (), t)"
    and "\<And>h. d_client d h = lbgrpc_Client (g h)"
  shows "vr_VolumeId req \<noteq> [] \<and>
    (case parseCSIResourceID (d_guuid d) (vr_VolumeId req) of
       Inl _ \<Rightarrow> t = s
     | Inr vid \<Rightarrow> \<exists>h ctx' s' t' r.
         run_state (Client_GetVolume (g h) ctx' (rid_uuid vid) (rid_projName vid)) s' = (r, t') \<and>
         (case r of
            Inl err \<Rightarrow> isStatusNotFound err
          | Inr v \<Rightarrow> vol_State v \<in> {VolumeDeleting, VolumeFailed}))"
proof (cases "parseCSIResourceID (d_guuid d) (vr_VolumeId req)")
  case (Inl err)
  with assms(1) show ?thesis
    by (auto simp: DeleteVolume_def parseCSIResourceIDEnoent_def mk_defs split: if_splits)
next
  case (Inr vid)
  with assms(1) obtain ctx1 where ne: "vr_VolumeId req \<noteq> []"
    and run: "run_state (with_client d ctx1 (rid_mgmtEPs vid) (rid_scheme vid)
      (\<lambda>clnt. doDeleteVolume clnt ctx1 vid)) s = (Inr (), t)"
    by (auto simp: DeleteVolume_def parseCSIResourceIDEnoent_def mk_defs Let_def split: if_splits)
  from run obtain h s1 s2 where
    "run_state (doDeleteVolume (d_client d h) ctx1 vid) s1 = (Inr (), s2)"
    by (rule with_client_Inr)
  from doDeleteVolume_gone [OF this [unfolded assms(2)]] Inr ne show ?thesis
    unfolding Inr sum.case by blast
qed

subsection \<open>Creating volumes and snapshots\<close>

text \<open>An existing volume that may stand in for a requested one.\<close>

definition stands_in ::
  "Volume \<Rightarrow> CapacityRange \<Rightarrow> lbResourceID option \<Rightarrow> lbResourceID option \<Rightarrow> Volume \<Rightarrow> bool" where
  "stands_in req cr srcVid srcSid v \<longleftrightarrow>
     vol_Name v = vol_Name req \<and> vol_ReplicaCount v = vol_ReplicaCount req \<and>
     vol_Compression v = vol_Compression req \<and> vol_ProjectName v = vol_ProjectName req \<and>
     (if srcVid = None \<and> srcSid = None then vol_Capacity v = vol_Capacity req
      else cr_RequiredBytes cr \<le> vol_Capacity v \<and>
           (cr_LimitBytes cr = 0 \<or> vol_Capacity v \<le> cr_LimitBytes cr)) \<and>
     (\<forall>sid. srcSid = Some sid \<longrightarrow> vol_SnapshotUUID v = rid_uuid sid)"

lemma chkExistingVolume_Inr:
  "chkExistingVolume req cr srcVid srcSid vol = Inr r \<longleftrightarrow>
     Some vol = r \<and> vol_State vol \<noteq> VolumeCreating \<and>
     (vol_Name req = vol_Name vol \<and> vol_ReplicaCount req = vol_ReplicaCount vol \<and>
      vol_Compression req = vol_Compression vol \<and> vol_ProjectName req = vol_ProjectName vol) \<and>
     (if srcVid = None \<and> srcSid = None then vol_Capacity vol = vol_Capacity req
      else cr_RequiredBytes cr \<le> vol_Capacity vol \<and>
           (cr_LimitBytes cr = 0 \<or> vol_Capacity vol \<le> cr_LimitBytes cr))"
  unfolding chkExistingVolume_def if_bad_Inr ExplainDiffsFrom_skip sum.inject not_less [symmetric]
    if_bool_eq_conj
  by satx

lemma vol_Name_mkWantVol [simp]: "vol_Name (mkWantVol name cap params) = name"
  by (simp add: mkWantVol_def)

text \<open>
  What a handler may answer with, over the evidence that a client gives (\<open>lb_evidence\<close>). A snapshot of
  the volume \<open>vid\<close>: one of that name that was found, or a new one.
\<close>

definition snapshot_shown ::
  "(string \<Rightarrow> string \<Rightarrow> Snapshot \<Rightarrow> bool) \<Rightarrow> (string \<Rightarrow> string \<Rightarrow> UUID \<Rightarrow> string \<Rightarrow> Snapshot \<Rightarrow> bool) \<Rightarrow>
   string \<Rightarrow> string \<Rightarrow> lbResourceID \<Rightarrow> Snapshot \<Rightarrow> bool" where
  "snapshot_shown found_named new_from name descr vid sn \<longleftrightarrow>
     wf_Snapshot sn \<and> snap_State sn = SnapshotAvailable \<and>
     (found_named name (rid_projName vid) sn \<and> snap_Name sn = name \<and> snap_SrcVolUUID sn = rid_uuid vid \<or>
      new_from name (rid_projName vid) (rid_uuid vid) descr sn)"

text \<open>The capacity and the snapshot of a new volume: as wanted, or those of the content source, where a
  source volume is cloned through a snapshot of it.\<close>

definition made_from ::
  "(string \<Rightarrow> lbResourceID \<Rightarrow> Snapshot \<Rightarrow> bool) \<Rightarrow> Volume \<Rightarrow> lbResourceID option \<Rightarrow> lbResourceID option \<Rightarrow>
   uint64 \<Rightarrow> UUID \<Rightarrow> bool" where
  "made_from snap_of want srcVid srcSid cap snap \<longleftrightarrow>
     (case srcVid of
        Some vid \<Rightarrow> \<exists>sn. snap_of (''snapshot-'' @ vol_Name want) vid sn \<and> snap = snap_UUID sn
      | None \<Rightarrow>
          (case srcSid of
             Some sid \<Rightarrow> snap = rid_uuid sid
           | None \<Rightarrow> cap = vol_Capacity want \<and> snap = vol_SnapshotUUID want))"

text \<open>A volume for the request \<open>want\<close>: one of that name that was found and matches, or a new one.\<close>

definition volume_shown ::
  "(string \<Rightarrow> string \<Rightarrow> Volume \<Rightarrow> bool) \<Rightarrow>
   (string \<Rightarrow> uint64 \<Rightarrow> uint32 \<Rightarrow> bool \<Rightarrow> string list \<Rightarrow> string \<Rightarrow> UUID \<Rightarrow> string \<Rightarrow> Volume \<Rightarrow> bool) \<Rightarrow>
   (string \<Rightarrow> lbResourceID \<Rightarrow> Snapshot \<Rightarrow> bool) \<Rightarrow> Volume \<Rightarrow> CapacityRange \<Rightarrow> lbResourceID option \<Rightarrow>
   lbResourceID option \<Rightarrow> Volume \<Rightarrow> bool" where
  "volume_shown found_named new_from snap_of want cr srcVid srcSid v \<longleftrightarrow>
     wf_Volume v \<and> vol_Name v = vol_Name want \<and> IsAccessible v \<and>
     (found_named (vol_Name want) (vol_ProjectName want) v \<and> stands_in want cr srcVid srcSid v \<or>
      (\<exists>cap snap. new_from (vol_Name want) cap (vol_ReplicaCount want) (vol_Compression want)
           (vol_ACL want) (vol_ProjectName want) snap (vol_QosPolicyName want) v \<and>
         made_from snap_of want srcVid srcSid cap snap))"

abbreviation autoSnapDescr :: string where "autoSnapDescr \<equiv> ''auto-snap for clone, by: LB CSI''"

context lb_evidence
begin

abbreviation shown_snapshot where "shown_snapshot \<equiv> snapshot_shown snap_named snap_created"

abbreviation shown_volume where
  "shown_volume \<equiv> volume_shown named created (\<lambda>nm. shown_snapshot nm autoSnapDescr)"

lemma findExistingVolume_yields:
  "yields (findExistingVolume clnt ctx req cr srcVid srcSid)
     (\<lambda>r. \<forall>v. r = Some v \<longrightarrow> shown_volume req cr srcVid srcSid v)"
  unfolding findExistingVolume_def
  by (rule yields_call [OF yields_conj [OF GetVolumeByName_yields GetVolumeByName_named]])
     (auto simp: chkExistingVolume_Inr stands_in_def IsAccessible_def volume_shown_def
       split: option.splits sum.splits intro!: yields_bind)

lemma lbCreateVolume_yields:
  "yields (lbCreateVolume clnt ctx req)
     (\<lambda>v. wf_Volume v \<and> vol_Name v = vol_Name req \<and> IsAccessible v \<and>
        created (vol_Name req) (vol_Capacity req) (vol_ReplicaCount req) (vol_Compression req)
          (vol_ACL req) (vol_ProjectName req) (vol_SnapshotUUID req) (vol_QosPolicyName req) v)"
  unfolding lbCreateVolume_def
  by (rule yields_call [OF yields_conj [OF CreateVolume_yields CreateVolume_created]]) simp_all

lemma chkSource_yields:
  "yields (chkSourceVolCompat clnt ctx req cr vid) (\<lambda>r. \<exists>c. r = req\<lparr>vol_Capacity := c\<rparr>)"
  "yields (chkSourceSnapCompat clnt ctx req cr sid) (\<lambda>r. \<exists>c. r = req\<lparr>vol_Capacity := c\<rparr>)"
  unfolding chkSourceVolCompat_def chkSourceSnapCompat_def
  by (intro yields_bind; auto split: sum.splits SnapshotState.splits)+

lemma doCreateSnapshot_yields:
  "yields (doCreateSnapshot clnt ctx name srcVid descr) (shown_snapshot name descr srcVid)"
  unfolding doCreateSnapshot_def
  by (rule yields_call [OF yields_conj [OF GetSnapshotByName_yields GetSnapshotByName_named]])
     (auto simp: snapshot_shown_def split: SnapshotState.splits
       intro!: yields_call [OF yields_conj [OF CreateSnapshot_yields CreateSnapshot_created]])

lemma lbCreateVolume_shown:
  assumes "made_from (\<lambda>nm. shown_snapshot nm autoSnapDescr) req srcVid srcSid c u"
  shows "yields (lbCreateVolume clnt ctx (req\<lparr>vol_Capacity := c, vol_SnapshotUUID := u\<rparr>))
    (shown_volume req cr srcVid srcSid)"
  by (rule yields_mono [OF lbCreateVolume_yields])
     (use assms in \<open>auto simp: volume_shown_def\<close>)

lemma doCreateVolume_yields:
  "yields (doCreateVolume clnt ctx req cr srcVid srcSid) (shown_volume req cr srcVid srcSid)"
proof (cases srcVid)
  case None
  show ?thesis
  proof (cases srcSid)
    case None': None
    have "made_from (\<lambda>nm. shown_snapshot nm autoSnapDescr) req None None (vol_Capacity req) (vol_SnapshotUUID req)"
      by (simp add: made_from_def)
    from lbCreateVolume_shown [OF this] show ?thesis by (simp add: doCreateVolume_def None None')
  next
    case (Some sid)
    show ?thesis
      unfolding doCreateVolume_def None Some option.case
      by (rule yields_call [OF chkSource_yields(2)])
         (auto intro!: lbCreateVolume_shown simp: made_from_def)
  qed
next
  case (Some vid)
  have last: "yields (do { res \<leftarrow> lbCreateVolume clnt ctx r; _ \<leftarrow> m; State_Monad.return res }) P"
    if "yields (lbCreateVolume clnt ctx r) P" for r P and m :: "('a, 'b) state"
    by (rule yields_call [OF that]) (auto intro!: yields_bind)
  have clone: "yields (do {
      r \<leftarrow> doCreateSnapshot clnt ctx (''snapshot-'' @ vol_Name req) vid autoSnapDescr;
      (case r of
         Inl err \<Rightarrow> fail (prefixErr err)
       | Inr sn \<Rightarrow> do {
           res \<leftarrow> lbCreateVolume clnt ctx (req\<lparr>vol_Capacity := c, vol_SnapshotUUID := snap_UUID sn\<rparr>);
           _ \<leftarrow> doDeleteSnapshot clnt ctx (tmp sn);
           State_Monad.return res }) })
      (shown_volume req cr (Some vid) srcSid)" for c tmp
    by (rule yields_call [OF doCreateSnapshot_yields])
       (auto intro!: last lbCreateVolume_shown simp: made_from_def)
  show ?thesis
    unfolding doCreateVolume_def Some option.case Let_def
    by (rule yields_call [OF chkSource_yields(1)]) (auto intro: clone simp del: append.simps)
qed

lemma CreateVolume_body:
  "yields (do {
      v \<leftarrow> findExistingVolume clnt ctx w cr srcVid srcSid;
      (case v of
         Inl err \<Rightarrow> fail err
       | Inr found \<Rightarrow> do {
           r \<leftarrow> (case found of
                   Some vol \<Rightarrow> ok vol
                 | None \<Rightarrow> doCreateVolume clnt ctx w cr srcVid srcSid);
           (case r of Inl err \<Rightarrow> fail err | Inr vol \<Rightarrow> ok (f vol)) }) })
     (\<lambda>resp. \<exists>v. shown_volume w cr srcVid srcSid v \<and> resp = f v)"
proof (rule yields_call [OF findExistingVolume_yields], simp, unfold sum.case)
  fix found
  assume found: "\<forall>v. found = Some v \<longrightarrow> shown_volume w cr srcVid srcSid v"
  have "yields (case found of Some vol \<Rightarrow> ok vol | None \<Rightarrow> doCreateVolume clnt ctx w cr srcVid srcSid)
      (shown_volume w cr srcVid srcSid)"
    using found by (cases found) (simp_all add: doCreateVolume_yields)
  then show "yields (do {
      r \<leftarrow> (case found of
              Some vol \<Rightarrow> ok vol
            | None \<Rightarrow> doCreateVolume clnt ctx w cr srcVid srcSid);
      (case r of Inl err \<Rightarrow> fail err | Inr vol \<Rightarrow> ok (f vol)) })
      (\<lambda>resp. \<exists>v. shown_volume w cr srcVid srcSid v \<and> resp = f v)"
    by (rule yields_call) auto
qed

end

abbreviation snapshot_of :: "'s GrpcClient \<Rightarrow> string \<Rightarrow> string \<Rightarrow> lbResourceID \<Rightarrow> Snapshot \<Rightarrow> bool" where
  "snapshot_of c \<equiv> snapshot_shown (read_snapshot_named c) (created_snapshot c)"

abbreviation volume_of ::
  "'s GrpcClient \<Rightarrow> Volume \<Rightarrow> CapacityRange \<Rightarrow> lbResourceID option \<Rightarrow> lbResourceID option \<Rightarrow> Volume \<Rightarrow> bool" where
  "volume_of c \<equiv> volume_shown (read_volume_named c) (created_volume c) (\<lambda>nm. snapshot_of c nm autoSnapDescr)"

text \<open>The capacity range of a request, with zeroes for none.\<close>

definition range_of :: "CapacityRange option \<Rightarrow> CapacityRange" where
  "range_of r = (case r of Some cr \<Rightarrow> cr | None \<Rightarrow> \<lparr>cr_RequiredBytes = 0, cr_LimitBytes = 0\<rparr>)"


text \<open>
  C34. A successful \<open>CreateSnapshot\<close> answers with a snapshot of the cluster that is available: one that
  was read under the requested name and is a snapshot of the source volume, or one that the cluster
  gave as its answer to the request for a snapshot of that volume, or showed when it was ready. It is
  reported as ready, with its size and time; the ID of the source parses back to the volume
  of the request, and the ID of the snapshot, with the endpoints, scheme and encryption of that volume,
  parses back whenever the cluster's name of the project is a valid one.
\<close>

theorem CreateSnapshot_response:
  assumes "run_state (CreateSnapshot d ctx req) s = (Inr resp, t)"
    and "\<And>h. d_client d h = lbgrpc_Client (g h)" and "guuid_ok (d_guuid d)"
  shows "\<exists>srcVid h sn rid. parseCSIResourceID (d_guuid d) (cs_SourceVolumeId req) = Inr srcVid \<and>
    snapshot_of (g h) (cs_Name req) ''by: LB CSI'' srcVid sn \<and> rs_ReadyToUse resp \<and>
    rs_SizeBytes resp = snap_Capacity sn \<and> rs_CreationTime resp = snap_CreationTime sn \<and>
    parseCSIResourceID (d_guuid d) (rs_SourceVolumeId resp) = Inr srcVid \<and>
    rid = srcVid\<lparr>rid_uuid := snap_UUID sn, rid_projName := snap_ProjectName sn\<rparr> \<and>
    rs_SnapshotId resp = lbResourceID_String (d_guuid d) rid \<and>
    (snap_ProjectName sn = [] \<or> projNameRegex_match (snap_ProjectName sn) \<longrightarrow>
      parseCSIResourceID (d_guuid d) (rs_SnapshotId resp) = Inr rid)"
proof -
  obtain srcVid ctx1 where src: "parseCSIResourceID (d_guuid d) (cs_SourceVolumeId req) = Inr srcVid"
    and run: "run_state (with_client d ctx1 (rid_mgmtEPs srcVid) (rid_scheme srcVid) (\<lambda>clnt. do {
        r \<leftarrow> doCreateSnapshot clnt ctx1 (cs_Name req) srcVid ''by: LB CSI'';
        (case r of
           Inl err \<Rightarrow> fail err
         | Inr snap \<Rightarrow> ok (mkSnapshotResponse (d_guuid d) srcVid snap)) })) s = (Inr resp, t)"
    using assms(1)
    by (auto simp: CreateSnapshot_def parseCSIResourceIDEinval_def Let_def split: if_splits sum.splits)
  from run obtain h s1 s2 sn where
    "run_state (doCreateSnapshot (lbgrpc_Client (g h)) ctx1 (cs_Name req) srcVid ''by: LB CSI'') s1 =
      (Inr sn, s2)" and resp: "resp = mkSnapshotResponse (d_guuid d) srcVid sn"
    by (rule with_client_Inr) (auto simp: assms(2) split: prod.splits sum.splits)
  from yieldsD [OF lbev.doCreateSnapshot_yields this(1)]
  have sn: "snapshot_of (g h) (cs_Name req) ''by: LB CSI'' srcVid sn" .
  let ?rid = "srcVid\<lparr>rid_uuid := snap_UUID sn, rid_projName := snap_ProjectName sn\<rparr>"
  have wf: "wf_rid srcVid" by (rule parseCSIResourceID_wf [OF src])
  have wf': "snap_ProjectName sn = [] \<or> projNameRegex_match (snap_ProjectName sn) \<Longrightarrow> wf_rid ?rid"
    using wf sn by (simp add: wf_rid_def wf_Snapshot_def snapshot_shown_def)
  have id: "rs_SnapshotId resp = lbResourceID_String (d_guuid d) ?rid"
    by (cases srcVid) (simp add: resp mkSnapshotResponse_def)
  have "rs_ReadyToUse resp" "rs_SizeBytes resp = snap_Capacity sn" "rs_CreationTime resp = snap_CreationTime sn"
    "parseCSIResourceID (d_guuid d) (rs_SourceVolumeId resp) = Inr srcVid"
    using parseCSIResourceID_String [OF wf assms(3)] by (simp_all add: resp mkSnapshotResponse_def)
  moreover from wf' have "snap_ProjectName sn = [] \<or> projNameRegex_match (snap_ProjectName sn) \<longrightarrow>
      parseCSIResourceID (d_guuid d) (rs_SnapshotId resp) = Inr ?rid"
    unfolding id using parseCSIResourceID_String [OF _ assms(3)] by blast
  ultimately show ?thesis using src sn id by blast
qed

text \<open>A request for a free-standing volume that passes all checks that need no cluster.\<close>

definition plain_create ::
  "'s Driver \<Rightarrow> csi_CreateVolumeRequest \<Rightarrow> uint64 \<Rightarrow> lbCreateVolumeParams \<Rightarrow> bool" where
  "plain_create d req capacity params \<longleftrightarrow> cv_Name req \<noteq> [] \<and>
     cv_AccessibilityRequirements req = None \<and>
     getReqCapacity (cv_CapacityRange req) = Inr capacity \<and>
     validateVolumeCapabilities (d_rwx d) (cv_VolumeCapabilities req) = Inr () \<and>
     parseCSICreateVolumeParams (cv_Parameters req) = Inr params \<and>
     cv_VolumeContentSource req = None"

lemma CreateVolume_existing:
  assumes "plain_create d req capacity params"
    and "ctx' = cloneCtxWithCreds d ctx (cv_Secrets req)"
    and "run_state (GetLBClient d ctx' (par_mgmtEPs params) (par_mgmtScheme params)) s = (Inr h, s1)"
    and "run_state (cl_GetVolumeByName (d_client d h) ctx' (cv_Name req) (par_projectName params)) s1 =
      (Inr v, s2)"
    and "stands_in (mkWantVol (cv_Name req) capacity params) cr None None v" and "IsAccessible v"
  shows "run_state (CreateVolume d ctx req) s =
    (Inr (mkVolumeResponse (d_guuid d) (par_mgmtEPs params) v (par_hostCrypto params)
       (par_mgmtScheme params) None),
     snd (run_state (PutLBClient d h) s2))"
proof -
  have want: "vol_Name (mkWantVol n c params) = n"
    "vol_ProjectName (mkWantVol n c params) = par_projectName params" for n c
    by (simp_all add: mkWantVol_def)
  have "chkExistingVolume (mkWantVol (cv_Name req) capacity params) cr' None None v = Inr (Some v)"
    for cr'
    using assms(5,6) by (simp add: chkExistingVolume_Inr stands_in_def IsAccessible_def) auto
  then have "run_state (findExistingVolume (d_client d h) ctx'
      (mkWantVol (cv_Name req) capacity params) cr' None None) s1 = (Inr (Some v), s2)" for cr'
    using assms(4,6) by (auto simp: findExistingVolume_def want IsAccessible_def)
  then show ?thesis
    using assms(1,3) unfolding plain_create_def
    by (simp add: CreateVolume_def parseContentSource_def with_client_def assms(2) [symmetric]
        Let_def split: prod.splits)
qed

text \<open>
  \<open>CreateVolume\<close> is idempotent: when the cluster already has a volume of the requested
  name that matches the request, it is returned, and the only calls made are the lookup
  and the borrowing and returning of the client: nothing is created.
\<close>

theorem CreateVolume_idempotent:
  assumes "plain_create d req capacity params"
    and "ctx' = cloneCtxWithCreds d ctx (cv_Secrets req)"
    and "run_state (GetLBClient d ctx' (par_mgmtEPs params) (par_mgmtScheme params)) s = (Inr h, s1)"
    and "run_state (cl_GetVolumeByName (d_client d h) ctx' (cv_Name req) (par_projectName params)) s1 =
      (Inr v, s2)"
    and "stands_in (mkWantVol (cv_Name req) capacity params) cr None None v" and "IsAccessible v"
  shows "run_state (CreateVolume d ctx req) s =
    (Inr (mkVolumeResponse (d_guuid d) (par_mgmtEPs params) v (par_hostCrypto params)
       (par_mgmtScheme params) None),
     snd (run_state (PutLBClient d h) s2))"
  using assms by (rule CreateVolume_existing)

subsection \<open>Witnesses\<close>

definition one_vol_rid :: lbResourceID where
  "one_vol_rid = \<lparr>rid_mgmtEPs = [\<lparr>ep_host = ''a'', ep_port = 1\<rparr>], rid_uuid = 1,
     rid_projName = ''p'', rid_scheme = grpcsXport, rid_hostCrypto = []\<rparr>"

definition one_vol_driver :: "mgmt_Volume Driver" where
  "one_vol_driver = \<lparr>d_sockPath = [], d_jwtPath = [], d_luksCfgFile = [], d_nodeID = ''n0'',
     d_hostNQN = nodeIDToHostNQN ''n0'', d_defaultFS = [],
     d_lbclients = \<lparr>pool_GetClient = (\<lambda>_ _ _. ok 0), pool_PutClient = (\<lambda>_. State_Monad.return ())\<rparr>,
     d_client = (\<lambda>_. lbgrpc_Client one_vol_client), d_transport = ''tcp'',
     d_squelchPanics = False, d_jwt = [], d_rwx = False, d_guuid = hex_guuid\<rparr>"

abbreviation ctx0 :: Ctx where "ctx0 \<equiv> \<lparr>ctx_deadline = None, ctx_md = []\<rparr>"

lemma one_vol_rid_parse:
  "parseCSIResourceID hex_guuid (lbResourceID_String hex_guuid one_vol_rid) = Inr one_vol_rid"
  by (rule parseCSIResourceID_String [OF _ guuid_ok_hex])
     (simp add: one_vol_rid_def wf_rid_def canonical_Slice_def wf_EP_def ep_eval
      projNameRegex_match_def lc_alnum_def)

lemma one_vol_rid_sel: "rid_uuid one_vol_rid = 1" "rid_projName one_vol_rid = ''p''"
  by (simp_all add: one_vol_rid_def)

lemma one_vol_rid_not_Nil: "lbResourceID_String hex_guuid one_vol_rid \<noteq> []"
  by (simp add: lbResourceID_String_def)

lemma one_vol_client_borrow:
  "run_state (with_client one_vol_driver ctx eps scheme body) s =
     run_state (body (lbgrpc_Client one_vol_client)) s"
  by (simp add: with_client_def GetLBClient_def PutLBClient_def one_vol_driver_def
      lbgrpc_Client_def Client_RemoteOk_def one_vol_env one_vol_api_def supportedAPIVersions_def
      split: prod.splits)

lemma one_vol_driver_sel [simp]: "d_rwx one_vol_driver = False" "d_guuid one_vol_driver = hex_guuid"
  "d_client one_vol_driver h = lbgrpc_Client one_vol_client"
  by (simp_all add: one_vol_driver_def)

definition one_vol_publish :: csi_PublishRequest where
  "one_vol_publish = \<lparr>vr_VolumeId = lbResourceID_String hex_guuid one_vol_rid,
     vr_Secrets = Map.empty, pr_NodeId = ''n1'',
     pr_VolumeCapability = Some \<lparr>cap_AccessType = Some (AT_Block (Some ())),
       cap_AccessMode = Some SINGLE_NODE_WRITER\<rparr>, pr_Readonly = False\<rparr>"

lemma n1_checkNodeID: "checkNodeID ''n1'' = Inr ()"
  by (simp add: checkNodeID_def nodeIDRegex_match_def is_alnum_def maxNodeIDLen_def
      maxHostNQNLen_def hostNQNPrefix_def)

lemma one_vol_publish_run:
  "run_state (ControllerPublishVolume one_vol_driver ctx0 one_vol_publish) one_vol =
     (Inr (), one_vol\<lparr>mv_Acl := [nodeIDToHostNQN ''n1'']\<rparr>)"
proof -
  have "run_state (Client_UpdateVolume one_vol_client ctx 1 ''p''
      (publishRWOHook (nodeIDToHostNQN ''n1''))) one_vol =
      (Inr (one_vol_lb (nodeIDToHostNQN ''n1'') VolumeAvailable),
       one_vol\<lparr>mv_Acl := [nodeIDToHostNQN ''n1'']\<rparr>)" for ctx
    using nodeIDToHostNQN_not_special(1) [of "''n1''", symmetric]
    by (intro one_vol_update) (simp_all add: publishRWOHook_def one_vol_lb_def)
  then have "run_state (doPublishVolumeRWO (lbgrpc_Client one_vol_client) ctx one_vol_rid ''n1'')
      one_vol = (Inr (), one_vol\<lparr>mv_Acl := [nodeIDToHostNQN ''n1'']\<rparr>)" for ctx
    by (simp add: doPublishVolumeRWO_def lbgrpc_Client_def one_vol_rid_def Let_def)
       (simp add: one_vol_lb_def)
  then show ?thesis
    by (simp add: ControllerPublishVolume_def one_vol_publish_def one_vol_rid_parse
        one_vol_rid_not_Nil n1_checkNodeID one_vol_client_borrow Let_def validateVolumeCapability_def
        supportedAccessModes_def)
qed

theorem publish_observed_witness:
  "\<exists>vid h ctx' s' t' v. parseCSIResourceID hex_guuid (vr_VolumeId one_vol_publish) = Inr vid \<and>
     run_state (Client_GetVolume one_vol_client ctx' (rid_uuid vid) (rid_projName vid)) s' = (Inr v, t') \<and>
     vol_UUID v = rid_uuid vid \<and> vol_ACL v = [nodeIDToHostNQN ''n1''] \<and> h = (0 :: nat)"
  using publish_observed [OF one_vol_publish_run, of "\<lambda>_. one_vol_client"]
  by (auto simp: one_vol_publish_def)

lemma one_vol_quiet:
  "quiet one_vol_client (\<lambda>v. mv_Acl v = [ACLAllowNone] \<or> mv_Acl v = [x])"
  "quiet_pool one_vol_driver I"
  by (auto simp: quiet_def quiet_pool_def one_vol_driver_def one_vol_client_def one_vol_api_def
      keeps_def)

theorem publish_never_steals_witness:
  "keeps (ControllerPublishVolume one_vol_driver ctx0 one_vol_publish)
     (\<lambda>v. mv_Acl v = [ACLAllowNone] \<or> mv_Acl v = [nodeIDToHostNQN ''n1''])"
  by (rule publish_never_steals [of _ "\<lambda>_. one_vol_client"])
     (auto simp: one_vol_quiet one_vol_publish_def one_vol_env one_vol_api_def keeps_def)

lemma one_vol_noop:
  assumes "hook (one_vol_lb ACLAllowNone VolumeAvailable) = Inr None"
  shows "run_state (Client_UpdateVolume one_vol_client ctx 1 p hook) one_vol =
    (Inr (one_vol_lb ACLAllowNone VolumeAvailable), one_vol)"
proof -
  have "vol_State (one_vol_lb b st) = st" for b st by (simp add: one_vol_lb_def)
  then have "run_state (Client_doUpdateVolume one_vol_client ctx 1 p hook)
      (one_vol\<lparr>mv_Acl := [ACLAllowNone]\<rparr>) =
      (Inr (Some (one_vol_lb ACLAllowNone VolumeAvailable)), one_vol\<lparr>mv_Acl := [ACLAllowNone]\<rparr>)"
    by (simp add: Client_doUpdateVolume_def one_vol_get one_vol_clone one_vol_env assms)
  then show ?thesis
    by (simp add: Client_UpdateVolume_def WithExponentialBackoff_def normalize_opts_def
        UpdateRetryOpts_def numeral_eq_Suc one_vol_env second_def millisecond_def
        one_vol_one_vol [symmetric])
qed

definition one_vol_unpublish :: csi_UnpublishRequest where
  "one_vol_unpublish = \<lparr>vr_VolumeId = lbResourceID_String hex_guuid one_vol_rid,
     vr_Secrets = Map.empty, ur_NodeId = ''n1''\<rparr>"

theorem unpublish_observed_witness:
  "\<exists>vid. parseCSIResourceID hex_guuid (vr_VolumeId one_vol_unpublish) = Inr vid \<and>
    ((\<exists>v. read_volume one_vol_client (rid_uuid vid) (rid_projName vid) v \<and> vol_UUID v = rid_uuid vid \<and>
        nodeIDToHostNQN ''n1'' \<notin> set (vol_ACL v)) \<or>
     volume_missing one_vol_client (rid_uuid vid) (rid_projName vid)
       (unpublishRWOHook (nodeIDToHostNQN ''n1'')))"
proof -
  have "run_state (Client_UpdateVolume one_vol_client ctx 1 ''p''
      (unpublishRWOHook (nodeIDToHostNQN ''n1''))) one_vol =
      (Inr (one_vol_lb ACLAllowNone VolumeAvailable), one_vol)" for ctx
    by (rule one_vol_noop) (simp add: unpublishRWOHook_def one_vol_lb_def)
  then have "run_state (doUnpublishVolumeRWO (lbgrpc_Client one_vol_client) ctx one_vol_rid ''n1'')
      one_vol = (Inr (), one_vol)" for ctx
    using nodeIDToHostNQN_not_special(1) [of "''n1''", symmetric]
    by (simp add: doUnpublishVolumeRWO_def lbgrpc_Client_def one_vol_rid_def Let_def)
       (simp add: one_vol_lb_def)
  then have "run_state (ControllerUnpublishVolume one_vol_driver ctx0 one_vol_unpublish) one_vol =
      (Inr (), one_vol)"
    by (simp add: ControllerUnpublishVolume_def one_vol_unpublish_def one_vol_rid_parse
        parseCSIResourceIDEinval_def one_vol_rid_not_Nil n1_checkNodeID one_vol_client_borrow Let_def)
  from unpublish_observed [OF this, of "\<lambda>_. one_vol_client"]
  show ?thesis by (auto simp: one_vol_unpublish_def)
qed

definition one_vol_expand :: csi_ExpandRequest where
  "one_vol_expand = \<lparr>vr_VolumeId = lbResourceID_String hex_guuid one_vol_rid,
     vr_Secrets = Map.empty, er_CapacityRange = None, er_VolumeCapability = None\<rparr>"

theorem expand_observed_witness:
  "\<exists>vid cap h ctx' s' t' v. parseCSIResourceID hex_guuid (vr_VolumeId one_vol_expand) = Inr vid \<and>
    getReqCapacity None = Inr cap \<and> h = (0 :: nat) \<and>
    run_state (Client_GetVolume one_vol_client ctx' (rid_uuid vid) (rid_projName vid)) s' = (Inr v, t') \<and>
    cap \<le> vol_Capacity v \<and> vol_Capacity v = 4294967296"
proof -
  have cap: "getReqCapacity None = Inr 1073741824"
    by (simp add: getReqCapacity_def minVolCap_def volCapGranularity_def)
  have "run_state (Client_UpdateVolume one_vol_client ctx 1 ''p'' (expandVolumeHook 1073741824))
      one_vol = (Inr (one_vol_lb ACLAllowNone VolumeAvailable), one_vol)" for ctx
    by (rule one_vol_noop) (simp add: expandVolumeHook_def one_vol_lb_def)
  then have "run_state (ControllerExpandVolume one_vol_driver ctx0 one_vol_expand) one_vol =
      (Inr \<lparr>ex_CapacityBytes = 4294967296, ex_NodeExpansionRequired = False\<rparr>, one_vol)"
    by (simp add: ControllerExpandVolume_def one_vol_expand_def one_vol_rid_parse cap
        parseCSIResourceIDEinval_def one_vol_rid_not_Nil one_vol_client_borrow Let_def
        nodeExpansionRequired_def lbgrpc_Client_def one_vol_rid_sel one_vol_lb_def)
  from expand_observed [OF this, of "\<lambda>_. one_vol_client"]
  show ?thesis by (simp add: one_vol_expand_def) metis
qed

theorem delete_observed_witness:
  "\<exists>h ctx' s' t' r.
     run_state (Client_GetVolume one_vol_client ctx' 1 ''p'') s' = (r, t') \<and> h = (0 :: nat) \<and>
     (case r of Inl err \<Rightarrow> isStatusNotFound err
      | Inr v \<Rightarrow> vol_State v \<in> {VolumeDeleting, VolumeFailed})"
proof -
  let ?req = "\<lparr>vr_VolumeId = lbResourceID_String hex_guuid one_vol_rid, vr_Secrets = Map.empty\<rparr>"
  have "run_state (doDeleteVolume (lbgrpc_Client one_vol_client) ctx one_vol_rid) one_vol =
      (Inr (), one_vol\<lparr>mv_State := Volume_Deleting\<rparr>)" for ctx
    using one_vol_get(1) [of ctx "''p''" ACLAllowNone] one_vol_delete [of ctx "''p''"]
    by (simp add: doDeleteVolume_def lbgrpc_Client_def one_vol_rid_sel one_vol_one_vol [symmetric])
       (simp add: one_vol_lb_def)
  then have "run_state (DeleteVolume one_vol_driver ctx0 ?req) one_vol =
      (Inr (), one_vol\<lparr>mv_State := Volume_Deleting\<rparr>)"
    by (simp add: DeleteVolume_def one_vol_rid_parse parseCSIResourceIDEnoent_def
        one_vol_rid_not_Nil one_vol_client_borrow Let_def)
  from delete_observed [OF this, of "\<lambda>_. one_vol_client"]
  show ?thesis by (auto simp: one_vol_rid_parse one_vol_rid_sel)
qed

definition one_vol_params :: "string \<rightharpoonup> string" where
  "one_vol_params = [volParMgmtEPKey \<mapsto> ''a:1'', volParRepCntKey \<mapsto> ''3'', volParProjNameKey \<mapsto> ''p'']"

definition one_vol_parsed :: lbCreateVolumeParams where
  "one_vol_parsed = \<lparr>par_mgmtEPs = [\<lparr>ep_host = ''a'', ep_port = 1\<rparr>], par_replicaCount = 3,
     par_compression = False, par_projectName = ''p'', par_mgmtScheme = grpcsXport,
     par_qosPolicyName = [], par_hostCrypto = []\<rparr>"

definition one_vol_create :: csi_CreateVolumeRequest where
  "one_vol_create = \<lparr>cv_Name = ''v'',
     cv_CapacityRange = Some \<lparr>cr_RequiredBytes = 4294967296, cr_LimitBytes = 0\<rparr>,
     cv_VolumeCapabilities = [Some \<lparr>cap_AccessType = Some (AT_Block (Some ())),
       cap_AccessMode = Some SINGLE_NODE_WRITER\<rparr>],
     cv_Parameters = one_vol_params, cv_Secrets = Map.empty, cv_VolumeContentSource = None,
     cv_AccessibilityRequirements = None\<rparr>"

lemma one_vol_plain: "plain_create one_vol_driver one_vol_create 4294967296 one_vol_parsed"
proof -
  have "parseCSICreateVolumeParams one_vol_params = Inr one_vol_parsed"
    by (simp add: parseCSICreateVolumeParams_def one_vol_params_def one_vol_parsed_def map_idx_def
        param_keys ep_eval checkProjectName_def projNameRegex_match_def lc_alnum_def)
  moreover have "getReqCapacity (Some \<lparr>cr_RequiredBytes = 4294967296, cr_LimitBytes = 0\<rparr>) =
      Inr 4294967296"
    by (simp add: getReqCapacity_def quo64_def minVolCap_def volCapGranularity_def
        signed_divide_int_def)
  ultimately show ?thesis
    by (simp add: plain_create_def one_vol_create_def validateVolumeCapabilities_def
        validateVolumeCapability_def supportedAccessModes_def)
qed

definition one_vol_response :: csi_Volume where
  "one_vol_response = mkVolumeResponse hex_guuid [\<lparr>ep_host = ''a'', ep_port = 1\<rparr>]
     (one_vol_lb ACLAllowNone VolumeAvailable) [] grpcsXport None"

lemma one_vol_by_name:
  "run_state (Client_GetVolumeByName one_vol_client ctx ''v'' ''p'') one_vol =
     (Inr (one_vol_lb ACLAllowNone VolumeAvailable), one_vol)"
  by (simp add: Client_GetVolumeByName_def one_vol_defs one_vol_lb_def Let_def split: option.split)

lemma one_vol_borrow:
  "run_state (GetLBClient one_vol_driver ctx eps scheme) s = (Inr 0, s)"
  by (simp add: GetLBClient_def one_vol_driver_def lbgrpc_Client_def Client_RemoteOk_def
      one_vol_env one_vol_api_def supportedAPIVersions_def)

lemma one_vol_stands_in:
  "stands_in (mkWantVol ''v'' 4294967296 one_vol_parsed) cr None None
     (one_vol_lb ACLAllowNone VolumeAvailable)"
  "IsAccessible (one_vol_lb ACLAllowNone VolumeAvailable)"
  by (simp_all add: stands_in_def mkWantVol_def one_vol_parsed_def one_vol_lb_def IsAccessible_def)

lemma one_vol_lookup:
  "run_state (cl_GetVolumeByName (d_client one_vol_driver 0) ctx (cv_Name one_vol_create)
     (par_projectName one_vol_parsed)) one_vol =
   (Inr (one_vol_lb ACLAllowNone VolumeAvailable), one_vol)"
  using one_vol_by_name by (simp add: lbgrpc_Client_def one_vol_create_def one_vol_parsed_def)

lemma one_vol_create_result:
  "mkVolumeResponse hex_guuid (par_mgmtEPs one_vol_parsed)
     (one_vol_lb ACLAllowNone VolumeAvailable) (par_hostCrypto one_vol_parsed)
     (par_mgmtScheme one_vol_parsed) None = one_vol_response"
  "snd (run_state (PutLBClient one_vol_driver 0) s) = s"
  "cv_Name one_vol_create = ''v''"
  by (simp_all add: one_vol_response_def one_vol_parsed_def one_vol_create_def PutLBClient_def
      one_vol_driver_def)

theorem CreateVolume_idempotent_witness:
  "run_state (CreateVolume one_vol_driver ctx0 one_vol_create) one_vol = (Inr one_vol_response, one_vol)"
  using CreateVolume_idempotent [OF one_vol_plain refl one_vol_borrow one_vol_lookup]
    one_vol_stands_in by (simp add: one_vol_create_result)


definition one_vol_snap_req :: csi_CreateSnapshotRequest where
  "one_vol_snap_req = \<lparr>cs_Name = ''sn'',
     cs_SourceVolumeId = lbResourceID_String hex_guuid one_vol_rid, cs_Secrets = Map.empty\<rparr>"

theorem CreateSnapshot_response_witness:
  "\<exists>resp srcVid sn. run_state (CreateSnapshot one_vol_driver ctx0 one_vol_snap_req) one_vol =
      (Inr resp, one_vol) \<and> snapshot_of one_vol_client ''sn'' ''by: LB CSI'' srcVid sn \<and>
    rs_SizeBytes resp = snap_Capacity sn \<and>
    parseCSIResourceID hex_guuid (rs_SourceVolumeId resp) = Inr (srcVid :: lbResourceID)"
proof -
  have "\<exists>sn. run_state (doCreateSnapshot (lbgrpc_Client one_vol_client) ctx ''sn'' one_vol_rid descr)
      one_vol = (Inr sn, one_vol)" for ctx descr
    by (simp add: doCreateSnapshot_def lbgrpc_Client_def one_vol_rid_sel Client_GetSnapshotByName_def
        Client_getSnapshot_def one_vol_clone one_vol_env one_vol_api_def lbSnapshotFromGRPC_def
        one_snap_def one_vol_client_def lbSnapshotStateFromGRPC_def SnapshotState_of_def
        Let_def cloneCtxWithCap_def split: option.split)
  then obtain sn where "run_state (doCreateSnapshot (lbgrpc_Client one_vol_client)
      (cloneCtxWithCreds one_vol_driver ctx0 Map.empty) ''sn'' one_vol_rid ''by: LB CSI'') one_vol =
      (Inr sn, one_vol)" by blast
  then have run: "run_state (CreateSnapshot one_vol_driver ctx0 one_vol_snap_req) one_vol =
      (Inr (mkSnapshotResponse hex_guuid one_vol_rid sn), one_vol)"
    by (simp add: CreateSnapshot_def one_vol_snap_req_def one_vol_rid_parse Let_def
        parseCSIResourceIDEinval_def one_vol_rid_not_Nil one_vol_client_borrow)
  have gs: "d_guuid one_vol_driver = hex_guuid"
    "\<And>h. d_client one_vol_driver h = lbgrpc_Client one_vol_client" by simp_all
  have nm: "cs_Name one_vol_snap_req = ''sn''" by (simp add: one_vol_snap_req_def)
  from CreateSnapshot_response [OF run gs(2), unfolded gs(1) nm, OF guuid_ok_hex]
  obtain srcVid and sn' :: Snapshot where "snapshot_of one_vol_client ''sn'' ''by: LB CSI'' srcVid sn'"
    "rs_SizeBytes (mkSnapshotResponse hex_guuid one_vol_rid sn) = snap_Capacity sn'"
    "parseCSIResourceID hex_guuid (rs_SourceVolumeId (mkSnapshotResponse hex_guuid one_vol_rid sn)) =
      Inr srcVid" by blast
  with run show ?thesis by blast
qed

end
