(* ===== verification/Sim_Runs.thy ===== *)
theory Sim_Runs
  imports Sim_Host Controller_Spec
begin

text \<open>
  Runs of the node service on the host of the theory \<open>Sim_Host\<close>: a volume that is staged (with and
  without encryption), published, unpublished and unstaged, and a block volume. The witnesses of
  the node properties are these runs.
\<close>

lemma sim_sel [simp]:
  "os_ReadFile sim_os = (\<lambda>p. ask (\<lambda>w. found (sw_files w p)))" "os_Stat sim_os = (\<lambda>p. ask (sim_stat p))"
  "os_EvalSymlinks sim_os = (\<lambda>p. ask (\<lambda>w. found (sw_links w p)))" "os_Abs sim_os = (\<lambda>p. ask (\<lambda>w. Inr p))"
  "os_OpenCreate sim_os =
    (\<lambda>p. upd (\<lambda>w. if sw_files w p = None then w\<lparr>sw_files := (sw_files w)(p \<mapsto> [])\<rparr> else w))"
  "os_CloseFile sim_os = (\<lambda>p. ask (\<lambda>w. Inr ()))" "os_Remove sim_os = sim_remove"
  "os_RemoveAll sim_os = (\<lambda>p. upd (\<lambda>w. w\<lparr>sw_files := (sw_files w)(p := None)\<rparr>))"
  "os_MkdirAll sim_os = (\<lambda>p. ask (\<lambda>w. Inr ()))" "os_CreateTemp sim_os = sim_temp"
  "os_WriteString sim_os = sim_write" "os_Rename sim_os = sim_rename" "os_Exec sim_os = sim_exec"
  "nd_d sim_node = sim_driver" "nd_env sim_node = sim_env" "nd_os sim_node = sim_os"
  "nd_mnt sim_node = sim_mounter" "nd_be sim_node = sim_backend" "nd_isIP sim_node = (\<lambda>_. True)"
  "d_guuid sim_driver = hex_guuid" "d_rwx sim_driver = False" "d_client sim_driver = (\<lambda>_. sim_client)"
  "d_hostNQN sim_driver = nodeIDToHostNQN ''n1''"
  "mt_IsMountPoint sim_mounter = (\<lambda>p. ask (\<lambda>w. (sw_mounts w p \<noteq> None, None)))"
  "mt_Mount sim_mounter = (\<lambda>src p fs opts. upd (\<lambda>w. w\<lparr>sw_mounts := (sw_mounts w)(p \<mapsto> src)\<rparr>))"
  "dsc_dscCfgPath sim_dsc = defaultDSCConfigPath"
  by (simp_all add: sim_os_def sim_node_def sim_driver_def sim_mounter_def sim_dsc_def)

definition sim_rid :: "string \<Rightarrow> lbResourceID" where
  "sim_rid c = \<lparr>rid_mgmtEPs = [\<lparr>ep_host = ''a'', ep_port = 1\<rparr>], rid_uuid = 5, rid_projName = ''p'',
     rid_scheme = grpcsXport, rid_hostCrypto = c\<rparr>"

lemma sim_rid_parse:
  assumes "c \<in> {[], defaultLuksFormat}"
  shows "parseCSIResourceID hex_guuid (lbResourceID_String hex_guuid (sim_rid c)) = Inr (sim_rid c)"
    "parseCSIResourceIDEinval hex_guuid f (lbResourceID_String hex_guuid (sim_rid c)) = Inr (sim_rid c)"
proof -
  show "parseCSIResourceID hex_guuid (lbResourceID_String hex_guuid (sim_rid c)) = Inr (sim_rid c)"
    by (rule parseCSIResourceID_String [OF _ guuid_ok_hex])
      (use assms in \<open>auto simp: sim_rid_def wf_rid_def canonical_Slice_def wf_EP_def ep_eval
        projNameRegex_match_def lc_alnum_def\<close>)
  then show "parseCSIResourceIDEinval hex_guuid f (lbResourceID_String hex_guuid (sim_rid c)) = Inr (sim_rid c)"
    by (simp add: parseEinval_Inr)
qed

abbreviation sim_link :: string where
  "sim_link \<equiv> filepath_Join diskByIDPath (nvmeUUIDPrefix @ guuid_String hex_guuid 5)"

lemma sim_devPath:
  assumes "sw_links w sim_link = Some dev" "dev \<noteq> []"
  shows "run_state (getDevPathByUUID sim_os hex_guuid 5) w = (Inr dev, w)"
  using assms by (simp add: getDevPathByUUID_def sim_os_def found_def run_or_fail)

lemma sim_devicePath:
  assumes "sw_links w sim_link = Some dev" "dev \<noteq> []"
  shows "run_state (nd_getDevicePath sim_node 5) w = (Inr dev, w)"
  using sim_devPath[OF assms] assms(2)
  by (simp add: getDevicePath_def sim_node_def sim_driver_def WithRetries_def WithExponentialBackoff_def
      normalize_opts_def sim_env_def numeral_eq_Suc Let_def)

lemma sim_eps:
  "ParseSliceIP (\<lambda>_. True) [''10.0.0.1:80''] = Inr [\<lparr>ep_host = ''10.0.0.1'', ep_port = 80\<rparr>]"
  "ParseSliceIP (\<lambda>_. True) [''10.0.0.1:44''] = Inr [\<lparr>ep_host = ''10.0.0.1'', ep_port = 44\<rparr>]"
proof -
  have "TrimSpace ''10.0.0.1:80'' = ''10.0.0.1:80''" "TrimSpace ''10.0.0.1:44'' = ''10.0.0.1:44''"
    by (auto intro!: TrimSpace_id)
  moreover have "ParseStricter ''10.0.0.1:80'' = Inr \<lparr>ep_host = ''10.0.0.1'', ep_port = 80\<rparr>"
    "ParseStricter ''10.0.0.1:44'' = Inr \<lparr>ep_host = ''10.0.0.1'', ep_port = 44\<rparr>"
    by (simp_all add: ep_eval)
  ultimately show "ParseSliceIP (\<lambda>_. True) [''10.0.0.1:80''] = Inr [\<lparr>ep_host = ''10.0.0.1'', ep_port = 80\<rparr>]"
    "ParseSliceIP (\<lambda>_. True) [''10.0.0.1:44''] = Inr [\<lparr>ep_host = ''10.0.0.1'', ep_port = 44\<rparr>]"
    by (simp_all add: ParseSliceIP_def canonicalize_def ParseIP_def Parse_def uniq_sorted_def)
qed

lemma sim_tgtEnv: "\<exists>te. run_state (queryLBforTargetEnv sim_node ctx sim_client) w = (Inr te, w)"
proof -
  have "nd_isIP sim_node = (\<lambda>_. True)" "ci_DiscoveryEndpoints sim_cluster = [''10.0.0.1:80'']"
    "ci_NvmeEndpoints sim_cluster = [''10.0.0.1:44'']"
    by (simp_all add: sim_node_def sim_cluster_def)
  with sim_eps show ?thesis by (simp add: queryLBforTargetEnv_def sim_client_def)
qed

abbreviation sim_rest :: "sim_world \<Rightarrow> _" where
  "sim_rest \<equiv> \<lambda>w. (sw_links w, sw_mounts w, sw_disks w, sw_headers w, sw_open w)"

abbreviation sim_tmp :: "sim_world \<Rightarrow> string" where
  "sim_tmp w \<equiv> defaultDSCConfigPath @ ''/'' @ dscReservedPrefix @ FormatUint10 (sw_temp w)"

lemma sim_checkDSC: "run_state (checkDSCCfgPath sim_env sim_os sim_dsc) (w, st) = (Inr (), (w, st))"
  by (simp add: checkDSCCfgPath_def sim_dsc_def sim_os_def sim_stat_def lift_fst_def)

lemma sim_dsc_path: "filepath_Join defaultDSCConfigPath (guuid_String hex_guuid u) =
    defaultDSCConfigPath @ ''/'' @ guuid_String hex_guuid u"
  using dsc_path(1)[OF guuid_ok_hex] by (simp add: sim_dsc_def)

lemma sim_dsc_Attach:
  assumes "sw_files w (sim_tmp w) = None"
  shows "\<exists>w'. run_state (dsc_Attach sim_env sim_os hex_guuid sim_dsc te u) (w, st) = (None, (w', st)) \<and>
    sim_rest w' = sim_rest w \<and>
    sw_files w' = (sw_files w)(defaultDSCConfigPath @ ''/'' @ guuid_String hex_guuid u \<mapsto> dsc_content sim_dsc te)"
proof -
  let ?p = "defaultDSCConfigPath @ ''/'' @ guuid_String hex_guuid u"
  note path = dsc_path(2)[OF guuid_ok_hex, of u]
  have "\<exists>w'. run_state (writeDSCCfgFile sim_os sim_dsc ?p te) w = (Inr (), w') \<and> sim_rest w' = sim_rest w"
    using assms path[symmetric]
    by (auto simp: writeDSCCfgFile_def run_then_io run_or_fail sim_os_def sim_dsc_def sim_temp_def sim_write_def
        sim_rename_def sim_remove_def Let_def)
  then obtain w' where w': "run_state (writeDSCCfgFile sim_os sim_dsc ?p te) w = (Inr (), w')"
    "sim_rest w' = sim_rest w" by blast
  have "dsc_dscCfgPath sim_dsc = defaultDSCConfigPath" by (simp add: sim_dsc_def)
  then have "sw_files w' = (sw_files w)(?p \<mapsto> dsc_content sim_dsc te)"
    using sim_files.writeDSCCfgFile_files[OF w'(1)] path by simp
  with sim_checkDSC w' show ?thesis by (simp add: dsc_Attach_run sim_dsc_path)
qed

lemma sim_attach:
  assumes "sw_files w (sim_tmp w) = None"
  shows "\<exists>w'. run_state (be_Attach sim_backend ctx te u) w = (None, w') \<and> sim_rest w' = sim_rest w \<and>
    sw_files w' = (sw_files w)(defaultDSCConfigPath @ ''/'' @ guuid_String hex_guuid u \<mapsto> dsc_content sim_dsc te)"
  using sim_dsc_Attach[OF assms, of te u "sw_dsc w"]
  by (auto simp: sim_backend_def dsc_Backend_of_def on_dsc_def Let_def)

lemma sim_detach:
  "\<exists>w'. run_state (be_Detach sim_backend ctx u) w = (None, w')"
  by (simp add: sim_backend_def dsc_Backend_of_def on_dsc_def dsc_Detach_run sim_checkDSC sim_remove_def)

abbreviation sim_mapper :: string where "sim_mapper \<equiv> luksMapperFileName hex_guuid 5"

lemma sim_aes:
  assumes "sw_files w ''/proc/cpuinfo'' = Some ''flags:aes''"
  shows "run_state (isAESSupported sim_os) w = (True, w)"
proof -
  have "TrimSpace ''flags'' = ''flags''" by (auto intro!: TrimSpace_id)
  moreover have "strings_Fields ''aes'' = [''aes'']" 
    using fields_from_visible[of "''aes''" "[]"] by (simp add: strings_Fields_def del: fields_from.simps)
  ultimately show ?thesis using assms
    by (simp add: isAESSupported_def sim_os_def found_def strings_SplitN2_def)
qed

lemma sim_open:
  assumes "sw_links w sim_link = Some dev" "dev \<noteq> []" "sw_files w ''/proc/cpuinfo'' = Some ''flags:aes''"
    and "sw_headers w dev = Some pw" "sw_files w (diskMapperPath @ sim_mapper) = None"
    and "sw_mounts w (diskMapperPath @ sim_mapper) = None" "diskMapperPath @ sim_mapper \<notin> set (sw_open w)"
  shows "\<exists>m. run_state (encryptAndOpenDevice (nd_luks sim_node) 5 pw) w =
    (Inr m, w\<lparr>sw_open := (diskMapperPath @ sim_mapper) # sw_open w\<rparr>)"
proof -
  have luks: "nd_luks sim_node = \<lparr>lk_os = sim_os, lk_guuid = hex_guuid, lk_yaml = \<lambda>_ _. None, lk_cfgFile = ''/l''\<rparr>"
    by (simp add: nd_luks_def sim_node_def sim_driver_def)
  have "diskMapperPath @ sim_mapper \<noteq> defaultDSCConfigPath"
    by (simp add: diskMapperPath_def defaultDSCConfigPath_def)
  then have 1: "run_state (getEncryptedDevicePath (nd_luks sim_node) 5) w = (Inr [], w)"
    using assms by (simp add: getEncryptedDevicePath_def luks sim_os_def sim_stat_def Let_def)
  have 2: "run_state (luksIsLuks (nd_luks sim_node) dev) w = (Inr True, w)"
    using assms by (simp add: luksIsLuks_def luks) (simp add: sim_os_def sim_exec_def)
  have 3: "run_state (luksOpen (nd_luks sim_node) dev sim_mapper pw) w =
      (Inr (), w\<lparr>sw_open := (diskMapperPath @ sim_mapper) # sw_open w\<rparr>)"
    using assms(4) sim_aes[OF assms(3)]
    by (simp add: luksOpen_def luks) (simp add: sim_os_def sim_exec_def, simp add: luksOpen_args_def)
  have os: "lk_os (nd_luks sim_node) = sim_os" "lk_guuid (nd_luks sim_node) = hex_guuid" by (simp_all add: luks)
  show ?thesis unfolding encryptAndOpenDevice_def os
    using 1 2 3 sim_devPath[OF assms(1,2)] by (simp add: run_then_io run_or_fail)
qed

lemma sim_stage_mount:
  assumes "sw_disks w = (\<lambda>_. XfsFS)" "GetBlock cap = None" "GetMount cap = Some m" "mnt_FsType m = []"
  shows "run_state (stage_mount sim_node vid cap p dev) w = (Inr (Some ()), w\<lparr>sw_mounts := (sw_mounts w)(p \<mapsto> dev)\<rparr>)"
proof -
  have "sim_format w dev = XfsFS" "sim_mkfs dev XfsFS w = w"
    using assms(1) by (simp_all add: sim_mkfs_def sim_format_def XfsFS_def)
  with assms show ?thesis
    by (simp add: stage_mount_def stage_fstype_def run_then_io run_or_fail sim_node_def sim_mounter_def Let_def XfsFS_def)
qed

definition mount_cap :: VolumeCapability where
  "mount_cap = \<lparr>cap_AccessType = Some (AT_Mount (Some \<lparr>mnt_FsType = [], mnt_MountFlags = []\<rparr>)),
     cap_AccessMode = Some SINGLE_NODE_WRITER\<rparr>"

definition sim_stage :: "string \<Rightarrow> csi_NodeStageRequest" where
  "sim_stage c = \<lparr>ns_VolumeId = lbResourceID_String hex_guuid (sim_rid c), ns_StagingTargetPath = ''/stage'',
     ns_VolumeCapability = Some mount_cap, ns_Secrets = [volHostEncryptionPassphraseKey \<mapsto> ''pw'']\<rparr>"

definition sim_w :: sim_world where
  "sim_w = \<lparr>sw_files = [''/proc/cpuinfo'' \<mapsto> ''flags:aes''], sw_links = [sim_link \<mapsto> ''/dev/nvme0n1''],
     sw_mounts = Map.empty, sw_disks = (\<lambda>_. XfsFS), sw_headers = [''/dev/nvme0n1'' \<mapsto> ''pw''], sw_open = [],
     sw_temp = 0, sw_dsc = \<lparr>dsc_lastDSCWarnTime = None, dsc_warned = []\<rparr>\<rparr>"

lemma mount_cap_ok:
  "validateVolumeCapability False (Some mount_cap) = Inr ()" "GetBlock (Some mount_cap) = None"
  "GetMount (Some mount_cap) = Some \<lparr>mnt_FsType = [], mnt_MountFlags = []\<rparr>"
  by (simp_all add: mount_cap_def validateVolumeCapability_def supportedAccessModes_def GetBlock_def GetMount_def)

lemma sim_eligible: "run_state (lbVolEligible sim_node ctx sim_client vid) w = (Inr (), w)"
proof -
  have "run_state (be_LBVolEligible sim_backend ctx sim_volume) w = (None, w)"
    by (cases w) (simp add: sim_backend_def dsc_Backend_of_def on_dsc_def Let_def)
  then show ?thesis
    by (simp add: lbVolEligible_def sim_client_def sim_node_def sim_driver_def)
      (simp add: sim_volume_def IsUsable_def IsAccessible_def IsWritable_def)
qed

lemma sim_borrow: "run_state (GetLBClient sim_driver ctx eps scheme) w = (Inr 0, w)"
  "run_state (PutLBClient sim_driver 0) w = ((), w)" "d_client sim_driver h = sim_client"
  by (simp_all add: GetLBClient_def PutLBClient_def sim_driver_def sim_client_def)

lemma sim_stage_encrypted:
  assumes w1: "sim_rest w1 = sim_rest sim_w"
    "sw_files w1 = (sw_files sim_w)(defaultDSCConfigPath @ ''/'' @ guuid_String hex_guuid 5 \<mapsto> content)"
  shows "\<exists>d o'. run_state (stage_encrypted sim_node (sim_rid c) (ns_Secrets (sim_stage c)) ''/dev/nvme0n1'') w1 =
    (Inr d, w1\<lparr>sw_open := o'\<rparr>) \<and> o' = (if c = [] then [] else [diskMapperPath @ sim_mapper])"
proof (cases "c = []")
  case True
  then show ?thesis
    by (intro exI[of _ "''/dev/nvme0n1''"] exI[of _ "sw_open w1"]) (use w1(1) in \<open>simp add: stage_encrypted_def sim_rid_def sim_w_def\<close>)
next
  case False
  have "\<exists>m. run_state (encryptAndOpenDevice (nd_luks sim_node) 5 ''pw'') w1 =
    (Inr m, w1\<lparr>sw_open := (diskMapperPath @ sim_mapper) # sw_open w1\<rparr>)"
    using w1 by (intro sim_open) (simp_all add: sim_w_def defaultDSCConfigPath_def diskMapperPath_def)
  with False w1(1) show ?thesis
    by (auto simp: sim_w_def stage_encrypted_def sim_rid_def sim_stage_def volHostEncryptionPassphraseKeyMaxLen_def run_or_fail)
qed

lemma sim_stage_run:
  assumes "c \<in> {[], defaultLuksFormat}"
  shows "\<exists>w' dev fc. run_state (NodeStageVolume sim_node ctx (sim_stage c)) sim_w = (Inr (Some ()), w') \<and>
    sw_links w' = sw_links sim_w \<and> sw_mounts w' = [''/stage'' \<mapsto> dev] \<and>
    sw_files w' = (sw_files sim_w)(defaultDSCConfigPath @ ''/'' @ guuid_String hex_guuid 5 \<mapsto> fc) \<and>
    sw_open w' = (if c = [] then [] else [diskMapperPath @ sim_mapper])"
proof -
  let ?c = "cloneCtxWithCreds sim_driver ctx (ns_Secrets (sim_stage c))"
  obtain te where te: "run_state (queryLBforTargetEnv sim_node ?c sim_client) sim_w = (Inr te, sim_w)"
    using sim_tgtEnv by blast
  have "sw_files sim_w (sim_tmp sim_w) = None" by (simp add: sim_w_def defaultDSCConfigPath_def)
  from sim_attach[OF this] obtain w1 where w1: "run_state (be_Attach sim_backend ?c te 5) sim_w = (None, w1)"
    "sim_rest w1 = sim_rest sim_w"
    "sw_files w1 = (sw_files sim_w)(defaultDSCConfigPath @ ''/'' @ guuid_String hex_guuid 5 \<mapsto> dsc_content sim_dsc te)"
    by blast
  have dev: "run_state (nd_getDevicePath sim_node 5) w1 = (Inr ''/dev/nvme0n1'', w1)"
    using w1(2) by (intro sim_devicePath) (simp_all add: sim_w_def)
  from sim_stage_encrypted[OF w1(2,3)]
  obtain d o' where enc: "run_state (stage_encrypted sim_node (sim_rid c) (ns_Secrets (sim_stage c)) ''/dev/nvme0n1'') w1 =
      (Inr d, w1\<lparr>sw_open := o'\<rparr>)" and o': "o' = (if c = [] then [] else [diskMapperPath @ sim_mapper])" by blast
  have mnt: "run_state (stage_mount sim_node (sim_rid c) (Some mount_cap) ''/stage'' d) (w1\<lparr>sw_open := o'\<rparr>) =
      (Inr (Some ()), w1\<lparr>sw_open := o', sw_mounts := (sw_mounts w1)(''/stage'' \<mapsto> d)\<rparr>)"
    using w1(2) mount_cap_ok by (subst sim_stage_mount[where m = "\<lparr>mnt_FsType = [], mnt_MountFlags = []\<rparr>"]) (simp_all add: sim_w_def)
  have req: "ns_VolumeId (sim_stage c) = lbResourceID_String hex_guuid (sim_rid c)" "ns_StagingTargetPath (sim_stage c) = ''/stage''"
    "ns_VolumeCapability (sim_stage c) = Some mount_cap" by (simp_all add: sim_stage_def)
  have m0: "run_state (mt_IsMountPoint (nd_mnt sim_node) ''/stage'') sim_w = ((False, None), sim_w)"
    by (simp add: sim_node_def sim_mounter_def sim_w_def)
  have u: "rid_uuid (sim_rid c) = 5" by (simp add: sim_rid_def)
  have "run_state (NodeStageVolume sim_node ctx (sim_stage c)) sim_w =
      (Inr (Some ()), w1\<lparr>sw_open := o', sw_mounts := (sw_mounts w1)(''/stage'' \<mapsto> d)\<rparr>)"
    using te w1(1) dev enc mnt m0
    by (simp add: NodeStageVolume_def req sim_rid_parse[OF assms] mount_cap_ok with_client_def sim_borrow sim_eligible
        run_then_io stage_local_def stage_attach_def u Let_def)
  with w1(2,3) o' show ?thesis by (auto simp: sim_w_def)
qed

text \<open>The rest of the life of the volume.\<close>

definition sim_publish :: "string \<Rightarrow> VolumeCapability \<Rightarrow> csi_NodePublishRequest" where
  "sim_publish c cap = \<lparr>np_VolumeId = lbResourceID_String hex_guuid (sim_rid c), np_StagingTargetPath = ''/stage'',
     np_TargetPath = ''/target'', np_VolumeCapability = Some cap, np_Readonly = False\<rparr>"

definition sim_unpublish :: csi_NodeUnpublishRequest where
  "sim_unpublish = \<lparr>nq_VolumeId = lbResourceID_String hex_guuid (sim_rid []), nq_TargetPath = ''/target''\<rparr>"

definition sim_unstage :: "string \<Rightarrow> csi_NodeUnstageRequest" where
  "sim_unstage c = \<lparr>nu_VolumeId = lbResourceID_String hex_guuid (sim_rid c), nu_StagingTargetPath = ''/stage''\<rparr>"

lemma sim_parse:
  "c \<in> {[], defaultLuksFormat} \<Longrightarrow> parseCSIResourceIDEinval (d_guuid (nd_d sim_node)) f
    (lbResourceID_String hex_guuid (sim_rid c)) = Inr (sim_rid c)"
  by (simp add: sim_rid_parse)

lemma sim_publish_run:
  assumes "sw_mounts w ''/target'' = None" "sw_files w ''/target'' = None" "sw_open w = []"
  shows "run_state (NodePublishVolume sim_node (sim_publish [] mount_cap)) w =
    (Inr (), w\<lparr>sw_mounts := (sw_mounts w)(''/target'' \<mapsto> ''/stage'')\<rparr>)"
  using assms
  by (simp add: NodePublishVolume_def sim_publish_def sim_rid_parse publish_local_def publish_by_type_def mount_cap_ok
      nodePublishVolumeForFileSystem_def run_then_io run_or_fail sim_stat_def defaultDSCConfigPath_def)
    (simp add: mount_cap_def run_then_io run_or_fail nodePublishVolumeForFileSystem_def)

lemma sim_unmount:
  "run_state (unmount_path sim_node p) w = (Inr (), w\<lparr>sw_mounts := (sw_mounts w)(p := None)\<rparr>)"
proof (cases "sw_mounts w p")
  case None
  then have "w\<lparr>sw_mounts := (sw_mounts w)(p := None)\<rparr> = w" by (simp add: fun_upd_idem)
  with None show ?thesis by (simp add: unmount_path_def)
qed (simp add: unmount_path_def run_or_fail sim_mounter_def)

lemma sim_unpublish_run:
  "\<exists>w'. run_state (NodeUnpublishVolume sim_node sim_unpublish) w = (Inr (), w')"
  by (simp add: NodeUnpublishVolume_def sim_unpublish_def sim_rid_parse run_then_io run_or_fail sim_unmount)

lemma sim_unstage_run:
  "\<exists>w'. run_state (NodeUnstageVolume sim_node ctx (sim_unstage [])) w = (Inr (Some ()), w')"
proof -
  obtain w' where "run_state (be_Detach sim_backend ctx 5) (w\<lparr>sw_mounts := (sw_mounts w)(''/stage'' := None)\<rparr>) = (None, w')"
    using sim_detach by blast
  then show ?thesis
    by (simp add: NodeUnstageVolume_def sim_unstage_def sim_rid_parse run_then_io sim_unmount unstage_close_def)
      (simp add: sim_rid_def run_then_io)
qed

definition block_cap :: VolumeCapability where
  "block_cap = \<lparr>cap_AccessType = Some (AT_Block (Some ())), cap_AccessMode = Some SINGLE_NODE_WRITER\<rparr>"

definition sim_opened :: sim_world where
  "sim_opened = sim_w\<lparr>sw_open := [diskMapperPath @ sim_mapper]\<rparr>"

lemma strings_Contains_append: "strings_Contains b p \<Longrightarrow> strings_Contains (a @ b) p"
  by (induction a) auto

lemma sim_status: "run_state (getEncryptedDevicePath (nd_luks sim_node) 5) sim_opened =
    (Inr (diskMapperPath @ sim_mapper), sim_opened)"
proof -
  let ?m = "diskMapperPath @ sim_mapper"
  have "CHR 0x0A \<notin> set (guuid_String hex_guuid 5)"
    using uuid_form_hex(2)[of "guuid_String hex_guuid 5" "CHR 0x0A"] guuid_ok_hex
    by (auto simp: guuid_ok_def is_hex_def less_eq_char_def)
  then have "strings_Split CHR 0x0A (?m @ '' is active.'') = [?m @ '' is active.'']"
    by (intro strings_Split_no_sep) (simp add: luksMapperFileName_def nvmeUUIDPrefix_def diskMapperPath_def)
  moreover have "strings_Contains (?m @ '' is active.'') ''is active''"
    by (rule strings_Contains_append) simp
  ultimately have "run_state (luksStatus (nd_luks sim_node) ?m) sim_opened = (True, sim_opened)"
    by (simp add: luksStatus_def nd_luks_def sim_exec_def sim_opened_def)
  then show ?thesis
    by (simp add: getEncryptedDevicePath_def Let_def nd_luks_fields)
      (simp add: sim_stat_def sim_opened_def sim_w_def defaultDSCConfigPath_def diskMapperPath_def)
qed

lemma sim_block_run:
  "\<exists>w'. run_state (NodePublishVolume sim_node (sim_publish defaultLuksFormat block_cap)) sim_opened = (Inr (), w')"
proof -
  have "run_state (nd_getDevicePath sim_node 5) sim_opened = (Inr ''/dev/nvme0n1'', sim_opened)"
    by (rule sim_devicePath) (simp_all add: sim_w_def sim_opened_def)
  moreover note sim_status
  moreover have "validateVolumeCapability False (Some block_cap) = Inr ()"
    by (simp add: block_cap_def validateVolumeCapability_def supportedAccessModes_def)
  moreover have "run_state (ask (sim_stat ''/target'')) sim_opened = (Inl os_NotExist, sim_opened)"
    by (simp add: sim_stat_def sim_w_def sim_opened_def defaultDSCConfigPath_def diskMapperPath_def)
  moreover have "cap_AccessType block_cap = Some (AT_Block (Some ()))" by (simp add: block_cap_def)
  moreover have "rid_uuid (sim_rid c) = 5" "rid_hostCrypto (sim_rid c) = c" for c by (simp_all add: sim_rid_def)
  ultimately show ?thesis
    by (simp add: NodePublishVolume_def sim_publish_def sim_rid_parse publish_local_def publish_by_type_def
        nodePublishVolumeForBlock_def run_then_io run_or_fail MakeFile_def Let_def)
qed

definition sim_target :: TargetEnv where
  "sim_target = \<lparr>te_SubsysNQN = ''nqn.s'', te_DiscoveryEPs = [\<lparr>ep_host = ''10.0.0.1'', ep_port = 80\<rparr>], te_NvmeEPs = []\<rparr>"

end
