(* ===== verification/Node_Props.thy ===== *)
theory Node_Props
  imports Sim_Runs
begin

text \<open>
  The properties of the node side, stated for every host that meets the assumptions of \<open>node_host\<close> or
  \<open>host_files\<close>, each with a run on the host of the theory \<open>Sim_Host\<close>.
\<close>

subsection \<open>Staging\<close>

text \<open>
  C9. Staging a volume never overwrites an encryption header: whatever \<open>NodeStageVolume\<close> is asked to
  do and however it ends, every device that had a LUKS header has the same one afterwards. The
  device is formatted only after \<open>cryptsetup isLuks\<close> has said that it has none.
\<close>

theorem NodeStage_keeps_headers:
  assumes "node_host n mounted disk header"
    and "run_state (NodeStageVolume n ctx req) w = (r, w')"
    and "header w dev = Some k"
  shows "header w' dev = Some k"
  using keepsD[OF node_host.NodeStage_headers[OF assms(1), of ctx req "header w"] assms(2)] assms(3)
  by (simp add: headers_kept_def)

theorem NodeStage_keeps_headers_witness:
  "\<exists>w'. run_state (NodeStageVolume sim_node ctx0 (sim_stage defaultLuksFormat)) sim_w = (Inr (Some ()), w') \<and>
     sw_headers w' ''/dev/nvme0n1'' = Some ''pw''"
proof -
  obtain w' where run: "run_state (NodeStageVolume sim_node ctx0 (sim_stage defaultLuksFormat)) sim_w = (Inr (Some ()), w')"
    using sim_stage_run[of defaultLuksFormat] by auto
  with NodeStage_keeps_headers[OF sim.node_host_axioms run, of "''/dev/nvme0n1''" "''pw''"] show ?thesis
    by (simp add: sim_w_def)
qed

text \<open>
  C10. Staging a volume without host encryption never formats a device that has a file system: the
  device is mounted with the file system it has, or the request is refused because another one was
  asked for.
\<close>

theorem NodeStage_keeps_filesystems:
  assumes "node_host n mounted disk header"
    and "run_state (NodeStageVolume n ctx req) w = (r, w')"
    and "parseCSIResourceID (d_guuid (nd_d n)) (ns_VolumeId req) = Inr vid" "rid_hostCrypto vid = []"
    and "disk w dev \<noteq> []"
  shows "disk w' dev = disk w dev"
proof -
  have "keeps (NodeStageVolume n ctx req) (disks_kept disk (disk w))"
    by (rule node_host.NodeStage_disks[OF assms(1)]) (use assms(3,4) in simp)
  from keepsD[OF this assms(2)] assms(5) show ?thesis by (simp add: disks_kept_def)
qed

theorem NodeStage_keeps_filesystems_witness:
  "\<exists>w'. run_state (NodeStageVolume sim_node ctx0 (sim_stage [])) sim_w = (Inr (Some ()), w') \<and>
     sim_format w' ''/dev/nvme0n1'' = XfsFS"
proof -
  obtain w' where run: "run_state (NodeStageVolume sim_node ctx0 (sim_stage [])) sim_w = (Inr (Some ()), w')"
    using sim_stage_run[of "[]"] by auto
  have "parseCSIResourceID (d_guuid (nd_d sim_node)) (ns_VolumeId (sim_stage [])) = Inr (sim_rid [])"
    "rid_hostCrypto (sim_rid []) = []" and xfs: "sim_format sim_w ''/dev/nvme0n1'' = XfsFS"
    by (simp_all add: sim_stage_def sim_rid_parse, simp_all add: sim_rid_def sim_w_def sim_format_def XfsFS_def)
  with NodeStage_keeps_filesystems[OF sim.node_host_axioms run, of "sim_rid []" "''/dev/nvme0n1''"] run show ?thesis
    by (simp add: XfsFS_def)
qed

lemma lbVolEligible_Inr:
  assumes "run_state (lbVolEligible n ctx clnt vid) w = (Inr u, w')"
  shows "\<exists>vol w1. run_state (cl_GetVolume clnt ctx (rid_uuid vid) (rid_projName vid)) w = (Inr vol, w1) \<and>
    IsUsable vol \<and> d_hostNQN (nd_d n) \<in> set (vol_ACL vol)"
  using assms by (auto simp: lbVolEligible_def split: prod.splits sum.splits if_splits)

lemma NodeStage_eligible:
  assumes "run_state (NodeStageVolume n ctx req) w = (Inr r, w')"
  shows "\<exists>vid h ctx' w1 w2 vol. parseCSIResourceID (d_guuid (nd_d n)) (ns_VolumeId req) = Inr vid \<and>
    run_state (cl_GetVolume (d_client (nd_d n) h) ctx' (rid_uuid vid) (rid_projName vid)) w1 = (Inr vol, w2) \<and>
    IsUsable vol \<and> d_hostNQN (nd_d n) \<in> set (vol_ACL vol)"
proof -
  from assms obtain vid c h w1 w2 e where "parseCSIResourceID (d_guuid (nd_d n)) (ns_VolumeId req) = Inr vid"
    "run_state (lbVolEligible n c (d_client (nd_d n) h) vid) w1 = (Inr e, w2)"
    by (auto simp: NodeStageVolume_def Let_def parseEinval_Inr split: sum.splits if_splits
        elim!: with_client_Inr then_io_InrE)
  with lbVolEligible_Inr[OF this(2)] show ?thesis by blast
qed

text \<open>
  C17. A successful \<open>NodeStageVolume\<close> has read the volume, usable and with this host on its ACL, and
  leaves the staging path mounted unless it is a block volume; nothing else is mounted or
  unmounted, and a path that was already mounted is left alone.
\<close>

theorem NodeStage_mounts:
  assumes "node_host n mounted disk header"
    and "run_state (NodeStageVolume n ctx req) w = (Inr (Some u), w')"
  shows "(\<exists>vid h ctx' w1 w2 vol. parseCSIResourceID (d_guuid (nd_d n)) (ns_VolumeId req) = Inr vid \<and>
      run_state (cl_GetVolume (d_client (nd_d n) h) ctx' (rid_uuid vid) (rid_projName vid)) w1 = (Inr vol, w2) \<and>
      IsUsable vol \<and> d_hostNQN (nd_d n) \<in> set (vol_ACL vol)) \<and>
    (if mounted w (ns_StagingTargetPath req) \<noteq> None then mounted w' = mounted w
     else \<exists>dev. mounted w' = (if GetBlock (ns_VolumeCapability req) \<noteq> None then mounted w
       else (mounted w)(ns_StagingTargetPath req \<mapsto> dev)))"
  using node_host.NodeStage_mounted[OF assms] NodeStage_eligible[OF assms(2)] by simp

theorem NodeStage_mounts_witness:
  "\<exists>w' dev. run_state (NodeStageVolume sim_node ctx0 (sim_stage [])) sim_w = (Inr (Some ()), w') \<and>
     sw_mounts w' = [''/stage'' \<mapsto> dev]"
proof -
  obtain w' where run: "run_state (NodeStageVolume sim_node ctx0 (sim_stage [])) sim_w = (Inr (Some ()), w')"
    using sim_stage_run[of "[]"] by auto
  with NodeStage_mounts[OF sim.node_host_axioms run] mount_cap_ok(2) show ?thesis
    by (simp add: sim_w_def sim_stage_def)
qed

text \<open>
  C19. What \<open>NodeStageVolume\<close> answers when the volume is not there for this host: a volume that is
  gone gives NotFound, one that is not usable a retriable error, one that is not published to this
  host FailedPrecondition. The client goes back to the pool and the host is not touched.
\<close>

theorem NodeStage_refused:
  assumes "parseCSIResourceIDEinval (d_guuid (nd_d n)) volIDField (ns_VolumeId req) = Inr vid"
    and "ns_StagingTargetPath req \<noteq> []"
    and "validateVolumeCapability (d_rwx (nd_d n)) (ns_VolumeCapability req) = Inr ()"
    and "ctx' = cloneCtxWithCreds (nd_d n) ctx (ns_Secrets req)"
    and "run_state (GetLBClient (nd_d n) ctx' (rid_mgmtEPs vid) (rid_scheme vid)) w = (Inr h, w1)"
    and "run_state (cl_GetVolume (d_client (nd_d n) h) ctx' (rid_uuid vid) (rid_projName vid)) w1 = (r, w2)"
    and "run_state (PutLBClient (nd_d n) h) w2 = ((), w3)"
    and "\<not> (case r of Inl err \<Rightarrow> False | Inr vol \<Rightarrow> IsUsable vol \<and> d_hostNQN (nd_d n) \<in> set (vol_ACL vol))"
  shows "run_state (NodeStageVolume n ctx req) w =
    (Inl (case r of
            Inl err \<Rightarrow> if isStatusNotFound err then mkEnoent else mungeLBErr err
          | Inr vol \<Rightarrow> if \<not> IsUsable vol then mkEagain else mkPrecond), w3)"
  using assms by (auto simp: NodeStageVolume_def Let_def with_client_def run_then_io lbVolEligible_def
      split: sum.splits)

theorem NodeStage_refused_witness:
  "run_state (NodeStageVolume (sim_node\<lparr>nd_d := sim_driver\<lparr>d_hostNQN := nodeIDToHostNQN ''n2''\<rparr>\<rparr>) ctx0 (sim_stage [])) sim_w =
     (Inl mkPrecond, sim_w)"
proof -
  let ?d = "sim_driver\<lparr>d_hostNQN := nodeIDToHostNQN ''n2''\<rparr>"
  let ?n = "sim_node\<lparr>nd_d := ?d\<rparr>"
  have "IsUsable sim_volume" "nodeIDToHostNQN ''n2'' \<notin> set (vol_ACL sim_volume)"
    by (simp_all add: sim_volume_def IsUsable_def IsAccessible_def IsWritable_def nodeIDToHostNQN_def)
  moreover have "run_state (GetLBClient ?d ctx eps scheme) sim_w = (Inr 0, sim_w)"
    "run_state (PutLBClient ?d 0) sim_w = ((), sim_w)" for ctx eps scheme
    by (simp_all add: GetLBClient_def PutLBClient_def) (simp_all add: sim_driver_def sim_client_def)
  ultimately show ?thesis
    using NodeStage_refused[of ?n "sim_stage []" "sim_rid []", OF _ _ _ refl, of ctx0 sim_w 0 sim_w "Inr sim_volume" sim_w sim_w]
      sim_rid_parse mount_cap_ok
    by (simp add: sim_stage_def sim_client_def)
qed

subsection \<open>Publishing\<close>

text \<open>
  C18. The life of a mounted volume on a node: when staging, publishing, unpublishing and
  unstaging succeed in this order, staging mounts the device at the staging path, publishing
  mounts that at the target path, unpublishing undoes it, and after unstaging the mount table is
  the original one.
\<close>

theorem node_volume_lifecycle:
  assumes "node_host n mounted disk header"
    and "run_state (NodeStageVolume n ctx stage) w0 = (Inr (Some u1), w1)"
    and "run_state (NodePublishVolume n pub) w1 = (Inr u2, w2)"
    and "run_state (NodeUnpublishVolume n unpub) w2 = (Inr u3, w3)"
    and "run_state (NodeUnstageVolume n ctx unstage) w3 = (Inr u4, w4)"
    and "np_StagingTargetPath pub = ns_StagingTargetPath stage" "nu_StagingTargetPath unstage = ns_StagingTargetPath stage"
      "nq_TargetPath unpub = np_TargetPath pub" "np_TargetPath pub \<noteq> ns_StagingTargetPath stage"
    and "np_VolumeCapability pub = ns_VolumeCapability stage" "GetMount (ns_VolumeCapability stage) \<noteq> None"
    and "mounted w0 (ns_StagingTargetPath stage) = None" "mounted w0 (np_TargetPath pub) = None"
  shows "(\<exists>dev. mounted w1 = (mounted w0)(ns_StagingTargetPath stage \<mapsto> dev)) \<and>
    mounted w2 = (mounted w1)(np_TargetPath pub \<mapsto> ns_StagingTargetPath stage) \<and>
    mounted w3 = mounted w1 \<and> mounted w4 = mounted w0"
proof -
  from assms(11) obtain m where cap: "Option.bind (np_VolumeCapability pub) cap_AccessType = Some (AT_Mount m)"
    and "GetBlock (ns_VolumeCapability stage) = None"
    by (auto simp: GetMount_def GetBlock_def assms(10) split: option.splits AccessType.splits)
  with node_host.NodeStage_mounted[OF assms(1,2)] assms(12) obtain dev where
    1: "mounted w1 = (mounted w0)(ns_StagingTargetPath stage \<mapsto> dev)" by auto
  then have free: "mounted w1 (np_TargetPath pub) = None" using assms(9,13) by simp
  from assms(1,3) have 2: "mounted w2 = (mounted w1)(np_TargetPath pub \<mapsto> ns_StagingTargetPath stage)"
    by (cases rule: node_host.NodePublish_run) (use cap free assms(6) in auto)
  have 3: "mounted w3 = mounted w1"
    using node_host.NodeUnpublish_run[OF assms(1,4)] 2 free assms(8) by (auto simp: fun_upd_idem)
  have "mounted w4 = mounted w0"
    using node_host.NodeUnstage_run[OF assms(1,5)] 1 3 assms(7,12) by (auto simp: fun_upd_idem)
  with 1 2 3 show ?thesis by blast
qed

theorem node_volume_lifecycle_witness:
  "\<exists>w1 w2 w3 w4. run_state (NodeStageVolume sim_node ctx0 (sim_stage [])) sim_w = (Inr (Some ()), w1) \<and>
     run_state (NodePublishVolume sim_node (sim_publish [] mount_cap)) w1 = (Inr (), w2) \<and>
     run_state (NodeUnpublishVolume sim_node sim_unpublish) w2 = (Inr (), w3) \<and>
     run_state (NodeUnstageVolume sim_node ctx0 (sim_unstage [])) w3 = (Inr (Some ()), w4) \<and>
     sw_mounts w2 ''/target'' = Some ''/stage'' \<and> sw_mounts w4 = Map.empty"
proof -
  obtain w1 where 1: "run_state (NodeStageVolume sim_node ctx0 (sim_stage [])) sim_w = (Inr (Some ()), w1)"
    and "sw_mounts w1 ''/target'' = None" "sw_files w1 ''/target'' = None" "sw_open w1 = []"
    using sim_stage_run[of "[]" ctx0] by (auto simp: sim_w_def defaultDSCConfigPath_def)
  from sim_publish_run[OF this(2-4)] obtain w2 where
    2: "run_state (NodePublishVolume sim_node (sim_publish [] mount_cap)) w1 = (Inr (), w2)" by blast
  obtain w3 where 3: "run_state (NodeUnpublishVolume sim_node sim_unpublish) w2 = (Inr (), w3)"
    using sim_unpublish_run by blast
  obtain w4 where 4: "run_state (NodeUnstageVolume sim_node ctx0 (sim_unstage [])) w3 = (Inr (Some ()), w4)"
    using sim_unstage_run by blast
  have "sw_mounts w2 = (sw_mounts w1)(np_TargetPath (sim_publish [] mount_cap) \<mapsto> ns_StagingTargetPath (sim_stage []))"
    "sw_mounts w4 = sw_mounts sim_w"
    using node_volume_lifecycle[OF sim.node_host_axioms 1 2 3 4] mount_cap_ok(3)
    by (simp_all add: sim_stage_def sim_publish_def sim_unpublish_def sim_unstage_def sim_w_def)
  with 1 2 3 4 show ?thesis by (auto simp: sim_stage_def sim_publish_def sim_w_def)
qed

text \<open>
  C28. Publishing a block volume at a free path mounts there the device that the look-up by volume
  UUID returns. This is so for an encrypted volume too: its mapped device is looked up as well,
  but the raw device, with the encrypted data, is what the workload gets.
\<close>

theorem NodePublish_block_device:
  assumes "node_host n mounted disk header"
    and "run_state (NodePublishVolume n req) w = (Inr u, w')"
    and "Option.bind (np_VolumeCapability req) cap_AccessType = Some (AT_Block b)"
    and "mounted w (np_TargetPath req) = None"
  shows "\<exists>vid source w1 w2. parseCSIResourceID (d_guuid (nd_d n)) (np_VolumeId req) = Inr vid \<and>
    run_state (nd_getDevicePath n (rid_uuid vid)) w1 = (Inr source, w2) \<and>
    mounted w' = (mounted w)(np_TargetPath req \<mapsto> source)"
  using assms(1,2) by (cases rule: node_host.NodePublish_run) (use assms(3,4) in auto)

theorem NodePublish_block_device_witness:
  "\<exists>w'. run_state (NodePublishVolume sim_node (sim_publish defaultLuksFormat block_cap)) sim_opened = (Inr (), w') \<and>
     (\<exists>vid source w1 w2. parseCSIResourceID hex_guuid (lbResourceID_String hex_guuid (sim_rid defaultLuksFormat)) = Inr vid \<and>
       run_state (nd_getDevicePath sim_node (rid_uuid vid)) w1 = (Inr source, w2) \<and> sw_mounts w' = [''/target'' \<mapsto> source])"
proof -
  obtain w' where run: "run_state (NodePublishVolume sim_node (sim_publish defaultLuksFormat block_cap)) sim_opened = (Inr (), w')"
    using sim_block_run by blast
  show ?thesis
    using NodePublish_block_device[OF sim.node_host_axioms run, of "Some ()"] run
    by (simp add: sim_publish_def block_cap_def sim_opened_def sim_w_def)
qed

subsection \<open>Unstaging\<close>

text \<open>
  C29. Unstaging an encrypted volume whose mapped device is not there, as after an earlier unstaging
  that got past closing it, fails with an execution error before the backend is asked to
  detach the volume, and so does every retry: the call is not idempotent.
\<close>

theorem NodeUnstage_closed_fails:
  assumes "parseCSIResourceIDEinval (d_guuid (nd_d n)) volIDField (nu_VolumeId req) = Inr vid"
    and "nu_StagingTargetPath req \<noteq> []" "rid_hostCrypto vid \<noteq> []"
    and "run_state (unmount_path n (nu_StagingTargetPath req)) w = (Inr (), w1)"
    and "run_state (os_Stat (nd_os n) (diskMapperPath @ luksMapperFileName (d_guuid (nd_d n)) (rid_uuid vid))) w1
      = (Inl os_NotExist, w2)"
  shows "run_state (NodeUnstageVolume n ctx req) w = (Inl mkEExec, w2)"
  using assms by (simp add: NodeUnstageVolume_def unstage_close_def closeEncryptedDevice_def
      getEncryptedDevicePath_def nd_luks_fields run_then_io run_or_fail Let_def)

theorem NodeUnstage_closed_fails_witness:
  "run_state (NodeUnstageVolume sim_node ctx0 (sim_unstage defaultLuksFormat)) sim_w = (Inl mkEExec, sim_w)"
proof -
  have "run_state (unmount_path sim_node ''/stage'') sim_w = (Inr (), sim_w)"
    by (simp add: sim_unmount sim_w_def)
  moreover have "run_state (ask (sim_stat (diskMapperPath @ sim_mapper))) sim_w = (Inl os_NotExist, sim_w)"
    by (simp add: sim_stat_def sim_w_def defaultDSCConfigPath_def diskMapperPath_def)
  moreover have "rid_uuid (sim_rid c) = 5" "rid_hostCrypto (sim_rid c) = c" for c by (simp_all add: sim_rid_def)
  ultimately show ?thesis
    using NodeUnstage_closed_fails[of sim_node "sim_unstage defaultLuksFormat" "sim_rid defaultLuksFormat" sim_w sim_w sim_w ctx0]
      sim_rid_parse
    by (simp add: sim_unstage_def defaultLuksFormat_def)
qed

subsection \<open>Backends\<close>

text \<open>
  C27. The discovery-client backend implements the registry of attached volumes: over any sequence
  of \<open>Attach\<close> and \<open>Detach\<close> calls, with any failures of the file operations, the files that the
  Discovery Service Client sees are those of the successful calls, each complete: a failed call
  changes none of them.
\<close>

theorem dsc_refines_registry:
  assumes "host_files E os files" "guuid_ok G" "dsc_New hostNQN = Inr be"
    and "run_state (dsc_calls E os G be cs) (w, st) = (rs, (w', st'))"
  shows "length rs = length cs \<and>
    dsc_attached G (files w') = fold (attached_step be) (zip cs rs) (dsc_attached G (files w))"
  by (rule host_files.dsc_calls_attached[OF assms(1,2) _ assms(4)]) (use assms(3) in \<open>auto simp: dsc_New_def\<close>)

theorem dsc_refines_registry_witness:
  "\<exists>w' st'. run_state (dsc_calls sim_env sim_os hex_guuid sim_dsc [Call_Attach sim_target 5]) (sim_w, sw_dsc sim_w) =
      ([None], (w', st')) \<and>
     dsc_attached hex_guuid (sw_files w') =
       (dsc_attached hex_guuid (sw_files sim_w))(5 \<mapsto> dsc_content sim_dsc sim_target)"
proof -
  have "sw_files sim_w (sim_tmp sim_w) = None" by (simp add: sim_w_def defaultDSCConfigPath_def)
  from sim_dsc_Attach[OF this, of sim_target 5 "sw_dsc sim_w"] obtain w' where
    run: "run_state (dsc_calls sim_env sim_os hex_guuid sim_dsc [Call_Attach sim_target 5]) (sim_w, sw_dsc sim_w) =
      ([None], (w', sw_dsc sim_w))" by auto
  have "dsc_New (nodeIDToHostNQN ''n1'') = Inr sim_dsc" by (simp add: dsc_New_def sim_dsc_def)
  from dsc_refines_registry[OF sim_files.host_files_axioms guuid_ok_hex this run] run show ?thesis
    by (auto simp: attached_step_def)
qed

text \<open>
  The warnings about a missing configuration directory are limited: over any sequence of calls
  on a new backend any two of them are more than ten minutes apart.
\<close>

theorem dsc_warnings_spaced:
  assumes "run_state (dsc_calls E os G be cs) (w, \<lparr>dsc_lastDSCWarnTime = None, dsc_warned = []\<rparr>) = (rs, (w', st'))"
  shows "sorted_wrt (\<lambda>a b. a + 10 * 60 * second < b) (dsc_warned st')"
  using dsc_calls_warns[OF assms] by (simp add: warns_ok_def dscWarnPeriod_def)

theorem dsc_warnings_spaced_witness:
  "\<exists>st'. run_state (dsc_calls sim_env sim_os hex_guuid (sim_dsc\<lparr>dsc_dscCfgPath := ''/x''\<rparr>) [Call_Detach 5, Call_Detach 6])
       (sim_w, \<lparr>dsc_lastDSCWarnTime = None, dsc_warned = []\<rparr>) =
     ([Some (Status codes_Unknown []), Some (Status codes_Unknown [])], (sim_w, st')) \<and> dsc_warned st' = [0] \<and>
     sorted_wrt (\<lambda>a b. a + 10 * 60 * second < b) (dsc_warned st')"
proof -
  let ?st = "\<lparr>dsc_lastDSCWarnTime = Some 0, dsc_warned = [0]\<rparr>"
  have run: "run_state (dsc_calls sim_env sim_os hex_guuid (sim_dsc\<lparr>dsc_dscCfgPath := ''/x''\<rparr>) [Call_Detach 5, Call_Detach 6])
       (sim_w, \<lparr>dsc_lastDSCWarnTime = None, dsc_warned = []\<rparr>) =
     ([Some (Status codes_Unknown []), Some (Status codes_Unknown [])], (sim_w, ?st))"
    by (simp add: dsc_Detach_run checkDSCCfgPath_def lift_fst_def sim_env_def sim_stat_def defaultDSCConfigPath_def
        dsc_warn_def dscWarnPeriod_def second_def millisecond_def sim_w_def)
  with dsc_warnings_spaced[OF run] show ?thesis by simp
qed

text \<open>
  The backend that the registry makes is the registered one behind a wrapper that changes
  nothing: same type, same results and same effects of every call, apart from the call counter.
\<close>

theorem Make_transparent:
  assumes "Make reg ty hostNQN rawCfg = Inr wbe"
  shows "\<exists>maker be. reg ty = Some maker \<and> maker hostNQN rawCfg = Inr be \<and> be_Type wbe = be_Type be \<and>
    (\<forall>ctx vol tgtEnv u s k.
       run_state (be_LBVolEligible wbe ctx vol) (s, k) =
         (let (r, s') = run_state (be_LBVolEligible be ctx vol) s in (r, (s', k + 1))) \<and>
       run_state (be_Attach wbe ctx tgtEnv u) (s, k) =
         (let (r, s') = run_state (be_Attach be ctx tgtEnv u) s in (r, (s', k + 1))) \<and>
       run_state (be_Detach wbe ctx u) (s, k) =
         (let (r, s') = run_state (be_Detach be ctx u) s in (r, (s', k + 1))))"
  using assms by (auto simp: Make_def NewWrapper_def Wrapper_def wrapCall_run split: option.splits sum.splits)

theorem Make_transparent_witness:
  "\<exists>reg wbe. dsc_init sim_env sim_os hex_guuid = Some reg \<and> Make reg ''dsc'' ''nqn.h'' None = Inr wbe \<and>
     be_Type wbe = ''dsc''"
proof -
  let ?reg = "[''dsc'' \<mapsto> dsc_maker sim_env sim_os hex_guuid]"
  have reg: "dsc_init sim_env sim_os hex_guuid = Some ?reg"
    by (simp add: dsc_init_def RegisterBackend_def beType_def beTypeRegex_match_def is_lc_def is_digit_def less_eq_char_def)
  obtain wbe where m: "Make ?reg ''dsc'' ''nqn.h'' None = Inr wbe"
    by (simp add: Make_def NewWrapper_def dsc_maker_def dsc_New_def)
  from Make_transparent[OF m] have "be_Type wbe = ''dsc''"
    by (auto simp: dsc_maker_def dsc_New_def dsc_Backend_of_def beType_def)
  with reg m show ?thesis by blast
qed

end
