(* ===== verification/Startup.thy ===== *)
theory Startup
  imports Luks
begin

text \<open>
  \<^verbatim>\<open>main.go\<close>, \<^verbatim>\<open>pkg/driver/identity.go\<close> and the serving part of \<^verbatim>\<open>pkg/driver/driver.go\<close>: from the
  command line and the environment to a running server, the identity service, and the watcher that
  reloads the global JWT. The flag parser, the environment, the listener and the file watcher are
  parameters.
\<close>

subsection \<open>Version and identity\<close>

definition driverName :: string where "driverName = ''csi.lightbitslabs.com''"

text \<open>The variables that the build may set.\<close>

record Version =
  v_version :: string
  v_GitCommit :: string
  v_BuildHash :: string
  v_BuildID :: string

definition default_version :: Version where
  "default_version = \<lparr>v_version = ''0.0.0'', v_GitCommit = [], v_BuildHash = [], v_BuildID = []\<rparr>"

definition GetVersion :: "Version \<Rightarrow> string" where "GetVersion v = v_version v"

definition GetFullVersionStr :: "string \<Rightarrow> Version \<Rightarrow> string" where
  "GetFullVersionStr runtime_Version v =
     (let ver = v_version v @ '' (GitCommit: '' @ v_GitCommit v;
          ver = (if v_BuildHash v \<noteq> [] then ver @ '', BuildHash: '' @ v_BuildHash v else ver);
          ver = (if v_BuildID v \<noteq> [] then ver @ '', BuildID: '' @ v_BuildID v else ver);
          ver = ver @ '', '' @ runtime_Version
      in ver @ '')'')"

record GetPluginInfoResponse =
  pi_Name :: string
  pi_VendorVersion :: string

definition GetPluginInfo :: "Version \<Rightarrow> GetPluginInfoResponse" where
  "GetPluginInfo v = \<lparr>pi_Name = driverName, pi_VendorVersion = v_version v\<rparr>"

datatype PluginCapability =
    Service_CONTROLLER_SERVICE | VolumeExpansion_OFFLINE | VolumeExpansion_ONLINE

definition GetPluginCapabilities :: "PluginCapability list" where
  "GetPluginCapabilities =
     [Service_CONTROLLER_SERVICE, VolumeExpansion_OFFLINE, VolumeExpansion_ONLINE]"

definition Probe :: "bool option" where "Probe = Some True"

subsection \<open>Configuration\<close>

definition defaultCfgDirPath :: string where "defaultCfgDirPath = ''/etc/lb-csi''"
definition defaultJWTFileName :: string where "defaultJWTFileName = ''jwt''"
definition defaultBackendCfgFileName :: string where "defaultBackendCfgFileName = ''backend.yaml''"
definition statusOk :: nat where "statusOk = 0"
definition statusBadArgs :: nat where "statusBadArgs = 2"

definition defaults :: Config where
  "defaults =
     \<lparr>cfg_DefaultBackend = ''dsc'',
      cfg_BackendCfgPath = filepath_Join defaultCfgDirPath defaultBackendCfgFileName,
      cfg_JWTPath = filepath_Join defaultCfgDirPath defaultJWTFileName,
      cfg_LUKSCfgPath = filepath_Join defaultCfgDirPath DefaultLUKSCfgFileName,
      cfg_NodeID = [], cfg_Endpoint = ''unix:///tmp/csi.sock'', cfg_DefaultFS = Ext4FS,
      cfg_LogLevel = ''info'', cfg_LogRole = ''node'', cfg_LogTimestamps = False,
      cfg_LogFormat = ''json'', cfg_BinaryName = ''lb-csi-plugin'', cfg_Transport = ''tcp'',
      cfg_SquelchPanics = False, cfg_PrettyJSON = False, cfg_RWX = False\<rparr>"

text \<open>The values of the flags after parsing; a flag that is not given has its default.\<close>

record Flags =
  fl_nodeID :: string
  fl_endpoint :: string
  fl_defaultFS :: string
  fl_logLevel :: string
  fl_logRole :: string
  fl_logTimestamps :: bool
  fl_rwx :: bool
  fl_logFormat :: string
  fl_jwtPath :: string
  fl_backendCfgPath :: string
  fl_luksCfgPath :: string
  fl_version :: bool
  fl_help :: bool
  fl_transport :: string
  fl_squelchPanics :: bool
  fl_prettyJSON :: bool

definition no_flags :: Flags where
  "no_flags =
     \<lparr>fl_nodeID = [], fl_endpoint = [], fl_defaultFS = [], fl_logLevel = [], fl_logRole = [],
      fl_logTimestamps = False, fl_rwx = False, fl_logFormat = [], fl_jwtPath = [],
      fl_backendCfgPath = [], fl_luksCfgPath = [], fl_version = False, fl_help = False,
      fl_transport = ''tcp'', fl_squelchPanics = cfg_SquelchPanics defaults,
      fl_prettyJSON = cfg_PrettyJSON defaults\<rparr>"

text \<open>\<open>getenv\<close> is \<open>os.Getenv\<close>: empty for a variable that is not set.\<close>

definition pickStr :: "(string \<Rightarrow> string) \<Rightarrow> string \<Rightarrow> string \<Rightarrow> string \<Rightarrow> string" where
  "pickStr getenv flagVal envVar def =
     (let res = flagVal in
      if res = [] then let res = getenv envVar in if res = [] then def else res else res)"

text \<open>A Boolean option: the environment is looked at only when the flag is false.\<close>

definition pickBool :: "(string \<Rightarrow> string) \<Rightarrow> bool \<Rightarrow> string \<Rightarrow> bool \<Rightarrow> bool option" where
  "pickBool getenv flagVal envVar def =
     (if \<not> flagVal then
        let val = ToLower (TrimSpace (getenv envVar)) in
        if val = ''true'' then Some True
        else if val = ''false'' then Some False
        else if val = [] then Some def
        else None
      else Some flagVal)"

text \<open>The two ways to give up print to the standard error and exit; kept is the exit status.\<close>

definition usageAndDie :: nat where "usageAndDie = statusBadArgs"

definition errorAndDie :: nat where "errorAndDie = statusBadArgs"

lemmas [simp] = usageAndDie_def errorAndDie_def

text \<open>What \<open>main\<close> does before it makes the driver: an exit status, or the configuration.\<close>

definition main_cfg :: "(string \<Rightarrow> string) \<Rightarrow> gerr + Flags \<Rightarrow> nat + Config" where
  "main_cfg getenv parsed =
     (case parsed of
        Inl err \<Rightarrow> Inl errorAndDie
      | Inr fl \<Rightarrow>
          if fl_help fl then Inl usageAndDie
          else if fl_version fl then Inl statusOk
          else
            (case pickBool getenv (fl_logTimestamps fl) ''LB_CSI_LOG_TIME'' (cfg_LogTimestamps defaults) of
               None \<Rightarrow> Inl errorAndDie
             | Some logTimestamps \<Rightarrow>
                 (case pickBool getenv (fl_rwx fl) ''LB_CSI_RWX'' (cfg_RWX defaults) of
                    None \<Rightarrow> Inl errorAndDie
                  | Some rwx \<Rightarrow> Inr
                      \<lparr>cfg_DefaultBackend = cfg_DefaultBackend defaults,
                       cfg_BackendCfgPath = pickStr getenv (fl_backendCfgPath fl) ''LB_CSI_BE_CONFIG_PATH''
                         (cfg_BackendCfgPath defaults),
                       cfg_JWTPath = pickStr getenv (fl_jwtPath fl) ''LB_CSI_JWT_PATH'' (cfg_JWTPath defaults),
                       cfg_LUKSCfgPath = pickStr getenv (fl_luksCfgPath fl) ''LB_CSI_LUKS_CONFIG_PATH''
                         (cfg_LUKSCfgPath defaults),
                       cfg_NodeID = pickStr getenv (fl_nodeID fl) ''LB_CSI_NODE_ID'' (cfg_NodeID defaults),
                       cfg_Endpoint = pickStr getenv (fl_endpoint fl) ''CSI_ENDPOINT'' (cfg_Endpoint defaults),
                       cfg_DefaultFS = pickStr getenv (fl_defaultFS fl) ''LB_CSI_DEFAULT_FS'' (cfg_DefaultFS defaults),
                       cfg_LogLevel = pickStr getenv (fl_logLevel fl) ''LB_CSI_LOG_LEVEL'' (cfg_LogLevel defaults),
                       cfg_LogRole = pickStr getenv (fl_logRole fl) ''LB_CSI_LOG_ROLE'' (cfg_LogRole defaults),
                       cfg_LogTimestamps = logTimestamps,
                       cfg_LogFormat = pickStr getenv (fl_logFormat fl) ''LB_CSI_LOG_FMT'' (cfg_LogFormat defaults),
                       cfg_BinaryName = [], cfg_Transport = fl_transport fl,
                       cfg_SquelchPanics = fl_squelchPanics fl, cfg_PrettyJSON = fl_prettyJSON fl,
                       cfg_RWX = rwx\<rparr>)))"

subsection \<open>The JWT watcher\<close>

datatype watch_op = fsn_Create | fsn_Write | fsn_Remove | fsn_Rename | fsn_Chmod

text \<open>What the loop of the watcher receives. An event has a set of operations, and with it comes
  what reading the file gives at that moment.\<close>

datatype watch_msg =
    Watch_Event "watch_op set" "read_err + string" | Watch_Error | Watch_ErrorsClosed | Watch_Done

definition jwt_event :: "watch_op set \<Rightarrow> read_err + string \<Rightarrow> 's Driver \<Rightarrow> 's Driver" where
  "jwt_event op rd d =
     (let d = (if op = {fsn_Remove} then setJWT d rd else d) in
      if fsn_Write \<in> op then setJWT d rd else d)"

fun jwt_loop :: "watch_msg list \<Rightarrow> 's Driver \<Rightarrow> 's Driver" where
  "jwt_loop [] d = d"
| "jwt_loop (Watch_Event op rd # ms) d = jwt_loop ms (jwt_event op rd d)"
| "jwt_loop (Watch_Error # ms) d = jwt_loop ms d"
| "jwt_loop (Watch_ErrorsClosed # ms) d = d"
| "jwt_loop (Watch_Done # ms) d = d"

text \<open>\<open>watch\<close> is the outcome of making a watcher and adding the path to it. Without one the JWT is
  not read at all.\<close>

definition monitorJWTVariable ::
  "gerr + unit \<Rightarrow> read_err + string \<Rightarrow> watch_msg list \<Rightarrow> 's Driver \<Rightarrow> gerr option \<times> 's Driver" where
  "monitorJWTVariable watch rd ms d =
     (case watch of
        Inl err \<Rightarrow> (Some err, d)
      | Inr _ \<Rightarrow> (None, jwt_loop ms (setJWT d rd)))"

subsection \<open>Serving\<close>

datatype interceptor = ctxtags_Int | logrus_Int | RespDetail_Int | payload_Int | recovery_Int

definition interceptors :: "'s Driver \<Rightarrow> interceptor list" where
  "interceptors d =
     [ctxtags_Int, logrus_Int, RespDetail_Int, payload_Int] @
     (if d_squelchPanics d then [recovery_Int] else [])"

text \<open>
  \<open>Run\<close> removes a left-over socket, listens, starts the watcher and serves until the server stops.
  \<open>listen\<close> is \<open>net.Listen\<close>, \<open>serve\<close> the server with the given interceptors on the driver as it is after
  the JWT was first read; the error of the watcher is logged only.
\<close>

definition Run ::
  "'s OS \<Rightarrow> (string \<Rightarrow> ('s, os_err, unit) io) \<Rightarrow> (interceptor list \<Rightarrow> 's Driver \<Rightarrow> ('s, gerr, unit) io) \<Rightarrow>
   gerr + unit \<Rightarrow> read_err + string \<Rightarrow> 's Driver \<Rightarrow> ('s, gerr, unit) io" where
  "Run os listen serve watch rd d = do {
     r \<leftarrow> os_Remove os (d_sockPath d);
     (if (case r of Inl err \<Rightarrow> err \<noteq> os_NotExist | Inr _ \<Rightarrow> False) then fail Plain
      else
        then_io (or_fail Plain (listen (d_sockPath d))) (\<lambda>_.
          serve (interceptors d) (snd (monitorJWTVariable watch rd [] d))))
   }"

text \<open>\<open>main\<close>: the exit status of the program.\<close>

definition main_prog ::
  "(string \<Rightarrow> string) \<Rightarrow> gerr + Flags \<Rightarrow> (Config \<Rightarrow> gerr + 's Driver) \<Rightarrow>
   ('s Driver \<Rightarrow> ('s, gerr, unit) io) \<Rightarrow> ('s, nat) state" where
  "main_prog getenv parsed new run =
     (case main_cfg getenv parsed of
        Inl status \<Rightarrow> State_Monad.return status
      | Inr cfg \<Rightarrow>
          (case new cfg of
             Inl err \<Rightarrow> State_Monad.return errorAndDie
           | Inr d \<Rightarrow> do {
               r \<leftarrow> run d;
               (case r of
                  Inl err \<Rightarrow> State_Monad.return errorAndDie
                | Inr _ \<Rightarrow> State_Monad.return statusOk)
             }))"

subsection \<open>Properties\<close>

lemma TrimSpace_Nil: "TrimSpace [] = []"
proof -
  have "find (\<lambda>r. strip_prefix r [] \<noteq> None) space_runes = None"
    "find (\<lambda>r. strip_prefix (rev r) [] \<noteq> None) space_runes = None"
    using space_runes_ends by (auto simp: find_None_iff strip_prefix_Some_iff)
  then show ?thesis
    by (simp add: TrimSpace_def trim_left.simps[of "[]"] trim_right.simps[of "[]"] del: not_None_eq)
qed

text \<open>The first text that is not empty.\<close>

fun first_set :: "string list \<Rightarrow> string" where
  "first_set [] = []"
| "first_set (x # xs) = (if x = [] then first_set xs else x)"

lemma first_set_Nil: "first_set [x, y, []] = first_set [x, y]"
  by simp

lemma pickStr_first_set: "pickStr getenv fl ev def = first_set [fl, getenv ev, def]"
  by (simp add: pickStr_def)

lemma pickBool_Some:
  "pickBool getenv fl ev False = Some b \<Longrightarrow>
     b = (fl \<or> ToLower (TrimSpace (getenv ev)) = ''true'')"
  by (auto simp: pickBool_def Let_def split: if_splits)

lemma main_cfg_Inr:
  assumes "main_cfg getenv parsed = Inr cfg"
  obtains fl where "parsed = Inr fl" "\<not> fl_help fl" "\<not> fl_version fl"
    and "cfg_NodeID cfg = first_set [fl_nodeID fl, getenv ''LB_CSI_NODE_ID'']"
    and "cfg_Endpoint cfg = first_set [fl_endpoint fl, getenv ''CSI_ENDPOINT'', ''unix:///tmp/csi.sock'']"
    and "cfg_JWTPath cfg = first_set [fl_jwtPath fl, getenv ''LB_CSI_JWT_PATH'', cfg_JWTPath defaults]"
    and "cfg_LUKSCfgPath cfg = first_set [fl_luksCfgPath fl, getenv ''LB_CSI_LUKS_CONFIG_PATH'', cfg_LUKSCfgPath defaults]"
    and "cfg_RWX cfg = (fl_rwx fl \<or> ToLower (TrimSpace (getenv ''LB_CSI_RWX'')) = ''true'')"
    and "cfg_Transport cfg = fl_transport fl" "cfg_SquelchPanics cfg = fl_squelchPanics fl"
proof -
  have d: "cfg_LogTimestamps defaults = False" "cfg_RWX defaults = False" "cfg_NodeID defaults = []"
    "cfg_Endpoint defaults = ''unix:///tmp/csi.sock''"
    by (simp_all add: defaults_def)
  from assms obtain fl where fl: "parsed = Inr fl" by (auto simp: main_cfg_def split: sum.splits)
  from assms have flags: "\<not> fl_help fl" "\<not> fl_version fl"
    by (simp_all add: main_cfg_def fl split: if_splits)
  from assms obtain lt rw where b: "pickBool getenv (fl_logTimestamps fl) ''LB_CSI_LOG_TIME'' False = Some lt"
    "pickBool getenv (fl_rwx fl) ''LB_CSI_RWX'' False = Some rw"
    by (auto simp: main_cfg_def fl d split: if_splits option.splits)
  have "cfg_NodeID cfg = pickStr getenv (fl_nodeID fl) ''LB_CSI_NODE_ID'' (cfg_NodeID defaults)"
    "cfg_Endpoint cfg = pickStr getenv (fl_endpoint fl) ''CSI_ENDPOINT'' (cfg_Endpoint defaults)"
    "cfg_JWTPath cfg = pickStr getenv (fl_jwtPath fl) ''LB_CSI_JWT_PATH'' (cfg_JWTPath defaults)"
    "cfg_LUKSCfgPath cfg = pickStr getenv (fl_luksCfgPath fl) ''LB_CSI_LUKS_CONFIG_PATH'' (cfg_LUKSCfgPath defaults)"
    "cfg_RWX cfg = rw" "cfg_Transport cfg = fl_transport fl" "cfg_SquelchPanics cfg = fl_squelchPanics fl"
    using assms b flags by (auto simp: main_cfg_def fl d(1,2))
  then show thesis
    using that [OF fl flags] pickBool_Some [OF b(2)] unfolding pickStr_first_set d first_set_Nil by simp
qed

lemma default_LUKS_path:
  "filepath_Join (cfg_LUKSCfgPath defaults) DefaultLUKSCfgFileName = ''/etc/lb-csi/luks_config.yaml/luks_config.yaml''"
  by (simp add: defaults_def filepath_Join_def filepath_Clean_def defaultCfgDirPath_def DefaultLUKSCfgFileName_def)

lemma Run_Inr:
  assumes "run_state (Run os listen serve watch rd d) s = (Inr (), t)"
  obtains r s1 s2 where "run_state (os_Remove os (d_sockPath d)) s = (r, s1)" "r = Inl os_NotExist \<or> r = Inr ()"
    and "run_state (listen (d_sockPath d)) s1 = (Inr (), s2)"
    and "run_state (serve (interceptors d) (snd (monitorJWTVariable watch rd [] d))) s2 = (Inr (), t)"
proof -
  obtain r s1 where r: "run_state (os_Remove os (d_sockPath d)) s = (r, s1)" by fastforce
  with assms that show thesis
    by (cases r) (auto simp: Run_def split: if_splits elim!: then_io_InrE or_fail_InrE)
qed

text \<open>The driver that the flags \<open>fl\<close> and the environment ask for, with the JWT of the file.\<close>

definition asked_driver ::
  "(string \<Rightarrow> string) \<Rightarrow> (string \<Rightarrow> (string \<times> string) option) \<Rightarrow> string \<Rightarrow> Flags \<Rightarrow> 's Driver \<Rightarrow> bool" where
  "asked_driver getenv urlParse jwt fl d \<longleftrightarrow>
     checkNodeID (d_nodeID d) = Inr () \<and> d_hostNQN d = nodeIDToHostNQN (d_nodeID d) \<and>
     d_nodeID d = first_set [fl_nodeID fl, getenv ''LB_CSI_NODE_ID''] \<and>
     urlParse (first_set [fl_endpoint fl, getenv ''CSI_ENDPOINT'', ''unix:///tmp/csi.sock'']) =
       Some (''unix'', d_sockPath d) \<and> d_sockPath d \<noteq> [] \<and>
     d_transport d = fl_transport fl \<and> fl_transport fl \<in> {''tcp'', ''rdma''} \<and>
     (recovery_Int \<in> set (interceptors d)) = fl_squelchPanics fl \<and>
     d_jwtPath d = first_set [fl_jwtPath fl, getenv ''LB_CSI_JWT_PATH'', ''/etc/lb-csi/jwt''] \<and>
     d_jwt d = TrimSpace jwt \<and>
     d_luksCfgFile d = filepath_Join (first_set [fl_luksCfgPath fl, getenv ''LB_CSI_LUKS_CONFIG_PATH'',
       ''/etc/lb-csi/luks_config.yaml'']) DefaultLUKSCfgFileName \<and>
     d_rwx d = (fl_rwx fl \<or> ToLower (TrimSpace (getenv ''LB_CSI_RWX'')) = ''true'')"

lemma New_asked:
  assumes "New urlParse ParseLevel be pool client G cfg = Inr (d, b)" and "main_cfg getenv (Inr fl) = Inr cfg"
  shows "asked_driver getenv urlParse jwt fl (d\<lparr>d_jwt := TrimSpace jwt\<rparr>)"
proof -
  have paths: "cfg_JWTPath defaults = ''/etc/lb-csi/jwt''" "cfg_LUKSCfgPath defaults = ''/etc/lb-csi/luks_config.yaml''"
    by (simp_all add: defaults_def filepath_Join_def filepath_Clean_def defaultCfgDirPath_def
        defaultJWTFileName_def DefaultLUKSCfgFileName_def)
  have d: "checkNodeID (d_nodeID d) = Inr ()" "d_hostNQN d = nodeIDToHostNQN (d_nodeID d)"
    "d_nodeID d = cfg_NodeID cfg" "urlParse (cfg_Endpoint cfg) = Some (''unix'', d_sockPath d)"
    "d_sockPath d \<noteq> []" "d_transport d = cfg_Transport cfg" "cfg_Transport cfg \<in> {''tcp'', ''rdma''}"
    "d_squelchPanics d = cfg_SquelchPanics cfg" "d_jwtPath d = cfg_JWTPath cfg" "d_rwx d = cfg_RWX cfg"
    "d_luksCfgFile d = filepath_Join (cfg_LUKSCfgPath cfg) DefaultLUKSCfgFileName"
    using assms(1) by (auto simp: New_def Let_def split: sum.splits option.splits if_splits)
  have rec: "recovery_Int \<in> set (interceptors (d\<lparr>d_jwt := j\<rparr>)) \<longleftrightarrow> cfg_SquelchPanics cfg" for j
    using d(8) by (simp add: interceptors_def)
  have sel: "d_nodeID (d\<lparr>d_jwt := j\<rparr>) = d_nodeID d" "d_hostNQN (d\<lparr>d_jwt := j\<rparr>) = d_hostNQN d"
    "d_sockPath (d\<lparr>d_jwt := j\<rparr>) = d_sockPath d" "d_transport (d\<lparr>d_jwt := j\<rparr>) = d_transport d"
    "d_jwtPath (d\<lparr>d_jwt := j\<rparr>) = d_jwtPath d" "d_luksCfgFile (d\<lparr>d_jwt := j\<rparr>) = d_luksCfgFile d"
    "d_rwx (d\<lparr>d_jwt := j\<rparr>) = d_rwx d" "d_jwt (d\<lparr>d_jwt := j\<rparr>) = j" for j
    by simp_all
  from assms(2) show ?thesis
  proof (cases rule: main_cfg_Inr)
    case (1 fl')
    then have fl: "fl' = fl" by simp
    from d(4) have "urlParse (first_set [fl_endpoint fl, getenv ''CSI_ENDPOINT'', ''unix:///tmp/csi.sock'']) =
        Some (''unix'', d_sockPath d)" unfolding 1(5) fl .
    with d rec 1(4,6-) show ?thesis
      unfolding asked_driver_def fl paths sel by (simp only: simp_thms)
  qed
qed


text \<open>A program that serves: the world records what was listened on and who was served.\<close>

definition run_os :: "string list OS" where
  "run_os = \<lparr>os_ReadFile = (\<lambda>_. fail os_OtherErr), os_Stat = (\<lambda>_. fail os_OtherErr),
     os_EvalSymlinks = (\<lambda>_. fail os_OtherErr), os_Abs = (\<lambda>_. fail os_OtherErr), os_Glob = (\<lambda>_. fail os_OtherErr),
     os_OpenCreate = (\<lambda>_. fail os_OtherErr), os_CloseFile = (\<lambda>_. fail os_OtherErr),
     os_Remove = (\<lambda>_. fail os_NotExist), os_RemoveAll = (\<lambda>_. fail os_OtherErr), os_MkdirAll = (\<lambda>_. fail os_OtherErr),
     os_CreateTemp = (\<lambda>_ _. fail os_OtherErr), os_WriteString = (\<lambda>_ _. fail os_OtherErr),
     os_Rename = (\<lambda>_ _. fail os_OtherErr), os_Exec = (\<lambda>_ _ _. State_Monad.return ([], None)),
     os_Statfs = (\<lambda>_. fail os_OtherErr)\<rparr>"


text \<open>
  The watcher changes nothing but the JWT, which is what the file said, trimmed, when it was last
  read: at the start and on every event that is a plain removal or includes a write.
\<close>

fun last_read :: "read_err + string \<Rightarrow> watch_msg list \<Rightarrow> read_err + string" where
  "last_read rd [] = rd"
| "last_read rd (Watch_Event op rd' # ms) =
     last_read (if op = {fsn_Remove} \<or> fsn_Write \<in> op then rd' else rd) ms"
| "last_read rd (Watch_Error # ms) = last_read rd ms"
| "last_read rd (m # ms) = rd"

lemma jwt_loop_last_read: "jwt_loop ms (setJWT d rd) = setJWT d (last_read rd ms)"
proof (induction ms arbitrary: rd)
  case (Cons m ms)
  have "setJWT (setJWT d a) b = setJWT d b" for a b :: "read_err + string"
    by (simp add: setJWT_def split: sum.splits)
  then show ?case using Cons.IH by (cases m) (auto simp: jwt_event_def)
qed simp

lemma monitorJWT_driver:
  "monitorJWTVariable (Inr ()) rd ms d = (None, setJWT d (last_read rd ms))"
  by (simp add: monitorJWTVariable_def jwt_loop_last_read)

end
