(* ===== verification/Attach_Lock.thy ===== *)
theory Attach_Lock
  imports Controller_Spec
begin

text \<open>
  Several controllers and one volume. The publish, unpublish and expand calls of any number
  of controller instances meet at the management service, where the ACL of the volume is
  the lock that says which hosts may use it. One cycle of \<open>doUpdateVolume\<close> is a read and,
  later, a guarded write; between the two anything may happen. The theory splits the cycle
  at that point, interleaves cycles of all clients with delayed, lost and duplicated
  writes, and shows that what the volume goes through is a sequence of atomic attach,
  detach and grow steps.
\<close>

subsection \<open>One update cycle, split at the write\<close>

datatype upd_plan = Answer "gerr + Volume option" | Send Ctx Volume UpdateVolumeRequest

definition update_read ::
  "'s GrpcClient \<Rightarrow> Ctx \<Rightarrow> UUID \<Rightarrow> string \<Rightarrow> VolumeUpdateHook \<Rightarrow> ('s, upd_plan) state" where
  "update_read c ctx uuid projectName hook = do {
     ctx \<leftarrow> cloneCtxWithCap c ctx;
     r \<leftarrow> Client_GetVolume c ctx uuid projectName;
     (case r of
        Inl err \<Rightarrow> State_Monad.return (Answer
          (case status_FromError err of
             None \<Rightarrow> Inl (Status codes_Unknown [])
           | Some cd \<Rightarrow>
               if cd = codes_NotFound then Inl err
               else if cd = codes_Unavailable then Inr None
               else Inl (Status codes_Unknown [])))
      | Inr lbVol \<Rightarrow>
          if vol_State lbVol = VolumeCreating \<or> vol_State lbVol = VolumeUpdating
          then State_Monad.return (Answer (Inr None))
          else if vol_State lbVol = VolumeDeleting \<or> vol_State lbVol = VolumeFailed
          then State_Monad.return (Answer (Inl (Status codes_NotFound [])))
          else if vol_State lbVol \<noteq> VolumeAvailable \<and> vol_State lbVol \<noteq> VolumeMigrating
          then State_Monad.return (Answer (Inl (Status codes_Internal [])))
          else
            (case hook lbVol of
               Inl err \<Rightarrow> State_Monad.return (Answer (Inl err))
             | Inr None \<Rightarrow> State_Monad.return (Answer (Inr (Some lbVol)))
             | Inr (Some update) \<Rightarrow> do {
                 e \<leftarrow> env_CtxErr (gc_env c) ctx;
                 State_Monad.return
                   (case e of
                      Some err \<Rightarrow> Answer (Inl (ErrFromCtxErr err))
                    | None \<Rightarrow>
                        (case mkUpdateVolumeRequest c uuid projectName update of
                           None \<Rightarrow> Answer (Inr (Some lbVol))
                         | Some req \<Rightarrow> Send ctx lbVol req))
               }))
   }"

definition update_send ::
  "'s GrpcClient \<Rightarrow> Ctx \<Rightarrow> Volume \<Rightarrow> UpdateVolumeRequest \<Rightarrow> ('s, gerr, Volume option) io" where
  "update_send c ctx lbVol req = do {
     u \<leftarrow> api_UpdateVolume (gc_clnt c) (cloneCtxWithETag ctx (vol_ETag lbVol)) req;
     (case u of
        Inr _ \<Rightarrow> ok None
      | Inl err \<Rightarrow>
          (case status_FromError err of
             None \<Rightarrow> fail (Status codes_Unknown [])
           | Some cd \<Rightarrow>
               if cd = codes_NotFound then fail err
               else if cd = codes_Unavailable then ok None
               else if cd = codes_InvalidArgument then fail (Status codes_Internal [])
               else if cd = codes_FailedPrecondition then ok None
               else fail (Status codes_Unknown [])))
   }"

lemma Client_doUpdateVolume_split:
  "Client_doUpdateVolume c ctx uuid proj hook = do {
     p \<leftarrow> update_read c ctx uuid proj hook;
     (case p of Answer r \<Rightarrow> State_Monad.return r | Send ctx' v req \<Rightarrow> update_send c ctx' v req)
   }"
proof (rule state.expand, rule ext)
  fix s
  show "run_state (Client_doUpdateVolume c ctx uuid proj hook) s = run_state (do {
     p \<leftarrow> update_read c ctx uuid proj hook;
     (case p of Answer r \<Rightarrow> State_Monad.return r | Send ctx' v req \<Rightarrow> update_send c ctx' v req)
   }) s"
    unfolding Client_doUpdateVolume_def update_read_def update_send_def
    by (auto split: prod.splits sum.splits option.splits)
qed

lemma update_read_Send:
  assumes "run_state (update_read c ctx uuid proj hook) s = (Send ctx' v req, t)"
  obtains u s1 s2 where "run_state (Client_GetVolume c ctx' uuid proj) s1 = (Inr v, s2)"
    and "run_state (cloneCtxWithCap c ctx) s = (ctx', s1)"
    and "run_state (env_CtxErr (gc_env c) ctx') s2 = (None, t)"
    and "vol_State v \<in> {VolumeAvailable, VolumeMigrating}"
    and "hook v = Inr (Some u)" and "mkUpdateVolumeRequest c uuid proj u = Some req"
  using assms unfolding update_read_def
  by (auto split: prod.splits sum.splits option.splits if_splits)

subsection \<open>The calls and what they ask for\<close>

datatype job =
    PublishRWO string | PublishRWX string | UnpublishRWO string | UnpublishRWX string
  | Expand uint64

fun job_hook :: "job \<Rightarrow> VolumeUpdateHook" where
  "job_hook (PublishRWO n) = publishRWOHook (nodeIDToHostNQN n)"
| "job_hook (PublishRWX n) = publishRWXHook (nodeIDToHostNQN n)"
| "job_hook (UnpublishRWO n) = unpublishRWOHook (nodeIDToHostNQN n)"
| "job_hook (UnpublishRWX n) = unpublishRWXHook (nodeIDToHostNQN n)"
| "job_hook (Expand cap) = expandVolumeHook cap"

text \<open>The abstract volume: the hosts that may use it, and its size.\<close>

definition hosts :: "string list \<Rightarrow> string set" where
  "hosts acl = set acl - {ACLAllowNone}"

inductive attach_step :: "job \<Rightarrow> string set \<times> uint64 \<Rightarrow> string set \<times> uint64 \<Rightarrow> bool" where
  publish_RWO: "attach_step (PublishRWO n) ({}, z) ({nodeIDToHostNQN n}, z)"
| publish_RWX: "attach_step (PublishRWX n) (H, z) (insert (nodeIDToHostNQN n) H, z)"
| unpublish_RWO: "attach_step (UnpublishRWO n) ({nodeIDToHostNQN n}, z) ({}, z)"
| unpublish_RWX: "attach_step (UnpublishRWX n) (H, z) (H - {nodeIDToHostNQN n}, z)"
| grow: "z < cap \<Longrightarrow> attach_step (Expand cap) (H, z) (H, cap)"

inductive_simps attach_step_simps [simp]:
  "attach_step (PublishRWO n) (H, z) (H', z')"
  "attach_step (PublishRWX n) (H, z) (H', z')"
  "attach_step (UnpublishRWO n) (H, z) (H', z')"
  "attach_step (UnpublishRWX n) (H, z) (H', z')"
  "attach_step (Expand cap) (H, z) (H', z')"

text \<open>What a request does to the ACL and the size of a volume.\<close>

definition apply_request :: "UpdateVolumeRequest \<Rightarrow> string list \<times> uint64 \<Rightarrow> string list \<times> uint64" where
  "apply_request req = (\<lambda>(acl, z).
     (case uvr_Acl req of None \<Rightarrow> acl | Some a \<Rightarrow> a,
      if uvr_Size req = [] then z else of_nat (decimal_value (uvr_Size req))))"

definition abs_vol :: "string list \<times> uint64 \<Rightarrow> string set \<times> uint64" where
  "abs_vol = (\<lambda>(acl, z). (hosts acl, z))"

lemma hosts_simps [simp]:
  "hosts [] = {}" "hosts [ACLAllowNone] = {}" "hosts [nodeIDToHostNQN n] = {nodeIDToHostNQN n}"
  "hosts (CopyUniqueSorted acl) = hosts acl"
  using nodeIDToHostNQN_not_special(1) [of n] by (auto simp: hosts_def)

text \<open>What the hooks ask for, on a volume with a normalised ACL.\<close>

lemma publishRWOHook_Some:
  "publishRWOHook ace v = Inr (Some u) \<Longrightarrow>
     hosts (vol_ACL v) = {} \<and> u = \<lparr>upd_ACL = Some [ace], upd_Capacity = 0\<rparr>"
  by (cases "vol_ACL v" rule: list.exhaust) (auto simp: publishRWOHook_def Let_def split: if_splits)

lemma publishRWXHook_Some:
  "publishRWXHook ace v = Inr (Some u) \<Longrightarrow> u = \<lparr>upd_ACL =
     Some (remove_first (vol_ACL v) ACLAllowNone @ [ace]), upd_Capacity = 0\<rparr>"
  by (auto simp: publishRWXHook_def Let_def split: if_splits)

lemma unpublishRWOHook_Some:
  "unpublishRWOHook ace v = Inr (Some u) \<Longrightarrow>
     (vol_ACL v = [] \<or> vol_ACL v = [ace]) \<and> u = \<lparr>upd_ACL = Some [ACLAllowNone], upd_Capacity = 0\<rparr>"
  by (cases "vol_ACL v" rule: list.exhaust) (auto simp: unpublishRWOHook_def Let_def split: if_splits)

lemma unpublishRWXHook_Some:
  assumes "unpublishRWXHook ace v = Inr (Some u)"
  shows "(vol_ACL v = [] \<or> vol_ACL v = [ace]) \<and> u = \<lparr>upd_ACL = Some [ACLAllowNone], upd_Capacity = 0\<rparr>
    \<or> u = \<lparr>upd_ACL = Some (remove_first (vol_ACL v) ace), upd_Capacity = 0\<rparr>"
  using assms
  by (cases "vol_ACL v" rule: list.exhaust) (auto simp: unpublishRWXHook_def Let_def split: if_splits)

lemma expandVolumeHook_Some:
  "expandVolumeHook cap v = Inr (Some u) \<Longrightarrow>
     vol_Capacity v < cap \<and> u = \<lparr>upd_ACL = None, upd_Capacity = cap\<rparr>"
  by (auto simp: expandVolumeHook_def split: if_splits)

lemmas hook_Some = publishRWOHook_Some publishRWXHook_Some unpublishRWOHook_Some
  unpublishRWXHook_Some expandVolumeHook_Some

lemma apply_request_acl:
  "mkUpdateVolumeRequest c uuid proj \<lparr>upd_ACL = Some a, upd_Capacity = 0\<rparr> = Some req \<Longrightarrow>
     abs_vol (apply_request req (acl, z)) = (hosts a, z)"
  by (auto simp: mkUpdateVolumeRequest_def apply_request_def abs_vol_def)

lemma apply_request_size:
  "mkUpdateVolumeRequest c uuid proj \<lparr>upd_ACL = None, upd_Capacity = cap\<rparr> = Some req \<Longrightarrow>
     abs_vol (apply_request req (acl, z)) = (hosts acl, cap)"
  by (auto simp: mkUpdateVolumeRequest_def apply_request_def abs_vol_def Let_def
      decimal_value_FormatUint10 split: if_splits)

text \<open>
  The heart of the matter: a request built by a hook on a volume, applied to that very
  volume, is an atomic step of the abstract volume (or changes nothing of it).
\<close>

lemma job_request_step:
  assumes "job_hook j v = Inr (Some u)" and "mkUpdateVolumeRequest c uuid proj u = Some req"
    and "vol_ACL v = CopyUniqueSorted acl" and "vol_Capacity v = z"
  shows "abs_vol (apply_request req (acl, z)) = abs_vol (acl, z) \<or>
    attach_step j (abs_vol (acl, z)) (abs_vol (apply_request req (acl, z)))"
proof -
  have abs: "abs_vol (acl, z) = (hosts (vol_ACL v), vol_Capacity v)"
    using assms(3,4) by (simp add: abs_vol_def)
  have rem: "hosts (remove_first (vol_ACL v) r) = hosts (vol_ACL v) - {r}" for r
    using assms(3) by (auto simp: hosts_def set_remove_first)
  have snoc: "hosts (xs @ [nodeIDToHostNQN n]) = insert (nodeIDToHostNQN n) (hosts xs)" for xs n
    using nodeIDToHostNQN_not_special(1) [of n] by (auto simp: hosts_def)
  have none: "hosts xs - {ACLAllowNone} = hosts xs" for xs by (simp add: hosts_def)
  have same: "hosts acl = hosts (vol_ACL v)" using assms(3) by simp
  show ?thesis
    unfolding abs
    using assms(1,2,4)
    by (cases j) (auto dest!: hook_Some simp: apply_request_acl apply_request_size rem snoc none same)
qed

subsection \<open>The volume at the management service\<close>

text \<open>
  \<open>vs_vol\<close> is the volume as it is, \<open>vs_hist\<close> its versions so far, \<open>vs_other\<close> what happens to it
  other than by the updates of the clients (its state moves on, it is moved between
  servers, its usage grows). \<open>etag_store\<close> is what the management API documents: reading
  changes nothing and returns some version (not even the latest), an entity tag names one
  version, an update is applied only when its \<open>if-match\<close> header names the current version
  and then makes a new one, and may as well be refused or lost.
\<close>

record 's volume_store =
  vs_uuid :: UUID
  vs_proj :: string
  vs_vol :: "'s \<Rightarrow> mgmt_Volume"
  vs_hist :: "'s \<Rightarrow> mgmt_Volume set"
  vs_other :: "'s \<Rightarrow> 's \<Rightarrow> bool"

definition contents :: "mgmt_Volume \<Rightarrow> string list \<times> uint64" where
  "contents v = (mv_Acl v, mv_Size v)"

definition same_version :: "'s volume_store \<Rightarrow> 's \<Rightarrow> 's \<Rightarrow> bool" where
  "same_version S s t \<longleftrightarrow> vs_vol S t = vs_vol S s \<and> vs_hist S t = vs_hist S s"

definition etags_unique :: "'s volume_store \<Rightarrow> 's \<Rightarrow> bool" where
  "etags_unique S s \<longleftrightarrow> vs_vol S s \<in> vs_hist S s \<and>
     (\<forall>v \<in> vs_hist S s. \<forall>w \<in> vs_hist S s. mv_ETag v = mv_ETag w \<longrightarrow> contents v = contents w)"

definition reads_ok :: "'s volume_store \<Rightarrow> 's GrpcClient \<Rightarrow> bool" where
  "reads_ok S c \<longleftrightarrow>
     (\<forall>s x t. run_state (env_Now (gc_env c)) s = (x, t) \<longrightarrow> same_version S s t) \<and>
     (\<forall>ctx s x t. run_state (env_CtxErr (gc_env c) ctx) s = (x, t) \<longrightarrow> same_version S s t) \<and>
     (\<forall>ctx s r t. run_state (api_GetVolume (gc_clnt c) ctx
          \<lparr>idr_UUID = guuid_String (gc_guuid c) (vs_uuid S), idr_Name = [],
           idr_ProjectName = vs_proj S\<rparr>) s = (r, t) \<longrightarrow>
        same_version S s t \<and> (\<forall>v. r = Inr (Some v) \<longrightarrow> v \<in> vs_hist S s))"

definition writes_ok :: "'s volume_store \<Rightarrow> 's GrpcClient \<Rightarrow> bool" where
  "writes_ok S c \<longleftrightarrow>
     (\<forall>ctx tag req s r t. run_state (api_UpdateVolume (gc_clnt c) ctx req) s = (r, t) \<longrightarrow>
        uvr_UUID req = guuid_String (gc_guuid c) (vs_uuid S) \<longrightarrow> uvr_ProjectName req = vs_proj S \<longrightarrow>
        ctx_md ctx \<noteq> [] \<longrightarrow> last (ctx_md ctx) = (ifMatchHeader, tag) \<longrightarrow>
        same_version S s t \<or>
        tag = mv_ETag (vs_vol S s) \<and>
        contents (vs_vol S t) = apply_request req (contents (vs_vol S s)) \<and>
        vs_hist S s \<subseteq> vs_hist S t \<and>
        mv_ETag (vs_vol S t) \<notin> mv_ETag ` vs_hist S s)"

definition others_ok :: "'s volume_store \<Rightarrow> bool" where
  "others_ok S \<longleftrightarrow>
     (\<forall>s t. vs_other S s t \<longrightarrow>
        contents (vs_vol S t) = contents (vs_vol S s) \<and>
        vs_hist S s \<subseteq> vs_hist S t \<and>
        (mv_ETag (vs_vol S t) = mv_ETag (vs_vol S s) \<or>
         mv_ETag (vs_vol S t) \<notin> mv_ETag ` vs_hist S s))"

definition etag_store :: "'s volume_store \<Rightarrow> (nat \<Rightarrow> 's GrpcClient) \<Rightarrow> bool" where
  "etag_store S g \<longleftrightarrow> (\<forall>s. etags_unique S s) \<and> others_ok S \<and>
     (\<forall>k. reads_ok S (g k) \<and> writes_ok S (g k))"

text \<open>What may happen while the clients do nothing.\<close>

definition idle :: "'s volume_store \<Rightarrow> 's \<Rightarrow> 's \<Rightarrow> bool" where
  "idle S = (\<lambda>s t. vs_other S s t \<or> same_version S s t)\<^sup>*\<^sup>*"

subsection \<open>Interleaved calls\<close>

text \<open>
  A write that a cycle of client \<open>k\<close> for a call \<open>j\<close> has decided on stays in flight for good:
  it may reach the service at any later time, more than once, or never.
\<close>

type_synonym in_flight = "nat \<times> job \<times> Ctx \<times> Volume \<times> UpdateVolumeRequest"

record 's conc =
  world :: 's
  flights :: "in_flight set"

inductive conc_step ::
  "'s volume_store \<Rightarrow> (nat \<Rightarrow> 's GrpcClient) \<Rightarrow> job set \<Rightarrow> 's conc \<Rightarrow> 's conc \<Rightarrow> bool"
  for S :: "'s volume_store" and g :: "nat \<Rightarrow> 's GrpcClient" and J :: "job set" where
  answered: "j \<in> J \<Longrightarrow>
    run_state (update_read (g k) ctx (vs_uuid S) (vs_proj S) (job_hook j)) s = (Answer r, t) \<Longrightarrow>
    conc_step S g J \<lparr>world = s, flights = F\<rparr> \<lparr>world = t, flights = F\<rparr>"
| decided: "j \<in> J \<Longrightarrow>
    run_state (update_read (g k) ctx (vs_uuid S) (vs_proj S) (job_hook j)) s =
      (Send ctx' v req, t) \<Longrightarrow>
    conc_step S g J \<lparr>world = s, flights = F\<rparr>
      \<lparr>world = t, flights = insert (k, j, ctx', v, req) F\<rparr>"
| delivered: "(k, j, ctx', v, req) \<in> F \<Longrightarrow>
    run_state (update_send (g k) ctx' v req) s = (r, t) \<Longrightarrow>
    conc_step S g J \<lparr>world = s, flights = F\<rparr> \<lparr>world = t, flights = F\<rparr>"
| elsewhere: "idle S s t \<Longrightarrow>
    conc_step S g J \<lparr>world = s, flights = F\<rparr> \<lparr>world = t, flights = F\<rparr>"

inductive conc_runs ::
  "'s volume_store \<Rightarrow> (nat \<Rightarrow> 's GrpcClient) \<Rightarrow> job set \<Rightarrow> 's conc \<Rightarrow> 's conc \<Rightarrow> bool"
  for S :: "'s volume_store" and g :: "nat \<Rightarrow> 's GrpcClient" and J :: "job set" where
  stay: "conc_runs S g J a a"
| step: "conc_runs S g J a b \<Longrightarrow> conc_step S g J b b' \<Longrightarrow> conc_runs S g J a b'"

definition attached :: "'s volume_store \<Rightarrow> 's conc \<Rightarrow> string set \<times> uint64" where
  "attached S a = abs_vol (contents (vs_vol S (world a)))"

definition quiet_start :: "'s \<Rightarrow> 's conc" where
  "quiet_start s = \<lparr>world = s, flights = {}\<rparr>"

subsection \<open>What a step does\<close>

definition flight_ok :: "'s volume_store \<Rightarrow> (nat \<Rightarrow> 's GrpcClient) \<Rightarrow> 's \<Rightarrow> in_flight \<Rightarrow> bool" where
  "flight_ok S g s = (\<lambda>(k, j, ctx, v, req).
     (\<exists>w \<in> vs_hist S s. lbVolumeFromGRPC (g k) (Some w) None (Some (vs_uuid S)) = Inr v) \<and>
     (\<exists>u. job_hook j v = Inr (Some u) \<and>
        mkUpdateVolumeRequest (g k) (vs_uuid S) (vs_proj S) u = Some req))"

lemma same_version_refl [simp]: "same_version S s s"
  by (simp add: same_version_def)

lemma same_version_trans: "same_version S s t \<Longrightarrow> same_version S t u \<Longrightarrow> same_version S s u"
  by (simp add: same_version_def)

lemma same_version_reads:
  assumes "reads_ok S c"
  shows "run_state (cloneCtxWithCap c ctx) s = (ctx', t) \<Longrightarrow> same_version S s t"
    and "run_state (env_CtxErr (gc_env c) ctx) s = (e, t) \<Longrightarrow> same_version S s t"
  using assms unfolding reads_ok_def cloneCtxWithCap_def
  by (auto split: option.splits prod.splits)

lemma lbVolumeFromGRPC_None: "lbVolumeFromGRPC c None name uuid = Inl (Status codes_Internal [])"
  by (simp add: lbVolumeFromGRPC_def)

lemma GetVolume_version:
  assumes "reads_ok S c"
    and "run_state (Client_GetVolume c ctx (vs_uuid S) (vs_proj S)) s = (r, t)"
  shows "same_version S s t \<and> (\<forall>v. r = Inr v \<longrightarrow>
    (\<exists>w \<in> vs_hist S s. lbVolumeFromGRPC c (Some w) None (Some (vs_uuid S)) = Inr v))"
proof -
  obtain ctx1 s1 where s1: "run_state (cloneCtxWithCap c ctx) s = (ctx1, s1)" by fastforce
  obtain q where q: "run_state (api_GetVolume (gc_clnt c) ctx1
      \<lparr>idr_UUID = guuid_String (gc_guuid c) (vs_uuid S), idr_Name = [],
       idr_ProjectName = vs_proj S\<rparr>) s1 = (q, t)"
    and r: "r = (case q of Inl err \<Rightarrow> Inl err
      | Inr vol \<Rightarrow> lbVolumeFromGRPC c vol None (Some (vs_uuid S)))"
    using assms(2) s1
    by (auto simp: Client_GetVolume_def Client_getVolume_def split: prod.splits sum.splits)
  have "same_version S s s1" by (rule same_version_reads(1) [OF assms(1) s1])
  moreover have "same_version S s1 t" and hist: "\<And>w. q = Inr (Some w) \<Longrightarrow> w \<in> vs_hist S s1"
    using q assms(1) unfolding reads_ok_def by blast+
  moreover have "\<exists>w. q = Inr (Some w)" if "r = Inr v" for v
    using that r by (cases q; cases "projr q") (auto simp: lbVolumeFromGRPC_None)
  ultimately show ?thesis
    using r by (fastforce simp: same_version_def)
qed

lemma update_read_version:
  assumes "reads_ok S c"
    and "run_state (update_read c ctx (vs_uuid S) (vs_proj S) hook) s = (p, t)"
  shows "same_version S s t \<and> (\<forall>ctx' v req. p = Send ctx' v req \<longrightarrow>
    (\<exists>w \<in> vs_hist S s. lbVolumeFromGRPC c (Some w) None (Some (vs_uuid S)) = Inr v) \<and>
    (\<exists>u. hook v = Inr (Some u) \<and> mkUpdateVolumeRequest c (vs_uuid S) (vs_proj S) u = Some req))"
proof -
  obtain ctx1 s1 where s1: "run_state (cloneCtxWithCap c ctx) s = (ctx1, s1)" by fastforce
  obtain r s2 where s2: "run_state (Client_GetVolume c ctx1 (vs_uuid S) (vs_proj S)) s1 = (r, s2)"
    by fastforce
  have v1: "same_version S s s1" by (rule same_version_reads(1) [OF assms(1) s1])
  note v2 = GetVolume_version [OF assms(1) s2]
  have v3: "same_version S s2 t"
    using assms(2) s1 s2 unfolding update_read_def
    by (auto split: prod.splits sum.splits option.splits if_splits
        intro: same_version_reads(2) [OF assms(1)])
  have "\<exists>u. r = Inr v \<and> hook v = Inr (Some u) \<and>
      mkUpdateVolumeRequest c (vs_uuid S) (vs_proj S) u = Some req" if "p = Send ctx' v req" for ctx' v req
    using assms(2) that s1 s2 unfolding update_read_def
    by (auto split: prod.splits sum.splits option.splits if_splits)
  with v1 v2 v3 show ?thesis by (fastforce simp: same_version_def)
qed

lemma update_send_version:
  assumes "etag_store S g" and "flight_ok S g s (k, j, ctx, v, req)"
    and "run_state (update_send (g k) ctx v req) s = (r, t)"
  shows "same_version S s t \<or>
    vol_ETag v = mv_ETag (vs_vol S s) \<and>
    contents (vs_vol S t) = apply_request req (contents (vs_vol S s)) \<and>
    vs_hist S s \<subseteq> vs_hist S t \<and>
    mv_ETag (vs_vol S t) \<notin> mv_ETag ` vs_hist S s"
proof -
  obtain u where "mkUpdateVolumeRequest (g k) (vs_uuid S) (vs_proj S) u = Some req"
    using assms(2) by (auto simp: flight_ok_def)
  then have req: "uvr_UUID req = guuid_String (gc_guuid (g k)) (vs_uuid S)"
    "uvr_ProjectName req = vs_proj S"
    by (auto simp: mkUpdateVolumeRequest_def Let_def split: if_splits)
  obtain q where q: "run_state (api_UpdateVolume (gc_clnt (g k))
      (cloneCtxWithETag ctx (vol_ETag v)) req) s = (q, t)"
    using assms(3) unfolding update_send_def
    by (auto split: prod.splits sum.splits option.splits if_splits)
  have "writes_ok S (g k)" using assms(1) by (simp add: etag_store_def)
  then show ?thesis
    using q req unfolding writes_ok_def by (auto simp: cloneCtxWithETag_def)
qed

lemma update_send_step:
  assumes "etag_store S g" and "flight_ok S g s (k, j, ctx, v, req)"
    and "vol_ETag v = mv_ETag (vs_vol S s)"
    and "contents (vs_vol S t) = apply_request req (contents (vs_vol S s))"
  defines "a \<equiv> abs_vol (contents (vs_vol S s))" and "b \<equiv> abs_vol (contents (vs_vol S t))"
  shows "b = a \<or> attach_step j a b"
proof -
  obtain w u where w: "w \<in> vs_hist S s"
    "lbVolumeFromGRPC (g k) (Some w) None (Some (vs_uuid S)) = Inr v"
    and u: "job_hook j v = Inr (Some u)"
    "mkUpdateVolumeRequest (g k) (vs_uuid S) (vs_proj S) u = Some req"
    using assms(2) by (auto simp: flight_ok_def)
  note v = lbVolumeFromGRPC_Inr(4) [OF w(2) refl]
  have "etags_unique S s" using assms(1) by (simp add: etag_store_def)
  moreover have "mv_ETag w = mv_ETag (vs_vol S s)" using v assms(3) by simp
  ultimately have "contents w = contents (vs_vol S s)"
    using w(1) unfolding etags_unique_def by blast
  then obtain acl z where c: "contents (vs_vol S s) = (acl, z)"
    "vol_ACL v = CopyUniqueSorted acl" "vol_Capacity v = z"
    using v by (auto simp: contents_def)
  show ?thesis
    using job_request_step [OF u c(2,3)] by (simp add: a_def b_def assms(4) c(1))
qed

text \<open>
  What one step can do: the flights stay those of cycles that read a version and the set of
  versions grows; the contents change only when a flight with the current entity tag lands,
  and then the tag is a new one.
\<close>

definition flights_ok :: "'s volume_store \<Rightarrow> (nat \<Rightarrow> 's GrpcClient) \<Rightarrow> job set \<Rightarrow> 's conc \<Rightarrow> bool" where
  "flights_ok S g J a \<longleftrightarrow> (\<forall>f \<in> flights a. fst (snd f) \<in> J \<and> flight_ok S g (world a) f)"

definition tag_moves :: "'s volume_store \<Rightarrow> 's conc \<Rightarrow> 's conc \<Rightarrow> bool" where
  "tag_moves S a b \<longleftrightarrow> vs_hist S (world a) \<subseteq> vs_hist S (world b) \<and>
     (mv_ETag (vs_vol S (world b)) = mv_ETag (vs_vol S (world a)) \<or>
      mv_ETag (vs_vol S (world b)) \<notin> mv_ETag ` vs_hist S (world a))"

lemma flight_ok_mono:
  "flight_ok S g s f \<Longrightarrow> vs_hist S s \<subseteq> vs_hist S t \<Longrightarrow> flight_ok S g t f"
  by (auto simp: flight_ok_def split: prod.splits)

lemma same_version_step:
  assumes "same_version S (world a) (world b)"
  shows "tag_moves S a b \<and> attached S b = attached S a"
  using assms by (simp add: tag_moves_def same_version_def attached_def)

lemma idle_effect:
  assumes "others_ok S" and "idle S s t"
  shows "contents (vs_vol S t) = contents (vs_vol S s) \<and> vs_hist S s \<subseteq> vs_hist S t \<and>
    (mv_ETag (vs_vol S t) = mv_ETag (vs_vol S s) \<or> mv_ETag (vs_vol S t) \<notin> mv_ETag ` vs_hist S s)"
  using assms(2) unfolding idle_def
proof (induction rule: rtranclp_induct)
  case (step u t)
  have "contents (vs_vol S t) = contents (vs_vol S u) \<and> vs_hist S u \<subseteq> vs_hist S t \<and>
    (mv_ETag (vs_vol S t) = mv_ETag (vs_vol S u) \<or> mv_ETag (vs_vol S t) \<notin> mv_ETag ` vs_hist S u)"
    using step.hyps(2) assms(1) by (auto simp: others_ok_def same_version_def)
  moreover have "mv_ETag ` vs_hist S s \<subseteq> mv_ETag ` vs_hist S u"
    using step.IH by (intro image_mono) simp
  ultimately show ?case using step.IH by (metis subset_iff)
qed simp

lemma conc_step_effect:
  assumes "etag_store S g" and "flights_ok S g J0 a" and "conc_step S g J a b"
  shows "flights_ok S g (J0 \<union> J) b \<and> tag_moves S a b \<and>
    (\<forall>f \<in> flights b. f \<in> flights a \<or> fst (snd f) \<in> J) \<and>
    (attached S b = attached S a \<or>
     (\<exists>k j ctx v req. (k, j, ctx, v, req) \<in> flights a \<and> vol_ETag v = mv_ETag (vs_vol S (world a)) \<and>
        attach_step j (attached S a) (attached S b)))"
  using assms(3)
proof cases
  case (answered j k ctx s r t F)
  with assms(1) have "same_version S s t"
    by (auto simp: etag_store_def dest!: update_read_version [rotated])
  with answered assms(2) same_version_step [of S a b] show ?thesis
    by (auto simp: flights_ok_def same_version_def intro: flight_ok_mono)
next
  case (decided j k ctx s ctx' v req t F)
  have "reads_ok S (g k)" using assms(1) by (simp add: etag_store_def)
  note read = update_read_version [OF this decided(4)]
  then have "flight_ok S g t (k, j, ctx', v, req)"
    by (auto simp: flight_ok_def same_version_def)
  with decided read assms(2) same_version_step [of S a b] show ?thesis
    by (auto simp: flights_ok_def same_version_def intro: flight_ok_mono)
next
  case (delivered k j ctx' v req F s r t)
  have ok: "flight_ok S g s (k, j, ctx', v, req)"
    using assms(2) delivered by (force simp: flights_ok_def)
  consider (same) "same_version S s t"
    | (landed) "vol_ETag v = mv_ETag (vs_vol S s)"
      "contents (vs_vol S t) = apply_request req (contents (vs_vol S s))"
      "vs_hist S s \<subseteq> vs_hist S t"
      "mv_ETag (vs_vol S t) \<notin> mv_ETag ` vs_hist S s"
    using update_send_version [OF assms(1) ok delivered(4)] by blast
  then show ?thesis
  proof cases
    case same
    with delivered assms(2) same_version_step [of S a b] show ?thesis
      by (auto simp: flights_ok_def same_version_def intro: flight_ok_mono)
  next
    case landed
    have "attached S b = attached S a \<or> attach_step j (attached S a) (attached S b)"
      using update_send_step [OF assms(1) ok landed(1,2)] delivered by (simp add: attached_def)
    moreover have "flights_ok S g (J0 \<union> J) b" "tag_moves S a b"
      using delivered landed assms(2)
      by (auto simp: flights_ok_def tag_moves_def intro: flight_ok_mono)
    moreover have "(k, j, ctx', v, req) \<in> flights a" "flights b = flights a"
      "vol_ETag v = mv_ETag (vs_vol S (world a))"
      using delivered landed(1) by simp_all
    ultimately show ?thesis by blast
  qed
next
  case (elsewhere s t F)
  have "others_ok S" using assms(1) by (simp add: etag_store_def)
  from idle_effect [OF this elsewhere(3)] elsewhere(1,2) assms(2) show ?thesis
    by (auto simp: flights_ok_def tag_moves_def attached_def intro: flight_ok_mono)
qed

lemma flights_ok_start [simp]: "flights_ok S g J (quiet_start s)"
  by (simp add: flights_ok_def quiet_start_def)

lemma conc_runs_flights:
  assumes "conc_runs S g J a b" and "etag_store S g" and "flights_ok S g J0 a"
  shows "flights_ok S g (J0 \<union> J) b"
  using assms(1,3)
proof induction
  case (stay a)
  then show ?case by (auto simp only: flights_ok_def Un_iff)
next
  case (step a b b')
  then show ?case using conc_step_effect [OF assms(2) step.IH step.hyps(2)] by (simp add: sup_assoc)
qed

lemma conc_step_refines:
  assumes "etag_store S g" and "conc_runs S g J (quiet_start s) a" and "conc_step S g J a b"
  shows "attached S b = attached S a \<or> (\<exists>j \<in> J. attach_step j (attached S a) (attached S b))"
proof -
  have ok: "flights_ok S g J a"
    using conc_runs_flights [OF assms(2,1), of J] by simp
  then have "j \<in> J" if "(k, j, ctx, v, req) \<in> flights a" for k j ctx v req
    using that by (fastforce simp: flights_ok_def)
  with conc_step_effect [OF assms(1) ok assms(3)] show ?thesis by blast
qed

text \<open>Whether a call may take the access of a node away.\<close>

fun detaches :: "string \<Rightarrow> job \<Rightarrow> bool" where
  "detaches n (UnpublishRWO m) = (m = n)"
| "detaches n (UnpublishRWX m) = (m = n)"
| "detaches n _ = False"

fun is_RWX :: "job \<Rightarrow> bool" where
  "is_RWX (PublishRWX n) = True"
| "is_RWX (UnpublishRWX n) = True"
| "is_RWX _ = False"

lemma attach_step_held:
  "attach_step j a b \<Longrightarrow> nodeIDToHostNQN n \<in> fst a \<Longrightarrow> \<not> detaches n j \<Longrightarrow> nodeIDToHostNQN n \<in> fst b"
  by (cases rule: attach_step.cases) auto

lemma attach_step_exclusive:
  "attach_step j a b \<Longrightarrow> \<not> is_RWX j \<Longrightarrow> fst a \<subseteq> {h} \<Longrightarrow> \<exists>h. fst b \<subseteq> {h}"
  by (cases rule: attach_step.cases) (auto intro: exI [of _ h])

text \<open>The unpublish calls for a node that are in flight were decided on an outdated read.\<close>

definition detaches_stale :: "'s volume_store \<Rightarrow> string \<Rightarrow> 's conc \<Rightarrow> bool" where
  "detaches_stale S n a \<longleftrightarrow>
     (\<forall>(k, j, ctx, v, req) \<in> flights a. detaches n j \<longrightarrow> vol_ETag v \<noteq> mv_ETag (vs_vol S (world a)))"

lemma flight_ok_ETag:
  "flight_ok S g s (k, j, ctx, v, req) \<Longrightarrow> vol_ETag v \<in> mv_ETag ` vs_hist S s"
  by (auto simp: flight_ok_def dest!: lbVolumeFromGRPC_Inr(4))

lemma conc_step_held:
  assumes "etag_store S g" and "flights_ok S g J0 a" and "conc_step S g J a b"
    and "\<forall>j \<in> J. \<not> detaches n j" and stale: "detaches_stale S n a"
    and held: "nodeIDToHostNQN n \<in> fst (attached S a)"
  shows "nodeIDToHostNQN n \<in> fst (attached S b) \<and> detaches_stale S n b"
proof
  note eff = conc_step_effect [OF assms(1-3)]
  have old: "\<not> detaches n j" if "(k, j, ctx, v, req) \<in> flights a"
    "vol_ETag v = mv_ETag (vs_vol S (world a))" for k j ctx v req
    using that stale by (auto simp: detaches_stale_def)
  show "nodeIDToHostNQN n \<in> fst (attached S b)"
    using eff held by (auto dest: old attach_step_held)
  show "detaches_stale S n b"
    unfolding detaches_stale_def
  proof (clarify)
    fix k j ctx v req
    assume f: "(k, j, ctx, v, req) \<in> flights b" and d: "detaches n j"
      and tag: "vol_ETag v = mv_ETag (vs_vol S (world b))"
    have a: "(k, j, ctx, v, req) \<in> flights a" using eff f d assms(4) by fastforce
    then have "vol_ETag v \<in> mv_ETag ` vs_hist S (world a)"
      using assms(2) by (auto simp: flights_ok_def intro: flight_ok_ETag)
    with eff tag have "vol_ETag v = mv_ETag (vs_vol S (world a))" by (simp add: tag_moves_def)
    with a d show False using old by blast
  qed
qed

lemma conc_runs_held:
  assumes "conc_runs S g J a b" and "etag_store S g" and "flights_ok S g J0 a"
    and "\<forall>j \<in> J. \<not> detaches n j" and "detaches_stale S n a"
    and "nodeIDToHostNQN n \<in> fst (attached S a)"
  shows "nodeIDToHostNQN n \<in> fst (attached S b) \<and> detaches_stale S n b"
  using assms(1,3,5,6)
proof induction
  case (step a b b')
  have "flights_ok S g (J0 \<union> J) b"
    using conc_runs_flights [OF step.hyps(1) assms(2) step.prems(1)] .
  with step show ?case
    using conc_step_held [OF assms(2) _ step.hyps(2) assms(4)] by blast
qed simp

subsection \<open>The handlers as runs\<close>

text \<open>
  \<open>calm S d g\<close>: what a handler does besides the update cycle leaves the volume to the
  service: sleeping, reading, the clock, the version handshake and the client pool are idle.
\<close>

definition calm :: "'s volume_store \<Rightarrow> 's Driver \<Rightarrow> (nat \<Rightarrow> 's GrpcClient) \<Rightarrow> bool" where
  "calm S d g \<longleftrightarrow> (\<forall>s. quiet_pool d (idle S s) \<and> (\<forall>h. quiet (g h) (idle S s)))"

definition reached :: "'s volume_store \<Rightarrow> (nat \<Rightarrow> 's GrpcClient) \<Rightarrow> job set \<Rightarrow> 's conc \<Rightarrow> 's \<Rightarrow> bool" where
  "reached S g J a s \<longleftrightarrow> (\<exists>F. conc_runs S g J a \<lparr>world = s, flights = F\<rparr>)"

lemma idle_refl [simp]: "idle S s s"
  by (simp add: idle_def)

lemma reached_idle: "keeps m (idle S s) \<Longrightarrow> run_state m s = (r, t) \<Longrightarrow> reached S g J a s \<Longrightarrow> reached S g J a t"
  unfolding reached_def by (meson conc_runs.step conc_step.elsewhere idle_refl keepsD)

lemma keeps_reached: "(\<And>s. keeps m (idle S s)) \<Longrightarrow> keeps m (reached S g J a)"
  by (rule keepsI) (rule reached_idle)

lemma reached_doUpdateVolume:
  assumes "j \<in> J"
  shows "keeps (Client_doUpdateVolume (g k) ctx (vs_uuid S) (vs_proj S) (job_hook j)) (reached S g J a)"
proof (rule keepsI)
  fix s r t
  assume run: "run_state (Client_doUpdateVolume (g k) ctx (vs_uuid S) (vs_proj S) (job_hook j)) s = (r, t)"
    and "reached S g J a s"
  then obtain F where F: "conc_runs S g J a \<lparr>world = s, flights = F\<rparr>" by (auto simp: reached_def)
  obtain p s1 where p: "run_state (update_read (g k) ctx (vs_uuid S) (vs_proj S) (job_hook j)) s = (p, s1)"
    by fastforce
  show "reached S g J a t"
  proof (cases p)
    case (Answer q)
    with run p have "t = s1" by (simp add: Client_doUpdateVolume_split)
    with p [unfolded Answer] F assms show ?thesis
      unfolding reached_def by (blast intro: conc_runs.step conc_step.answered)
  next
    case (Send ctx' v req)
    with run p have send: "run_state (update_send (g k) ctx' v req) s1 = (r, t)"
      by (simp add: Client_doUpdateVolume_split)
    have "conc_runs S g J a \<lparr>world = s1, flights = insert (k, j, ctx', v, req) F\<rparr>"
      using F p [unfolded Send] assms by (blast intro: conc_runs.step conc_step.decided)
    with send show ?thesis
      unfolding reached_def by (blast intro: conc_runs.step conc_step.delivered)
  qed
qed

lemma reached_UpdateVolume:
  assumes "j \<in> J" and "calm S d g"
  shows "keeps (cl_UpdateVolume (lbgrpc_Client (g k)) ctx (vs_uuid S) (vs_proj S) (job_hook j))
    (reached S g J a)"
proof -
  have q: "quiet (g k) (idle S s)" for s using assms(2) by (simp add: calm_def)
  have "\<And>t. keeps (env_Sleep (gc_env (g k)) t) (reached S g J a)"
    "\<And>ctx. keeps (env_CtxErr (gc_env (g k)) ctx) (reached S g J a)"
    using q by (auto simp: quiet_def intro!: keeps_reached)
  then show ?thesis
    unfolding lbgrpc_Client_def Client.select_convs Client_UpdateVolume_def
    by (intro keeps_backoff keeps_bind)
       (auto split: option.splits intro: reached_doUpdateVolume [OF assms(1)])
qed

lemma reached_with_client:
  assumes "calm S d g" and "\<And>h. d_client d h = lbgrpc_Client (g h)"
    and "\<And>h. keeps (body (lbgrpc_Client (g h))) (reached S g J a)"
  shows "keeps (with_client d ctx eps scheme body) (reached S g J a)"
proof (rule keeps_with_client [where g = g])
  show "quiet_pool d (reached S g J a)" "quiet (g h) (reached S g J a)" for h
    using assms(1) by (auto simp: calm_def quiet_pool_def quiet_def intro!: keeps_reached)
qed (fact assms)+

definition publish_job :: "'s Driver \<Rightarrow> string \<Rightarrow> job" where
  "publish_job d n = (if d_rwx d then PublishRWX n else PublishRWO n)"

definition unpublish_job :: "'s Driver \<Rightarrow> string \<Rightarrow> job" where
  "unpublish_job d n = (if d_rwx d then UnpublishRWX n else UnpublishRWO n)"

definition names_volume :: "'s volume_store \<Rightarrow> 'w Driver \<Rightarrow> string \<Rightarrow> bool" where
  "names_volume S d volID \<longleftrightarrow> (\<forall>vid. parseCSIResourceID (d_guuid d) volID = Inr vid \<longrightarrow>
     rid_uuid vid = vs_uuid S \<and> rid_projName vid = vs_proj S)"

lemma reached_publish:
  assumes "calm S d g" and "\<And>h. d_client d h = lbgrpc_Client (g h)"
    and "names_volume S d (vr_VolumeId req)" and "publish_job d (pr_NodeId req) \<in> J"
  shows "keeps (ControllerPublishVolume d ctx req) (reached S g J a)"
proof -
  have "keeps (if d_rwx d then doPublishVolumeRWX (lbgrpc_Client (g h)) ctx1 vid (pr_NodeId req)
      else doPublishVolumeRWO (lbgrpc_Client (g h)) ctx1 vid (pr_NodeId req)) (reached S g J a)"
    if "parseCSIResourceID (d_guuid d) (vr_VolumeId req) = Inr vid" for h ctx1 vid
    using that assms(3) reached_UpdateVolume [OF assms(4,1), of h ctx1 a]
    by (auto simp: names_volume_def publish_job_def doPublishVolumeRWX_def doPublishVolumeRWO_def
        Let_def intro!: keeps_bind split: sum.splits if_splits)
  then show ?thesis
    unfolding ControllerPublishVolume_def Let_def
    by (auto split: sum.splits intro!: reached_with_client [OF assms(1,2)])
qed

lemma reached_unpublish:
  assumes "calm S d g" and "\<And>h. d_client d h = lbgrpc_Client (g h)"
    and "names_volume S d (vr_VolumeId req)" and "unpublish_job d (ur_NodeId req) \<in> J"
  shows "keeps (ControllerUnpublishVolume d ctx req) (reached S g J a)"
proof -
  have "keeps (if d_rwx d then doUnpublishVolumeRWX (lbgrpc_Client (g h)) ctx1 vid (ur_NodeId req)
      else doUnpublishVolumeRWO (lbgrpc_Client (g h)) ctx1 vid (ur_NodeId req)) (reached S g J a)"
    if "parseCSIResourceIDEinval (d_guuid d) volIDField (vr_VolumeId req) = Inr vid" for h ctx1 vid
    using that assms(3) reached_UpdateVolume [OF assms(4,1), of h ctx1 a]
    by (auto simp: names_volume_def unpublish_job_def doUnpublishVolumeRWX_def
        doUnpublishVolumeRWO_def parseCSIResourceIDEinval_def Let_def
        intro!: keeps_bind split: sum.splits if_splits)
  then show ?thesis
    unfolding ControllerUnpublishVolume_def Let_def
    by (auto split: sum.splits intro!: reached_with_client [OF assms(1,2)])
qed

lemma reached_expand:
  assumes "calm S d g" and "\<And>h. d_client d h = lbgrpc_Client (g h)"
    and "names_volume S d (vr_VolumeId req)"
    and "\<And>cap. getReqCapacity (er_CapacityRange req) = Inr cap \<Longrightarrow> Expand cap \<in> J"
  shows "keeps (ControllerExpandVolume d ctx req) (reached S g J a)"
proof -
  have "keeps (cl_UpdateVolume (lbgrpc_Client (g h)) ctx1 (rid_uuid vid) (rid_projName vid)
      (expandVolumeHook cap)) (reached S g J a)"
    if "parseCSIResourceIDEinval (d_guuid d) volIDField (vr_VolumeId req) = Inr vid"
      "getReqCapacity (er_CapacityRange req) = Inr cap" for h ctx1 vid cap
    using that(1) assms(3) reached_UpdateVolume [OF assms(4) [OF that(2)] assms(1), of h ctx1 a]
    by (auto simp: names_volume_def parseCSIResourceIDEinval_def split: sum.splits if_splits)
  then show ?thesis
    unfolding ControllerExpandVolume_def Let_def
    by (auto split: sum.splits intro!: reached_with_client [OF assms(1,2)] keeps_bind)
qed

end
