(* ===== verification/Attach_Live.thy ===== *)
theory Attach_Live
  imports Attach_Lock
begin

text \<open>
  What a single publish, unpublish or expand call achieves when the service answers: the
  update cycle is run to its end within the retry budget, and \<open>job_spec\<close> says with what
  answer and what it has made of the volume. \<open>responsive\<close> is the service at its best: reads return the
  current volume, an update that names the current version is applied and keeps the volume
  busy for at most \<open>B\<close> sleeps, and no deadline passes.
\<close>

definition reads_current :: "'s volume_store \<Rightarrow> 's GrpcClient \<Rightarrow> ('s \<Rightarrow> nat) \<Rightarrow> bool" where
  "reads_current S c busy \<longleftrightarrow>
     (\<forall>s. \<exists>n. run_state (env_Now (gc_env c)) s = (n, s)) \<and>
     (\<forall>ctx s. run_state (env_CtxErr (gc_env c) ctx) s = (None, s)) \<and>
     (\<forall>ctx s. run_state (api_GetVolume (gc_clnt c) ctx
          \<lparr>idr_UUID = guuid_String (gc_guuid c) (vs_uuid S), idr_Name = [],
           idr_ProjectName = vs_proj S\<rparr>) s = (Inr (Some (vs_vol S s)), s)) \<and>
     (\<forall>s. \<exists>v. lbVolumeFromGRPC c (Some (vs_vol S s)) None (Some (vs_uuid S)) = Inr v \<and>
        vol_State v = (if busy s = 0 then VolumeAvailable else VolumeUpdating))"

definition responsive :: "'s volume_store \<Rightarrow> 's GrpcClient \<Rightarrow> ('s \<Rightarrow> nat) \<Rightarrow> nat \<Rightarrow> bool" where
  "responsive S c busy B \<longleftrightarrow> reads_current S c busy \<and>
     (\<forall>ctx req s. uvr_UUID req = guuid_String (gc_guuid c) (vs_uuid S) \<longrightarrow>
        uvr_ProjectName req = vs_proj S \<longrightarrow> ctx_md ctx \<noteq> [] \<longrightarrow>
        last (ctx_md ctx) = (ifMatchHeader, mv_ETag (vs_vol S s)) \<longrightarrow> busy s = 0 \<longrightarrow>
        (\<exists>t. run_state (api_UpdateVolume (gc_clnt c) ctx req) s = (Inr (), t) \<and>
           contents (vs_vol S t) = apply_request req (contents (vs_vol S s)) \<and> busy t \<le> B)) \<and>
     (\<forall>dl s t. run_state (env_Sleep (gc_env c) dl) s = ((), t) \<longrightarrow>
        contents (vs_vol S t) = contents (vs_vol S s) \<and> busy t \<le> busy s - 1)"

subsection \<open>One cycle on a responsive service\<close>

text \<open>The volume a cycle sees in state \<open>s\<close>.\<close>

definition seen_vol :: "'s volume_store \<Rightarrow> 's GrpcClient \<Rightarrow> 's \<Rightarrow> Volume" where
  "seen_vol S c s = projr (lbVolumeFromGRPC c (Some (vs_vol S s)) None (Some (vs_uuid S)))"

lemma seen_vol:
  assumes "reads_current S c busy"
  shows "run_state (Client_GetVolume c ctx (vs_uuid S) (vs_proj S)) s = (Inr (seen_vol S c s), s)"
    and "vol_State (seen_vol S c s) = (if busy s = 0 then VolumeAvailable else VolumeUpdating)"
    and "vol_ACL (seen_vol S c s) = CopyUniqueSorted (fst (contents (vs_vol S s)))"
    and "vol_Capacity (seen_vol S c s) = snd (contents (vs_vol S s))"
    and "vol_ETag (seen_vol S c s) = mv_ETag (vs_vol S s)"
proof -
  obtain v where v: "lbVolumeFromGRPC c (Some (vs_vol S s)) None (Some (vs_uuid S)) = Inr v"
    "vol_State v = (if busy s = 0 then VolumeAvailable else VolumeUpdating)"
    using assms unfolding reads_current_def by blast
  have eq: "seen_vol S c s = v" by (simp add: seen_vol_def v(1))
  show "vol_State (seen_vol S c s) = (if busy s = 0 then VolumeAvailable else VolumeUpdating)"
    by (simp add: eq v(2))
  show "vol_ACL (seen_vol S c s) = CopyUniqueSorted (fst (contents (vs_vol S s)))"
    "vol_Capacity (seen_vol S c s) = snd (contents (vs_vol S s))"
    "vol_ETag (seen_vol S c s) = mv_ETag (vs_vol S s)"
    using lbVolumeFromGRPC_Inr(4) [OF v(1) refl] by (simp_all add: eq contents_def)
  obtain n where "run_state (env_Now (gc_env c)) s = (n, s)"
    using assms unfolding reads_current_def by blast
  then show "run_state (Client_GetVolume c ctx (vs_uuid S) (vs_proj S)) s = (Inr (seen_vol S c s), s)"
    using assms v(1)
    by (auto simp: reads_current_def Client_GetVolume_def Client_getVolume_def cloneCtxWithCap_def
        eq split: option.splits)
qed

lemma cloneCtxWithCap_current:
  assumes "reads_current S c busy"
  shows "\<exists>ctx'. run_state (cloneCtxWithCap c ctx) s = (ctx', s)"
proof -
  obtain n where "run_state (env_Now (gc_env c)) s = (n, s)"
    using assms unfolding reads_current_def by blast
  then show ?thesis by (simp add: cloneCtxWithCap_def split: option.split)
qed

text \<open>The polled function of \<open>UpdateVolume\<close>.\<close>

definition update_poll ::
  "'s volume_store \<Rightarrow> 's GrpcClient \<Rightarrow> Ctx \<Rightarrow> VolumeUpdateHook \<Rightarrow> ('s, gerr, Volume option) io" where
  "update_poll S c ctx hook = do {
     e \<leftarrow> env_CtxErr (gc_env c) ctx;
     (case e of
        Some err \<Rightarrow> fail (ErrFromCtxErr err)
      | None \<Rightarrow> Client_doUpdateVolume c ctx (vs_uuid S) (vs_proj S) hook)
   }"

lemma update_poll_read:
  assumes "reads_current S c busy"
  shows "0 < busy s \<Longrightarrow> run_state (update_poll S c ctx hook) s = (Inr None, s)"
    and "busy s = 0 \<Longrightarrow> hook (seen_vol S c s) = Inl e \<Longrightarrow>
      run_state (update_poll S c ctx hook) s = (Inl e, s)"
    and "busy s = 0 \<Longrightarrow> hook (seen_vol S c s) = Inr None \<Longrightarrow>
      run_state (update_poll S c ctx hook) s = (Inr (Some (seen_vol S c s)), s)"
proof -
  obtain ctx' where c: "run_state (cloneCtxWithCap c ctx) s = (ctx', s)"
    using cloneCtxWithCap_current [OF assms] by blast
  have e: "run_state (env_CtxErr (gc_env c) ctx) s = (None, s)" for ctx s
    using assms by (simp add: reads_current_def)
  note run = update_poll_def Client_doUpdateVolume_def c e seen_vol(1,2) [OF assms]
  show "0 < busy s \<Longrightarrow> run_state (update_poll S c ctx hook) s = (Inr None, s)" by (simp add: run)
  show "busy s = 0 \<Longrightarrow> hook (seen_vol S c s) = Inl e \<Longrightarrow>
      run_state (update_poll S c ctx hook) s = (Inl e, s)" by (simp add: run)
  show "busy s = 0 \<Longrightarrow> hook (seen_vol S c s) = Inr None \<Longrightarrow>
      run_state (update_poll S c ctx hook) s = (Inr (Some (seen_vol S c s)), s)" by (simp add: run)
qed

lemma update_poll_write:
  assumes "responsive S c busy B" and "busy s = 0" and "hook (seen_vol S c s) = Inr (Some u)"
    and "mkUpdateVolumeRequest c (vs_uuid S) (vs_proj S) u = Some req"
  shows "\<exists>t. run_state (update_poll S c ctx hook) s = (Inr None, t) \<and>
    contents (vs_vol S t) = apply_request req (contents (vs_vol S s)) \<and> busy t \<le> B"
proof -
  have r: "reads_current S c busy" using assms(1) by (simp add: responsive_def)
  obtain ctx' where c: "run_state (cloneCtxWithCap c ctx) s = (ctx', s)"
    using cloneCtxWithCap_current [OF r] by blast
  have e: "run_state (env_CtxErr (gc_env c) ctx) s = (None, s)" for ctx s
    using r by (simp add: reads_current_def)
  let ?ctx = "cloneCtxWithETag ctx' (mv_ETag (vs_vol S s))"
  have "uvr_UUID req = guuid_String (gc_guuid c) (vs_uuid S)" "uvr_ProjectName req = vs_proj S"
    using assms(4) by (auto simp: mkUpdateVolumeRequest_def Let_def split: if_splits)
  moreover have "ctx_md ?ctx \<noteq> []" "last (ctx_md ?ctx) = (ifMatchHeader, mv_ETag (vs_vol S s))"
    by (simp_all add: cloneCtxWithETag_def)
  ultimately obtain t where "run_state (api_UpdateVolume (gc_clnt c) ?ctx req) s = (Inr (), t)"
    and t: "contents (vs_vol S t) = apply_request req (contents (vs_vol S s))" "busy t \<le> B"
    using assms(1,2) unfolding responsive_def by blast
  then have "run_state (update_poll S c ctx hook) s = (Inr None, t)"
    using assms(2-4) by (simp add: update_poll_def Client_doUpdateVolume_def c e seen_vol [OF r])
  with t show ?thesis by blast
qed

subsection \<open>The whole loop\<close>

text \<open>
  On a responsive service a loop with enough tries left ends: with the volume as it is, when
  the hook has nothing to ask for; with the hook's error; or with the volume updated.
\<close>

lemma sleep_step:
  assumes "responsive S c busy B"
  obtains s1 where "run_state (if first then State_Monad.return () else env_Sleep (gc_env c) dl) s = ((), s1)"
    and "contents (vs_vol S s1) = contents (vs_vol S s)" and "busy s1 \<le> busy s"
    and "\<not> first \<Longrightarrow> busy s1 \<le> busy s - 1"
proof (cases first)
  case True
  then show ?thesis using that [of s] by simp
next
  case False
  obtain s1 where s1: "run_state (env_Sleep (gc_env c) dl) s = ((), s1)"
    by (cases "run_state (env_Sleep (gc_env c) dl) s") auto
  then have "contents (vs_vol S s1) = contents (vs_vol S s)" "busy s1 \<le> busy s - 1"
    using assms unfolding responsive_def by blast+
  with s1 False that show ?thesis by auto
qed

definition answer_of :: "'s volume_store \<Rightarrow> 's GrpcClient \<Rightarrow> VolumeUpdateHook \<Rightarrow> 's \<Rightarrow> gerr + Volume" where
  "answer_of S c hook s =
     (case hook (seen_vol S c s) of Inl e \<Rightarrow> Inl e | Inr _ \<Rightarrow> Inr (seen_vol S c s))"

lemma loop_settles:
  assumes "responsive S c busy B"
    and "\<And>t. contents (vs_vol S t) = cn \<Longrightarrow> hook (seen_vol S c t) = Inr None \<or> (\<exists>e. hook (seen_vol S c t) = Inl e)"
    and "contents (vs_vol S s) = cn" and "busy s < n + (if first then 0 else 1)" and "0 < n"
  shows "\<exists>t. run_state (backoff_loop (gc_env c) opts (update_poll S c ctx hook) n first dl) s =
      (answer_of S c hook t, t) \<and> contents (vs_vol S t) = cn \<and> busy t = 0"
  using assms(3-5)
proof (induction n arbitrary: s first dl)
  case 0
  then show ?case by simp
next
  case (Suc n)
  have r: "reads_current S c busy" using assms(1) by (simp add: responsive_def)
  obtain s1 where s1: "run_state (if first then State_Monad.return () else env_Sleep (gc_env c) dl) s
      = ((), s1)"
    "contents (vs_vol S s1) = cn" "busy s1 \<le> busy s" "\<not> first \<Longrightarrow> busy s1 \<le> busy s - 1"
    using sleep_step [OF assms(1)] Suc.prems(1) by metis
  show ?case
  proof (cases "busy s1 = 0")
    case True
    with s1 assms(2) [OF s1(2)] update_poll_read(2,3) [OF r True] show ?thesis
      by (auto simp: answer_of_def)
  next
    case False
    then have "busy s1 < n + 1" "0 < n" using s1(3,4) Suc.prems(2) by (cases first; auto)+
    with Suc.IH [OF s1(2), of False] s1(1) update_poll_read(1) [OF r, of s1] False show ?thesis by simp
  qed
qed

lemma loop_updates:
  assumes "responsive S c busy B"
    and "\<And>t. contents (vs_vol S t) = cn \<Longrightarrow> hook (seen_vol S c t) = Inr (Some u)"
    and "\<And>t. contents (vs_vol S t) = apply_request req cn \<Longrightarrow> hook (seen_vol S c t) = Inr None"
    and "mkUpdateVolumeRequest c (vs_uuid S) (vs_proj S) u = Some req"
    and "contents (vs_vol S s) = cn" and "busy s + B + 1 < n + (if first then 0 else 1)" and "1 < n"
  shows "\<exists>t. run_state (backoff_loop (gc_env c) opts (update_poll S c ctx hook) n first dl) s =
      (Inr (seen_vol S c t), t) \<and> contents (vs_vol S t) = apply_request req cn \<and> busy t = 0"
  using assms(5-7)
proof (induction n arbitrary: s first dl)
  case 0
  then show ?case by simp
next
  case (Suc n)
  have r: "reads_current S c busy" using assms(1) by (simp add: responsive_def)
  obtain s1 where s1: "run_state (if first then State_Monad.return () else env_Sleep (gc_env c) dl) s
      = ((), s1)"
    "contents (vs_vol S s1) = cn" "busy s1 \<le> busy s" "\<not> first \<Longrightarrow> busy s1 \<le> busy s - 1"
    using sleep_step [OF assms(1)] Suc.prems(1) by metis
  let ?dl = "if first then dl else next_delay opts dl"
  show ?case
  proof (cases "busy s1 = 0")
    case True
    from update_poll_write [where s = s1 and hook = hook, OF assms(1) True assms(2) [OF s1(2)] assms(4)]
    obtain t
      where t: "run_state (update_poll S c ctx hook) s1 = (Inr None, t)"
        "contents (vs_vol S t) = apply_request req cn" "busy t \<le> B"
      unfolding s1(2) by blast
    have "\<exists>t'. run_state (backoff_loop (gc_env c) opts (update_poll S c ctx hook) n False ?dl) t =
        (answer_of S c hook t', t') \<and> contents (vs_vol S t') = apply_request req cn \<and> busy t' = 0"
      by (rule loop_settles [OF assms(1) _ t(2)]) (use assms(3) t(3) Suc.prems(2,3) in \<open>auto split: if_splits\<close>)
    then show ?thesis
      using s1(1) t(1) assms(3) by (auto simp: answer_of_def)
  next
    case False
    then have "busy s1 + B + 1 < n + 1" "1 < n" using s1(3,4) Suc.prems(2) by (cases first; auto)+
    with Suc.IH [OF s1(2), of False] s1(1) update_poll_read(1) [OF r, of s1] False show ?thesis by simp
  qed
qed

lemma UpdateVolume_loop:
  "cl_UpdateVolume (lbgrpc_Client c) ctx (vs_uuid S) (vs_proj S) hook =
     backoff_loop (gc_env c) (normalize_opts UpdateRetryOpts) (update_poll S c ctx hook) 15 True
       (bo_Delay (normalize_opts UpdateRetryOpts))"
  by (simp add: lbgrpc_Client_def Client_UpdateVolume_def WithExponentialBackoff_def Let_def
      update_poll_def UpdateRetryOpts_def)

subsection \<open>Every call reaches its goal\<close>

text \<open>The hooks look at the ACL and the capacity only.\<close>

lemma job_hook_cong:
  "vol_ACL v = vol_ACL w \<Longrightarrow> vol_Capacity v = vol_Capacity w \<Longrightarrow> job_hook j v = job_hook j w"
  by (cases j) (simp_all add: publishRWOHook_def publishRWXHook_def unpublishRWOHook_def
      unpublishRWXHook_def expandVolumeHook_def Let_def)

text \<open>An update that a hook asks for is never empty, and once it is applied the hook is content.\<close>

lemma job_request_Some:
  "job_hook j v = Inr (Some u) \<Longrightarrow> \<exists>req. mkUpdateVolumeRequest c uuid proj u = Some req"
  by (cases j) (auto dest!: hook_Some simp: mkUpdateVolumeRequest_def Let_def)

lemma length_one: "length xs = Suc 0 \<and> xs ! 0 = x \<longleftrightarrow> xs = [x]"
  by (cases xs) auto

lemma CopyUniqueSorted_singleton_iff: "CopyUniqueSorted acl = [x] \<longleftrightarrow> set acl = {x}"
  using CopyUniqueSorted_eq_iff [of acl "[x]"] by simp

lemma unpublishRWXHook_content:
  assumes "unpublishRWXHook ace v = Inr (Some u)" and "upd_ACL u = Some a" and "distinct (vol_ACL v)"
    and "vol_ACL w = CopyUniqueSorted a" and "ace \<noteq> ACLAllowNone"
  shows "unpublishRWXHook ace w = Inr None"
proof (cases "a = [ACLAllowNone]")
  case True
  then show ?thesis using assms(4) by (simp add: unpublishRWXHook_def Let_def)
next
  case False
  then have a: "a = remove_first (vol_ACL v) ace" "ACLAllowAny \<notin> set (vol_ACL v)" "vol_ACL v \<noteq> [ace]"
    "vol_ACL v \<noteq> []"
    using assms(1,2)
    by (auto simp: unpublishRWXHook_def Let_def length_one [unfolded One_nat_def] split: if_splits)
  then have a': "ace \<notin> set a" "ACLAllowAny \<notin> set a" "a \<noteq> []"
    using assms(3) by (auto simp: set_remove_first) (cases "vol_ACL v", auto split: if_splits)
  then have "vol_ACL w \<noteq> [ace]" using assms(4) by (auto simp: CopyUniqueSorted_singleton_iff)
  then have "\<not> (length (vol_ACL w) = Suc 0 \<and> vol_ACL w ! 0 = ace)" by (simp add: length_one)
  then show ?thesis
    using a' assms(4) by (auto simp: unpublishRWXHook_def Let_def)
qed

lemma job_hook_content:
  assumes "job_hook j v = Inr (Some u)" and "mkUpdateVolumeRequest c uuid proj u = Some req"
    and "vol_ACL v = CopyUniqueSorted acl" and "vol_Capacity v = z"
    and "(vol_ACL w, vol_Capacity w) = map_prod CopyUniqueSorted id (apply_request req (acl, z))"
  shows "job_hook j w = Inr None"
proof -
  have acl: "vol_ACL w = CopyUniqueSorted a" if "upd_ACL u = Some a" for a
    using that assms(2,5) by (auto simp: mkUpdateVolumeRequest_def apply_request_def Let_def split: if_splits)
  have cap: "vol_Capacity w = cap" if "u = \<lparr>upd_ACL = None, upd_Capacity = cap\<rparr>" for cap
    using that assms(2,5) by (auto simp: mkUpdateVolumeRequest_def apply_request_def Let_def
        decimal_value_FormatUint10 split: if_splits)
  show ?thesis
  proof (cases j)
    case (PublishRWO n)
    then show ?thesis
      using publishRWOHook_Some [of "nodeIDToHostNQN n" v u] assms(1) acl
      by (simp add: publishRWOHook_def)
  next
    case (PublishRWX n)
    then have "publishRWXHook (nodeIDToHostNQN n) v = Inr (Some u)" using assms(1) by simp
    from publishRWXHook_Some [OF this] this acl PublishRWX show ?thesis
      by (auto simp: publishRWXHook_def Let_def split: if_splits)
  next
    case (UnpublishRWO n)
    then show ?thesis
      using unpublishRWOHook_Some [of "nodeIDToHostNQN n" v u] assms(1) acl
      by (simp add: unpublishRWOHook_def)
  next
    case (UnpublishRWX n)
    then have h: "unpublishRWXHook (nodeIDToHostNQN n) v = Inr (Some u)" using assms(1) by simp
    from unpublishRWXHook_Some [OF this] obtain a where a: "upd_ACL u = Some a" by auto
    from unpublishRWXHook_content [OF h a _ acl [OF a]] assms(3) UnpublishRWX show ?thesis by simp
  next
    case (Expand cap)
    then show ?thesis
      using expandVolumeHook_Some [of cap v u] assms(1) cap
      by (simp add: expandVolumeHook_def)
  qed
qed

text \<open>What the volume is once a call has had its way.\<close>

definition job_effect :: "'s volume_store \<Rightarrow> 's GrpcClient \<Rightarrow> job \<Rightarrow> 's \<Rightarrow> string list \<times> uint64" where
  "job_effect S c j s =
     (case job_hook j (seen_vol S c s) of
        Inr (Some u) \<Rightarrow>
          (case mkUpdateVolumeRequest c (vs_uuid S) (vs_proj S) u of
             Some req \<Rightarrow> apply_request req (contents (vs_vol S s))
           | None \<Rightarrow> contents (vs_vol S s))
      | _ \<Rightarrow> contents (vs_vol S s))"

lemma seen_vol_cong:
  assumes "reads_current S c busy" and "contents (vs_vol S t) = contents (vs_vol S s)"
  shows "job_hook j (seen_vol S c t) = job_hook j (seen_vol S c s)"
  by (rule job_hook_cong) (simp_all add: seen_vol [OF assms(1)] assms(2))

lemma UpdateVolume_job:
  assumes "responsive S c busy B" and "busy s + B < 14"
  shows "\<exists>t. run_state (cl_UpdateVolume (lbgrpc_Client c) ctx (vs_uuid S) (vs_proj S) (job_hook j)) s =
      (answer_of S c (job_hook j) t, t) \<and> contents (vs_vol S t) = job_effect S c j s \<and> busy t = 0 \<and>
      (\<forall>e. job_hook j (seen_vol S c s) = Inl e \<longrightarrow> job_hook j (seen_vol S c t) = Inl e) \<and>
      (\<forall>u. job_hook j (seen_vol S c s) = Inr u \<longrightarrow> job_hook j (seen_vol S c t) = Inr None)"
proof -
  have r: "reads_current S c busy" using assms(1) by (simp add: responsive_def)
  note cong = seen_vol_cong [OF r, of _ s j]
  let ?cn = "contents (vs_vol S s)" and ?h = "job_hook j (seen_vol S c s)"
  show ?thesis
  proof (cases "\<exists>u. ?h = Inr (Some u)")
    case False
    then have quiet: "?h = Inr None \<or> (\<exists>e. ?h = Inl e)" by (cases ?h) auto
    have "\<exists>t. run_state (cl_UpdateVolume (lbgrpc_Client c) ctx (vs_uuid S) (vs_proj S) (job_hook j)) s =
        (answer_of S c (job_hook j) t, t) \<and> contents (vs_vol S t) = ?cn \<and> busy t = 0"
      unfolding UpdateVolume_loop
    proof (rule loop_settles [OF assms(1)])
      show "job_hook j (seen_vol S c t) = Inr None \<or> (\<exists>e. job_hook j (seen_vol S c t) = Inl e)"
        if "contents (vs_vol S t) = ?cn" for t
        unfolding cong [OF that] by (rule quiet)
    qed (use assms(2) in simp_all)
    then obtain t where t: "run_state (cl_UpdateVolume (lbgrpc_Client c) ctx (vs_uuid S) (vs_proj S)
        (job_hook j)) s = (answer_of S c (job_hook j) t, t)" "contents (vs_vol S t) = ?cn" "busy t = 0"
      by blast
    then show ?thesis
      using quiet by (intro exI [of _ t] conjI) (auto simp: job_effect_def cong [OF t(2)])
  next
    case True
    then obtain u req where u: "?h = Inr (Some u)"
      and req: "mkUpdateVolumeRequest c (vs_uuid S) (vs_proj S) u = Some req"
      using job_request_Some by metis
    have content: "job_hook j (seen_vol S c t) = Inr None"
      if "contents (vs_vol S t) = apply_request req ?cn" for t
      by (rule job_hook_content [OF u req, where acl = "fst ?cn" and z = "snd ?cn"])
         (simp_all add: seen_vol [OF r] that map_prod_def case_prod_unfold)
    have "\<exists>t. run_state (cl_UpdateVolume (lbgrpc_Client c) ctx (vs_uuid S) (vs_proj S) (job_hook j)) s =
        (Inr (seen_vol S c t), t) \<and> contents (vs_vol S t) = apply_request req ?cn \<and> busy t = 0"
      unfolding UpdateVolume_loop
    proof (rule loop_updates [where hook = "job_hook j" and u = u, OF assms(1) _ content req refl])
      show "job_hook j (seen_vol S c t) = Inr (Some u)" if "contents (vs_vol S t) = ?cn" for t
        unfolding cong [OF that] by (rule u)
    qed (use assms(2) in simp_all)
    then show ?thesis using u req content by (auto simp: job_effect_def answer_of_def)
  qed
qed

subsection \<open>The outcome of every call\<close>

text \<open>What a call answers, and what it makes of the ACL and the size, written over the set of entries.\<close>

fun job_spec :: "job \<Rightarrow> string list \<times> uint64 \<Rightarrow> (gerr + unit) \<times> (string list \<times> uint64)" where
  "job_spec (PublishRWO n) (acl, z) =
     (if set acl = {nodeIDToHostNQN n} then (Inr (), (acl, z))
      else if set acl \<subseteq> {ACLAllowNone} then (Inr (), ([nodeIDToHostNQN n], z))
      else (Inl mkPrecond, (acl, z)))"
| "job_spec (PublishRWX n) (acl, z) =
     (Inr (), if nodeIDToHostNQN n \<in> set acl then (acl, z)
              else (CopyUniqueSorted (nodeIDToHostNQN n # filter ((\<noteq>) ACLAllowNone) acl), z))"
| "job_spec (UnpublishRWO n) (acl, z) =
     (if set acl \<subseteq> {nodeIDToHostNQN n} then (Inr (), ([ACLAllowNone], z))
      else if card (set acl) = 1 \<and> set acl \<noteq> {ACLAllowAny} then (Inr (), (acl, z))
      else (Inl mkInternal, (acl, z)))"
| "job_spec (UnpublishRWX n) (acl, z) =
     (if set acl \<subseteq> {nodeIDToHostNQN n} then (Inr (), ([ACLAllowNone], z))
      else if ACLAllowAny \<in> set acl then (Inl mkInternal, (acl, z))
      else if nodeIDToHostNQN n \<in> set acl
      then (Inr (), (CopyUniqueSorted (filter ((\<noteq>) (nodeIDToHostNQN n)) acl), z))
      else (Inr (), (acl, z)))"
| "job_spec (Expand cap) (acl, z) = (Inr (), (acl, max z cap))"

definition apply_update :: "VolumeUpdate \<Rightarrow> string list \<times> uint64 \<Rightarrow> string list \<times> uint64" where
  "apply_update u = (\<lambda>(acl, z).
     (case upd_ACL u of None \<Rightarrow> acl | Some a \<Rightarrow> CopyUniqueSorted a,
      if upd_Capacity u = 0 then z else upd_Capacity u))"

lemma apply_request_update:
  "mkUpdateVolumeRequest c uuid proj u = Some req \<Longrightarrow> apply_request req cn = apply_update u cn"
  by (cases cn) (auto simp: mkUpdateVolumeRequest_def apply_request_def apply_update_def Let_def
      decimal_value_FormatUint10 split: if_splits option.splits)

definition hook_outcome ::
  "gerr + VolumeUpdate option \<Rightarrow> string list \<times> uint64 \<Rightarrow> (gerr + unit) \<times> (string list \<times> uint64)" where
  "hook_outcome h cn =
     (case h of Inl e \<Rightarrow> (Inl e, cn) | Inr None \<Rightarrow> (Inr (), cn) | Inr (Some u) \<Rightarrow> (Inr (), apply_update u cn))"

lemma length_CopyUniqueSorted: "length (CopyUniqueSorted s) = card (set s)"
  by (metis CopyUniqueSorted_canonical(2) distinct_card set_CopyUniqueSorted)

lemma card_set_less: "Suc 0 < card (set acl) \<longleftrightarrow> acl \<noteq> [] \<and> card (set acl) \<noteq> Suc 0"
  by (cases acl) (auto simp: card_gt_0_iff Suc_lessI)

lemma acl_single:
  assumes "acl' = CopyUniqueSorted acl"
  shows "length acl' = Suc 0 \<and> acl' ! 0 = x \<longleftrightarrow> set acl = {x}"
    "Suc 0 < length acl' \<longleftrightarrow> acl \<noteq> [] \<and> card (set acl) \<noteq> Suc 0" "acl' = [] \<longleftrightarrow> acl = []"
  unfolding assms
  by (simp only: length_one CopyUniqueSorted_singleton_iff)
     (simp_all add: length_CopyUniqueSorted card_set_less)

lemma job_hook_spec:
  assumes "vol_ACL v = CopyUniqueSorted acl" and "vol_Capacity v = z"
  shows "hook_outcome (job_hook j v) (acl, z) = job_spec j (acl, z)"
proof (cases j)
  case (PublishRWO n)
  then show ?thesis
    by (simp add: hook_outcome_def apply_update_def publishRWOHook_def Let_def acl_single [OF assms(1)]
        subset_singleton_iff)
next
  case (PublishRWX n)
  then show ?thesis
    by (auto simp: hook_outcome_def apply_update_def publishRWXHook_def Let_def assms(1)
        CopyUniqueSorted_eq_iff set_remove_first)
next
  case (UnpublishRWO n)
  then show ?thesis
    using nodeIDToHostNQN_not_special(1) [of n]
    by (cases "set acl = {ACLAllowNone}"; cases "acl = []"; cases "set acl = {nodeIDToHostNQN n}")
       (simp_all add: hook_outcome_def apply_update_def unpublishRWOHook_def Let_def
        acl_single [OF assms(1)] subset_singleton_iff)
next
  case (UnpublishRWX n)
  let ?ace = "nodeIDToHostNQN n"
  have "CopyUniqueSorted (remove_first (vol_ACL v) ?ace) = CopyUniqueSorted (filter ((\<noteq>) ?ace) acl)"
    unfolding CopyUniqueSorted_eq_iff using assms(1) by (auto simp: set_remove_first)
  with UnpublishRWX show ?thesis
    using nodeIDToHostNQN_not_special(1) [of n]
    by (simp add: hook_outcome_def apply_update_def unpublishRWXHook_def Let_def acl_single [OF assms(1)]
        subset_singleton_iff) (simp add: assms(1))
next
  case (Expand cap)
  then show ?thesis
    using assms(2)
    by (auto simp: hook_outcome_def apply_update_def expandVolumeHook_def max_def)
qed

lemma job_spec_error: "fst (job_spec j cn) = Inl e \<Longrightarrow> e = mkPrecond \<or> e = mkInternal"
  by (cases j; cases cn) (simp_all split: if_splits)

lemma job_spec_publish:
  "fst (job_spec (PublishRWO n) cn) = Inr () \<Longrightarrow>
     set (fst (snd (job_spec (PublishRWO n) cn))) = {nodeIDToHostNQN n}"
  "fst (job_spec (PublishRWX n) cn) = Inr () \<and>
     nodeIDToHostNQN n \<in> set (fst (snd (job_spec (PublishRWX n) cn)))"
  by (cases cn; simp split: if_splits)+

lemma job_spec_unpublish:
  "fst (job_spec (UnpublishRWO n) cn) = Inr () \<Longrightarrow>
     card (set (fst (snd (job_spec (UnpublishRWO n) cn)))) = 1 \<and>
     set (fst (snd (job_spec (UnpublishRWO n) cn))) \<noteq> {nodeIDToHostNQN n}"
  "fst (job_spec (UnpublishRWX n) cn) = Inr () \<Longrightarrow>
     nodeIDToHostNQN n \<notin> set (fst (snd (job_spec (UnpublishRWX n) cn)))"
proof -
  obtain acl z where cn: "cn = (acl, z)" by fastforce
  let ?sub = "set acl \<subseteq> {nodeIDToHostNQN n}"
  have ne: "set acl \<noteq> {nodeIDToHostNQN n}" if "\<not> ?sub" using that by blast
  show "card (set (fst (snd (job_spec (UnpublishRWO n) cn)))) = 1 \<and>
     set (fst (snd (job_spec (UnpublishRWO n) cn))) \<noteq> {nodeIDToHostNQN n}"
    if "fst (job_spec (UnpublishRWO n) cn) = Inr ()"
    using that ne nodeIDToHostNQN_not_special(1) [of n, symmetric] unfolding cn
    by (cases ?sub; cases "card (set acl) = 1"; cases "set acl = {ACLAllowAny}") simp_all
  show "nodeIDToHostNQN n \<notin> set (fst (snd (job_spec (UnpublishRWX n) cn)))"
    if "fst (job_spec (UnpublishRWX n) cn) = Inr ()"
    using that nodeIDToHostNQN_not_special(1) [of n] unfolding cn
    by (cases ?sub; cases "ACLAllowAny \<in> set acl"; cases "nodeIDToHostNQN n \<in> set acl") simp_all
qed

lemma UpdateVolume_spec:
  assumes "responsive S c busy B" and "busy s + B < 14"
  shows "\<exists>t. busy t = 0 \<and> contents (vs_vol S t) = snd (job_spec j (contents (vs_vol S s))) \<and>
    run_state (cl_UpdateVolume (lbgrpc_Client c) ctx (vs_uuid S) (vs_proj S) (job_hook j)) s =
      (case fst (job_spec j (contents (vs_vol S s))) of
         Inl e \<Rightarrow> Inl e | Inr _ \<Rightarrow> Inr (seen_vol S c t), t)"
proof -
  have r: "reads_current S c busy" using assms(1) by (simp add: responsive_def)
  let ?cn = "contents (vs_vol S s)" and ?h = "job_hook j (seen_vol S c s)"
  have spec: "hook_outcome ?h ?cn = job_spec j ?cn"
    using job_hook_spec [of "seen_vol S c s" "fst ?cn" "snd ?cn" j] by (simp add: seen_vol [OF r])
  have eff: "job_effect S c j s = snd (hook_outcome ?h ?cn)"
    using job_request_Some [of j "seen_vol S c s" _ c "vs_uuid S" "vs_proj S"]
    by (fastforce simp: job_effect_def hook_outcome_def apply_request_update split: sum.split option.split)
  obtain t where t: "run_state (cl_UpdateVolume (lbgrpc_Client c) ctx (vs_uuid S) (vs_proj S)
      (job_hook j)) s = (answer_of S c (job_hook j) t, t)"
    "contents (vs_vol S t) = job_effect S c j s" "busy t = 0"
    "\<forall>e. ?h = Inl e \<longrightarrow> job_hook j (seen_vol S c t) = Inl e"
    "\<forall>u. ?h = Inr u \<longrightarrow> job_hook j (seen_vol S c t) = Inr None"
    using UpdateVolume_job [OF assms] by blast
  have "answer_of S c (job_hook j) t =
      (case fst (hook_outcome ?h ?cn) of Inl e \<Rightarrow> Inl e | Inr _ \<Rightarrow> Inr (seen_vol S c t))"
    using t(4,5) by (cases ?h) (auto simp: answer_of_def hook_outcome_def split: option.split)
  with t(1-3) eff spec show ?thesis by (intro exI [of _ t]) simp
qed

text \<open>The bodies of the handlers: their last look at the volume finds what they asked for.\<close>

definition publish_call where
  "publish_call rwx clnt ctx vid n =
     (if rwx then doPublishVolumeRWX clnt ctx vid n else doPublishVolumeRWO clnt ctx vid n)"

definition unpublish_call where
  "unpublish_call rwx clnt ctx vid n =
     (if rwx then doUnpublishVolumeRWX clnt ctx vid n else doUnpublishVolumeRWO clnt ctx vid n)"

lemma publish_call_outcome:
  assumes "responsive S c busy B" and "busy s + B < 14"
    and "rid_uuid vid = vs_uuid S" and "rid_projName vid = vs_proj S"
  shows "\<exists>t. run_state (publish_call rwx (lbgrpc_Client c) ctx vid n) s = (fst (job_spec
      (if rwx then PublishRWX n else PublishRWO n) (contents (vs_vol S s))), t) \<and> busy t = 0 \<and>
    contents (vs_vol S t) =
      snd (job_spec (if rwx then PublishRWX n else PublishRWO n) (contents (vs_vol S s)))"
proof -
  have r: "reads_current S c busy" using assms(1) by (simp add: responsive_def)
  let ?j = "if rwx then PublishRWX n else PublishRWO n" and ?cn = "contents (vs_vol S s)"
  obtain t where t: "busy t = 0" "contents (vs_vol S t) = snd (job_spec ?j ?cn)"
    "run_state (cl_UpdateVolume (lbgrpc_Client c) ctx (vs_uuid S) (vs_proj S) (job_hook ?j)) s =
      (case fst (job_spec ?j ?cn) of Inl e \<Rightarrow> Inl e | Inr _ \<Rightarrow> Inr (seen_vol S c t), t)"
    using UpdateVolume_spec [OF assms(1,2), of ?j ctx] by blast
  have "run_state (publish_call rwx (lbgrpc_Client c) ctx vid n) s = (fst (job_spec ?j ?cn), t)"
  proof (cases rwx)
    case True
    then have "nodeIDToHostNQN n \<in> set (vol_ACL (seen_vol S c t))" "fst (job_spec ?j ?cn) = Inr ()"
      using job_spec_publish(2) [of n ?cn] t(2) by (simp_all add: seen_vol(3) [OF r])
    with True t(3) show ?thesis
      by (auto simp: publish_call_def doPublishVolumeRWX_def Let_def assms(3,4))
  next
    case False
    then have "vol_ACL (seen_vol S c t) = [nodeIDToHostNQN n]" if "fst (job_spec ?j ?cn) = Inr ()"
      using that job_spec_publish(1) [of n ?cn] t(2)
      by (simp add: seen_vol(3) [OF r] CopyUniqueSorted_singleton_iff)
    with False t(3) show ?thesis
      by (cases "fst (job_spec ?j ?cn)")
         (simp_all add: publish_call_def doPublishVolumeRWO_def Let_def assms(3,4))
  qed
  with t(1,2) show ?thesis by blast
qed

lemma unpublish_call_outcome:
  assumes "responsive S c busy B" and "busy s + B < 14"
    and "rid_uuid vid = vs_uuid S" and "rid_projName vid = vs_proj S"
  shows "\<exists>t. run_state (unpublish_call rwx (lbgrpc_Client c) ctx vid n) s = (fst (job_spec
      (if rwx then UnpublishRWX n else UnpublishRWO n) (contents (vs_vol S s))), t) \<and> busy t = 0 \<and>
    contents (vs_vol S t) =
      snd (job_spec (if rwx then UnpublishRWX n else UnpublishRWO n) (contents (vs_vol S s)))"
proof -
  have r: "reads_current S c busy" using assms(1) by (simp add: responsive_def)
  let ?j = "if rwx then UnpublishRWX n else UnpublishRWO n" and ?cn = "contents (vs_vol S s)"
  obtain t where t: "busy t = 0" "contents (vs_vol S t) = snd (job_spec ?j ?cn)"
    "run_state (cl_UpdateVolume (lbgrpc_Client c) ctx (vs_uuid S) (vs_proj S) (job_hook ?j)) s =
      (case fst (job_spec ?j ?cn) of Inl e \<Rightarrow> Inl e | Inr _ \<Rightarrow> Inr (seen_vol S c t), t)"
    using UpdateVolume_spec [OF assms(1,2), of ?j ctx] by blast
  have not_found: "\<not> isStatusNotFound e" if "fst (job_spec ?j ?cn) = Inl e" for e
    using job_spec_error [OF that] by (auto simp: isStatusNotFound_def mkPrecond_def mkInternal_def)
  have "run_state (unpublish_call rwx (lbgrpc_Client c) ctx vid n) s = (fst (job_spec ?j ?cn), t)"
  proof (cases rwx)
    case True
    then have "nodeIDToHostNQN n \<notin> set (vol_ACL (seen_vol S c t))" if "fst (job_spec ?j ?cn) = Inr ()"
      using that job_spec_unpublish(2) [of n ?cn] t(2) by (simp add: seen_vol(3) [OF r])
    with True t(3) not_found show ?thesis
      by (cases "fst (job_spec ?j ?cn)")
         (simp_all add: unpublish_call_def doUnpublishVolumeRWX_def Let_def assms(3,4))
  next
    case False
    then have "length (vol_ACL (seen_vol S c t)) = 1 \<and> vol_ACL (seen_vol S c t) \<noteq> [nodeIDToHostNQN n]"
      if "fst (job_spec ?j ?cn) = Inr ()"
      using that job_spec_unpublish(1) [of n ?cn] t(2)
      by (simp add: seen_vol(3) [OF r] length_CopyUniqueSorted CopyUniqueSorted_singleton_iff)
    then have "length (vol_ACL (seen_vol S c t)) = 1 \<and> vol_ACL (seen_vol S c t) ! 0 \<noteq> nodeIDToHostNQN n"
      if "fst (job_spec ?j ?cn) = Inr ()"
      using that length_one [of "vol_ACL (seen_vol S c t)" "nodeIDToHostNQN n"] by auto
    with False t(3) not_found show ?thesis
      by (cases "fst (job_spec ?j ?cn)")
         (simp_all add: unpublish_call_def doUnpublishVolumeRWO_def Let_def assms(3,4))
  qed
  with t(1,2) show ?thesis by blast
qed

subsection \<open>The handlers\<close>

text \<open>Requests that name the volume of the store and pass the handlers' checks.\<close>

definition volume_id :: "'s volume_store \<Rightarrow> 's Driver \<Rightarrow> string \<Rightarrow> bool" where
  "volume_id S d volID \<longleftrightarrow> volID \<noteq> [] \<and>
     (\<exists>vid. parseCSIResourceID (d_guuid d) volID = Inr vid \<and>
        rid_uuid vid = vs_uuid S \<and> rid_projName vid = vs_proj S)"

definition valid_publish :: "'s volume_store \<Rightarrow> 's Driver \<Rightarrow> csi_PublishRequest \<Rightarrow> bool" where
  "valid_publish S d req \<longleftrightarrow> volume_id S d (vr_VolumeId req) \<and> \<not> pr_Readonly req \<and>
     checkNodeID (pr_NodeId req) = Inr () \<and>
     validateVolumeCapability (d_rwx d) (pr_VolumeCapability req) = Inr ()"

definition valid_unpublish :: "'s volume_store \<Rightarrow> 's Driver \<Rightarrow> csi_UnpublishRequest \<Rightarrow> bool" where
  "valid_unpublish S d req \<longleftrightarrow> volume_id S d (vr_VolumeId req) \<and> checkNodeID (ur_NodeId req) = Inr ()"

definition valid_expand :: "'s volume_store \<Rightarrow> 's Driver \<Rightarrow> csi_ExpandRequest \<Rightarrow> uint64 \<Rightarrow> bool" where
  "valid_expand S d req cap \<longleftrightarrow> volume_id S d (vr_VolumeId req) \<and>
     getReqCapacity (er_CapacityRange req) = Inr cap"

text \<open>A client can be had from the pool, and neither taking nor returning it touches the volume.\<close>

definition pool_serves :: "'s volume_store \<Rightarrow> 's Driver \<Rightarrow> ('s \<Rightarrow> nat) \<Rightarrow> bool" where
  "pool_serves S d busy \<longleftrightarrow>
     (\<forall>ctx eps scheme s. \<exists>h t. run_state (GetLBClient d ctx eps scheme) s = (Inr h, t) \<and>
        contents (vs_vol S t) = contents (vs_vol S s) \<and> busy t \<le> busy s) \<and>
     (\<forall>h s t. run_state (PutLBClient d h) s = ((), t) \<longrightarrow>
        contents (vs_vol S t) = contents (vs_vol S s) \<and> busy t \<le> busy s)"

definition serves ::
  "'s volume_store \<Rightarrow> 's Driver \<Rightarrow> (nat \<Rightarrow> 's GrpcClient) \<Rightarrow> ('s \<Rightarrow> nat) \<Rightarrow> nat \<Rightarrow> bool" where
  "serves S d g busy B \<longleftrightarrow> pool_serves S d busy \<and>
     (\<forall>h. responsive S (g h) busy B \<and> d_client d h = lbgrpc_Client (g h))"

lemma with_client_outcome:
  assumes "serves S d g busy B"
    and "\<And>h s1. contents (vs_vol S s1) = contents (vs_vol S s) \<Longrightarrow> busy s1 \<le> busy s \<Longrightarrow>
      \<exists>t. run_state (body (lbgrpc_Client (g h))) s1 = (r, t) \<and> busy t = 0 \<and>
        contents (vs_vol S t) = cn"
  shows "\<exists>t. run_state (with_client d ctx eps scheme body) s = (r, t) \<and> busy t = 0 \<and>
    contents (vs_vol S t) = cn"
proof -
  obtain h s1 where h: "run_state (GetLBClient d ctx eps scheme) s = (Inr h, s1)"
    "contents (vs_vol S s1) = contents (vs_vol S s)" "busy s1 \<le> busy s"
    using assms(1) unfolding serves_def pool_serves_def by blast
  obtain s2 where s2: "run_state (body (lbgrpc_Client (g h))) s1 = (r, s2)" "busy s2 = 0"
    "contents (vs_vol S s2) = cn"
    using assms(2) [OF h(2,3), of h] by auto
  obtain t where t: "run_state (PutLBClient d h) s2 = ((), t)"
    by (cases "run_state (PutLBClient d h) s2") auto
  then have "contents (vs_vol S t) = cn" "busy t = 0"
    using assms(1) s2(2,3) unfolding serves_def pool_serves_def by (metis, metis le_zero_eq)
  moreover have "d_client d h = lbgrpc_Client (g h)" using assms(1) by (simp add: serves_def)
  ultimately show ?thesis
    using h(1) s2(1) t by (cases r) (simp_all add: with_client_def)
qed

lemma ControllerPublishVolume_outcome:
  assumes "serves S d g busy B" and "valid_publish S d req" and "busy s + B < 14"
  shows "\<exists>t. run_state (ControllerPublishVolume d ctx req) s =
      (fst (job_spec (publish_job d (pr_NodeId req)) (contents (vs_vol S s))), t) \<and> busy t = 0 \<and>
    contents (vs_vol S t) = snd (job_spec (publish_job d (pr_NodeId req)) (contents (vs_vol S s)))"
proof -
  obtain vid where vid: "parseCSIResourceID (d_guuid d) (vr_VolumeId req) = Inr vid"
    "rid_uuid vid = vs_uuid S" "rid_projName vid = vs_proj S"
    using assms(2) by (auto simp: valid_publish_def volume_id_def)
  let ?ctx = "cloneCtxWithCreds d ctx (vr_Secrets req)"
  have "run_state (ControllerPublishVolume d ctx req) s =
      run_state (with_client d ?ctx (rid_mgmtEPs vid) (rid_scheme vid)
        (\<lambda>clnt. publish_call (d_rwx d) clnt ?ctx vid (pr_NodeId req))) s"
    using assms(2) vid(1)
    by (simp add: ControllerPublishVolume_def valid_publish_def volume_id_def Let_def publish_call_def)
  moreover have "\<exists>t. run_state (publish_call (d_rwx d) (lbgrpc_Client (g h)) ?ctx vid (pr_NodeId req)) s1 =
      (fst (job_spec (publish_job d (pr_NodeId req)) (contents (vs_vol S s))), t) \<and> busy t = 0 \<and>
      contents (vs_vol S t) = snd (job_spec (publish_job d (pr_NodeId req)) (contents (vs_vol S s)))"
    if "contents (vs_vol S s1) = contents (vs_vol S s)" "busy s1 \<le> busy s" for h s1
  proof -
    have r: "responsive S (g h) busy B" using assms(1) by (simp add: serves_def)
    have b: "busy s1 + B < 14" using that(2) assms(3) by simp
    show ?thesis
      using publish_call_outcome [OF r b vid(2,3)] unfolding publish_job_def that(1) .
  qed
  ultimately show ?thesis by (simp only:) (rule with_client_outcome [OF assms(1)])
qed

lemma parse_volume_id:
  assumes "volume_id S d volID"
  obtains vid where "parseCSIResourceIDEinval (d_guuid d) volIDField volID = Inr vid"
    and "rid_uuid vid = vs_uuid S" and "rid_projName vid = vs_proj S"
  using assms by (auto simp: volume_id_def parseCSIResourceIDEinval_def)

lemma ControllerUnpublishVolume_outcome:
  assumes "serves S d g busy B" and "valid_unpublish S d req" and "busy s + B < 14"
  shows "\<exists>t. run_state (ControllerUnpublishVolume d ctx req) s =
      (fst (job_spec (unpublish_job d (ur_NodeId req)) (contents (vs_vol S s))), t) \<and> busy t = 0 \<and>
    contents (vs_vol S t) = snd (job_spec (unpublish_job d (ur_NodeId req)) (contents (vs_vol S s)))"
proof -
  obtain vid where vid: "parseCSIResourceIDEinval (d_guuid d) volIDField (vr_VolumeId req) = Inr vid"
    "rid_uuid vid = vs_uuid S" "rid_projName vid = vs_proj S"
    using assms(2) parse_volume_id unfolding valid_unpublish_def by blast
  let ?ctx = "cloneCtxWithCreds d ctx (vr_Secrets req)"
  have "run_state (ControllerUnpublishVolume d ctx req) s =
      run_state (with_client d ?ctx (rid_mgmtEPs vid) (rid_scheme vid)
        (\<lambda>clnt. unpublish_call (d_rwx d) clnt ?ctx vid (ur_NodeId req))) s"
    using assms(2) vid(1)
    by (simp add: ControllerUnpublishVolume_def valid_unpublish_def Let_def unpublish_call_def)
  moreover have "\<exists>t. run_state (unpublish_call (d_rwx d) (lbgrpc_Client (g h)) ?ctx vid (ur_NodeId req)) s1 =
      (fst (job_spec (unpublish_job d (ur_NodeId req)) (contents (vs_vol S s))), t) \<and> busy t = 0 \<and>
      contents (vs_vol S t) = snd (job_spec (unpublish_job d (ur_NodeId req)) (contents (vs_vol S s)))"
    if "contents (vs_vol S s1) = contents (vs_vol S s)" "busy s1 \<le> busy s" for h s1
  proof -
    have r: "responsive S (g h) busy B" using assms(1) by (simp add: serves_def)
    have b: "busy s1 + B < 14" using that(2) assms(3) by simp
    show ?thesis
      using unpublish_call_outcome [OF r b vid(2,3)] unfolding unpublish_job_def that(1) .
  qed
  ultimately show ?thesis by (simp only:) (rule with_client_outcome [OF assms(1)])
qed

lemma ControllerExpandVolume_outcome:
  assumes "serves S d g busy B" and "valid_expand S d req cap" and "busy s + B < 14"
    and "contents (vs_vol S s) = (acl, z)"
  shows "\<exists>t. run_state (ControllerExpandVolume d ctx req) s =
      (Inr \<lparr>ex_CapacityBytes = max z cap,
            ex_NodeExpansionRequired = nodeExpansionRequired (er_VolumeCapability req)\<rparr>, t) \<and>
    busy t = 0 \<and> contents (vs_vol S t) = (acl, max z cap)"
proof -
  obtain vid where vid: "parseCSIResourceIDEinval (d_guuid d) volIDField (vr_VolumeId req) = Inr vid"
    "rid_uuid vid = vs_uuid S" "rid_projName vid = vs_proj S"
    using assms(2) parse_volume_id unfolding valid_expand_def by blast
  let ?ctx = "cloneCtxWithCreds d ctx (vr_Secrets req)"
  let ?resp = "\<lparr>ex_CapacityBytes = max z cap,
    ex_NodeExpansionRequired = nodeExpansionRequired (er_VolumeCapability req)\<rparr>"
  let ?body = "\<lambda>clnt. do {
    r \<leftarrow> cl_UpdateVolume clnt ?ctx (vs_uuid S) (vs_proj S) (expandVolumeHook cap);
    (case r of
       Inl err \<Rightarrow> fail err
     | Inr vol \<Rightarrow> if vol_Capacity vol < cap then fail mkEagain
                 else ok \<lparr>ex_CapacityBytes = vol_Capacity vol,
                   ex_NodeExpansionRequired = nodeExpansionRequired (er_VolumeCapability req)\<rparr>)}"
  have run: "run_state (ControllerExpandVolume d ctx req) s =
      run_state (with_client d ?ctx (rid_mgmtEPs vid) (rid_scheme vid) ?body) s"
    using assms(2) vid by (simp add: ControllerExpandVolume_def valid_expand_def Let_def)
  have body: "\<exists>t. run_state (?body (lbgrpc_Client (g h))) s1 = (Inr ?resp, t) \<and> busy t = 0 \<and>
      contents (vs_vol S t) = (acl, max z cap)"
    if "contents (vs_vol S s1) = contents (vs_vol S s)" "busy s1 \<le> busy s" for h s1
  proof -
    have resp: "responsive S (g h) busy B" using assms(1) by (simp add: serves_def)
    then have r: "reads_current S (g h) busy" by (simp add: responsive_def)
    have b: "busy s1 + B < 14" using that(2) assms(3) by simp
    have cn: "contents (vs_vol S s1) = (acl, z)" using that(1) assms(4) by simp
    obtain t where "busy t = 0" "contents (vs_vol S t) = (acl, max z cap)"
      "run_state (cl_UpdateVolume (lbgrpc_Client (g h)) ?ctx (vs_uuid S) (vs_proj S) (expandVolumeHook cap))
         s1 = (Inr (seen_vol S (g h) t), t)"
      using UpdateVolume_spec [OF resp b, of "Expand cap" ?ctx] unfolding cn by auto
    then show ?thesis by (auto simp: seen_vol(4) [OF r])
  qed
  show ?thesis
    unfolding run by (rule with_client_outcome [OF assms(1)]) (rule body)
qed

end
