(* ===== verification/Attach_Ledger.thy ===== *)
theory Attach_Ledger
  imports Attach_Live
begin

text \<open>
  A management service that meets the assumptions of the concurrency results: it keeps the
  versions of one volume, newest first, tags each with its number, checks the \<open>if-match\<close>
  header of an update, and is busy for one sleep after each.
\<close>

record ledger =
  lg_vers :: "(string list \<times> uint64) list"
  lg_busy :: nat

definition ver_vol :: "nat \<Rightarrow> string list \<times> uint64 \<Rightarrow> uint32 \<Rightarrow> mgmt_Volume" where
  "ver_vol k c st = one_vol\<lparr>mv_Acl := fst c, mv_Size := snd c, mv_State := st,
     mv_ETag := FormatUint10 k\<rparr>"

definition ver_at :: "(string list \<times> uint64) list \<Rightarrow> nat \<Rightarrow> string list \<times> uint64" where
  "ver_at vs k = (rev vs @ [([ACLAllowNone], 4294967296)]) ! (if k = 0 then length vs else k - 1)"

definition lg_vol :: "ledger \<Rightarrow> mgmt_Volume" where
  "lg_vol s = ver_vol (length (lg_vers s)) (ver_at (lg_vers s) (length (lg_vers s)))
     (if lg_busy s = 0 then Volume_Available else Volume_Updating)"

definition lg_hist :: "ledger \<Rightarrow> mgmt_Volume set" where
  "lg_hist s = {ver_vol k (ver_at (lg_vers s) k) st | k st. k \<le> length (lg_vers s)}"

definition lg_update :: "Ctx \<Rightarrow> UpdateVolumeRequest \<Rightarrow> (ledger, gerr, unit) io" where
  "lg_update ctx req = State (\<lambda>s.
     if ctx_md ctx \<noteq> [] \<and> last (ctx_md ctx) = (ifMatchHeader, mv_ETag (lg_vol s)) \<and> lg_busy s = 0
     then (Inr (), \<lparr>lg_vers = apply_request req (contents (lg_vol s)) # lg_vers s, lg_busy = 1\<rparr>)
     else (Inl (Status codes_FailedPrecondition []), s))"

definition lg_api :: "ledger DurosAPI" where
  "lg_api = \<lparr>api_GetVersion = (\<lambda>_. ok ''v2.0''),
     api_GetClusterInfo = (\<lambda>_. fail Plain), api_GetCluster = (\<lambda>_. fail Plain),
     api_ListNodes = (\<lambda>_. fail Plain), api_CreateVolume = (\<lambda>_ _. fail Plain),
     api_DeleteVolume = (\<lambda>_ _. fail Plain),
     api_GetVolume = (\<lambda>_ _. State (\<lambda>s. (Inr (Some (lg_vol s)), s))),
     api_UpdateVolume = lg_update,
     api_CreateSnapshot = (\<lambda>_ _. fail Plain), api_DeleteSnapshot = (\<lambda>_ _. fail Plain),
     api_GetSnapshot = (\<lambda>_ _. fail Plain)\<rparr>"

definition lg_client :: "ledger GrpcClient" where
  "lg_client = \<lparr>gc_eps = [], gc_conn_Close = State_Monad.return (), gc_clnt = lg_api,
     gc_id = ''c'', gc_tgts = [], gc_guuid = hex_guuid,
     gc_env = \<lparr>env_Now = State_Monad.return 0,
       env_Sleep = (\<lambda>_. State (\<lambda>s. ((), s\<lparr>lg_busy := lg_busy s - 1\<rparr>))),
       env_CtxErr = (\<lambda>_. State_Monad.return None)\<rparr>\<rparr>"

definition lg_store :: "ledger volume_store" where
  "lg_store = \<lparr>vs_uuid = 1, vs_proj = ''p'', vs_vol = lg_vol, vs_hist = lg_hist,
     vs_other = (\<lambda>s t. t = s\<lparr>lg_busy := lg_busy s - 1\<rparr>)\<rparr>"

definition lg_driver :: "ledger Driver" where
  "lg_driver = \<lparr>d_sockPath = [], d_jwtPath = [], d_luksCfgFile = [], d_nodeID = ''n0'',
     d_hostNQN = nodeIDToHostNQN ''n0'', d_defaultFS = [],
     d_lbclients = \<lparr>pool_GetClient = (\<lambda>_ _ _. ok 0), pool_PutClient = (\<lambda>_. State_Monad.return ())\<rparr>,
     d_client = (\<lambda>_. lbgrpc_Client lg_client), d_transport = ''tcp'',
     d_squelchPanics = False, d_jwt = [], d_rwx = False, d_guuid = hex_guuid\<rparr>"

lemma lg_store_sel [simp]:
  "vs_uuid lg_store = 1" "vs_proj lg_store = ''p''" "vs_vol lg_store = lg_vol"
  "vs_hist lg_store = lg_hist"
  "vs_other lg_store s t \<longleftrightarrow> t = s\<lparr>lg_busy := lg_busy s - 1\<rparr>"
  by (simp_all add: lg_store_def)

lemma ver_vol_sel [simp]:
  "mv_ETag (ver_vol k c st) = FormatUint10 k" "contents (ver_vol k c st) = c"
  by (simp_all add: ver_vol_def contents_def)

lemma FormatUint10_inj [simp]: "FormatUint10 m = FormatUint10 n \<longleftrightarrow> m = n"
  by (metis decimal_value_FormatUint10)

lemma ver_at_Cons [simp]:
  "ver_at (c # vs) (Suc (length vs)) = c" "k \<le> length vs \<Longrightarrow> ver_at (c # vs) k = ver_at vs k"
  by (auto simp: ver_at_def nth_append)

lemma lg_hist_busy [simp]: "lg_hist (s\<lparr>lg_busy := b\<rparr>) = lg_hist s"
  by (simp add: lg_hist_def)

lemma lg_vol_mem [simp]: "lg_vol (s\<lparr>lg_busy := b\<rparr>) \<in> lg_hist s" "lg_vol s \<in> lg_hist s"
  by (auto simp: lg_hist_def lg_vol_def)

lemma lg_hist_Cons: "lg_hist s \<subseteq> lg_hist \<lparr>lg_vers = c # lg_vers s, lg_busy = b\<rparr>"
proof
  fix v
  assume "v \<in> lg_hist s"
  then obtain k st where "v = ver_vol k (ver_at (lg_vers s) k) st" "k \<le> length (lg_vers s)"
    unfolding lg_hist_def by blast
  then have "v = ver_vol k (ver_at (c # lg_vers s) k) st" "k \<le> length (c # lg_vers s)" by simp_all
  then show "v \<in> lg_hist \<lparr>lg_vers = c # lg_vers s, lg_busy = b\<rparr>"
    unfolding lg_hist_def ledger.select_convs by blast
qed

lemma lg_hist_ETag: "mv_ETag ` lg_hist s = FormatUint10 ` {..length (lg_vers s)}"
  by (fastforce simp: lg_hist_def image_iff)

lemma lg_client_sel [simp]:
  "gc_clnt lg_client = lg_api" "gc_guuid lg_client = hex_guuid"
  "env_Now (gc_env lg_client) = State_Monad.return 0"
  "env_CtxErr (gc_env lg_client) ctx = State_Monad.return None"
  "run_state (env_Sleep (gc_env lg_client) dl) s = ((), s\<lparr>lg_busy := lg_busy s - 1\<rparr>)"
  "api_GetVersion lg_api ctx = ok ''v2.0''"
  "run_state (api_GetVolume lg_api ctx req) s = (Inr (Some (lg_vol s)), s)"
  "api_UpdateVolume lg_api = lg_update"
  by (simp_all add: lg_client_def lg_api_def)

lemma lg_unique: "etags_unique lg_store s"
  unfolding etags_unique_def by (simp only: lg_store_sel lg_vol_mem) (auto simp: lg_hist_def)

lemma lg_others: "others_ok lg_store"
  by (auto simp: others_ok_def) (auto simp: lg_vol_def)

lemma lg_reads: "reads_ok lg_store lg_client"
  by (simp add: reads_ok_def same_version_def)

lemma lg_update_run:
  "ctx_md ctx \<noteq> [] \<Longrightarrow> last (ctx_md ctx) = (ifMatchHeader, mv_ETag (lg_vol s)) \<Longrightarrow> lg_busy s = 0 \<Longrightarrow>
     run_state (lg_update ctx req) s =
       (Inr (), \<lparr>lg_vers = apply_request req (contents (lg_vol s)) # lg_vers s, lg_busy = 1\<rparr>)"
  by (simp add: lg_update_def)

lemma lg_vol_Cons:
  "contents (lg_vol \<lparr>lg_vers = c # vs, lg_busy = b\<rparr>) = c"
  "mv_ETag (lg_vol \<lparr>lg_vers = c # vs, lg_busy = b\<rparr>) = FormatUint10 (Suc (length vs))"
  by (simp_all add: lg_vol_def)

lemma lg_write_effect:
  assumes "run_state (api_UpdateVolume (gc_clnt lg_client) ctx req) s = (r, t)"
    and md: "ctx_md ctx \<noteq> []" "last (ctx_md ctx) = (ifMatchHeader, tag)"
  shows "lg_vol t = lg_vol s \<and> lg_hist t = lg_hist s \<or> tag = mv_ETag (lg_vol s) \<and>
      contents (lg_vol t) = apply_request req (contents (lg_vol s)) \<and>
      lg_hist s \<subseteq> lg_hist t \<and> mv_ETag (lg_vol t) \<notin> mv_ETag ` lg_hist s"
proof -
  have run: "run_state (lg_update ctx req) s = (r, t)" using assms(1) by simp
  show ?thesis
  proof (cases "tag = mv_ETag (lg_vol s) \<and> lg_busy s = 0")
    case True
    with run md lg_update_run
    have t: "t = \<lparr>lg_vers = apply_request req (contents (lg_vol s)) # lg_vers s, lg_busy = 1\<rparr>" by simp
    have "mv_ETag (lg_vol t) \<notin> mv_ETag ` lg_hist s" by (auto simp: t lg_hist_ETag lg_vol_Cons)
    moreover have "lg_hist s \<subseteq> lg_hist t" by (simp add: t lg_hist_Cons)
    ultimately show ?thesis using True by (simp add: t lg_vol_Cons)
  next
    case False
    with run md have "t = s" by (auto simp: lg_update_def split: if_splits)
    then show ?thesis by simp
  qed
qed

lemma lg_writes: "writes_ok lg_store lg_client"
  unfolding writes_ok_def same_version_def lg_store_sel using lg_write_effect by blast

lemma lg_etag_store: "etag_store lg_store (\<lambda>_. lg_client)"
  by (simp add: etag_store_def lg_unique lg_others lg_reads lg_writes)

lemma lg_idle: "idle lg_store s t \<Longrightarrow> idle lg_store s (t\<lparr>lg_busy := lg_busy t - Suc 0\<rparr>)"
  unfolding idle_def by (erule rtranclp.rtrancl_into_rtrancl) (simp add: lg_store_def)

lemma lg_calm: "calm lg_store lg_driver (\<lambda>_. lg_client)"
  by (auto simp: calm_def quiet_def quiet_pool_def keeps_def lg_driver_def lg_idle)

lemma lg_from:
  "\<exists>v. lbVolumeFromGRPC lg_client (Some (lg_vol s)) None (Some 1) = Inr v \<and>
     vol_State v = (if lg_busy s = 0 then VolumeAvailable else VolumeUpdating)"
  by (simp add: lg_vol_def ver_vol_def one_vol_def lbVolumeFromGRPC_def Let_def
      lbVolumeStateFromGRPC_def VolumeState_of_def lbVolumeProtectionFromGRPC_def
      VolumeProtection_of_def MaxReplicaCount_def ToLower_def)

lemma lg_responsive: "responsive lg_store lg_client lg_busy 1"
proof -
  have "reads_current lg_store lg_client lg_busy"
    unfolding reads_current_def using lg_from by simp
  then show ?thesis
    unfolding responsive_def by (auto simp: lg_update_run lg_vol_Cons) (simp_all add: lg_vol_def)
qed

lemma lg_pool_serves: "pool_serves lg_store lg_driver lg_busy"
  by (simp add: pool_serves_def GetLBClient_def PutLBClient_def lg_driver_def lbgrpc_Client_def
      Client_RemoteOk_def supportedAPIVersions_def)

lemma lg_serves: "serves lg_store lg_driver (\<lambda>_. lg_client) lg_busy 1"
  by (simp add: serves_def lg_pool_serves lg_responsive [simplified]) (simp add: lg_driver_def)

end
