(* ===== verification/Attach_Props.thy ===== *)
theory Attach_Props
  imports Attach_Ledger
begin

text \<open>
  What the ACL of a volume guarantees when several controllers work on it at once, and what
  one publish call achieves on a service that answers.
\<close>

subsection \<open>Properties of concurrent controllers\<close>

text \<open>
  C8. The handlers are made of these steps: whatever \<open>ControllerPublishVolume\<close>,
  \<open>ControllerUnpublishVolume\<close> and \<open>ControllerExpandVolume\<close> do to a volume, all retries and
  failures included, continues a run of the model with that one call, the sleeps and the
  client pool being idle.
\<close>

theorem handlers_are_runs:
  assumes "calm S d g" and "\<And>h. d_client d h = lbgrpc_Client (g h)"
    and "names_volume S d (vr_VolumeId preq)" and "names_volume S d (vr_VolumeId ureq)"
    and "names_volume S d (vr_VolumeId ereq)"
    and "publish_job d (pr_NodeId preq) \<in> J" and "unpublish_job d (ur_NodeId ureq) \<in> J"
    and "\<And>cap. getReqCapacity (er_CapacityRange ereq) = Inr cap \<Longrightarrow> Expand cap \<in> J"
  shows "keeps (ControllerPublishVolume d ctx preq) (reached S g J a) \<and>
    keeps (ControllerUnpublishVolume d ctx ureq) (reached S g J a) \<and>
    keeps (ControllerExpandVolume d ctx ereq) (reached S g J a)"
  using reached_publish [OF assms(1,2,3,6)] reached_unpublish [OF assms(1,2,4,7)]
    reached_expand [OF assms(1,2,5,8)] by blast

text \<open>
  C3. However the calls of any number of controllers interleave at the management service,
  with stale reads and delayed, lost or repeated updates, each change of the volume's ACL
  and size is one atomic step of one of the calls on the state the volume is in at that
  moment: an update decided on an outdated read never lands.
\<close>

theorem attach_refines:
  assumes "etag_store S g" and "conc_runs S g J (quiet_start s) a" and "conc_step S g J a b"
  shows "attached S b = attached S a \<or> (\<exists>j \<in> J. attach_step j (attached S a) (attached S b))"
  using assms by (rule conc_step_refines)

text \<open>
  In RWO mode a volume is never open to two hosts: if at most one host may use it at the
  start, then at most one may at any time, whatever publish, unpublish and expand calls of
  any number of controllers are under way.
\<close>

theorem attach_exclusive:
  assumes "etag_store S g" and "\<forall>j \<in> J. \<not> is_RWX j" and "conc_runs S g J (quiet_start s) a"
    and "fst (attached S (quiet_start s)) \<subseteq> {h}"
  shows "\<exists>h. fst (attached S a) \<subseteq> {h}"
  using assms(3)
proof (induction "quiet_start s" a)
  case stay
  then show ?case using assms(4) by blast
next
  case (step b b')
  then show ?case
    using conc_step_refines [OF assms(1) step.hyps(1,3)] assms(2) attach_step_exclusive by metis
qed

text \<open>
  C5. A host keeps its access until somebody unpublishes the volume from it: along a run in
  which no such call is started, and where those started earlier were decided on an
  outdated read, no other call in any mode takes the access away. In particular an update
  that was delayed since before the volume was published anew does no harm.
\<close>

theorem attach_held:
  assumes "etag_store S g" and "conc_runs S g J0 (quiet_start s) a" and "conc_runs S g J a b"
    and "\<forall>j \<in> J. \<not> detaches n j" and "detaches_stale S n a"
    and "nodeIDToHostNQN n \<in> fst (attached S a)"
  shows "nodeIDToHostNQN n \<in> fst (attached S b)"
proof -
  have "flights_ok S g J0 a"
    using conc_runs_flights [OF assms(2,1), of J0] by simp
  from conc_runs_held [OF assms(3,1) this assms(4-6)] show ?thesis ..
qed

text \<open>
  C6. On a service that answers, a valid publish call always ends within its retry budget,
  with a definite result: in RWO mode success and the node as the only host if the volume was
  free or already published to the node, and \<open>FailedPrecondition\<close> with nothing changed if any
  other host has it; in RWX mode success and the node added to the hosts. The volume may be
  busy for a while, at first and after the update, as long as the two waits together stay
  below 14 sleeps, and it is idle at the end.
\<close>

theorem publish_outcome:
  assumes "serves S d g busy B" and "valid_publish S d req" and "busy s + B < 14"
  shows "\<exists>t. run_state (ControllerPublishVolume d ctx req) s =
      (fst (job_spec (publish_job d (pr_NodeId req)) (contents (vs_vol S s))), t) \<and> busy t = 0 \<and>
    contents (vs_vol S t) = snd (job_spec (publish_job d (pr_NodeId req)) (contents (vs_vol S s)))"
  using assms by (rule ControllerPublishVolume_outcome)

text \<open>
  C7. The life of an attachment in RWO mode, on a service that answers: a free volume is
  published to a node; publishing it to another node is then refused; expanding it succeeds
  with the node attached and the larger of the two sizes; unpublishing it succeeds; and the
  volume ends up closed to every host, so that the second node can now have it.
\<close>

theorem attach_lifecycle:
  assumes "serves S d g busy B" and "busy s + B < 14" and "\<not> d_rwx d"
    and "contents (vs_vol S s) = ([ACLAllowNone], z)"
    and "valid_publish S d preq" and "valid_publish S d preq'" and "pr_NodeId preq' \<noteq> pr_NodeId preq"
    and "valid_expand S d ereq cap"
    and "valid_unpublish S d ureq" and "ur_NodeId ureq = pr_NodeId preq"
  shows "\<exists>t1 t2 t3 t4 t5.
    run_state (ControllerPublishVolume d ctx preq) s = (Inr (), t1) \<and>
    run_state (ControllerPublishVolume d ctx preq') t1 = (Inl mkPrecond, t2) \<and>
    run_state (ControllerExpandVolume d ctx ereq) t2 =
      (Inr \<lparr>ex_CapacityBytes = max z cap,
            ex_NodeExpansionRequired = nodeExpansionRequired (er_VolumeCapability ereq)\<rparr>, t3) \<and>
    contents (vs_vol S t3) = ([nodeIDToHostNQN (pr_NodeId preq)], max z cap) \<and>
    run_state (ControllerUnpublishVolume d ctx ureq) t3 = (Inr (), t4) \<and>
    contents (vs_vol S t4) = ([ACLAllowNone], max z cap) \<and>
    run_state (ControllerPublishVolume d ctx preq') t4 = (Inr (), t5) \<and>
    contents (vs_vol S t5) = ([nodeIDToHostNQN (pr_NodeId preq')], max z cap)"
proof -
  let ?ace = "nodeIDToHostNQN (pr_NodeId preq)" and ?ace' = "nodeIDToHostNQN (pr_NodeId preq')"
  have B: "0 + B < 14" using assms(2) by simp
  have ne: "?ace \<noteq> ?ace'" "?ace \<noteq> ACLAllowNone" "ACLAllowNone \<noteq> ?ace" "ACLAllowNone \<noteq> ?ace'"
    using assms(7) nodeIDToHostNQN_not_special(1) by (auto simp: eq_commute [of ACLAllowNone])
  have job: "publish_job d n = PublishRWO n" "unpublish_job d n = UnpublishRWO n" for n
    using assms(3) by (simp_all add: publish_job_def unpublish_job_def)
  obtain t1 where t1: "run_state (ControllerPublishVolume d ctx preq) s = (Inr (), t1)" "busy t1 = 0"
    "contents (vs_vol S t1) = ([?ace], z)"
    using ControllerPublishVolume_outcome [OF assms(1,5,2), of ctx] ne by (auto simp: job assms(4))
  obtain t2 where t2: "run_state (ControllerPublishVolume d ctx preq') t1 = (Inl mkPrecond, t2)"
    "busy t2 = 0" "contents (vs_vol S t2) = ([?ace], z)"
    using ControllerPublishVolume_outcome [OF assms(1,6), of t1 ctx] B ne by (auto simp: job t1)
  obtain t3 where t3: "run_state (ControllerExpandVolume d ctx ereq) t2 =
      (Inr \<lparr>ex_CapacityBytes = max z cap,
            ex_NodeExpansionRequired = nodeExpansionRequired (er_VolumeCapability ereq)\<rparr>, t3)"
    "busy t3 = 0" "contents (vs_vol S t3) = ([?ace], max z cap)"
    using ControllerExpandVolume_outcome [OF assms(1,8) _ t2(3), of ctx] B t2(2) by auto
  obtain t4 where t4: "run_state (ControllerUnpublishVolume d ctx ureq) t3 = (Inr (), t4)"
    "busy t4 = 0" "contents (vs_vol S t4) = ([ACLAllowNone], max z cap)"
    using ControllerUnpublishVolume_outcome [OF assms(1,9), of t3 ctx] B ne by (auto simp: job t3 assms(10))
  obtain t5 where "run_state (ControllerPublishVolume d ctx preq') t4 = (Inr (), t5)"
    "contents (vs_vol S t5) = ([?ace'], max z cap)"
    using ControllerPublishVolume_outcome [OF assms(1,6), of t4 ctx] B ne by (auto simp: job t4)
  with t1(1) t2(1) t3(1,3) t4(1,3) show ?thesis by blast
qed

subsection \<open>Witnesses\<close>

definition lg0 :: ledger where "lg0 = \<lparr>lg_vers = [], lg_busy = 0\<rparr>"

lemma lg_driver_sel [simp]:
  "d_rwx lg_driver = False" "d_guuid lg_driver = hex_guuid" "d_client lg_driver h = lbgrpc_Client lg_client"
  by (simp_all add: lg_driver_def)

lemma lg_names: "names_volume lg_store lg_driver (lbResourceID_String hex_guuid one_vol_rid)"
  by (simp add: names_volume_def one_vol_rid_parse one_vol_rid_sel)

lemma lg_volume_id: "volume_id lg_store lg_driver (lbResourceID_String hex_guuid one_vol_rid)"
  by (simp add: volume_id_def one_vol_rid_parse one_vol_rid_not_Nil one_vol_rid_sel)

lemma lg_valid_publish:
  "checkNodeID n = Inr () \<Longrightarrow> valid_publish lg_store lg_driver (one_vol_publish\<lparr>pr_NodeId := n\<rparr>)"
  using lg_volume_id
  by (simp add: valid_publish_def one_vol_publish_def validateVolumeCapability_def supportedAccessModes_def)

lemma lg_valid:
  "valid_publish lg_store lg_driver one_vol_publish"
  "valid_expand lg_store lg_driver one_vol_expand 1073741824"
  "valid_unpublish lg_store lg_driver one_vol_unpublish"
  using lg_valid_publish [OF n1_checkNodeID] lg_volume_id
  by (simp_all add: one_vol_publish_def valid_expand_def valid_unpublish_def one_vol_expand_def
      one_vol_unpublish_def n1_checkNodeID getReqCapacity_def minVolCap_def volCapGranularity_def)

lemma lg_contents: "contents (lg_vol lg0) = ([ACLAllowNone], 4294967296)"
  by (simp add: lg0_def lg_vol_def ver_at_def)

lemma lg0_sel [simp]:
  "lg_busy lg0 = 0" "pr_NodeId one_vol_publish = ''n1''" "ur_NodeId one_vol_unpublish = ''n1''"
  by (simp_all add: lg0_def one_vol_publish_def one_vol_unpublish_def)

theorem publish_outcome_witness:
  "\<exists>t. run_state (ControllerPublishVolume lg_driver ctx0 one_vol_publish) lg0 = (Inr (), t) \<and>
     contents (lg_vol t) = ([nodeIDToHostNQN ''n1''], 4294967296)"
  using publish_outcome [OF lg_serves lg_valid(1), of lg0 ctx0]
    nodeIDToHostNQN_not_special(1) [of "''n1''", symmetric]
  by (auto simp: lg_contents publish_job_def)

theorem attach_lifecycle_witness:
  "\<exists>t1 t2. run_state (ControllerPublishVolume lg_driver ctx0 one_vol_publish) lg0 = (Inr (), t1) \<and>
     run_state (ControllerPublishVolume lg_driver ctx0 (one_vol_publish\<lparr>pr_NodeId := ''n2''\<rparr>)) t1 =
       (Inl mkPrecond, t2)"
proof -
  have "checkNodeID ''n2'' = Inr ()"
    by (simp add: checkNodeID_def nodeIDRegex_match_def is_alnum_def maxNodeIDLen_def
        maxHostNQNLen_def hostNQNPrefix_def)
  note life = attach_lifecycle [where z = 4294967296 and s = lg0 and ctx = ctx0,
      OF lg_serves _ _ _ lg_valid(1) lg_valid_publish [OF this] _ lg_valid(2,3)]
  show ?thesis using life by (simp add: lg_contents) blast
qed

theorem handlers_are_runs_witness:
  "keeps (ControllerPublishVolume lg_driver ctx0 one_vol_publish)
     (reached lg_store (\<lambda>_. lg_client) {PublishRWO ''n1'', UnpublishRWO ''n1'', Expand 1073741824}
       (quiet_start lg0))"
proof -
  have ids: "names_volume lg_store lg_driver (vr_VolumeId one_vol_publish)"
    "names_volume lg_store lg_driver (vr_VolumeId one_vol_unpublish)"
    "names_volume lg_store lg_driver (vr_VolumeId one_vol_expand)"
    using lg_names by (simp_all add: one_vol_publish_def one_vol_unpublish_def one_vol_expand_def)
  show ?thesis
    by (rule handlers_are_runs [OF lg_calm _ ids, THEN conjunct1])
       (auto simp: publish_job_def unpublish_job_def one_vol_publish_def one_vol_unpublish_def
         one_vol_expand_def getReqCapacity_def minVolCap_def volCapGranularity_def)
qed

text \<open>A run: a cycle of one client decides to publish the volume to \<open>n1\<close>, its update lands.\<close>

definition lg1 :: ledger where
  "lg1 = \<lparr>lg_vers = [([nodeIDToHostNQN ''n1''], 4294967296)], lg_busy = 1\<rparr>"

lemma lg_reads_current: "reads_current lg_store lg_client lg_busy"
  using lg_responsive by (simp add: responsive_def)

lemma lg1_contents: "contents (lg_vol lg1) = ([nodeIDToHostNQN ''n1''], 4294967296)"
  by (simp add: lg1_def lg_vol_def ver_at_def)

lemma lg_cycle:
  "\<exists>ctx' v req.
     run_state (update_read lg_client ctx0 1 ''p'' (job_hook (PublishRWO ''n1''))) lg0 =
       (Send ctx' v req, lg0) \<and>
     run_state (update_send lg_client ctx' v req) lg0 = (Inr None, lg1)"
proof -
  let ?v = "seen_vol lg_store lg_client lg0" and ?ace = "nodeIDToHostNQN ''n1''"
  let ?u = "\<lparr>upd_ACL = Some [?ace], upd_Capacity = 0\<rparr>"
  note v = seen_vol [OF lg_reads_current, where s = lg0, simplified]
  obtain ctx' where ctx': "run_state (cloneCtxWithCap lg_client ctx0) lg0 = (ctx', lg0)"
    using cloneCtxWithCap_current [OF lg_reads_current] by blast
  obtain req where req: "mkUpdateVolumeRequest lg_client 1 ''p'' ?u = Some req"
    "apply_request req (contents (lg_vol lg0)) = ([?ace], 4294967296)"
    by (auto simp: mkUpdateVolumeRequest_def apply_request_def Let_def lg_contents)
  have "vol_ACL ?v = [ACLAllowNone]" using v(3) by (simp add: lg_contents)
  then have hook: "publishRWOHook ?ace ?v = Inr (Some ?u)"
    using nodeIDToHostNQN_not_special(1) [of "''n1''", symmetric] by (simp add: publishRWOHook_def)
  have "run_state (update_read lg_client ctx0 1 ''p'' (job_hook (PublishRWO ''n1''))) lg0 =
      (Send ctx' ?v req, lg0)"
    by (simp add: update_read_def ctx' v hook req(1))
  moreover have "run_state (update_send lg_client ctx' ?v req) lg0 = (Inr None, lg1)"
    using req(2) by (simp add: update_send_def v(5) lg_update_run cloneCtxWithETag_def)
      (simp add: lg0_def lg1_def lg_update_def)
  ultimately show ?thesis by blast
qed

lemma lg_run:
  assumes "PublishRWO ''n1'' \<in> J"
  shows "\<exists>f. fst (snd f) = PublishRWO ''n1'' \<and>
    conc_runs lg_store (\<lambda>_. lg_client) J (quiet_start lg0) \<lparr>world = lg0, flights = {f}\<rparr> \<and>
    conc_step lg_store (\<lambda>_. lg_client) J \<lparr>world = lg0, flights = {f}\<rparr> \<lparr>world = lg1, flights = {f}\<rparr>"
proof -
  obtain ctx' v req where c: "run_state (update_read lg_client ctx0 1 ''p''
        (job_hook (PublishRWO ''n1''))) lg0 = (Send ctx' v req, lg0)"
      "run_state (update_send lg_client ctx' v req) lg0 = (Inr None, lg1)"
    using lg_cycle by blast
  let ?f = "(0, PublishRWO ''n1'', ctx', v, req)"
  have "conc_step lg_store (\<lambda>_. lg_client) J (quiet_start lg0) \<lparr>world = lg0, flights = {?f}\<rparr>"
    unfolding quiet_start_def
    by (rule conc_step.decided [where F = "{}"]) (use assms c(1) in simp_all)
  moreover have "conc_step lg_store (\<lambda>_. lg_client) J \<lparr>world = lg0, flights = {?f}\<rparr>
      \<lparr>world = lg1, flights = {?f}\<rparr>"
    by (rule conc_step.delivered) (use c(2) in simp_all)
  ultimately show ?thesis
    by (intro exI [of _ ?f]) (auto intro: conc_runs.intros)
qed

lemma lg_attached:
  "attached lg_store \<lparr>world = lg0, flights = F\<rparr> = ({}, 4294967296)"
  "attached lg_store (quiet_start lg0) = ({}, 4294967296)"
  "attached lg_store \<lparr>world = lg1, flights = F\<rparr> = ({nodeIDToHostNQN ''n1''}, 4294967296)"
  by (simp_all add: attached_def abs_vol_def quiet_start_def lg_contents lg1_contents)

theorem attach_refines_witness:
  "attach_step (PublishRWO ''n1'') ({}, 4294967296) ({nodeIDToHostNQN ''n1''}, 4294967296) \<and>
   (\<exists>a b. conc_step lg_store (\<lambda>_. lg_client) {PublishRWO ''n1''} a b \<and>
      attached lg_store b \<noteq> attached lg_store a)"
proof -
  obtain f where "conc_runs lg_store (\<lambda>_. lg_client) {PublishRWO ''n1''} (quiet_start lg0)
      \<lparr>world = lg0, flights = {f}\<rparr>"
    and st: "conc_step lg_store (\<lambda>_. lg_client) {PublishRWO ''n1''} \<lparr>world = lg0, flights = {f}\<rparr>
      \<lparr>world = lg1, flights = {f}\<rparr>"
    using lg_run [of "{PublishRWO ''n1''}"] by blast
  from attach_refines [OF lg_etag_store this] st show ?thesis
    by (simp only: lg_attached) (metis lg_attached(1,3) insert_not_empty prod.inject singletonD)
qed

theorem attach_exclusive_witness:
  "\<exists>a h. conc_runs lg_store (\<lambda>_. lg_client) {PublishRWO ''n1'', PublishRWO ''n2''} (quiet_start lg0) a \<and>
     fst (attached lg_store a) = {nodeIDToHostNQN ''n1''} \<and> fst (attached lg_store a) \<subseteq> {h}"
proof -
  obtain f where f: "conc_runs lg_store (\<lambda>_. lg_client) {PublishRWO ''n1'', PublishRWO ''n2''}
      (quiet_start lg0) \<lparr>world = lg1, flights = {f}\<rparr>"
    using lg_run [of "{PublishRWO ''n1'', PublishRWO ''n2''}"] by (blast intro: conc_runs.step)
  have "\<exists>h. fst (attached lg_store \<lparr>world = lg1, flights = {f}\<rparr>) \<subseteq> {h}"
    by (rule attach_exclusive [OF lg_etag_store _ f, where h = "[]"]) (simp_all add: lg_attached)
  with f show ?thesis using lg_attached(3) [of "{f}"] by auto
qed

theorem attach_held_witness:
  "\<exists>b. world b = lg1\<lparr>lg_busy := 0\<rparr> \<and> nodeIDToHostNQN ''n1'' \<in> fst (attached lg_store b)"
proof -
  obtain f where f: "fst (snd f) = PublishRWO ''n1''"
    "conc_runs lg_store (\<lambda>_. lg_client) {PublishRWO ''n1''} (quiet_start lg0)
      \<lparr>world = lg1, flights = {f}\<rparr>"
    using lg_run [of "{PublishRWO ''n1''}"] by (blast intro: conc_runs.step)
  have "idle lg_store lg1 (lg1\<lparr>lg_busy := 0\<rparr>)"
    using lg_idle [of lg1 lg1] by (simp add: lg1_def)
  then have "conc_runs lg_store (\<lambda>_. lg_client) {PublishRWO ''n2''} \<lparr>world = lg1, flights = {f}\<rparr>
      \<lparr>world = lg1\<lparr>lg_busy := 0\<rparr>, flights = {f}\<rparr>"
    by (blast intro: conc_runs.intros conc_step.elsewhere)
  note run = this
  have "detaches_stale lg_store ''n1'' \<lparr>world = lg1, flights = {f}\<rparr>"
    using f(1) by (cases f) (simp add: detaches_stale_def)
  then have "nodeIDToHostNQN ''n1'' \<in> fst (attached lg_store \<lparr>world = lg1\<lparr>lg_busy := 0\<rparr>, flights = {f}\<rparr>)"
    by (intro attach_held [OF lg_etag_store f(2) run]) (simp_all add: lg_attached)
  then show ?thesis by (intro exI [of _ "\<lparr>world = lg1\<lparr>lg_busy := 0\<rparr>, flights = {f}\<rparr>"]) simp
qed

end
