(* ===== verification/Volume_Slot.thy ===== *)
theory Volume_Slot
  imports Controller_Spec
begin

text \<open>
  Creating and deleting a volume to the end. A slot is what a cluster has under one name: the
  volume goes from absent through being made, ready and going to gone. \<open>slot_answers\<close> is a
  management service that answers: reads show the volume as it is, a creation in an empty slot
  and a deletion of a ready volume are accepted and take at most \<open>B\<close> further sleeps to be carried
  out. On such a service the waiting loops of \<open>CreateVolume\<close> and \<open>DeleteVolume\<close> of the client end
  within their retries, and so do the handlers.
\<close>

subsection \<open>The slot\<close>

datatype phase = Absent | Making nat | Ready | Going nat | Gone

record 's slot =
  sl_name :: string
  sl_proj :: string
  sl_uuid :: UUID
  sl_vol :: "'s \<Rightarrow> mgmt_Volume option"
  sl_phase :: "'s \<Rightarrow> phase"

text \<open>What a read shows in each phase, and what a sleep does.\<close>

fun displays :: "phase \<Rightarrow> VolumeState option \<Rightarrow> bool" where
  "displays Absent st \<longleftrightarrow> st = None"
| "displays (Making k) st \<longleftrightarrow> st = Some VolumeCreating"
| "displays Ready st \<longleftrightarrow> st = Some VolumeAvailable"
| "displays (Going k) st \<longleftrightarrow> st = Some VolumeAvailable"
| "displays Gone st \<longleftrightarrow> st = None \<or> st = Some VolumeDeleting"

fun ages :: "phase \<Rightarrow> phase \<Rightarrow> bool" where
  "ages (Making k) p \<longleftrightarrow> p = Ready \<or> (\<exists>j<k. p = Making j)"
| "ages (Going k) p \<longleftrightarrow> p = Gone \<or> (\<exists>j<k. p = Going j)"
| "ages p q \<longleftrightarrow> q = p"

definition lb_of :: "'s GrpcClient \<Rightarrow> mgmt_Volume \<Rightarrow> Volume" where
  "lb_of c v = projr (lbVolumeFromGRPC c (Some v) None None)"

definition slot_reads :: "'s slot \<Rightarrow> 's GrpcClient \<Rightarrow> bool" where
  "slot_reads S c \<longleftrightarrow>
     (\<forall>s. \<exists>n. run_state (env_Now (gc_env c)) s = (n, s)) \<and>
     (\<forall>ctx s. run_state (env_CtxErr (gc_env c) ctx) s = (None, s)) \<and>
     (\<forall>ctx s. \<forall>req \<in> {\<lparr>idr_UUID = guuid_String (gc_guuid c) (sl_uuid S), idr_Name = [],
                          idr_ProjectName = sl_proj S\<rparr>,
                         \<lparr>idr_UUID = [], idr_Name = sl_name S, idr_ProjectName = sl_proj S\<rparr>}.
        run_state (api_GetVolume (gc_clnt c) ctx req) s =
          (case sl_vol S s of None \<Rightarrow> Inl (Status codes_NotFound []) | Some v \<Rightarrow> Inr (Some v), s)) \<and>
     (\<forall>s v. sl_vol S s = Some v \<longrightarrow>
        (\<exists>lv. lbVolumeFromGRPC c (Some v) None None = Inr lv \<and> vol_Name lv = sl_name S \<and>
           vol_UUID lv = sl_uuid S \<and> vol_ProjectName lv = sl_proj S)) \<and>
     (\<forall>s. displays (sl_phase S s) (map_option (\<lambda>v. vol_State (lb_of c v)) (sl_vol S s)))"

text \<open>Two views of one volume that differ at most in its state, protection, usage and version.\<close>

definition same_asked :: "Volume \<Rightarrow> Volume \<Rightarrow> bool" where
  "same_asked v w \<longleftrightarrow> vol_Name v = vol_Name w \<and> vol_UUID v = vol_UUID w \<and>
     vol_ReplicaCount v = vol_ReplicaCount w \<and> vol_Capacity v = vol_Capacity w \<and>
     vol_Compression v = vol_Compression w \<and> vol_SnapshotUUID v = vol_SnapshotUUID w \<and>
     vol_ProjectName v = vol_ProjectName w \<and> vol_ACL v = vol_ACL w"

definition slot_sleeps :: "'s slot \<Rightarrow> 's GrpcClient \<Rightarrow> bool" where
  "slot_sleeps S c \<longleftrightarrow> (\<forall>dl s t. run_state (env_Sleep (gc_env c) dl) s = ((), t) \<longrightarrow>
     ages (sl_phase S s) (sl_phase S t) \<and>
     (\<forall>v w. sl_vol S s = Some v \<longrightarrow> sl_vol S t = Some w \<longrightarrow> same_asked (lb_of c v) (lb_of c w)))"

definition slot_creates :: "'s slot \<Rightarrow> 's GrpcClient \<Rightarrow> nat \<Rightarrow> bool" where
  "slot_creates S c B \<longleftrightarrow>
     (\<forall>ctx cap rc compr acl qos s. sl_phase S s = Absent \<longrightarrow> rc \<noteq> 0 \<longrightarrow> rc \<le> MaxReplicaCount \<longrightarrow>
        (\<exists>v t. run_state (api_CreateVolume (gc_clnt c) ctx (mkCreateVolumeRequest c (sl_name S) cap rc
             compr acl (sl_proj S) guuid_Nil qos)) s = (Inr (Some v), t) \<and>
           sl_vol S t = Some v \<and> (sl_phase S t = Ready \<or> (\<exists>k \<le> B. sl_phase S t = Making k)) \<and>
           vol_ReplicaCount (lb_of c v) = rc \<and> vol_Capacity (lb_of c v) = cap \<and>
           vol_Compression (lb_of c v) = compr \<and> vol_SnapshotUUID (lb_of c v) = guuid_Nil \<and>
           vol_ACL (lb_of c v) = norm_acl acl))"

definition slot_deletes :: "'s slot \<Rightarrow> 's GrpcClient \<Rightarrow> nat \<Rightarrow> bool" where
  "slot_deletes S c B \<longleftrightarrow>
     (\<forall>ctx s. sl_phase S s = Ready \<longrightarrow>
        (\<exists>t. run_state (api_DeleteVolume (gc_clnt c) ctx
             \<lparr>idr_UUID = guuid_String (gc_guuid c) (sl_uuid S), idr_Name = [],
              idr_ProjectName = sl_proj S\<rparr>) s = (Inr (), t) \<and>
           (sl_phase S t = Gone \<or> (\<exists>k \<le> B. sl_phase S t = Going k))))"

definition slot_answers :: "'s slot \<Rightarrow> 's GrpcClient \<Rightarrow> nat \<Rightarrow> bool" where
  "slot_answers S c B \<longleftrightarrow> slot_reads S c \<and> slot_sleeps S c \<and> slot_creates S c B \<and> slot_deletes S c B"

subsection \<open>Reading\<close>

lemma lbVolumeFromGRPC_key:
  assumes "lbVolumeFromGRPC c (Some v) None None = Inr lv"
  shows "vol_Name lv = mv_Name v" "guuid_Parse (gc_guuid c) (mv_UUID v) = Some (vol_UUID lv)"
proof -
  obtain uu where uu: "guuid_Parse (gc_guuid c) (mv_UUID v) = Some uu"
    using assms by (cases "guuid_Parse (gc_guuid c) (mv_UUID v)")
      (simp_all add: lbVolumeFromGRPC_def Let_def if_bad_Inr)
  obtain su where su: "(if mv_SourceSnapshotUUID v = [] then Some guuid_Nil
      else guuid_Parse (gc_guuid c) (mv_SourceSnapshotUUID v)) = Some su"
    using assms uu
    by (cases "if mv_SourceSnapshotUUID v = [] then Some guuid_Nil
          else guuid_Parse (gc_guuid c) (mv_SourceSnapshotUUID v)")
       (simp_all only: lbVolumeFromGRPC_def Let_def if_bad_Inr option.case, simp)
  note conv = assms [unfolded lbVolumeFromGRPC_def Let_def option.case uu su if_bad_Inr]
  show "vol_Name lv = mv_Name v" "guuid_Parse (gc_guuid c) (mv_UUID v) = Some (vol_UUID lv)"
    using conv uu by auto
qed

lemma lbVolumeFromGRPC_names:
  assumes "lbVolumeFromGRPC c (Some v) None None = Inr lv"
  shows "lbVolumeFromGRPC c (Some v) (Some (vol_Name lv)) None = Inr lv"
    "lbVolumeFromGRPC c (Some v) None (Some (vol_UUID lv)) = Inr lv"
proof -
  have "lbVolumeFromGRPC c (Some v) (Some (mv_Name v)) None = lbVolumeFromGRPC c (Some v) None None"
    by (simp only: lbVolumeFromGRPC_def option.case option.sel simp_thms if_False)
  moreover have "lbVolumeFromGRPC c (Some v) None (Some (vol_UUID lv)) = lbVolumeFromGRPC c (Some v) None None"
    by (simp only: lbVolumeFromGRPC_def lbVolumeFromGRPC_key(2) [OF assms] option.case option.sel
        simp_thms if_False)
  ultimately show "lbVolumeFromGRPC c (Some v) (Some (vol_Name lv)) None = Inr lv"
    "lbVolumeFromGRPC c (Some v) None (Some (vol_UUID lv)) = Inr lv"
    using assms by (simp_all add: lbVolumeFromGRPC_key(1) [OF assms])
qed

lemma slot_lb:
  assumes "slot_reads S c" and "sl_vol S s = Some v"
  shows "lbVolumeFromGRPC c (Some v) (Some (sl_name S)) None = Inr (lb_of c v)"
    "lbVolumeFromGRPC c (Some v) None (Some (sl_uuid S)) = Inr (lb_of c v)"
    "vol_Name (lb_of c v) = sl_name S" "vol_UUID (lb_of c v) = sl_uuid S"
    "vol_ProjectName (lb_of c v) = sl_proj S"
proof -
  obtain lv where lv: "lbVolumeFromGRPC c (Some v) None None = Inr lv" "vol_Name lv = sl_name S"
    "vol_UUID lv = sl_uuid S" "vol_ProjectName lv = sl_proj S"
    using assms unfolding slot_reads_def by blast
  then have "lb_of c v = lv" by (simp add: lb_of_def)
  with lv lbVolumeFromGRPC_names [OF lv(1)]
  show "lbVolumeFromGRPC c (Some v) (Some (sl_name S)) None = Inr (lb_of c v)"
    "lbVolumeFromGRPC c (Some v) None (Some (sl_uuid S)) = Inr (lb_of c v)"
    "vol_Name (lb_of c v) = sl_name S" "vol_UUID (lb_of c v) = sl_uuid S"
    "vol_ProjectName (lb_of c v) = sl_proj S" by simp_all
qed

lemma slot_clone_ctx:
  assumes "slot_reads S c"
  obtains ctx' where "run_state (cloneCtxWithCap c ctx) s = (ctx', s)"
proof -
  obtain n where "run_state (env_Now (gc_env c)) s = (n, s)"
    using assms unfolding slot_reads_def by blast
  then have "\<exists>ctx'. run_state (cloneCtxWithCap c ctx) s = (ctx', s)"
    by (simp add: cloneCtxWithCap_def split: option.split)
  then show ?thesis using that by blast
qed

text \<open>The view of the slot that every read gives.\<close>

definition slot_view :: "'s slot \<Rightarrow> 's GrpcClient \<Rightarrow> 's \<Rightarrow> gerr + Volume" where
  "slot_view S c s =
     (case sl_vol S s of None \<Rightarrow> Inl (Status codes_NotFound []) | Some v \<Rightarrow> Inr (lb_of c v))"

lemma slot_get:
  assumes "slot_reads S c"
  shows "run_state (Client_GetVolume c ctx (sl_uuid S) (sl_proj S)) s = (slot_view S c s, s)"
    "run_state (Client_GetVolumeByName c ctx (sl_name S) (sl_proj S)) s = (slot_view S c s, s)"
proof -
  obtain ctx' where ctx': "run_state (cloneCtxWithCap c ctx) s = (ctx', s)"
    using slot_clone_ctx [OF assms] .
  have get: "run_state (api_GetVolume (gc_clnt c) ctx'
        \<lparr>idr_UUID = guuid_String (gc_guuid c) (sl_uuid S), idr_Name = [], idr_ProjectName = sl_proj S\<rparr>) s =
      (case sl_vol S s of None \<Rightarrow> Inl (Status codes_NotFound []) | Some v \<Rightarrow> Inr (Some v), s)"
    "run_state (api_GetVolume (gc_clnt c) ctx'
        \<lparr>idr_UUID = [], idr_Name = sl_name S, idr_ProjectName = sl_proj S\<rparr>) s =
      (case sl_vol S s of None \<Rightarrow> Inl (Status codes_NotFound []) | Some v \<Rightarrow> Inr (Some v), s)"
    using assms unfolding slot_reads_def by blast+
  show "run_state (Client_GetVolume c ctx (sl_uuid S) (sl_proj S)) s = (slot_view S c s, s)"
    using slot_lb(2) [OF assms]
    by (cases "sl_vol S s")
       (simp_all add: Client_GetVolume_def Client_getVolume_def ctx' get slot_view_def)
  show "run_state (Client_GetVolumeByName c ctx (sl_name S) (sl_proj S)) s = (slot_view S c s, s)"
    using slot_lb(1) [OF assms]
    by (cases "sl_vol S s")
       (simp_all add: Client_GetVolumeByName_def Client_getVolume_def ctx' get slot_view_def)
qed

lemma slot_view_phase:
  assumes "slot_reads S c"
  shows "sl_phase S s = Absent \<Longrightarrow> slot_view S c s = Inl (Status codes_NotFound [])"
    "sl_phase S s \<in> {Ready, Going k} \<Longrightarrow>
      \<exists>v. sl_vol S s = Some v \<and> slot_view S c s = Inr (lb_of c v) \<and> vol_State (lb_of c v) = VolumeAvailable"
    "sl_phase S s = Making k \<Longrightarrow>
      \<exists>v. sl_vol S s = Some v \<and> slot_view S c s = Inr (lb_of c v) \<and> vol_State (lb_of c v) = VolumeCreating"
    "sl_phase S s = Gone \<Longrightarrow> slot_view S c s = Inl (Status codes_NotFound []) \<or>
      (\<exists>v. slot_view S c s = Inr v \<and> vol_State v = VolumeDeleting)"
proof -
  have "displays (sl_phase S s) (map_option (\<lambda>v. vol_State (lb_of c v)) (sl_vol S s))"
    using assms unfolding slot_reads_def by blast
  then show "sl_phase S s = Absent \<Longrightarrow> slot_view S c s = Inl (Status codes_NotFound [])"
    "sl_phase S s \<in> {Ready, Going k} \<Longrightarrow>
      \<exists>v. sl_vol S s = Some v \<and> slot_view S c s = Inr (lb_of c v) \<and> vol_State (lb_of c v) = VolumeAvailable"
    "sl_phase S s = Making k \<Longrightarrow>
      \<exists>v. sl_vol S s = Some v \<and> slot_view S c s = Inr (lb_of c v) \<and> vol_State (lb_of c v) = VolumeCreating"
    "sl_phase S s = Gone \<Longrightarrow> slot_view S c s = Inl (Status codes_NotFound []) \<or>
      (\<exists>v. slot_view S c s = Inr v \<and> vol_State v = VolumeDeleting)"
    by (auto simp: slot_view_def)
qed

subsection \<open>Creating\<close>

text \<open>The volume that was asked for.\<close>

definition made :: "'s slot \<Rightarrow> uint64 \<Rightarrow> uint32 \<Rightarrow> bool \<Rightarrow> string list \<Rightarrow> Volume \<Rightarrow> bool" where
  "made S cap rc compr acl v \<longleftrightarrow> vol_Name v = sl_name S \<and> vol_UUID v = sl_uuid S \<and>
     vol_ProjectName v = sl_proj S \<and> vol_ReplicaCount v = rc \<and> vol_Capacity v = cap \<and>
     vol_Compression v = compr \<and> vol_SnapshotUUID v = guuid_Nil \<and> vol_ACL v = norm_acl acl"

lemma made_same: "made S cap rc compr acl v \<Longrightarrow> same_asked v w \<Longrightarrow> made S cap rc compr acl w"
  by (simp add: made_def same_asked_def)

lemma same_asked_trans: "same_asked u v \<Longrightarrow> same_asked v w \<Longrightarrow> same_asked u w"
  by (simp add: same_asked_def)

lemma same_asked_diffs: "same_asked v w \<Longrightarrow> ExplainDiffsFrom v w SkipNone = []"
  by (simp add: same_asked_def ExplainDiffsFrom_none IsSameAs_def)

text \<open>The state of a wait for the volume \<open>lv\<close> that may take \<open>k\<close> further sleeps.\<close>

definition making :: "'s slot \<Rightarrow> 's GrpcClient \<Rightarrow> Volume \<Rightarrow> nat \<Rightarrow> 's \<Rightarrow> bool" where
  "making S c lv k s \<longleftrightarrow> (\<exists>w. sl_vol S s = Some w \<and> same_asked lv (lb_of c w)) \<and>
     sl_phase S s = (case k of 0 \<Rightarrow> Ready | Suc j \<Rightarrow> Making j)"

lemma slot_present:
  assumes "slot_reads S c" and "sl_phase S s = Ready \<or> sl_phase S s = Making k"
  shows "\<exists>v. sl_vol S s = Some v"
  using assms(2) slot_view_phase(2,3) [OF assms(1), of s k] by auto

lemma making_tick:
  assumes "slot_reads S c" and "slot_sleeps S c" and "making S c lv k s"
    and "run_state (env_Sleep (gc_env c) dl) s = ((), t)"
  shows "\<exists>j \<le> k - 1. making S c lv j t"
proof -
  obtain w where w: "sl_vol S s = Some w" "same_asked lv (lb_of c w)"
    using assms(3) by (auto simp: making_def)
  have step: "ages (sl_phase S s) (sl_phase S t)"
    "\<And>w'. sl_vol S t = Some w' \<Longrightarrow> same_asked (lb_of c w) (lb_of c w')"
    using assms(2,4) w(1) unfolding slot_sleeps_def by blast+
  obtain j where j: "j \<le> k - 1" "sl_phase S t = (case j of 0 \<Rightarrow> Ready | Suc j \<Rightarrow> Making j)"
  proof (cases k)
    case 0
    then show ?thesis using that [of 0] step(1) assms(3) by (simp add: making_def)
  next
    case (Suc i)
    then consider "sl_phase S t = Ready" | j where "j < i" "sl_phase S t = Making j"
      using step(1) assms(3) by (auto simp: making_def)
    then show ?thesis using that [of 0] that [of "Suc _"] Suc by cases auto
  qed
  obtain w' where "sl_vol S t = Some w'"
    using slot_present [OF assms(1), of t "j - 1"] j(2) by (auto split: nat.splits)
  with j step(2) same_asked_trans [OF w(2)] show ?thesis by (auto simp: making_def)
qed

lemma making_poll:
  assumes "slot_reads S c" and "made S cap rc compr acl lv"
  shows "making S c lv (Suc k) s \<Longrightarrow> run_state (poll_created c ctx (sl_proj S) lv) s = (Inr None, s)"
    "making S c lv 0 s \<Longrightarrow> \<exists>v t. run_state (poll_created c ctx (sl_proj S) lv) s = (Inr (Some v), t) \<and>
      made S cap rc compr acl v \<and> sl_phase S t = Ready \<and> slot_view S c t = Inr v"
proof -
  have id: "vol_UUID lv = sl_uuid S" using assms(2) by (simp add: made_def)
  have ctx: "run_state (env_CtxErr (gc_env c) ctx) s = (None, s)"
    using assms(1) by (simp add: slot_reads_def)
  note run = poll_created_def ctx id slot_get(1) [OF assms(1)]
  show "run_state (poll_created c ctx (sl_proj S) lv) s = (Inr None, s)" if m: "making S c lv (Suc k) s"
  proof -
    obtain w where "slot_view S c s = Inr (lb_of c w)" "vol_State (lb_of c w) = VolumeCreating"
      "same_asked lv (lb_of c w)"
      using m slot_view_phase(3) [OF assms(1), of s k] by (auto simp: making_def)
    then show ?thesis by (simp add: run same_asked_diffs)
  qed
  show "\<exists>v t. run_state (poll_created c ctx (sl_proj S) lv) s = (Inr (Some v), t) \<and>
      made S cap rc compr acl v \<and> sl_phase S t = Ready \<and> slot_view S c t = Inr v"
    if m: "making S c lv 0 s"
  proof -
    obtain w where "slot_view S c s = Inr (lb_of c w)" "vol_State (lb_of c w) = VolumeAvailable"
      "same_asked lv (lb_of c w)" "sl_phase S s = Ready"
      using m slot_view_phase(2) [OF assms(1), of s 0] by (auto simp: making_def)
    then show ?thesis using made_same [OF assms(2)] by (simp add: run same_asked_diffs)
  qed
qed

lemma Client_CreateVolume_outcome:
  assumes "slot_answers S c B" and "B < 7" and "sl_phase S s = Absent"
    and "rc \<noteq> 0" and "rc \<le> MaxReplicaCount"
  shows "\<exists>v t. run_state (Client_CreateVolume c ctx (sl_name S) cap rc compr acl (sl_proj S) guuid_Nil
      qos True) s = (Inr v, t) \<and> made S cap rc compr acl v \<and> sl_phase S t = Ready \<and>
    slot_view S c t = Inr v"
proof -
  have reads: "slot_reads S c" and sleeps: "slot_sleeps S c" and creates: "slot_creates S c B"
    using assms(1) by (simp_all add: slot_answers_def)
  obtain ctx' where ctx': "run_state (cloneCtxWithCap c ctx) s = (ctx', s)"
    using slot_clone_ctx [OF reads] .
  obtain v t where t: "run_state (api_CreateVolume (gc_clnt c) ctx' (mkCreateVolumeRequest c (sl_name S)
        cap rc compr acl (sl_proj S) guuid_Nil qos)) s = (Inr (Some v), t)" "sl_vol S t = Some v"
    "sl_phase S t = Ready \<or> (\<exists>k \<le> B. sl_phase S t = Making k)"
    "vol_ReplicaCount (lb_of c v) = rc" "vol_Capacity (lb_of c v) = cap"
    "vol_Compression (lb_of c v) = compr" "vol_SnapshotUUID (lb_of c v) = guuid_Nil"
    "vol_ACL (lb_of c v) = norm_acl acl"
    using creates assms(3-5) unfolding slot_creates_def by metis
  have made: "made S cap rc compr acl (lb_of c v)"
    using t(4-) slot_lb(3-5) [OF reads t(2)] by (simp add: made_def)
  note run = Client_CreateVolume_def ctx' t(1) slot_lb(1) [OF reads t(2)] t(8) AreEqual_iff
  from t(3) show ?thesis
  proof
    assume p: "sl_phase S t = Ready"
    then have "vol_State (lb_of c v) = VolumeAvailable" "slot_view S c t = Inr (lb_of c v)"
      using slot_view_phase(2) [OF reads, of t 0] t(2) by auto
    then show ?thesis using made p by (simp add: run)
  next
    assume "\<exists>k \<le> B. sl_phase S t = Making k"
    then obtain k where k: "k \<le> B" "sl_phase S t = Making k" by blast
    have st: "vol_State (lb_of c v) = VolumeCreating"
      using slot_view_phase(3) [OF reads k(2)] t(2) by auto
    have m: "making S c (lb_of c v) (Suc k) t"
      using t(2) k(2) by (simp add: making_def same_asked_def)
    have "\<exists>w u. run_state (WithExponentialBackoff (gc_env c) CreateRetryOpts
        (poll_created c ctx' (sl_proj S) (lb_of c v))) t = (Inr w, u) \<and>
        made S cap rc compr acl w \<and> sl_phase S u = Ready \<and> slot_view S c u = Inr w"
      by (rule WithExponentialBackoff_total [where P = "making S c (lb_of c v)", OF
            making_poll(1) [OF reads made] making_poll(2) [OF reads made]
            making_tick [OF reads sleeps] m])
         (use k(1) assms(2) in \<open>auto simp: CreateRetryOpts_def\<close>)
    then show ?thesis by (simp add: run st)
  qed
qed

subsection \<open>Deleting\<close>

definition going :: "'s slot \<Rightarrow> nat \<Rightarrow> 's \<Rightarrow> bool" where
  "going S k s \<longleftrightarrow> sl_phase S s = (case k of 0 \<Rightarrow> Gone | Suc j \<Rightarrow> Going j)"

lemma going_tick:
  assumes "slot_sleeps S c" and "going S k s" and "run_state (env_Sleep (gc_env c) dl) s = ((), t)"
  shows "\<exists>j \<le> k - 1. going S j t"
proof -
  have "ages (sl_phase S s) (sl_phase S t)"
    using assms(1,3) unfolding slot_sleeps_def by blast
  with assms(2) show ?thesis
    by (cases k) (force simp: going_def intro: exI [of _ 0] exI [of _ "Suc _"])+
qed

lemma going_poll:
  assumes "slot_reads S c"
  shows "going S (Suc k) s \<Longrightarrow> run_state (poll_deleted c ctx (sl_uuid S) (sl_proj S)) s = (Inr None, s)"
    "going S 0 s \<Longrightarrow>
      \<exists>u t. run_state (poll_deleted c ctx (sl_uuid S) (sl_proj S)) s = (Inr (Some u), t) \<and> sl_phase S t = Gone"
proof -
  have ctx: "run_state (env_CtxErr (gc_env c) ctx) s = (None, s)"
    using assms(1) by (simp add: slot_reads_def)
  note run = poll_deleted_def ctx slot_get(1) [OF assms(1)] lb_isStatusNotFound_def
  show "going S (Suc k) s \<Longrightarrow> run_state (poll_deleted c ctx (sl_uuid S) (sl_proj S)) s = (Inr None, s)"
    using slot_view_phase(2) [OF assms(1), of s k] by (auto simp: going_def run)
  show "going S 0 s \<Longrightarrow>
      \<exists>u t. run_state (poll_deleted c ctx (sl_uuid S) (sl_proj S)) s = (Inr (Some u), t) \<and> sl_phase S t = Gone"
    using slot_view_phase(4) [OF assms(1), of s] by (auto simp: going_def run)
qed

lemma doDeleteVolume_outcome:
  assumes "slot_answers S c B" and "B < 14" and "sl_phase S s \<in> {Ready, Gone}"
    and "rid_uuid vid = sl_uuid S" and "rid_projName vid = sl_proj S"
  shows "\<exists>t. run_state (doDeleteVolume (lbgrpc_Client c) ctx vid) s = (Inr (), t) \<and> sl_phase S t = Gone"
proof -
  have reads: "slot_reads S c" and sleeps: "slot_sleeps S c" and deletes: "slot_deletes S c B"
    using assms(1) by (simp_all add: slot_answers_def)
  note run = doDeleteVolume_def lbgrpc_Client_def assms(4,5) slot_get(1) [OF reads]
  show ?thesis
  proof (cases "sl_phase S s = Gone")
    case True
    with slot_view_phase(4) [OF reads True] show ?thesis by (auto simp: run)
  next
    case False
    with assms(3) have p: "sl_phase S s = Ready" by simp
    then obtain v where v: "sl_vol S s = Some v" "slot_view S c s = Inr (lb_of c v)"
      "vol_State (lb_of c v) = VolumeAvailable"
      using slot_view_phase(2) [OF reads, of s 0] by auto
    have id: "vol_UUID (lb_of c v) = sl_uuid S" using slot_lb(4) [OF reads v(1)] .
    obtain ctx' where ctx': "run_state (cloneCtxWithCap c ctx) s = (ctx', s)"
      using slot_clone_ctx [OF reads] .
    obtain t where t: "run_state (api_DeleteVolume (gc_clnt c) ctx'
        \<lparr>idr_UUID = guuid_String (gc_guuid c) (sl_uuid S), idr_Name = [],
         idr_ProjectName = sl_proj S\<rparr>) s = (Inr (), t)"
      "sl_phase S t = Gone \<or> (\<exists>k \<le> B. sl_phase S t = Going k)"
      using deletes p unfolding slot_deletes_def by blast
    then obtain k where k: "going S k t" "k \<le> Suc B"
      by (auto simp: going_def intro: that [of 0] that [of "Suc _"])
    have "\<exists>u t'. run_state (WithExponentialBackoff (gc_env c) DeleteRetryOpts
        (poll_deleted c ctx' (sl_uuid S) (sl_proj S))) t = (Inr u, t') \<and> sl_phase S t' = Gone"
      by (rule WithExponentialBackoff_total [where P = "going S", OF going_poll(1) [OF reads]
            going_poll(2) [OF reads] going_tick [OF sleeps] k(1)])
         (use k(2) assms(2) in \<open>auto simp: DeleteRetryOpts_def\<close>)
    then show ?thesis by (simp add: run v id Client_DeleteVolume_def ctx' t(1))
  qed
qed

subsection \<open>The handlers\<close>

definition same_slot :: "'s slot \<Rightarrow> 's \<Rightarrow> 's \<Rightarrow> bool" where
  "same_slot S s t \<longleftrightarrow> sl_phase S t = sl_phase S s \<and> sl_vol S t = sl_vol S s"

text \<open>
  The driver can borrow clients of a service that answers, all with the UUID notation of the
  driver, and borrowing and returning them leaves the slot alone.
\<close>

definition slot_serves :: "'s slot \<Rightarrow> 's Driver \<Rightarrow> (nat \<Rightarrow> 's GrpcClient) \<Rightarrow> nat \<Rightarrow> bool" where
  "slot_serves S d g B \<longleftrightarrow>
     (\<forall>h. slot_answers S (g h) B \<and> d_client d h = lbgrpc_Client (g h) \<and> gc_guuid (g h) = d_guuid d) \<and>
     (\<forall>ctx eps scheme s. \<exists>h t. run_state (GetLBClient d ctx eps scheme) s = (Inr h, t) \<and> same_slot S s t) \<and>
     (\<forall>h s t. run_state (PutLBClient d h) s = ((), t) \<longrightarrow> same_slot S s t)"

text \<open>The volume of the slot is the one asked for, whichever client looks at it.\<close>

definition holds :: "'s slot \<Rightarrow> (nat \<Rightarrow> 's GrpcClient) \<Rightarrow> uint64 \<Rightarrow> lbCreateVolumeParams \<Rightarrow> 's \<Rightarrow> bool" where
  "holds S g cap params s \<longleftrightarrow> sl_phase S s = Ready \<and>
     (\<forall>h. \<exists>v. slot_view S (g h) s = Inr v \<and>
        made S cap (par_replicaCount params) (par_compression params) [ACLAllowNone] v)"

definition slot_rid :: "'s slot \<Rightarrow> lbCreateVolumeParams \<Rightarrow> lbResourceID" where
  "slot_rid S params = \<lparr>rid_mgmtEPs = par_mgmtEPs params, rid_uuid = sl_uuid S,
     rid_projName = sl_proj S, rid_scheme = par_mgmtScheme params,
     rid_hostCrypto = par_hostCrypto params\<rparr>"

definition slot_response :: "'s slot \<Rightarrow> 's Driver \<Rightarrow> uint64 \<Rightarrow> lbCreateVolumeParams \<Rightarrow> csi_Volume" where
  "slot_response S d cap params = \<lparr>rv_CapacityBytes = cap,
     rv_VolumeId = lbResourceID_String (d_guuid d) (slot_rid S params), rv_ContentSource = None\<rparr>"

lemma made_response:
  "made S cap rc compr acl v \<Longrightarrow> mkVolumeResponse (d_guuid d) (par_mgmtEPs params) v
     (par_hostCrypto params) (par_mgmtScheme params) None = slot_response S d cap params"
  by (simp add: made_def mkVolumeResponse_def slot_response_def slot_rid_def)

lemma slot_view_guuid:
  assumes "gc_guuid c = gc_guuid c'"
  shows "slot_view S c s = slot_view S c' s"
  by (simp only: slot_view_def lb_of_def lbVolumeFromGRPC_def assms)

lemma same_slot_view: "same_slot S s t \<Longrightarrow> slot_view S c t = slot_view S c s"
  by (simp add: same_slot_def slot_view_def)

lemma slot_with_client:
  assumes "slot_serves S d g B"
    and "\<And>h s1. same_slot S s s1 \<Longrightarrow>
      \<exists>t. run_state (body (lbgrpc_Client (g h))) s1 = (r, t) \<and> (\<forall>u. same_slot S t u \<longrightarrow> Q u)"
  shows "\<exists>t. run_state (with_client d ctx eps scheme body) s = (r, t) \<and> Q t"
proof -
  obtain h s1 where h: "run_state (GetLBClient d ctx eps scheme) s = (Inr h, s1)" "same_slot S s s1"
    using assms(1) unfolding slot_serves_def by blast
  obtain s2 where s2: "run_state (body (lbgrpc_Client (g h))) s1 = (r, s2)"
    "\<And>u. same_slot S s2 u \<Longrightarrow> Q u"
    using assms(2) [OF h(2), of h] by auto
  obtain t where t: "run_state (PutLBClient d h) s2 = ((), t)"
    by (cases "run_state (PutLBClient d h) s2") auto
  then have "Q t" using assms(1) s2(2) unfolding slot_serves_def by blast
  moreover have "d_client d h = lbgrpc_Client (g h)" using assms(1) by (simp add: slot_serves_def)
  ultimately show ?thesis using h(1) s2(1) t by (cases r) (simp_all add: with_client_def)
qed

text \<open>A request for the volume of the slot.\<close>

definition asks_for ::
  "'s slot \<Rightarrow> 's Driver \<Rightarrow> csi_CreateVolumeRequest \<Rightarrow> uint64 \<Rightarrow> lbCreateVolumeParams \<Rightarrow> bool" where
  "asks_for S d req cap params \<longleftrightarrow> plain_create d req cap params \<and> cv_Name req = sl_name S \<and>
     par_projectName params = sl_proj S \<and> par_replicaCount params \<noteq> 0 \<and>
     par_replicaCount params \<le> MaxReplicaCount"

text \<open>The volume that \<open>CreateVolume\<close> answers with: the one that exists, or a new one.\<close>

definition found_or_made :: "'s Client \<Rightarrow> Ctx \<Rightarrow> Volume \<Rightarrow> CapacityRange \<Rightarrow> ('s, gerr, Volume) io" where
  "found_or_made clnt ctx want cr = do {
     v \<leftarrow> findExistingVolume clnt ctx want cr None None;
     (case v of
        Inl err \<Rightarrow> fail err
      | Inr None \<Rightarrow> doCreateVolume clnt ctx want cr None None
      | Inr (Some vol) \<Rightarrow> ok vol)
   }"

lemma asks_for_run:
  assumes "asks_for S d req cap params"
  shows "\<exists>cr ctx'. CreateVolume d ctx req =
    with_client d ctx' (par_mgmtEPs params) (par_mgmtScheme params) (\<lambda>clnt. do {
      r \<leftarrow> found_or_made clnt ctx' (mkWantVol (sl_name S) cap params) cr;
      (case r of
         Inl err \<Rightarrow> fail err
       | Inr vol \<Rightarrow> ok (mkVolumeResponse (d_guuid d) (par_mgmtEPs params) vol
           (par_hostCrypto params) (par_mgmtScheme params) None))
    })"
proof -
  have flat: "do { v \<leftarrow> m; (case v of Inl err \<Rightarrow> fail err | Inr found \<Rightarrow> do {
          r \<leftarrow> (case found of None \<Rightarrow> n | Some vol \<Rightarrow> ok vol);
          (case r of Inl err \<Rightarrow> fail err | Inr vol \<Rightarrow> ok (f vol)) }) } =
      do { r \<leftarrow> do { v \<leftarrow> m; (case v of Inl err \<Rightarrow> fail err | Inr None \<Rightarrow> n | Inr (Some vol) \<Rightarrow> ok vol) };
           (case r of Inl err \<Rightarrow> fail err | Inr vol \<Rightarrow> ok (f vol)) }"
    for m :: "('s, gerr, Volume option) io" and n :: "('s, gerr, Volume) io"
      and f :: "Volume \<Rightarrow> csi_Volume"
    by (rule state.expand) (auto simp: fun_eq_iff split: sum.splits option.splits prod.splits)
  show ?thesis
    using assms unfolding asks_for_def plain_create_def found_or_made_def flat [symmetric]
    by (auto simp: CreateVolume_def parseContentSource_def Let_def)
qed

text \<open>
  The handler answers with the volume of the slot when, with any client, the volume is found
  there or made.
\<close>

lemma slot_create:
  assumes "slot_serves S d g B" and "asks_for S d req cap params"
    and "\<And>h cr ctx' s1. same_slot S s s1 \<Longrightarrow>
      \<exists>v t. run_state (found_or_made (lbgrpc_Client (g h)) ctx' (mkWantVol (sl_name S) cap params) cr) s1 =
          (Inr v, t) \<and> made S cap rc compr acl v \<and> (\<forall>u. same_slot S t u \<longrightarrow> Q u)"
  shows "\<exists>t. run_state (CreateVolume d ctx req) s = (Inr (slot_response S d cap params), t) \<and> Q t"
proof -
  obtain cr ctx' where run: "CreateVolume d ctx req =
    with_client d ctx' (par_mgmtEPs params) (par_mgmtScheme params) (\<lambda>clnt. do {
      r \<leftarrow> found_or_made clnt ctx' (mkWantVol (sl_name S) cap params) cr;
      (case r of
         Inl err \<Rightarrow> fail err
       | Inr vol \<Rightarrow> ok (mkVolumeResponse (d_guuid d) (par_mgmtEPs params) vol
           (par_hostCrypto params) (par_mgmtScheme params) None))
    })"
    using asks_for_run [OF assms(2)] by blast
  show ?thesis unfolding run
  proof (rule slot_with_client [OF assms(1)])
    fix h s1
    assume "same_slot S s s1"
    from assms(3) [OF this, of h ctx' cr] obtain v t where
      "run_state (found_or_made (lbgrpc_Client (g h)) ctx' (mkWantVol (sl_name S) cap params) cr) s1 =
          (Inr v, t)" "made S cap rc compr acl v" "\<forall>u. same_slot S t u \<longrightarrow> Q u" by blast
    then show "\<exists>t. run_state (do {
      r \<leftarrow> found_or_made (lbgrpc_Client (g h)) ctx' (mkWantVol (sl_name S) cap params) cr;
      (case r of
         Inl err \<Rightarrow> fail err
       | Inr vol \<Rightarrow> ok (mkVolumeResponse (d_guuid d) (par_mgmtEPs params) vol
           (par_hostCrypto params) (par_mgmtScheme params) None))
      }) s1 = (Inr (slot_response S d cap params), t) \<and> (\<forall>u. same_slot S t u \<longrightarrow> Q u)"
      by (simp add: made_response)
  qed
qed

end
