(* ===== verification/Volume_Life.thy ===== *)
theory Volume_Life
  imports Volume_Slot
begin

text \<open>
  The life of a volume, seen through the handlers of the controller: on a management service
  that answers, \<open>CreateVolume\<close> makes the volume, repeats of it give the same response, \<open>DeleteVolume\<close>
  with the identifier of that response takes the volume away, and repeats of it succeed too. A
  small service that answers shows that the assumptions can be met.
\<close>

subsection \<open>Creating\<close>

lemma slot_servesD:
  assumes "slot_serves S d g B"
  shows "slot_answers S (g h) B" "slot_reads S (g h)" "gc_guuid (g h) = d_guuid d"
    "slot_view S (g h) s = slot_view S (g h') s"
  using assms slot_view_guuid [of "g h" "g h'"] by (simp_all add: slot_serves_def slot_answers_def)

lemma same_slot_holds: "same_slot S t u \<Longrightarrow> holds S g cap params u = holds S g cap params t"
  by (simp add: holds_def same_slot_view) (simp add: same_slot_def)

lemma holdsI:
  assumes "slot_serves S d g B" and "sl_phase S t = Ready" and "slot_view S (g h) t = Inr v"
    and "made S cap (par_replicaCount params) (par_compression params) [ACLAllowNone] v"
  shows "holds S g cap params t"
  using assms slot_servesD(4) [OF assms(1)] unfolding holds_def by metis

lemma find_absent:
  assumes "slot_reads S c" and "par_projectName params = sl_proj S" and "sl_phase S s = Absent"
  shows "run_state (findExistingVolume (lbgrpc_Client c) ctx (mkWantVol (sl_name S) cap params) cr
    None None) s = (Inr None, s)"
  using assms slot_view_phase(1) [OF assms(1,3)]
  by (simp add: findExistingVolume_def lbgrpc_Client_def mkWantVol_def slot_get isStatusNotFound_def)

lemma find_held:
  assumes "slot_reads S c" and "par_projectName params = sl_proj S" and "sl_phase S s = Ready"
    and "slot_view S c s = Inr v"
    and "made S cap (par_replicaCount params) (par_compression params) acl v"
  shows "run_state (findExistingVolume (lbgrpc_Client c) ctx (mkWantVol (sl_name S) cap params) cr
    None None) s = (Inr (Some v), s)"
proof -
  have st: "vol_State v = VolumeAvailable"
    using slot_view_phase(2) [OF assms(1), of s 0] assms(3,4) by auto
  have "chkExistingVolume (mkWantVol (sl_name S) cap params) cr None None v = Inr (Some v)"
    using assms(2,5) by (simp add: chkExistingVolume_Inr mkWantVol_def made_def st)
  with st show ?thesis
    by (simp add: findExistingVolume_def lbgrpc_Client_def slot_get [OF assms(1)] assms(2,4)
        mkWantVol_def)
qed

lemma create_absent:
  assumes "slot_serves S d g B" and "B < 7" and "asks_for S d req cap params"
    and "sl_phase S s = Absent"
  shows "\<exists>t. run_state (CreateVolume d ctx req) s = (Inr (slot_response S d cap params), t) \<and>
    holds S g cap params t"
proof (rule slot_create [OF assms(1,3)])
  fix h cr ctx' s1
  assume same: "same_slot S s s1"
  have p: "sl_phase S s1 = Absent" using same assms(4) by (simp add: same_slot_def)
  have ask: "par_projectName params = sl_proj S" "par_replicaCount params \<noteq> 0"
    "par_replicaCount params \<le> MaxReplicaCount"
    using assms(3) by (simp_all add: asks_for_def)
  note served = slot_servesD [OF assms(1), of h]
  obtain v t where v: "run_state (Client_CreateVolume (g h) ctx' (sl_name S) cap
      (par_replicaCount params) (par_compression params) [ACLAllowNone] (sl_proj S) guuid_Nil
      (par_qosPolicyName params) True) s1 = (Inr v, t)"
    "made S cap (par_replicaCount params) (par_compression params) [ACLAllowNone] v"
    "sl_phase S t = Ready" "slot_view S (g h) t = Inr v"
    using Client_CreateVolume_outcome [OF served(1) assms(2) p ask(2,3)] by blast
  have "run_state (found_or_made (lbgrpc_Client (g h)) ctx' (mkWantVol (sl_name S) cap params) cr) s1 =
      (Inr v, t)"
    using find_absent [OF served(2) ask(1) p, of ctx' cap cr] v(1)
    by (simp add: found_or_made_def doCreateVolume_def lbCreateVolume_def ask(1))
       (simp add: mkWantVol_def lbgrpc_Client_def ask(1))
  with v(2) holdsI [OF assms(1) v(3,4,2)] same_slot_holds [of S t]
  show "\<exists>v t. run_state (found_or_made (lbgrpc_Client (g h)) ctx' (mkWantVol (sl_name S) cap params) cr) s1 =
      (Inr v, t) \<and> made S cap (par_replicaCount params) (par_compression params) [ACLAllowNone] v \<and>
      (\<forall>u. same_slot S t u \<longrightarrow> holds S g cap params u)" by blast
qed

lemma create_held:
  assumes "slot_serves S d g B" and "asks_for S d req cap params" and "holds S g cap params s"
  shows "\<exists>t. run_state (CreateVolume d ctx req) s = (Inr (slot_response S d cap params), t) \<and>
    holds S g cap params t"
proof (rule slot_create [OF assms(1,2)])
  fix h cr ctx' s1
  assume same: "same_slot S s s1"
  have held: "holds S g cap params s1" using same assms(3) by (simp add: same_slot_holds)
  then obtain v where v: "sl_phase S s1 = Ready" "slot_view S (g h) s1 = Inr v"
    "made S cap (par_replicaCount params) (par_compression params) [ACLAllowNone] v"
    unfolding holds_def by blast
  have proj: "par_projectName params = sl_proj S" using assms(2) by (simp add: asks_for_def)
  have "run_state (found_or_made (lbgrpc_Client (g h)) ctx' (mkWantVol (sl_name S) cap params) cr) s1 =
      (Inr v, s1)"
    using find_held [OF slot_servesD(2) [OF assms(1)] proj v] by (simp add: found_or_made_def)
  with v(3) held same_slot_holds [of S s1]
  show "\<exists>v t. run_state (found_or_made (lbgrpc_Client (g h)) ctx' (mkWantVol (sl_name S) cap params) cr) s1 =
      (Inr v, t) \<and> made S cap (par_replicaCount params) (par_compression params) [ACLAllowNone] v \<and>
      (\<forall>u. same_slot S t u \<longrightarrow> holds S g cap params u)" by blast
qed

subsection \<open>Deleting\<close>

lemma slot_rid_parse:
  assumes "asks_for S d req cap params" and "guuid_ok (d_guuid d)" and "sl_uuid S \<noteq> guuid_Nil"
  shows "parseCSIResourceID (d_guuid d) (rv_VolumeId (slot_response S d cap params)) =
    Inr (slot_rid S params)"
proof -
  have "parseCSICreateVolumeParams (cv_Parameters req) = Inr params" "par_projectName params = sl_proj S"
    using assms(1) by (simp_all add: asks_for_def plain_create_def)
  then have "wf_rid (slot_rid S params)"
    using parseCSICreateVolumeParams_wf assms(3) by (force simp: wf_rid_def slot_rid_def)
  from parseCSIResourceID_String [OF this assms(2)] show ?thesis by (simp add: slot_response_def)
qed

lemma delete_slot:
  assumes "slot_serves S d g B" and "B < 14" and "sl_phase S s \<in> {Ready, Gone}"
    and "parseCSIResourceID (d_guuid d) (vr_VolumeId req) = Inr vid"
    and "rid_uuid vid = sl_uuid S" and "rid_projName vid = sl_proj S"
  shows "\<exists>t. run_state (DeleteVolume d ctx req) s = (Inr (), t) \<and> sl_phase S t = Gone"
proof -
  let ?ctx = "cloneCtxWithCreds d ctx (vr_Secrets req)"
  have "\<exists>t. run_state (with_client d ?ctx (rid_mgmtEPs vid) (rid_scheme vid)
      (\<lambda>clnt. doDeleteVolume clnt ?ctx vid)) s = (Inr (), t) \<and> sl_phase S t = Gone"
  proof (rule slot_with_client [OF assms(1)])
    fix h s1
    assume "same_slot S s s1"
    then have "sl_phase S s1 \<in> {Ready, Gone}" using assms(3) by (simp add: same_slot_def)
    from doDeleteVolume_outcome [OF slot_servesD(1) [OF assms(1)] assms(2) this assms(5,6)]
    show "\<exists>t. run_state (doDeleteVolume (lbgrpc_Client (g h)) ?ctx vid) s1 = (Inr (), t) \<and>
        (\<forall>u. same_slot S t u \<longrightarrow> sl_phase S u = Gone)"
      by (metis same_slot_def)
  qed
  moreover have "parseCSIResourceIDEnoent (d_guuid d) volIDField (vr_VolumeId req) = Inr vid"
    using assms(4) by (simp add: parseEnoent_Inr)
  ultimately show ?thesis by (simp add: DeleteVolume_def Let_def)
qed

subsection \<open>The life of a volume\<close>

text \<open>
  C13. A volume lives and dies through the handlers. Take a service that answers: what it reads
  out is what it has, an accepted creation or deletion is carried out within \<open>B\<close> further sleeps,
  \<open>B < 7\<close>. Then \<open>CreateVolume\<close> of a well-formed request for an absent volume succeeds, and its
  response has the requested capacity and an identifier that names the volume; the same request
  again gives the same response; \<open>DeleteVolume\<close> with the identifier of that response succeeds and
  the volume is gone; and it succeeds again on the volume that is gone. Each call may come with
  its own context.
\<close>

theorem volume_lifecycle:
  assumes "slot_serves S d g B" and "B < 7" and "guuid_ok (d_guuid d)" and "sl_uuid S \<noteq> guuid_Nil"
    and "asks_for S d req cap params" and "sl_phase S s = Absent"
  shows "\<exists>resp t1 t2 t3 t4.
    run_state (CreateVolume d ctx1 req) s = (Inr resp, t1) \<and> sl_phase S t1 = Ready \<and>
    rv_CapacityBytes resp = cap \<and>
    (\<exists>vid. parseCSIResourceID (d_guuid d) (rv_VolumeId resp) = Inr vid \<and>
       rid_uuid vid = sl_uuid S \<and> rid_projName vid = sl_proj S \<and> rid_mgmtEPs vid = par_mgmtEPs params) \<and>
    run_state (CreateVolume d ctx2 req) t1 = (Inr resp, t2) \<and> sl_phase S t2 = Ready \<and>
    run_state (DeleteVolume d ctx3 \<lparr>vr_VolumeId = rv_VolumeId resp, vr_Secrets = sec\<rparr>) t2 = (Inr (), t3) \<and>
    sl_phase S t3 = Gone \<and>
    run_state (DeleteVolume d ctx4 \<lparr>vr_VolumeId = rv_VolumeId resp, vr_Secrets = sec\<rparr>) t3 = (Inr (), t4) \<and>
    sl_phase S t4 = Gone"
proof -
  let ?resp = "slot_response S d cap params"
  let ?del = "\<lparr>vr_VolumeId = rv_VolumeId ?resp, vr_Secrets = sec\<rparr> :: csi_VolRequest"
  obtain t1 where t1: "run_state (CreateVolume d ctx1 req) s = (Inr ?resp, t1)" "holds S g cap params t1"
    using create_absent [OF assms(1,2,5,6)] by blast
  obtain t2 where t2: "run_state (CreateVolume d ctx2 req) t1 = (Inr ?resp, t2)" "holds S g cap params t2"
    using create_held [OF assms(1,5) t1(2)] by blast
  have vid: "parseCSIResourceID (d_guuid d) (vr_VolumeId ?del) = Inr (slot_rid S params)"
    "rid_uuid (slot_rid S params) = sl_uuid S" "rid_projName (slot_rid S params) = sl_proj S"
    using slot_rid_parse [OF assms(5,3,4)] by (simp_all add: slot_rid_def)
  have B: "B < 14" using assms(2) by simp
  note del = delete_slot [OF assms(1) B _ vid]
  have ready: "sl_phase S t1 = Ready" "sl_phase S t2 = Ready" using t1(2) t2(2) by (simp_all add: holds_def)
  then obtain t3 where t3: "run_state (DeleteVolume d ctx3 ?del) t2 = (Inr (), t3)" "sl_phase S t3 = Gone"
    using del [of t2 ctx3] by auto
  then obtain t4 where t4: "run_state (DeleteVolume d ctx4 ?del) t3 = (Inr (), t4)" "sl_phase S t4 = Gone"
    using del [of t3 ctx4] by auto
  have "rv_CapacityBytes ?resp = cap" "rid_mgmtEPs (slot_rid S params) = par_mgmtEPs params"
    by (simp_all add: slot_response_def slot_rid_def)
  with t1(1) t2(1) t3 t4 vid ready show ?thesis
    by (intro exI [of _ ?resp] exI [of _ t1] exI [of _ t2] exI [of _ t3] exI [of _ t4]) simp
qed

subsection \<open>A service that answers\<close>

text \<open>
  One volume \<open>v\<close> of project \<open>p\<close>, made and taken away over two sleeps each; the record has the
  volume as it was asked for.
\<close>

record cell =
  ce_phase :: phase
  ce_rc :: uint32
  ce_cap :: uint64
  ce_compr :: bool
  ce_acl :: "string list"

definition cell_vol :: "cell \<Rightarrow> uint32 \<Rightarrow> mgmt_Volume" where
  "cell_vol s st = one_vol\<lparr>mv_State := st, mv_Size := ce_cap s, mv_Acl := ce_acl s,
     mv_ReplicaCount := (if ce_rc s = 0 \<or> MaxReplicaCount < ce_rc s then 1 else ce_rc s),
     mv_Compression := FormatBool (ce_compr s)\<rparr>"

definition cell_read :: "cell \<Rightarrow> mgmt_Volume option" where
  "cell_read s = (case ce_phase s of
       Absent \<Rightarrow> None
     | Making _ \<Rightarrow> Some (cell_vol s Volume_Creating)
     | Ready \<Rightarrow> Some (cell_vol s Volume_Available)
     | Going _ \<Rightarrow> Some (cell_vol s Volume_Available)
     | Gone \<Rightarrow> Some (cell_vol s Volume_Deleting))"

fun older :: "phase \<Rightarrow> phase" where
  "older (Making k) = (case k of 0 \<Rightarrow> Ready | Suc j \<Rightarrow> Making j)"
| "older (Going k) = (case k of 0 \<Rightarrow> Gone | Suc j \<Rightarrow> Going j)"
| "older p = p"

definition cell_create :: "Ctx \<Rightarrow> CreateVolumeRequest \<Rightarrow> (cell, gerr, mgmt_Volume option) io" where
  "cell_create ctx req = State (\<lambda>s.
     if ce_phase s = Absent
     then let t = \<lparr>ce_phase = Making 2, ce_rc = cvr_ReplicaCount req,
                   ce_cap = of_nat (decimal_value (butlast (cvr_Size req))),
                   ce_compr = (cvr_Compression req = ''true''), ce_acl = cvr_Acl req\<rparr>
          in (Inr (cell_read t), t)
     else (Inl (Status codes_AlreadyExists []), s))"

definition cell_delete :: "Ctx \<Rightarrow> IDRequest \<Rightarrow> (cell, gerr, unit) io" where
  "cell_delete ctx req = State (\<lambda>s.
     if ce_phase s = Ready then (Inr (), s\<lparr>ce_phase := Going 2\<rparr>) else (Inl (Status codes_NotFound []), s))"

definition cell_api :: "cell DurosAPI" where
  "cell_api = \<lparr>api_GetVersion = (\<lambda>_. ok ''v2.0''),
     api_GetClusterInfo = (\<lambda>_. fail Plain), api_GetCluster = (\<lambda>_. fail Plain),
     api_ListNodes = (\<lambda>_. fail Plain), api_CreateVolume = cell_create,
     api_DeleteVolume = cell_delete,
     api_GetVolume = (\<lambda>_ _. State (\<lambda>s. (case cell_read s of
         None \<Rightarrow> Inl (Status codes_NotFound []) | Some v \<Rightarrow> Inr (Some v), s))),
     api_UpdateVolume = (\<lambda>_ _. fail Plain),
     api_CreateSnapshot = (\<lambda>_ _. fail Plain), api_DeleteSnapshot = (\<lambda>_ _. fail Plain),
     api_GetSnapshot = (\<lambda>_ _. fail Plain)\<rparr>"

definition cell_client :: "cell GrpcClient" where
  "cell_client = \<lparr>gc_eps = [], gc_conn_Close = State_Monad.return (), gc_clnt = cell_api,
     gc_id = ''c'', gc_tgts = [], gc_guuid = hex_guuid,
     gc_env = \<lparr>env_Now = State_Monad.return 0,
       env_Sleep = (\<lambda>_. State (\<lambda>s. ((), s\<lparr>ce_phase := older (ce_phase s)\<rparr>))),
       env_CtxErr = (\<lambda>_. State_Monad.return None)\<rparr>\<rparr>"

definition cell_driver :: "cell Driver" where
  "cell_driver = \<lparr>d_sockPath = [], d_jwtPath = [], d_luksCfgFile = [], d_nodeID = ''n0'',
     d_hostNQN = nodeIDToHostNQN ''n0'', d_defaultFS = [],
     d_lbclients = \<lparr>pool_GetClient = (\<lambda>_ _ _. ok 0), pool_PutClient = (\<lambda>_. State_Monad.return ())\<rparr>,
     d_client = (\<lambda>_. lbgrpc_Client cell_client), d_transport = ''tcp'',
     d_squelchPanics = False, d_jwt = [], d_rwx = False, d_guuid = hex_guuid\<rparr>"

definition cell_slot :: "cell slot" where
  "cell_slot = \<lparr>sl_name = ''v'', sl_proj = ''p'', sl_uuid = 1, sl_vol = cell_read, sl_phase = ce_phase\<rparr>"

definition cell0 :: cell where
  "cell0 = \<lparr>ce_phase = Absent, ce_rc = 0, ce_cap = 0, ce_compr = False, ce_acl = []\<rparr>"

lemma cell_sel [simp]:
  "sl_name cell_slot = ''v''" "sl_proj cell_slot = ''p''" "sl_uuid cell_slot = 1"
  "sl_vol cell_slot = cell_read" "sl_phase cell_slot = ce_phase"
  "gc_clnt cell_client = cell_api" "gc_guuid cell_client = hex_guuid"
  "env_Now (gc_env cell_client) = State_Monad.return 0"
  "env_CtxErr (gc_env cell_client) ctx = State_Monad.return None"
  "run_state (env_Sleep (gc_env cell_client) dl) s = ((), s\<lparr>ce_phase := older (ce_phase s)\<rparr>)"
  "api_CreateVolume cell_api = cell_create" "api_DeleteVolume cell_api = cell_delete"
  "run_state (api_GetVolume cell_api ctx req) s =
     (case cell_read s of None \<Rightarrow> Inl (Status codes_NotFound []) | Some v \<Rightarrow> Inr (Some v), s)"
  by (simp_all add: cell_slot_def cell_client_def cell_api_def)

lemma cell_from:
  assumes "st \<in> {Volume_Creating, Volume_Available, Volume_Deleting}"
  shows "lbVolumeFromGRPC cell_client (Some (cell_vol s st)) None None = Inr
    \<lparr>vol_Name = ''v'', vol_UUID = 1,
     vol_ReplicaCount = (if ce_rc s = 0 \<or> MaxReplicaCount < ce_rc s then 1 else ce_rc s),
     vol_Capacity = ce_cap s, vol_LogicalUsedStorage = 0, vol_Compression = ce_compr s,
     vol_SnapshotUUID = guuid_Nil, vol_QosPolicyName = [], vol_ACL = CopyUniqueSorted (ce_acl s),
     vol_State = lbVolumeStateFromGRPC st, vol_Protection = VolumeProtected, vol_ETag = ''7'',
     vol_ProjectName = ''p''\<rparr>"
  using assms
  by (auto simp: cell_vol_def one_vol_def lbVolumeFromGRPC_def Let_def FormatBool_def
      lbVolumeProtectionFromGRPC_def VolumeProtection_of_def MaxReplicaCount_def ToLower_def)

lemma cell_lb:
  assumes "st \<in> {Volume_Creating, Volume_Available, Volume_Deleting}"
  shows "vol_Name (lb_of cell_client (cell_vol s st)) = ''v''"
    "vol_UUID (lb_of cell_client (cell_vol s st)) = 1"
    "vol_ProjectName (lb_of cell_client (cell_vol s st)) = ''p''"
    "vol_ReplicaCount (lb_of cell_client (cell_vol s st)) =
       (if ce_rc s = 0 \<or> MaxReplicaCount < ce_rc s then 1 else ce_rc s)"
    "vol_Capacity (lb_of cell_client (cell_vol s st)) = ce_cap s"
    "vol_Compression (lb_of cell_client (cell_vol s st)) = ce_compr s"
    "vol_SnapshotUUID (lb_of cell_client (cell_vol s st)) = guuid_Nil"
    "vol_ACL (lb_of cell_client (cell_vol s st)) = CopyUniqueSorted (ce_acl s)"
    "vol_State (lb_of cell_client (cell_vol s st)) = lbVolumeStateFromGRPC st"
  using cell_from [OF assms, of s] by (simp_all add: lb_of_def)

lemma cell_states: "lbVolumeStateFromGRPC Volume_Creating = VolumeCreating"
  "lbVolumeStateFromGRPC Volume_Available = VolumeAvailable"
  "lbVolumeStateFromGRPC Volume_Deleting = VolumeDeleting"
  by (simp_all add: lbVolumeStateFromGRPC_def VolumeState_of_def)

lemma cell_read_Some:
  "cell_read s = Some v \<Longrightarrow>
     \<exists>st \<in> {Volume_Creating, Volume_Available, Volume_Deleting}. v = cell_vol s st"
  by (auto simp: cell_read_def split: phase.splits)

lemma cell_reads: "slot_reads cell_slot cell_client"
proof -
  have "\<exists>lv. lbVolumeFromGRPC cell_client (Some v) None None = Inr lv \<and> vol_Name lv = ''v'' \<and>
      vol_UUID lv = 1 \<and> vol_ProjectName lv = ''p''" if "cell_read s = Some v" for s v
    using cell_read_Some [OF that] cell_from by fastforce
  moreover have "displays (ce_phase s) (map_option (\<lambda>v. vol_State (lb_of cell_client v)) (cell_read s))" for s
    by (cases "ce_phase s") (simp_all add: cell_read_def cell_lb cell_states)
  ultimately show ?thesis by (simp add: slot_reads_def)
qed

lemma older_ages: "ages p (older p)"
  by (cases p) (auto split: nat.split)

lemma cell_sleeps: "slot_sleeps cell_slot cell_client"
proof -
  have "same_asked (lb_of cell_client v) (lb_of cell_client w)"
    if reads: "cell_read s = Some v" "cell_read (s\<lparr>ce_phase := p\<rparr>) = Some w" for s v w p
  proof -
    obtain st st' where "st \<in> {Volume_Creating, Volume_Available, Volume_Deleting}"
      "st' \<in> {Volume_Creating, Volume_Available, Volume_Deleting}"
      "v = cell_vol s st" "w = cell_vol (s\<lparr>ce_phase := p\<rparr>) st'"
      using cell_read_Some [OF reads(1)] cell_read_Some [OF reads(2)] by blast
    then show ?thesis by (simp add: same_asked_def cell_lb del: insert_iff)
  qed
  then show ?thesis by (auto simp: slot_sleeps_def older_ages)
qed

lemma norm_acl_canonical: "CopyUniqueSorted (norm_acl acl) = norm_acl acl"
  by (simp add: norm_acl_def Let_def CopyUniqueSorted_fixpoint)

lemma cell_creates: "slot_creates cell_slot cell_client 2"
  unfolding slot_creates_def
  by (auto simp: cell_create_def mkCreateVolumeRequest_def Let_def cell_read_def cell_lb
      decimal_value_FormatUint10 FormatBool_def norm_acl_canonical)

lemma cell_deletes: "slot_deletes cell_slot cell_client 2"
  by (simp add: slot_deletes_def cell_delete_def)

lemma cell_serves: "slot_serves cell_slot cell_driver (\<lambda>_. cell_client) 2"
  by (simp add: slot_serves_def slot_answers_def cell_reads cell_sleeps cell_creates cell_deletes)
     (simp add: GetLBClient_def PutLBClient_def cell_driver_def lbgrpc_Client_def Client_RemoteOk_def
       supportedAPIVersions_def same_slot_def cell_api_def)

lemma cell_asks: "asks_for cell_slot cell_driver one_vol_create 4294967296 one_vol_parsed"
proof -
  have "plain_create cell_driver one_vol_create 4294967296 one_vol_parsed"
    using one_vol_plain by (simp add: plain_create_def cell_driver_def)
  then show ?thesis
    by (simp add: asks_for_def one_vol_create_def one_vol_parsed_def MaxReplicaCount_def)
qed

theorem volume_lifecycle_witness:
  "\<exists>resp t1 t2 t3 t4.
    run_state (CreateVolume cell_driver ctx0 one_vol_create) cell0 = (Inr resp, t1) \<and>
    ce_phase t1 = Ready \<and> rv_CapacityBytes resp = 4294967296 \<and>
    run_state (CreateVolume cell_driver ctx0 one_vol_create) t1 = (Inr resp, t2) \<and>
    run_state (DeleteVolume cell_driver ctx0
      \<lparr>vr_VolumeId = rv_VolumeId resp, vr_Secrets = Map.empty\<rparr>) t2 = (Inr (), t3) \<and>
    ce_phase t3 = Gone \<and>
    run_state (DeleteVolume cell_driver ctx0
      \<lparr>vr_VolumeId = rv_VolumeId resp, vr_Secrets = Map.empty\<rparr>) t3 = (Inr (), t4)"
proof -
  have "guuid_ok (d_guuid cell_driver)" by (simp add: cell_driver_def guuid_ok_hex)
  from volume_lifecycle [OF cell_serves _ this _ cell_asks, of cell0 ctx0 ctx0 ctx0 Map.empty ctx0]
  show ?thesis by (simp add: cell0_def) blast
qed

end
