(* ===== verification/Grpc_Errors.thy ===== *)
theory Grpc_Errors
  imports Sim_Runs Controller_Spec
begin

text \<open>
  The type of the errors the driver returns. A CSI call must end with a gRPC status, and an
  error must not carry the code OK. Inside the driver errors of any kind travel as the same
  Go type; this theory shows that none of the others gets out: every error of every
  controller and node call is a status with an error code, given that the stubs of the
  management API return such errors, as generated gRPC code does.
\<close>

subsection \<open>Errors of effectful code\<close>

definition grpc_err :: "gerr \<Rightarrow> bool" where
  "grpc_err err \<longleftrightarrow> (\<exists>c f. err = Status c f \<and> c \<noteq> codes_OK)"

lemma grpc_err_simps [simp]: "grpc_err (Status c f) \<longleftrightarrow> c \<noteq> codes_OK" "\<not> grpc_err Plain"
  by (simp_all add: grpc_err_def)

text \<open>\<open>fails m\<close>: whenever \<open>m\<close> returns an error, it is a status.\<close>

definition fails :: "('s, gerr, 'a) io \<Rightarrow> bool" where
  "fails m \<longleftrightarrow> (\<forall>s e t. run_state m s = (Inl e, t) \<longrightarrow> grpc_err e)"

named_theorems fails_intros

lemma failsD: "fails m \<Longrightarrow> run_state m s = (Inl e, t) \<Longrightarrow> grpc_err e"
  by (auto simp: fails_def)

lemma fails_ok [fails_intros]: "fails (ok a)"
  by (simp add: fails_def)

lemma fails_fail [fails_intros]: "grpc_err e \<Longrightarrow> fails (fail e)"
  by (simp add: fails_def)

text \<open>The rule for sequencing remembers the call, so that its error can be traced.\<close>

lemma fails_bind [fails_intros]:
  "(\<And>x s t. run_state m s = (x, t) \<Longrightarrow> fails (f x)) \<Longrightarrow> fails (State_Monad.bind m f)"
  by (auto simp: fails_def split: prod.splits)

lemma fails_return: "(\<And>e. x = Inl e \<Longrightarrow> grpc_err e) \<Longrightarrow> fails (State_Monad.return x)"
  by (simp add: fails_def)

text \<open>A result that is passed on after a clean-up.\<close>

lemma fails_cleanup [fails_intros]:
  "fails m \<Longrightarrow> fails (do { r \<leftarrow> m; _ \<leftarrow> h r; State_Monad.return r })"
  by (auto simp: fails_def split: prod.splits)

lemma fails_then_io [fails_intros]: "fails m \<Longrightarrow> (\<And>a. fails (f a)) \<Longrightarrow> fails (then_io m f)"
  by (auto simp: fails_def run_then_io split: prod.splits sum.splits)

lemma fails_or_fail [fails_intros]: "grpc_err e \<Longrightarrow> fails (or_fail e m)"
  by (auto simp: fails_def run_or_fail split: prod.splits sum.splits)

lemma fails_sum [fails_intros]:
  "(\<And>e. x = Inl e \<Longrightarrow> fails (g e)) \<Longrightarrow> (\<And>a. x = Inr a \<Longrightarrow> fails (h a)) \<Longrightarrow>
     fails (case x of Inl e \<Rightarrow> g e | Inr a \<Rightarrow> h a)"
  by (cases x) auto

lemma fails_option [fails_intros]:
  "(x = None \<Longrightarrow> fails g) \<Longrightarrow> (\<And>a. x = Some a \<Longrightarrow> fails (h a)) \<Longrightarrow>
     fails (case x of None \<Rightarrow> g | Some a \<Rightarrow> h a)"
  by (cases x) auto

lemma fails_if [fails_intros]: "(b \<Longrightarrow> fails m) \<Longrightarrow> (\<not> b \<Longrightarrow> fails m') \<Longrightarrow> fails (if b then m else m')"
  by auto

lemma fails_case_prod [fails_intros]: "(\<And>a b. fails (g a b)) \<Longrightarrow> fails (case x of (a, b) \<Rightarrow> g a b)"
  by (cases x) auto

lemma fails_os_err [fails_intros]:
  "fails a \<Longrightarrow> fails b \<Longrightarrow> fails c \<Longrightarrow> fails d \<Longrightarrow>
     fails (case x of os_NotExist \<Rightarrow> a | os_Exist \<Rightarrow> b | os_IOError \<Rightarrow> c | os_OtherErr \<Rightarrow> d)"
  by (cases x) auto

lemma fails_exec_err [fails_intros]:
  "(\<And>c. fails (g c)) \<Longrightarrow> fails h \<Longrightarrow> fails (case x of ExitError c \<Rightarrow> g c | ExecFailed \<Rightarrow> h)"
  by (cases x) auto

lemma fails_VolumeState [fails_intros]:
  "fails a \<Longrightarrow> fails b \<Longrightarrow> fails c \<Longrightarrow> fails d \<Longrightarrow> fails e \<Longrightarrow>
     fails f \<Longrightarrow> fails g \<Longrightarrow> fails h \<Longrightarrow> fails i \<Longrightarrow> (\<And>n. fails (j n)) \<Longrightarrow>
     fails (case x of VolumeStateUnknown \<Rightarrow> a | VolumeCreating \<Rightarrow> b | VolumeAvailable \<Rightarrow> c
       | VolumeDeleting \<Rightarrow> d | VolumeDeletedDEPRECATED \<Rightarrow> e | VolumeFailed \<Rightarrow> f
       | VolumeUpdating \<Rightarrow> g | VolumeRollback \<Rightarrow> h | VolumeMigrating \<Rightarrow> i
       | VolumeStateOther n \<Rightarrow> j n)"
  by (cases x) auto

lemma fails_SnapshotState [fails_intros]:
  "fails a \<Longrightarrow> fails b \<Longrightarrow> fails c \<Longrightarrow> fails d \<Longrightarrow> fails e \<Longrightarrow>
     fails f \<Longrightarrow> (\<And>n. fails (g n)) \<Longrightarrow>
     fails (case x of SnapshotStateUnknown \<Rightarrow> a | SnapshotCreating \<Rightarrow> b | SnapshotAvailable \<Rightarrow> c
       | SnapshotDeleting \<Rightarrow> d | SnapshotDeleted \<Rightarrow> e | SnapshotFailed \<Rightarrow> f
       | SnapshotStateOther n \<Rightarrow> g n)"
  by (cases x) auto

lemma fails_backoff [fails_intros]: "fails fn \<Longrightarrow> fails (WithExponentialBackoff E opts fn)"
  unfolding fails_def using WithExponentialBackoff_Inl [of E opts fn] by fastforce

subsection \<open>Errors made by the driver\<close>

lemma grpc_err_mk [simp]:
  "grpc_err (mkEinval f)" "grpc_err (mkEinvalMissing f)" "grpc_err (mkEinvalf f)"
  "grpc_err (mkEbadOp k f)" "grpc_err mkEExec" "grpc_err mkInternal" "grpc_err mkExternal"
  "grpc_err mkEExist" "grpc_err mkEagain" "grpc_err mkEnoent" "grpc_err mkPrecond"
  "grpc_err mkErange" "grpc_err mkAbort" "grpc_err (mungeLBErr err)" "grpc_err (ErrFromCtxErr ce)"
  by (simp_all add: mk_defs mungeLBErr_def) (cases ce, simp_all)

lemma grpc_err_status_Err: "status_Err st = Some err \<Longrightarrow> st \<noteq> Some Plain \<Longrightarrow> grpc_err err"
  by (cases "the st"; cases st) (auto split: if_splits)

lemma grpc_err_derived [simp]:
  "grpc_err err \<Longrightarrow> grpc_err (prefixErr err)" "grpc_err err \<Longrightarrow> grpc_err (statusFromErr err)"
  "grpc_err err \<Longrightarrow> grpc_err (snap_call_err err)"
  by (cases err; simp add: prefixErr_def statusFromErr_def snap_call_err_def)+

text \<open>Pure checks.\<close>

lemma checks_grpc_err:
  "getReqCapacity cr = Inl e \<Longrightarrow> grpc_err e"
  "parseCSIResourceIDEinval G f i = Inl e \<Longrightarrow> grpc_err e"
  "parseCSIResourceIDEnoent G f i = Inl e \<Longrightarrow> grpc_err e"
  "checkProjectName f p = Inl e \<Longrightarrow> grpc_err e"
  "validateVolumeCapability rwx vc = Inl e \<Longrightarrow> grpc_err e"
  "chkContentSourceCompat a b c q r f = Inl e \<Longrightarrow> grpc_err e"
  "chkExistingVolume q r sv ss v = Inl e \<Longrightarrow> grpc_err e"
  by (auto simp: getReqCapacity_def parseCSIResourceIDEinval_def parseCSIResourceIDEnoent_def
      checkProjectName_def validateVolumeCapability_def chkContentSourceCompat_def
      chkExistingVolume_def Let_def split: option.splits if_splits sum.splits AccessType.splits)

lemma validateVolumeCapabilities_grpc_err:
  "validateVolumeCapabilities rwx cs = Inl e \<Longrightarrow> grpc_err e"
proof -
  have "validate_each rwx cs = Inl e \<Longrightarrow> grpc_err e"
    by (induction rwx cs rule: validate_each.induct)
       (auto split: sum.splits dest: checks_grpc_err)
  then show "validateVolumeCapabilities rwx cs = Inl e \<Longrightarrow> grpc_err e"
    by (auto simp: validateVolumeCapabilities_def split: if_splits sum.splits)
qed

lemma parseCSICreateVolumeParams_grpc_err:
  "parseCSICreateVolumeParams ps = Inl e \<Longrightarrow> grpc_err e"
  unfolding parseCSICreateVolumeParams_def
  by (auto simp: Let_def split: option.splits if_splits sum.splits dest: checks_grpc_err)

lemma parseContentSource_grpc_err: "parseContentSource G ps src = Inl e \<Longrightarrow> grpc_err e"
  by (auto simp: parseContentSource_def split: option.splits if_splits sum.splits
      VolumeContentSource.splits dest: checks_grpc_err)

subsection \<open>The LightOS client\<close>

definition status_api :: "'s DurosAPI \<Rightarrow> bool" where
  "status_api a \<longleftrightarrow> (\<forall>ctx. fails (api_GetVersion a ctx) \<and> fails (api_GetClusterInfo a ctx) \<and>
     fails (api_GetCluster a ctx) \<and> fails (api_ListNodes a ctx)) \<and>
     (\<forall>ctx req. fails (api_CreateVolume a ctx req)) \<and> (\<forall>ctx req. fails (api_DeleteVolume a ctx req)) \<and>
     (\<forall>ctx req. fails (api_GetVolume a ctx req)) \<and> (\<forall>ctx req. fails (api_UpdateVolume a ctx req)) \<and>
     (\<forall>ctx req. fails (api_CreateSnapshot a ctx req)) \<and>
     (\<forall>ctx req. fails (api_DeleteSnapshot a ctx req)) \<and> (\<forall>ctx req. fails (api_GetSnapshot a ctx req))"

lemma status_apiD:
  assumes "status_api a"
  shows "fails (api_GetVersion a ctx)" "fails (api_GetClusterInfo a ctx)" "fails (api_GetCluster a ctx)"
    "fails (api_ListNodes a ctx)" "fails (api_CreateVolume a ctx cv)" "fails (api_DeleteVolume a ctx dv)"
    "fails (api_GetVolume a ctx gv)" "fails (api_UpdateVolume a ctx uv)"
    "fails (api_CreateSnapshot a ctx cs)" "fails (api_DeleteSnapshot a ctx dsn)"
    "fails (api_GetSnapshot a ctx gs)"
  using assms by (simp_all add: status_api_def)

lemmas api_errs = status_apiD [THEN failsD]

lemma lbVolumeFromGRPC_grpc_err: "lbVolumeFromGRPC c v name uuid = Inl e \<Longrightarrow> grpc_err e"
  unfolding lbVolumeFromGRPC_def Let_def
  by (cases v; simp split: if_split_asm option.split_asm; clarify; simp)

lemma check_cluster_grpc_err: "check_cluster c cl = Inl e \<Longrightarrow> grpc_err e"
  by (auto simp: check_cluster_def split: option.splits if_splits)

lemma fails_getVolume:
  assumes "status_api (gc_clnt c)"
  shows "fails (Client_getVolume c ctx name uuid proj)"
  unfolding Client_getVolume_def Let_def
  by (auto intro!: fails_intros fails_return intro: api_errs [OF assms] lbVolumeFromGRPC_grpc_err)

lemma fails_GetVolume:
  assumes "status_api (gc_clnt c)"
  shows "fails (Client_GetVolume c ctx uuid proj)" "fails (Client_GetVolumeByName c ctx name proj)"
  using fails_getVolume [OF assms] by (simp_all add: Client_GetVolume_def Client_GetVolumeByName_def)

lemma fails_getSnapshot:
  assumes "status_api (gc_clnt c)"
  shows "fails (lbSnapshotFromGRPC c sn name uuid)"
    and "fails (Client_GetSnapshot c ctx u proj)" "fails (Client_GetSnapshotByName c ctx n proj)"
proof -
  show conv: "fails (lbSnapshotFromGRPC c sn name uuid)" for sn name uuid
    unfolding lbSnapshotFromGRPC_def Let_def by (auto intro!: fails_intros)
  show "fails (Client_GetSnapshot c ctx u proj)" "fails (Client_GetSnapshotByName c ctx n proj)"
    unfolding Client_GetSnapshot_def Client_GetSnapshotByName_def Client_getSnapshot_def Let_def
    by (auto intro!: fails_intros conv intro: api_errs [OF assms])
qed

lemmas get_errs = fails_GetVolume [THEN failsD] fails_getSnapshot [THEN failsD]

lemma fails_polls:
  assumes "status_api (gc_clnt c)"
  shows "fails (poll_created c ctx proj v)" "fails (poll_deleted c ctx uuid proj)"
    "fails (poll_snap_created c ctx uuid proj src)" "fails (poll_snap_deleted c ctx uuid proj)"
  unfolding poll_created_def poll_deleted_def poll_snap_created_def poll_snap_deleted_def
  by (auto intro!: fails_intros intro: get_errs [OF assms])

lemma fails_UpdateVolume:
  assumes "status_api (gc_clnt c)" and "\<And>v e. hook v = Inl e \<Longrightarrow> grpc_err e"
  shows "fails (Client_UpdateVolume c ctx uuid proj hook)"
proof -
  have "fails (Client_doUpdateVolume c ctx uuid proj hook)"
    unfolding Client_doUpdateVolume_def
    by (auto intro!: fails_intros intro: api_errs [OF assms(1)] get_errs [OF assms(1)] assms(2)
        simp: cloneCtxWithETag_def)
  then show ?thesis
    unfolding Client_UpdateVolume_def by (auto intro!: fails_intros)
qed

lemma fails_Client:
  assumes "status_api (gc_clnt c)"
  shows "fails (Client_RemoteOk c ctx)" "fails (Client_GetCluster c ctx)"
    "fails (Client_GetClusterInfo c ctx)" "fails (Client_ListNodes c ctx)"
    "fails (Client_CreateVolume c ctx name cap rep cmpr acl proj snap qos blk)"
    "fails (Client_DeleteVolume c ctx uuid proj blk)"
    "fails (Client_CreateSnapshot c ctx name proj uuid descr blk)"
    "fails (Client_DeleteSnapshot c ctx uuid proj blk)"
  unfolding Client_RemoteOk_def Client_GetCluster_def Client_GetClusterInfo_def Client_ListNodes_def
    Client_CreateVolume_def Client_DeleteVolume_def Client_CreateSnapshot_def Client_DeleteSnapshot_def
    Let_def
  by (auto intro!: fails_intros fails_polls [OF assms]
      intro: api_errs [OF assms] get_errs [OF assms] grpc_err_derived(3) check_cluster_grpc_err lbVolumeFromGRPC_grpc_err
     )

subsection \<open>The controller service\<close>

text \<open>\<open>status_driver d\<close>: the clients of the pool of \<open>d\<close> are gRPC clients with well-behaved stubs.\<close>

definition status_client :: "'s Client \<Rightarrow> bool" where
  "status_client clnt \<longleftrightarrow> (\<exists>c. clnt = lbgrpc_Client c \<and> status_api (gc_clnt c))"

definition status_driver :: "'s Driver \<Rightarrow> bool" where
  "status_driver d \<longleftrightarrow> (\<forall>h. status_client (d_client d h))"

lemma status_clientD:
  assumes "status_client clnt"
  shows "fails (cl_RemoteOk clnt ctx)" "fails (cl_GetCluster clnt ctx)"
    "fails (cl_GetClusterInfo clnt ctx)"
    "fails (cl_CreateVolume clnt ctx name cap rep cmpr acl proj snap qos blk)"
    "fails (cl_DeleteVolume clnt ctx uuid proj blk)" "fails (cl_GetVolume clnt ctx uuid proj)"
    "fails (cl_GetVolumeByName clnt ctx name proj)"
    "fails (cl_CreateSnapshot clnt ctx name proj uuid descr blk)"
    "fails (cl_DeleteSnapshot clnt ctx uuid proj blk)" "fails (cl_GetSnapshot clnt ctx uuid proj)"
    "fails (cl_GetSnapshotByName clnt ctx name proj)"
  using assms by (auto simp: status_client_def lbgrpc_Client_def fails_Client fails_GetVolume fails_getSnapshot)

lemmas client_errs = status_clientD [THEN failsD]

lemma fails_cl_UpdateVolume:
  assumes "status_client clnt" and "\<And>v e. hook v = Inl e \<Longrightarrow> grpc_err e"
  shows "fails (cl_UpdateVolume clnt ctx uuid proj hook)"
proof -
  obtain c where c: "clnt = lbgrpc_Client c" "status_api (gc_clnt c)"
    using assms(1) by (auto simp: status_client_def)
  show ?thesis
    unfolding c(1) lbgrpc_Client_def Client.select_convs by (rule fails_UpdateVolume [OF c(2) assms(2)])
qed

lemma hooks_grpc_err:
  "publishRWOHook ace v = Inl e \<Longrightarrow> grpc_err e" "publishRWXHook ace v = Inl e \<Longrightarrow> grpc_err e"
  "unpublishRWOHook ace v = Inl e \<Longrightarrow> grpc_err e" "unpublishRWXHook ace v = Inl e \<Longrightarrow> grpc_err e"
  "expandVolumeHook cap v = Inl e \<Longrightarrow> grpc_err e"
  by (auto simp: publishRWOHook_def publishRWXHook_def unpublishRWOHook_def unpublishRWXHook_def
      expandVolumeHook_def Let_def split: if_splits)

lemma fails_hooks:
  assumes "status_client clnt"
  shows "fails (cl_UpdateVolume clnt ctx u p (publishRWOHook ace))"
    "fails (cl_UpdateVolume clnt ctx u p (publishRWXHook ace))"
    "fails (cl_UpdateVolume clnt ctx u p (unpublishRWOHook ace))"
    "fails (cl_UpdateVolume clnt ctx u p (unpublishRWXHook ace))"
    "fails (cl_UpdateVolume clnt ctx u p (expandVolumeHook cap))"
  by (rule fails_cl_UpdateVolume [OF assms]; erule hooks_grpc_err)+

lemmas hook_errs = fails_hooks [THEN failsD]

lemma fails_with_client:
  assumes "status_driver d" and "\<And>clnt. status_client clnt \<Longrightarrow> fails (body clnt)"
  shows "fails (with_client d ctx eps scheme body)"
proof -
  have c: "status_client (d_client d h)" for h using assms(1) by (simp add: status_driver_def)
  have "fails (GetLBClient d ctx eps scheme)"
    unfolding GetLBClient_def
    by (auto intro!: fails_intros intro: client_errs [OF c] dest!: status_FromError_SomeD)
  then show ?thesis
    unfolding with_client_def
    by (auto intro!: fails_intros intro: failsD assms(2) c)
qed

lemma fails_snapshot_bodies:
  assumes "status_client clnt"
  shows "fails (doCreateSnapshot clnt ctx name srcVid descr)" "fails (doDeleteSnapshot clnt ctx sid)"
    "fails (chkSourceSnapCompat clnt ctx req cr sid)"
  unfolding doCreateSnapshot_def doDeleteSnapshot_def chkSourceSnapCompat_def
  by (auto intro!: fails_intros dest!: client_errs [OF assms] checks_grpc_err)

lemma fails_volume_bodies:
  assumes "status_client clnt"
  shows "fails (lbCreateVolume clnt ctx req)" "fails (chkSourceVolCompat clnt ctx req cr vid)"
    "fails (doDeleteVolume clnt ctx vid)"
  unfolding lbCreateVolume_def chkSourceVolCompat_def doDeleteVolume_def
  by (auto intro!: fails_intros status_clientD [OF assms] dest!: checks_grpc_err)

lemma fails_publish_bodies:
  assumes "status_client clnt"
  shows "fails (doPublishVolumeRWX clnt ctx vid n)" "fails (doPublishVolumeRWO clnt ctx vid n)"
    "fails (doUnpublishVolumeRWX clnt ctx vid n)" "fails (doUnpublishVolumeRWO clnt ctx vid n)"
  unfolding doPublishVolumeRWX_def doPublishVolumeRWO_def doUnpublishVolumeRWX_def
    doUnpublishVolumeRWO_def Let_def
  by (auto intro!: fails_intros dest!: hook_errs [OF assms])

lemma fails_findExistingVolume:
  "status_client clnt \<Longrightarrow> fails (findExistingVolume clnt ctx req cr srcVid srcSid)"
  unfolding findExistingVolume_def
  by (auto intro!: fails_intros fails_return dest!: checks_grpc_err)

lemma fails_doCreateVolume:
  assumes "status_client clnt"
  shows "fails (doCreateVolume clnt ctx req cr srcVid srcSid)"
  unfolding doCreateVolume_def Let_def
  by (auto intro!: fails_intros fails_volume_bodies [OF assms]
      dest!: fails_volume_bodies [OF assms, THEN failsD] fails_snapshot_bodies [OF assms, THEN failsD])

lemmas check_errs = checks_grpc_err validateVolumeCapabilities_grpc_err
  parseCSICreateVolumeParams_grpc_err parseContentSource_grpc_err

lemma fails_controller:
  assumes "status_driver d"
  shows "fails (CreateVolume d ctx cv)" "fails (DeleteVolume d ctx dv)"
    "fails (ControllerPublishVolume d ctx pv)" "fails (ControllerUnpublishVolume d ctx uv)"
    "fails (ValidateVolumeCapabilities d ctx vv)" "fails (GetCapacity d ctx gc)"
    "fails (ControllerExpandVolume d ctx ev)" "fails (CreateSnapshot d ctx cs)"
    "fails (DeleteSnapshot d ctx dsn)"
proof -
  note defs = fails_with_client [OF assms]
  have pick: "fails (case found of None \<Rightarrow> doCreateVolume clnt ctx w cr sv ss | Some vol \<Rightarrow> ok vol)"
    if "status_client clnt" for found clnt ctx w cr sv ss
    using that by (cases found) (auto intro: fails_intros fails_doCreateVolume)
  show "fails (CreateVolume d ctx cv)"
    unfolding CreateVolume_def Let_def
    by (auto intro!: fails_intros defs dest!: check_errs
        fails_findExistingVolume [THEN failsD, rotated] pick [THEN failsD, rotated])
  show "fails (DeleteVolume d ctx dv)" "fails (DeleteSnapshot d ctx dsn)"
    unfolding DeleteVolume_def DeleteSnapshot_def Let_def
    by (auto intro!: fails_intros defs intro: fails_volume_bodies fails_snapshot_bodies dest!: check_errs)
  show "fails (ControllerPublishVolume d ctx pv)" "fails (ControllerUnpublishVolume d ctx uv)"
    unfolding ControllerPublishVolume_def ControllerUnpublishVolume_def Let_def
    by (auto intro!: fails_intros defs fails_publish_bodies dest!: check_errs)
  show "fails (ValidateVolumeCapabilities d ctx vv)"
    unfolding ValidateVolumeCapabilities_def Let_def
    by (auto intro!: fails_intros defs dest!: check_errs)
  show "fails (GetCapacity d ctx gc)"
    unfolding GetCapacity_def Let_def
    by (auto intro!: fails_intros defs dest!: check_errs status_clientD(2) [THEN failsD, rotated] split: option.splits)
  show "fails (ControllerExpandVolume d ctx ev)"
    unfolding ControllerExpandVolume_def Let_def
    by (auto intro!: fails_intros defs dest!: check_errs fails_hooks(5) [THEN failsD, rotated])
  show "fails (CreateSnapshot d ctx cs)"
    unfolding CreateSnapshot_def Let_def
    by (auto intro!: fails_intros defs dest!: check_errs fails_snapshot_bodies [THEN failsD, rotated])
qed

subsection \<open>The node service\<close>

definition status_backend :: "'s Backend \<Rightarrow> bool" where
  "status_backend be \<longleftrightarrow>
     (\<forall>ctx v s t. run_state (be_LBVolEligible be ctx v) s \<noteq> (Some Plain, t)) \<and>
     (\<forall>ctx e u s t. run_state (be_Attach be ctx e u) s \<noteq> (Some Plain, t)) \<and>
     (\<forall>ctx u s t. run_state (be_Detach be ctx u) s \<noteq> (Some Plain, t))"

text \<open>The backend of the driver, with and without the logging wrapper, is one.\<close>

lemma status_backend_dsc: "status_backend (dsc_Backend_of E os G be)"
  by (auto simp: status_backend_def dsc_Backend_of_def dsc_Attach_def dsc_Detach_def
      split: prod.splits sum.splits os_err.splits)

lemma status_backend_Wrapper: "status_backend be \<Longrightarrow> status_backend (Wrapper be)"
  unfolding status_backend_def Wrapper_def Wrapper_LBVolEligible_def Wrapper_Attach_def
    Wrapper_Detach_def wrapCall_def lift_fst_def
  by (auto simp: State_Monad.get_def State_Monad.set_def split: prod.splits option.splits)

lemma backend_errs:
  assumes "status_backend be"
  shows "run_state (be_LBVolEligible be ctx v) s = (st, t) \<Longrightarrow> status_Err st = Some e \<Longrightarrow> grpc_err e"
    "run_state (be_Attach be ctx te u) s = (st, t) \<Longrightarrow> status_Err st = Some e \<Longrightarrow> grpc_err e"
    "run_state (be_Detach be ctx u) s = (st, t) \<Longrightarrow> status_Err st = Some e \<Longrightarrow> grpc_err e"
  using assms by (auto simp: status_backend_def intro!: grpc_err_status_Err)

lemma fails_luks:
  "fails (getDevicePath E os G u)" "fails (getEncryptedDevicePath L u)"
  "fails (resizeEncryptedDevice L u)" "fails (closeEncryptedDevice L u)"
proof -
  show "fails (getDevicePath E os G u)" "fails (getEncryptedDevicePath L u)"
    "fails (resizeEncryptedDevice L u)" "fails (closeEncryptedDevice L u)"
    unfolding getDevicePath_def getEncryptedDevicePath_def resizeEncryptedDevice_def
      closeEncryptedDevice_def Let_def
    by (auto intro!: fails_intros)
qed

lemma fails_stage:
  assumes "status_client clnt" and "status_backend (nd_be n)"
  shows "fails (lbVolEligible n ctx clnt vid)" "fails (stage_local n ctx clnt vid req)"
proof -
  show "fails (lbVolEligible n ctx clnt vid)"
    unfolding lbVolEligible_def by (auto intro!: fails_intros intro: backend_errs [OF assms(2)])
  have "fails (queryLBforTargetEnv n ctx clnt)"
    unfolding queryLBforTargetEnv_def by (auto intro!: fails_intros)
  moreover have "fails (stage_encrypted n vid secrets dp)" for secrets dp
    unfolding stage_encrypted_def by (auto intro!: fails_intros)
  moreover have "fails (stage_mount n vid vc tgt dp)" for vc tgt dp
    unfolding stage_mount_def Let_def
    by (auto intro!: fails_intros simp: stage_fstype_def split: if_splits)
  ultimately have "fails (stage_attach n ctx clnt vid req)"
    unfolding stage_attach_def
    by (auto intro!: fails_intros fails_luks intro: backend_errs [OF assms(2)])
  then show "fails (stage_local n ctx clnt vid req)"
    unfolding stage_local_def Let_def by (auto intro!: fails_intros)
qed

lemma fails_unmount_path: "fails (unmount_path n p)" "fails (unstage_close n vid)"
  unfolding unmount_path_def unstage_close_def Let_def by (auto intro!: fails_intros)

lemma fails_publish_local: "fails (publish_local n vid req opts)"
proof -
  have "fails (nodePublishVolumeForBlock n vid req opts)"
    unfolding nodePublishVolumeForBlock_def remove_target_def Let_def by (auto intro!: fails_intros)
  moreover have "fails (nodePublishVolumeForFileSystem n req opts)"
    unfolding nodePublishVolumeForFileSystem_def by (auto intro!: fails_intros)
  ultimately have "fails (publish_by_type n vid req opts)"
    unfolding publish_by_type_def by (auto intro!: fails_intros split: AccessType.split)
  then show ?thesis unfolding publish_local_def by (auto intro!: fails_intros)
qed

lemma fails_node:
  assumes "status_driver (nd_d n)" and "status_backend (nd_be n)"
  shows "fails (NodeStageVolume n ctx sv)" "fails (NodeUnstageVolume n ctx uv)"
    "fails (NodePublishVolume n pv)" "fails (NodeUnpublishVolume n qv)"
    "fails (NodeGetVolumeStats n tv)" "fails (NodeExpandVolume n ev)"
proof -
  show "fails (NodeStageVolume n ctx sv)"
    unfolding NodeStageVolume_def Let_def
    by (auto intro!: fails_intros fails_with_client [OF assms(1)] fails_stage assms(2) dest!: check_errs)
  show "fails (NodeUnstageVolume n ctx uv)"
    unfolding NodeUnstageVolume_def
    by (auto intro!: fails_intros fails_unmount_path intro: backend_errs [OF assms(2)] dest!: check_errs)
  show "fails (NodePublishVolume n pv)" "fails (NodeUnpublishVolume n qv)"
    unfolding NodePublishVolume_def NodeUnpublishVolume_def
    by (auto intro!: fails_intros fails_publish_local fails_unmount_path dest!: check_errs)
  show "fails (NodeGetVolumeStats n tv)"
    unfolding NodeGetVolumeStats_def filesystemNodeGetVolumeStats_def blockNodeGetVolumeStats_def
    by (auto intro!: fails_intros dest!: check_errs)
  show "fails (NodeExpandVolume n ev)"
    unfolding NodeExpandVolume_def by (auto intro!: fails_intros fails_luks dest!: check_errs)
qed

subsection \<open>Properties of the errors\<close>

text \<open>
  C20. Every error that a call of the controller service or of the node service returns is a
  gRPC status with a code other than OK, as the CSI specification asks for, provided the
  stubs of the management API and the node backend return such errors.
\<close>

theorem rpc_errors_are_statuses:
  assumes "status_driver d" and "nd_d n = d" and "status_backend (nd_be n)"
  shows "fails (CreateVolume d ctx cv) \<and> fails (DeleteVolume d ctx dv) \<and>
    fails (ControllerPublishVolume d ctx pv) \<and> fails (ControllerUnpublishVolume d ctx uv) \<and>
    fails (ValidateVolumeCapabilities d ctx vv) \<and> fails (GetCapacity d ctx gc) \<and>
    fails (ControllerExpandVolume d ctx ev) \<and> fails (CreateSnapshot d ctx cs) \<and>
    fails (DeleteSnapshot d ctx dsn) \<and>
    fails (NodeStageVolume n ctx nsv) \<and> fails (NodeUnstageVolume n ctx nuv) \<and>
    fails (NodePublishVolume n npv) \<and> fails (NodeUnpublishVolume n nqv) \<and>
    fails (NodeGetVolumeStats n ntv) \<and> fails (NodeExpandVolume n nev)"
  using fails_controller [OF assms(1)] fails_node [of n] assms by simp

text \<open>A cluster that is down: every call of its API fails.\<close>

definition down_api :: "sim_world DurosAPI" where
  "down_api = (let e = Status codes_Unavailable [] in
     \<lparr>api_GetVersion = (\<lambda>_. fail e), api_GetClusterInfo = (\<lambda>_. fail e), api_GetCluster = (\<lambda>_. fail e),
      api_ListNodes = (\<lambda>_. fail e), api_CreateVolume = (\<lambda>_ _. fail e), api_DeleteVolume = (\<lambda>_ _. fail e),
      api_GetVolume = (\<lambda>_ _. fail e), api_UpdateVolume = (\<lambda>_ _. fail e),
      api_CreateSnapshot = (\<lambda>_ _. fail e), api_DeleteSnapshot = (\<lambda>_ _. fail e),
      api_GetSnapshot = (\<lambda>_ _. fail e)\<rparr>)"

definition down_client :: "sim_world GrpcClient" where
  "down_client = \<lparr>gc_eps = [], gc_conn_Close = State_Monad.return (), gc_clnt = down_api,
     gc_id = ''c'', gc_tgts = [], gc_guuid = hex_guuid, gc_env = sim_env\<rparr>"

definition down_driver :: "sim_world Driver" where
  "down_driver = sim_driver\<lparr>d_client := (\<lambda>_. lbgrpc_Client down_client)\<rparr>"

lemma down_status_driver: "status_driver down_driver"
proof -
  have "status_api (gc_clnt down_client)"
    by (simp add: status_api_def down_client_def down_api_def Let_def fails_def)
  then show ?thesis unfolding status_driver_def status_client_def down_driver_def by auto
qed

lemma sim_status_backend: "status_backend sim_backend"
proof -
  have "status_backend (dsc_Backend_of sim_env sim_os hex_guuid sim_dsc)" by (rule status_backend_dsc)
  then show ?thesis
    unfolding status_backend_def sim_backend_def dsc_Backend_of_def on_dsc_def
    by (fastforce simp: case_prod_beta prod_eq_iff)
qed

theorem rpc_errors_are_statuses_witness:
  "fails (ControllerPublishVolume down_driver ctx0 one_vol_publish) \<and>
   fails (NodeUnstageVolume (sim_node\<lparr>nd_d := down_driver\<rparr>) ctx0 (sim_unstage [])) \<and>
   run_state (ControllerPublishVolume down_driver ctx0 one_vol_publish) sim_w =
     (Inl (Status codes_Unavailable []), sim_w)"
proof -
  have "d_guuid down_driver = hex_guuid" "d_rwx down_driver = False"
    by (simp_all add: down_driver_def sim_driver_def)
  then have run: "run_state (ControllerPublishVolume down_driver ctx0 one_vol_publish) sim_w =
     (Inl (Status codes_Unavailable []), sim_w)"
    by (simp add: ControllerPublishVolume_def one_vol_publish_def one_vol_rid_parse
        one_vol_rid_not_Nil n1_checkNodeID Let_def validateVolumeCapability_def supportedAccessModes_def
        with_client_def GetLBClient_def down_driver_def sim_driver_def lbgrpc_Client_def
        Client_RemoteOk_def down_client_def down_api_def)
  have be: "status_backend (nd_be (sim_node\<lparr>nd_d := down_driver\<rparr>))"
    using sim_status_backend by (simp add: sim_node_def)
  show ?thesis
    using rpc_errors_are_statuses [OF down_status_driver _ be] run by auto
qed

end
