(* ===== verification/Spec2Isabelle.thy ===== *)
theory Spec2Isabelle
  imports Pool_Calls Node_Props Startup Attach_Props Volume_Life Grpc_Errors
begin

text \<open>
  A verification development of the LightBits LightOS CSI plugin (\<^verbatim>\<open>src/\<close>): a CSI driver that
  creates volumes on a LightOS storage cluster through its management API (controller service),
  attaches, mounts and publishes them on the nodes of an orchestrator (node service) and answers
  for itself (identity service).

  \<^bold>\<open>The program and its model.\<close> Code that acts on the outside is a function in the state monad over
  an abstract world \<open>'s\<close>, and code that can fail returns \<open>error + value\<close>; the type \<open>io\<close> of the theory
  \<open>Prelude\<close> is both. A Go error is a \<open>gerr\<close>: a gRPC status with its code and the field it names, or
  a plain error. Integers keep their Go width as words where arithmetic can wrap. Services the
  code only calls are records of functions and arguments of the model: the management API
  (\<open>DurosAPI\<close>), the clock and contexts (\<open>env\<close>), the host (\<open>OS\<close>), \<^verbatim>\<open>mount-utils\<close> (\<open>Mounter\<close>), the UUID
  package (\<open>guuid\<close>), YAML, URL and flag parsers.

  \<^item> \<open>Prelude\<close>, \<open>Go_Status\<close>: the monad, the strings and decimal numbers of the Go library,
    Hoare-style predicates \<open>yields\<close> and \<open>keeps\<close> with their rules; \<^verbatim>\<open>pkg/driver/status.go\<close> and
    \<^verbatim>\<open>pkg/grpcutil/grpcutil.go\<close>.
  \<^item> \<open>Strlist\<close>, \<open>Endpoint\<close>, \<open>Wait\<close>: \<^verbatim>\<open>pkg/util\<close>. Endpoint texts and lists are parsed to canonical
    values, sorted and without duplicates, that print back; the outcome of the back-off loop is
    characterised exactly (the calls that said "not yet", the sleeps between them, the call that
    decides), and it ends with a result when the polls count down to one.
  \<^item> \<open>Guuid\<close>, \<open>CSI_MD\<close>: \<^verbatim>\<open>pkg/driver/csi_md.go\<close>. Volume and snapshot IDs carry the endpoints,
    project, scheme and encryption of a resource and parse back; creation parameters and
    capabilities are validated.
  \<^item> \<open>LB_Client\<close>, \<open>LBGRPC\<close>: \<^verbatim>\<open>pkg/lb/client.go\<close> and \<^verbatim>\<open>pkg/lb/lbgrpc/client.go\<close>. The operations of the
    client with their waits; the read-decide-update loop of \<open>UpdateVolume\<close> sends only updates that
    its hook asked for on a volume just read, guarded by that volume's ETag. The
    contract of the interface is the locale \<open>lb_client\<close>, interpreted on \<open>lbgrpc_Client\<close>; \<open>lb_evidence\<close>
    extends it by what a successful answer shows about the cluster (\<open>read_volume\<close>, \<open>created_volume\<close>,
    \<open>volume_missing\<close> and the same for snapshots), each tied to a call of the client in some state.
  \<^item> \<open>Client_Pool\<close>, \<open>Pool_Calls\<close>: \<^verbatim>\<open>pkg/lb/clientpool.go\<close>. Every critical section is a function on
    the pool, the goroutines (callers, diallers, reaper, \<open>Close\<close>) interleave as the step relation
    \<open>pstep\<close>, and an invariant of all reachable pools gives the absence of panics and exact reference
    counts. A client ID is never used twice: the interface promises it, while \<open>Dial\<close> draws a random
    32-bit number, so that two clients at once could share one with a small probability. \<open>GetClient\<close> is a
    loop over these sections with a number of attempts as fuel; the theorem on its retries shows that
    one attempt more than the members reaped during the call is enough, and that it tries again
    exactly for them. The source retries without a bound; for the handlers, which run with a deadline,
    a caller that is out of attempts sees its context expired (\<open>pool_calls\<close>).
  \<^item> \<open>Driver\<close>, \<open>Startup\<close>: \<^verbatim>\<open>pkg/driver/driver.go\<close>, \<^verbatim>\<open>pkg/driver/identity.go\<close> and \<^verbatim>\<open>main.go\<close>.
    Configuration from flags, environment and defaults, its validation, the JWT and its watcher,
    credentials, borrowing clients, serving; what a program that exits well has served.
  \<^item> \<open>Controller\<close>, \<open>Controller_Spec\<close>: \<^verbatim>\<open>pkg/driver/controller.go\<close>. Every handler, and for the
    publishing, creating (volumes and snapshots), expanding and deleting ones what a success says about
    the cluster, with the calls of the client that showed it.
  \<^item> \<open>Attach_Lock\<close>, \<open>Attach_Live\<close>, \<open>Attach_Ledger\<close>, \<open>Attach_Props\<close>: several controllers and one volume.
    \<open>Attach_Lock\<close> splits a cycle of \<open>doUpdateVolume\<close> into its read (\<open>update_read\<close>) and its guarded write
    (\<open>update_send\<close>), proves the two together equal to the code, and interleaves the cycles of any
    number of clients (\<open>conc_step\<close>): a write that was decided on stays in flight, may arrive at any
    later time, repeatedly or never. The abstract volume is the set of hosts that may use it and
    its size, with the atomic steps \<open>attach_step\<close>; each step of the interleaving is one of them or
    changes nothing. What is relied on from the management service is \<open>etag_store\<close>: an update is
    applied only if its \<^verbatim>\<open>if-match\<close> header names the current version, and a version is never named
    twice; reads may return old versions, updates may be refused or lost. \<open>Attach_Live\<close> assumes a
    service that answers (\<open>responsive\<close>: current reads, matching updates applied, busy for at most
    \<open>B\<close> sleeps after one) and computes the result of each publish, unpublish and expand call
    (\<open>job_spec\<close>); the fifteen tries of \<open>UpdateRetryOpts\<close> are enough when the two waits together stay
    below 14 sleeps. \<open>Attach_Ledger\<close> is a versioned service that meets all of this, on which the
    witnesses run.
  \<^item> \<open>Volume_Slot\<close>, \<open>Volume_Life\<close>: one volume from its creation to its deletion. A \<open>slot\<close> is what a
    cluster has under one name (absent, being made, ready, going, gone); \<open>slot_answers\<close> is a
    management service that reads out what it has, accepts a creation in an empty slot and the
    deletion of a ready volume, and carries them out within \<open>B\<close> further sleeps. The eight tries of
    \<open>CreateRetryOpts\<close> are enough for \<open>B < 7\<close>, the fifteen of \<open>DeleteRetryOpts\<close> for \<open>B < 14\<close>: the waits of
    \<open>Client_CreateVolume\<close> and \<open>Client_DeleteVolume\<close> end, by a rule of \<open>Wait\<close> for loops that count down,
    and \<open>CreateVolume\<close> and \<open>DeleteVolume\<close> succeed. \<open>cell_client\<close> is such a service.
  \<^item> \<open>Host\<close>, \<open>Backend\<close>, \<open>Luks\<close>, \<open>Node\<close>: the interface of the host, \<^verbatim>\<open>pkg/driver/backend\<close> with the
    discovery-client backend, \<^verbatim>\<open>pkg/driver/luks.go\<close> and \<^verbatim>\<open>pkg/driver/node.go\<close>. The look-up of a device
    retries thirty times, as the code does.
  \<^item> \<open>Node_Spec\<close>, \<open>Sim_Host\<close>, \<open>Sim_Runs\<close>, \<open>Node_Props\<close>: what the node service does to mounts, file
    systems and encryption headers. The locales \<open>host_files\<close> and \<open>node_host\<close> name what the code
    relies on from the operating system, \<^verbatim>\<open>mount-utils\<close> and the commands of \<^verbatim>\<open>cryptsetup\<close> that it
    runs; \<open>Sim_Host\<close> is a host with
    maps for files, links, mounts, disks and headers that runs the real discovery-client backend
    and meets both, and the witnesses run on it.
  \<^item> \<open>Grpc_Errors\<close>: the errors of the RPCs as a type. A calculus of what a computation can fail with
    (\<open>fails\<close>) follows every handler down to the client; given that the management API and the
    backend fail with statuses, so do the RPCs.

  \<^bold>\<open>What is shown.\<close> Publishing never gives a volume that another host has, and a success means that
  the ACL was read back; unpublishing, expanding, creating and deleting likewise report only what
  was observed. With any number of controllers at work, stale reads and delayed or repeated
  updates, the ACL of a volume changes by whole attach and detach steps only: in RWO mode it is
  never open to two hosts, so that no two nodes can stage it, and a host keeps its access until it is unpublished. On a service that
  answers, publishing ends within its retries with a definite result, a volume can be
  published, expanded, unpublished and published elsewhere, and creating a volume, asking for it
  again, deleting it and deleting it again all succeed, the first two with one response. Clients
  borrowed from the pool are alive, stay while on loan and are returned on every path of a handler. A node never overwrites an encryption header or, for unencrypted
  volumes, a file system; stage, publish, unpublish and unstage cancel out; the discovery-client
  files follow the successful calls only, each complete. Every error of an RPC is a gRPC status.
  IDs, endpoints and node names round-trip.
  Some theorems state behaviour that the code does not intend: the overflow of the capacity
  rounding, the raw device given out for an encrypted block volume, the encrypted unstaging that
  cannot be repeated, the wrapping reference count, the flags that cannot switch off what the
  environment switches on.

  \<^bold>\<open>Not modelled.\<close> The texts of messages and all logging, as no decision depends on them; the
  generated management API (\<^verbatim>\<open>pkg/lb/management\<close>: message types, client stubs that are the parameter
  \<open>DurosAPI\<close>, and the REST gateway \<^verbatim>\<open>durosapiv2.pb.gw.go\<close>, which nothing in the program calls), the
  code of \<^verbatim>\<open>controller.go\<close> that is commented out in the source, the gRPC server and connections, the flag parser
  and the usage text, which are library or generated code; timers of the pool other than as the
  freedom of the reaper to run at any time; the data race on the JWT between the watcher and the
  handlers. Handlers of the node service run one after another under the driver's mutex in the
  code, and so do their models.
\<close>

subsection \<open>From the controller to the node\<close>

lemma New_hostNQN:
  "New urlParse ParseLevel be pool client G cfg = Inr (d, b) \<Longrightarrow> d_hostNQN d = nodeIDToHostNQN (d_nodeID d)"
  by (auto simp: New_def Let_def split: sum.splits option.splits if_splits)

text \<open>
  C16. What the controller publishes, the node can stage: a node that runs a driver made by \<open>New\<close> and
  whose ID, as reported by \<open>NodeGetInfo\<close>, is the one a successful \<open>ControllerPublishVolume\<close> was given
  finds the volume eligible whenever it reads it as the controller last read it, usable and
  accepted by the backend.
\<close>

theorem published_volume_is_eligible:
  assumes "New urlParse ParseLevel be pool client G cfg = Inr (nd_d n, b)"
    and "run_state (ControllerPublishVolume d ctx req) s = (Inr (), t)"
    and "\<And>h. d_client d h = lbgrpc_Client (g h)"
    and "pr_NodeId req = NodeGetInfo n"
  shows "\<exists>vid h ctx' s' t' v. parseCSIResourceID (d_guuid d) (vr_VolumeId req) = Inr vid \<and>
    run_state (Client_GetVolume (g h) ctx' (rid_uuid vid) (rid_projName vid)) s' = (Inr v, t') \<and>
    (\<forall>clnt c w w1 w2. run_state (cl_GetVolume clnt c (rid_uuid vid) (rid_projName vid)) w = (Inr v, w1) \<and>
      IsUsable v \<and> run_state (be_LBVolEligible (nd_be n) c v) w1 = (None, w2) \<longrightarrow>
      run_state (lbVolEligible n c clnt vid) w = (Inr (), w2))"
proof -
  have nqn: "d_hostNQN (nd_d n) = nodeIDToHostNQN (pr_NodeId req)"
    using New_hostNQN[OF assms(1)] assms(4) by (simp add: NodeGetInfo_def)
  from publish_read[OF assms(2,3)] obtain vid h ctx' s' t' v where
    v: "parseCSIResourceID (d_guuid d) (vr_VolumeId req) = Inr vid"
      "run_state (Client_GetVolume (g h) ctx' (rid_uuid vid) (rid_projName vid)) s' = (Inr v, t')"
    and "if d_rwx d then nodeIDToHostNQN (pr_NodeId req) \<in> set (vol_ACL v)
       else vol_ACL v = [nodeIDToHostNQN (pr_NodeId req)]"
    by blast
  then have "d_hostNQN (nd_d n) \<in> set (vol_ACL v)" using nqn by (auto split: if_splits)
  then have "run_state (lbVolEligible n c clnt vid) w = (Inr (), w2)"
    if "run_state (cl_GetVolume clnt c (rid_uuid vid) (rid_projName vid)) w = (Inr v, w1)"
      "IsUsable v" "run_state (be_LBVolEligible (nd_be n) c v) w1 = (None, w2)" for clnt c w w1 w2
    using that by (simp add: lbVolEligible_def)
  with v show ?thesis by blast
qed

theorem published_volume_is_eligible_witness:
  "\<exists>d vid ctx' s' t' v. d_nodeID d = ''n1'' \<and> parseCSIResourceID hex_guuid (vr_VolumeId one_vol_publish) = Inr vid \<and>
     run_state (Client_GetVolume one_vol_client ctx' (rid_uuid vid) (rid_projName vid)) s' = (Inr v, t') \<and>
     (\<forall>clnt c w w1 w2. run_state (cl_GetVolume clnt c (rid_uuid vid) (rid_projName vid)) w = (Inr v, w1) \<and>
       IsUsable v \<and> run_state (be_LBVolEligible sim_backend c v) w1 = (None, w2) \<longrightarrow>
       run_state (lbVolEligible (sim_node\<lparr>nd_d := d\<rparr>) c clnt vid) w = (Inr (), w2))"
proof -
  obtain d :: "sim_world Driver" where new: "New (\<lambda>_. Some (''unix'', ''/s'')) (\<lambda>_. Some 4) (Inr ())
      (d_lbclients sim_driver) (d_client sim_driver) hex_guuid sample_cfg = Inr (d, ())"
    and id: "d_nodeID d = ''n1''"
    by (simp add: New_def sample_cfg_def XfsFS_def Ext4FS_def n1_checkNodeID)
  let ?n = "sim_node\<lparr>nd_d := d\<rparr>"
  have "pr_NodeId one_vol_publish = NodeGetInfo ?n" using id by (simp add: NodeGetInfo_def one_vol_publish_def)
  moreover have "d_client one_vol_driver h = lbgrpc_Client one_vol_client" "d_guuid one_vol_driver = hex_guuid" for h
    by (simp_all add: one_vol_driver_def)
  ultimately have "\<exists>vid ctx' s' t' v. parseCSIResourceID hex_guuid (vr_VolumeId one_vol_publish) = Inr vid \<and>
      run_state (Client_GetVolume one_vol_client ctx' (rid_uuid vid) (rid_projName vid)) s' = (Inr v, t') \<and>
      (\<forall>clnt c w w1 w2. run_state (cl_GetVolume clnt c (rid_uuid vid) (rid_projName vid)) w = (Inr v, w1) \<and>
        IsUsable v \<and> run_state (be_LBVolEligible sim_backend c v) w1 = (None, w2) \<longrightarrow>
        run_state (lbVolEligible ?n c clnt vid) w = (Inr (), w2))"
    using published_volume_is_eligible[of _ _ _ _ _ _ _ ?n, simplified, OF new one_vol_publish_run, of "\<lambda>_. one_vol_client"]
    by simp
  with id show ?thesis by blast
qed

subsection \<open>One node at a time\<close>

text \<open>The clients of a node read the volume as it is in state \<open>a\<close>.\<close>

definition reads_at :: "'s volume_store \<Rightarrow> 's conc \<Rightarrow> 'w NodeSvc \<Rightarrow> bool" where
  "reads_at S a n \<longleftrightarrow>
     (\<forall>h ctx w v w'. run_state (cl_GetVolume (d_client (nd_d n) h) ctx (vs_uuid S) (vs_proj S)) w = (Inr v, w') \<longrightarrow>
        vol_ACL v = CopyUniqueSorted (fst (contents (vs_vol S (world a)))))"

lemma stage_attached:
  assumes "run_state (NodeStageVolume n ctx req) w = (Inr r, w')" and "reads_at S a n"
    and "names_volume S (nd_d n) (ns_VolumeId req)"
    and "d_hostNQN (nd_d n) = nodeIDToHostNQN (d_nodeID (nd_d n))"
  shows "nodeIDToHostNQN (d_nodeID (nd_d n)) \<in> fst (attached S a)"
proof -
  from NodeStage_eligible [OF assms(1)] assms(3) obtain h c w1 w2 v where
    "run_state (cl_GetVolume (d_client (nd_d n) h) c (vs_uuid S) (vs_proj S)) w1 = (Inr v, w2)"
    "d_hostNQN (nd_d n) \<in> set (vol_ACL v)"
    by (fastforce simp: names_volume_def)
  moreover from this(1) have "vol_ACL v = CopyUniqueSorted (fst (contents (vs_vol S (world a))))"
    using assms(2) unfolding reads_at_def by blast
  ultimately show ?thesis
    using assms(4) by (auto simp: attached_def abs_vol_def hosts_def split: prod.split)
qed

text \<open>
  C4. In RWO mode no two nodes get to use a volume: whatever publish, unpublish and expand calls
  any number of controllers have under way, if at most one host could use the volume to begin
  with, then of the nodes that read it in the state it is in, at most one can stage it.
\<close>

theorem one_node_stages:
  assumes "etag_store S g" and "\<forall>j \<in> J. \<not> is_RWX j" and "conc_runs S g J (quiet_start s) a"
    and "fst (attached S (quiet_start s)) \<subseteq> {h}"
    and "run_state (NodeStageVolume n ctx req) w = (Inr r, w1)" and "reads_at S a n"
    and "names_volume S (nd_d n) (ns_VolumeId req)"
    and "d_hostNQN (nd_d n) = nodeIDToHostNQN (d_nodeID (nd_d n))"
    and "run_state (NodeStageVolume m ctx' req') w' = (Inr r', w1')" and "reads_at S a m"
    and "names_volume S (nd_d m) (ns_VolumeId req')"
    and "d_hostNQN (nd_d m) = nodeIDToHostNQN (d_nodeID (nd_d m))"
  shows "d_nodeID (nd_d n) = d_nodeID (nd_d m)"
proof -
  obtain h' where "fst (attached S a) \<subseteq> {h'}" using attach_exclusive [OF assms(1-4)] by blast
  with stage_attached [OF assms(5-8)] stage_attached [OF assms(9-12)]
  have "nodeIDToHostNQN (d_nodeID (nd_d n)) = nodeIDToHostNQN (d_nodeID (nd_d m))" by blast
  then show ?thesis by (simp only: nodeIDToHostNQN_inj)
qed

text \<open>
  The volume of the simulated host, as the ledger has it: published to \<open>n1\<close>, which stages it,
  so that \<open>n2\<close> cannot.
\<close>

definition lg_sim :: "ledger volume_store" where
  "lg_sim = lg_store\<lparr>vs_uuid := 5\<rparr>"

lemma lg_sim_sel [simp]:
  "vs_uuid lg_sim = 5" "vs_proj lg_sim = ''p''" "vs_vol lg_sim = lg_vol" "vs_hist lg_sim = lg_hist"
  "vs_other lg_sim = vs_other lg_store"
  by (simp_all add: lg_sim_def lg_store_def)

lemma lg_sim_etag: "etag_store lg_sim (\<lambda>_. lg_client)"
proof -
  have "writes_ok lg_sim lg_client"
    unfolding writes_ok_def same_version_def lg_sim_sel using lg_write_effect by blast
  moreover have "etags_unique lg_sim s" for s
    using lg_unique [of s] unfolding etags_unique_def lg_sim_sel lg_store_sel .
  moreover have "others_ok lg_sim"
    using lg_others unfolding others_ok_def lg_sim_sel lg_store_sel .
  moreover have "reads_ok lg_sim lg_client"
    by (simp add: reads_ok_def same_version_def)
  ultimately show ?thesis by (simp add: etag_store_def)
qed

theorem one_node_stages_witness:
  "(\<exists>w. run_state (NodeStageVolume sim_node ctx0 (sim_stage [])) sim_w = (Inr (Some ()), w)) \<and>
   (\<forall>w r w'. run_state (NodeStageVolume (sim_node\<lparr>nd_d := sim_driver\<lparr>d_nodeID := ''n2'',
      d_hostNQN := nodeIDToHostNQN ''n2''\<rparr>\<rparr>) ctx0 (sim_stage [])) w \<noteq> (Inr r, w'))"
proof -
  let ?m = "sim_node\<lparr>nd_d := sim_driver\<lparr>d_nodeID := ''n2'', d_hostNQN := nodeIDToHostNQN ''n2''\<rparr>\<rparr>"
  obtain w where w: "run_state (NodeStageVolume sim_node ctx0 (sim_stage [])) sim_w = (Inr (Some ()), w)"
    using sim_stage_run [of "[]" ctx0] by auto
  have start: "attached lg_sim (quiet_start lg1) = ({nodeIDToHostNQN ''n1''}, 4294967296)"
    by (simp add: attached_def quiet_start_def abs_vol_def lg1_contents)
  have reads: "reads_at lg_sim (quiet_start lg1) sim_node" "reads_at lg_sim (quiet_start lg1) ?m"
    by (simp_all add: reads_at_def quiet_start_def lg1_contents) (simp_all add: sim_client_def sim_volume_def)
  have names: "names_volume lg_sim (nd_d sim_node) (ns_VolumeId (sim_stage []))"
    "names_volume lg_sim (nd_d ?m) (ns_VolumeId (sim_stage []))"
    by (simp_all add: names_volume_def sim_stage_def sim_rid_parse) (simp_all add: sim_rid_def)
  have id: "d_nodeID (nd_d sim_node) = ''n1''" by (simp add: sim_driver_def)
  have "d_nodeID (nd_d sim_node) = d_nodeID (nd_d ?m)"
    if "run_state (NodeStageVolume ?m ctx0 (sim_stage [])) w2 = (Inr r, w3)" for w2 r w3
    by (rule one_node_stages [OF lg_sim_etag _ conc_runs.stay _ w reads(1) names(1) _ that reads(2) names(2),
          where J = "{}" and h = "nodeIDToHostNQN ''n1''"])
       (simp_all add: start id [simplified])
  with w id show ?thesis by fastforce
qed

end
